(* ===== verification/Prelude.thy ===== *)
theory Prelude
  imports Complex_Main
begin

text \<open>
  Shared vocabulary of the development: the collections that the component theories fill
  and use, JavaScript's falsy-or on strings and numbers, the outcome of an awaited promise,
  and the insertion-ordered grouping that several pages build with a plain object.

  Strings are HOL strings: a \<^verbatim>\<open>char\<close> is one byte of the UTF-8 form of a JavaScript
  string, so the non-ASCII characters of the sources are written as their bytes. A string
  field that a reply leaves out, or sends as null, is the empty string: the sources read such
  fields through \<^verbatim>\<open>||\<close> or a truthiness test, which do not tell the three apart.
\<close>

named_theorems browser_simps \<open>how the browser operations act on each part of the browser\<close>
named_theorems markup_safe \<open>facts that make a rendered tree safe markup\<close>
named_theorems text_simps \<open>evaluation of the string library\<close>

section \<open>Falsy values\<close>

definition or_str :: "string \<Rightarrow> string \<Rightarrow> string" where
  "or_str a b = (if a = [] then b else a)"

definition or_int :: "int \<Rightarrow> int \<Rightarrow> int" where
  "or_int a b = (if a = 0 then b else a)"

definition or_none :: "'a option \<Rightarrow> 'a \<Rightarrow> 'a" where
  "or_none a b = (case a of None \<Rightarrow> b | Some x \<Rightarrow> x)"

lemma or_str_Nil [simp]: "or_str [] b = b" and or_str_Cons [simp]: "or_str (c # s) b = c # s"
  by (simp_all add: or_str_def)

lemma or_int_zero [simp]: "or_int 0 b = b"
  by (simp add: or_int_def)

lemma or_int_nonzero [simp]: "a \<noteq> 0 \<Longrightarrow> or_int a b = a"
  by (simp add: or_int_def)

lemma or_none_simps [simp]: "or_none None b = b" "or_none (Some a) b = a"
  by (simp_all add: or_none_def)

lemma or_str_cases: "or_str a b = a \<or> or_str a b = b"
  by (simp add: or_str_def)

section \<open>Awaited promises\<close>

text \<open>
  What an \<^verbatim>\<open>await\<close> sees: the value, the message of the thrown error, or nothing at all
  (the promise never settles, and the rest of the handler does not run).
\<close>

datatype 'a outcome = Resolved 'a | Rejected string | Pending

section \<open>Insertion-ordered groups\<close>

text \<open>
  \<^verbatim>\<open>if (!groups[k]) groups[k] = []; groups[k].push(x)\<close>, with the object as an association
  list in insertion order, which is the order of \<^verbatim>\<open>Object.entries\<close> for keys that are not
  array indices (the categories of this program are words).
\<close>

fun group_push :: "'k \<Rightarrow> 'a \<Rightarrow> ('k \<times> 'a list) list \<Rightarrow> ('k \<times> 'a list) list" where
  "group_push k x [] = [(k, [x])]"
| "group_push k x ((k', xs) # gs) =
     (if k' = k then (k', xs @ [x]) # gs else (k', xs) # group_push k x gs)"

definition group_by :: "('a \<Rightarrow> 'k) \<Rightarrow> 'a list \<Rightarrow> ('k \<times> 'a list) list" where
  "group_by key xs = fold (\<lambda>x. group_push (key x) x) xs []"

lemma group_by_Nil [simp]: "group_by key [] = []"
  by (simp add: group_by_def)

lemma group_by_snoc: "group_by key (xs @ [x]) = group_push (key x) x (group_by key xs)"
  by (simp add: group_by_def)

lemma keys_group_push:
  "map fst (group_push k x gs) = (if k \<in> fst ` set gs then map fst gs else map fst gs @ [k])"
  by (induction k x gs rule: group_push.induct) (auto simp: rev_image_eqI)

lemma map_of_group_push:
  "map_of (group_push k x gs) = (map_of gs)(k \<mapsto> or_none (map_of gs k) [] @ [x])"
  by (induction k x gs rule: group_push.induct) (auto simp: fun_eq_iff)

lemma keys_group_by: "fst ` set (group_by key xs) = key ` set xs"
proof (induction xs rule: rev_induct)
  case (snoc x xs)
  have "fst ` set (group_by key (xs @ [x])) = set (map fst (group_push (key x) x (group_by key xs)))"
    by (simp add: group_by_snoc)
  also have "\<dots> = key ` set (xs @ [x])"
    using snoc by (auto simp: keys_group_push)
  finally show ?case .
qed simp

lemma distinct_keys_group_by: "distinct (map fst (group_by key xs))"
  by (induction xs rule: rev_induct) (auto simp: group_by_snoc keys_group_push)

lemma map_of_group_by:
  "map_of (group_by key xs) k =
     (if k \<in> key ` set xs then Some (filter (\<lambda>x. key x = k) xs) else None)"
proof (induction xs rule: rev_induct)
  case (snoc x xs)
  have empty: "filter (\<lambda>y. key y = k) xs = []" if "k \<notin> key ` set xs"
    using that by (auto simp: filter_empty_conv)
  show ?case
    using snoc empty by (auto simp: group_by_snoc map_of_group_push)
qed simp

lemma group_by_member:
  "(k, ys) \<in> set (group_by key xs) \<Longrightarrow> ys = filter (\<lambda>x. key x = k) xs \<and> ys \<noteq> []"
proof -
  assume "(k, ys) \<in> set (group_by key xs)"
  then have look: "map_of (group_by key xs) k = Some ys"
    by (simp add: distinct_keys_group_by)
  then have k: "k \<in> key ` set xs" and ys: "ys = filter (\<lambda>x. key x = k) xs"
    by (auto simp: map_of_group_by split: if_splits)
  then show ?thesis by (auto simp: filter_empty_conv)
qed

section \<open>Characters outside ASCII\<close>

text \<open>The UTF-8 bytes of the symbols in the page texts: middle dot, arrow, check mark and so on.\<close>

abbreviation u_middot :: string where "u_middot \<equiv> [CHR 0xC2, CHR 0xB7]"
abbreviation u_arrow :: string where "u_arrow \<equiv> [CHR 0xE2, CHR 0x86, CHR 0x92]"
abbreviation u_check :: string where "u_check \<equiv> [CHR 0xE2, CHR 0x9C, CHR 0x93]"
abbreviation u_dash :: string where "u_dash \<equiv> [CHR 0xE2, CHR 0x80, CHR 0x94]"
abbreviation u_warn :: string where "u_warn \<equiv> [CHR 0xE2, CHR 0x9A, CHR 0xA0]"
abbreviation u_cross :: string where "u_cross \<equiv> [CHR 0xE2, CHR 0x9C, CHR 0x97]"
abbreviation u_dot :: string where "u_dot \<equiv> [CHR 0xE2, CHR 0x97, CHR 0x8F]"
abbreviation u_circ :: string where "u_circ \<equiv> [CHR 0xE2, CHR 0x97, CHR 0x8B]"
abbreviation u_x :: string where "u_x \<equiv> [CHR 0xE2, CHR 0x9C, CHR 0x95]"
abbreviation u_bolt :: string where "u_bolt \<equiv> [CHR 0xE2, CHR 0x9A, CHR 0xA1]"
abbreviation u_bullet :: string where "u_bullet \<equiv> [CHR 0xE2, CHR 0x80, CHR 0xA2]"
abbreviation u_micro :: string where "u_micro \<equiv> [CHR 0xC2, CHR 0xB5]"
abbreviation u_vs16 :: string where "u_vs16 \<equiv> [CHR 0xEF, CHR 0xB8, CHR 0x8F]"

section \<open>Lists and maps\<close>

lemma filter_distinct_at_most_one:
  "distinct xs \<Longrightarrow> (\<And>x y. x \<in> set xs \<Longrightarrow> y \<in> set xs \<Longrightarrow> P x \<Longrightarrow> P y \<Longrightarrow> x = y) \<Longrightarrow>
   length (filter P xs) \<le> 1"
proof (induction xs)
  case (Cons a xs)
  then have "length (filter P xs) \<le> 1" by simp
  moreover have "filter P xs = []" if "P a"
    using Cons.prems that by (auto simp: filter_empty_conv)
  ultimately show ?case by auto
qed simp

end
