(* ===== verification/JsText.thy ===== *)
theory JsText
  imports Prelude
begin

text \<open>
  The part of JavaScript's String and Number library that the sources call: decimal printing,
  \<^verbatim>\<open>parseInt\<close>, \<^verbatim>\<open>toFixed\<close>, case mapping, searching, splitting, and the two URI component
  functions, with the round trips between them. Numbers are exact: \<^verbatim>\<open>int\<close> where the
  program only handles integers, \<^verbatim>\<open>rat\<close> where it divides; the rounding of IEEE doubles is not
  modelled. Case mapping covers the ASCII letters.
\<close>

section \<open>Decimal digits\<close>

definition digit :: "nat \<Rightarrow> char" where
  "digit d = char_of (48 + d)"

definition is_digit :: "char \<Rightarrow> bool" where
  "is_digit c = (48 \<le> (of_char c :: nat) \<and> (of_char c :: nat) \<le> 57)"

definition digit_val :: "char \<Rightarrow> nat" where
  "digit_val c = of_char c - 48"

lemma of_char_digit: "d < 10 \<Longrightarrow> (of_char (digit d) :: nat) = 48 + d"
  by (simp add: digit_def)

lemma is_digit_digit [simp]: "d < 10 \<Longrightarrow> is_digit (digit d)"
  by (simp add: is_digit_def of_char_digit)

lemma digit_val_digit [simp]: "d < 10 \<Longrightarrow> digit_val (digit d) = d"
  by (simp add: digit_val_def of_char_digit)

lemma is_digit_not_lt [simp]: "\<not> is_digit CHR ''<''" and is_digit_not_quote [simp]: "\<not> is_digit CHR 0x22"
  and is_digit_not_minus [simp]: "\<not> is_digit CHR ''-''" and is_digit_not_dot [simp]: "\<not> is_digit CHR ''.''"
  and is_digit_not_plus [simp]: "\<not> is_digit CHR ''+''" and is_digit_not_space [simp]: "\<not> is_digit CHR '' ''"
  by (simp_all add: is_digit_def)

fun str_of_nat :: "nat \<Rightarrow> string" where
  "str_of_nat n = (if n < 10 then [digit n] else str_of_nat (n div 10) @ [digit (n mod 10)])"

declare str_of_nat.simps [simp del]

definition str_of_int :: "int \<Rightarrow> string" where
  "str_of_int i = (if i < 0 then CHR ''-'' # str_of_nat (nat (- i)) else str_of_nat (nat i))"

lemma str_of_nat_nonempty [simp]: "str_of_nat n \<noteq> []"
  by (subst str_of_nat.simps) simp

lemma str_of_nat_digits: "c \<in> set (str_of_nat n) \<Longrightarrow> is_digit c"
proof (induction n rule: str_of_nat.induct)
  case (1 n)
  show ?case
  proof (cases "n < 10")
    case True
    with "1.prems" show ?thesis by (simp add: str_of_nat.simps [of n])
  next
    case False
    with "1.prems" "1.IH" show ?thesis by (auto simp: str_of_nat.simps [of n])
  qed
qed

lemma str_of_int_chars: "c \<in> set (str_of_int i) \<Longrightarrow> is_digit c \<or> c = CHR ''-''"
  by (auto simp: str_of_int_def str_of_nat_digits split: if_splits)

definition digits_val :: "string \<Rightarrow> nat" where
  "digits_val s = fold (\<lambda>c n. 10 * n + digit_val c) s 0"

lemma digits_val_snoc: "digits_val (s @ [c]) = 10 * digits_val s + digit_val c"
  by (simp add: digits_val_def)

lemma digits_val_str_of_nat: "digits_val (str_of_nat n) = n"
proof (induction n rule: str_of_nat.induct)
  case (1 n)
  show ?case
  proof (cases "n < 10")
    case True
    then show ?thesis by (simp add: str_of_nat.simps [of n] digits_val_def)
  next
    case False
    with "1.IH" have "digits_val (str_of_nat (n div 10)) = n div 10" by simp
    with False show ?thesis
      by (simp add: str_of_nat.simps [of n] digits_val_snoc)
  qed
qed

lemma str_of_nat_inject: "str_of_nat m = str_of_nat n \<longleftrightarrow> m = n"
  by (metis digits_val_str_of_nat)

section \<open>\<^verbatim>\<open>parseInt\<close>\<close>

definition is_space :: "char \<Rightarrow> bool" where
  "is_space c = (c = CHR '' '' \<or> c = CHR 0x09 \<or> c = CHR 0x0A \<or> c = CHR 0x0B \<or> c = CHR 0x0C \<or> c = CHR 0x0D)"

definition hex_val :: "char \<Rightarrow> nat option" where
  "hex_val c =
     (let n = of_char c in
      if 48 \<le> n \<and> n \<le> 57 then Some (n - 48)
      else if 65 \<le> n \<and> n \<le> 70 then Some (n - 55)
      else if 97 \<le> n \<and> n \<le> 102 then Some (n - 87) else None)"

definition hex_digits_val :: "string \<Rightarrow> nat" where
  "hex_digits_val s = fold (\<lambda>c n. 16 * n + or_none (hex_val c) 0) s 0"

text \<open>
  \<^verbatim>\<open>parseInt(s)\<close> without a radix: leading white space, a sign, an optional
  \<^verbatim>\<open>0x\<close> prefix, then the longest run of digits; \<^verbatim>\<open>None\<close> is NaN.
\<close>

definition parse_unsigned :: "string \<Rightarrow> int option" where
  "parse_unsigned s =
     (if take 2 s = ''0x'' \<or> take 2 s = ''0X''
      then (let h = takeWhile (\<lambda>c. hex_val c \<noteq> None) (drop 2 s)
            in if h = [] then None else Some (int (hex_digits_val h)))
      else (let d = takeWhile is_digit s
            in if d = [] then None else Some (int (digits_val d))))"

definition parse_int :: "string \<Rightarrow> int option" where
  "parse_int s =
     (case dropWhile is_space s of
        [] \<Rightarrow> None
      | c # cs \<Rightarrow>
          if c = CHR ''-'' then map_option uminus (parse_unsigned cs)
          else if c = CHR ''+'' then parse_unsigned cs
          else parse_unsigned (c # cs))"

text \<open>\<^verbatim>\<open>parseInt(s) || d\<close>: NaN and 0 are both falsy.\<close>

definition parse_int_or :: "string \<Rightarrow> int \<Rightarrow> int" where
  "parse_int_or s d = (case parse_int s of None \<Rightarrow> d | Some n \<Rightarrow> or_int n d)"

lemma parse_unsigned_str_of_nat: "parse_unsigned (str_of_nat n) = Some (int n)"
proof -
  have x: "CHR ''x'' \<notin> set (str_of_nat n)" "CHR ''X'' \<notin> set (str_of_nat n)"
    using str_of_nat_digits [of "CHR ''x''" n] str_of_nat_digits [of "CHR ''X''" n]
    by (auto simp: is_digit_def)
  have noX: "take 2 (str_of_nat n) \<noteq> ''0x''" "take 2 (str_of_nat n) \<noteq> ''0X''"
    using x set_take_subset [of 2 "str_of_nat n"]
    by (auto dest!: arg_cong [where f = set])
  have "takeWhile is_digit (str_of_nat n) = str_of_nat n"
    by (simp only: takeWhile_eq_all_conv) (simp add: str_of_nat_digits)
  with noX show ?thesis
    by (simp only: parse_unsigned_def Let_def) (simp add: digits_val_str_of_nat)
qed

lemma is_digit_not_is_space: "is_digit c \<Longrightarrow> \<not> is_space c"
  by (auto simp: is_space_def is_digit_def)

lemma parse_int_str_of_int [simp]: "parse_int (str_of_int i) = Some i"
proof (cases "i < 0")
  case True
  then show ?thesis
    by (simp add: parse_int_def str_of_int_def is_space_def parse_unsigned_str_of_nat)
next
  case False
  obtain c cs where s: "str_of_nat (nat i) = c # cs"
    by (cases "str_of_nat (nat i)") auto
  then have dig: "is_digit c"
    using str_of_nat_digits [of c "nat i"] by simp
  then have "dropWhile is_space (c # cs) = c # cs"
    by (simp add: is_digit_not_is_space)
  with False s dig show ?thesis
    using parse_unsigned_str_of_nat [of "nat i"]
    by (auto simp: parse_int_def str_of_int_def)
qed

lemma parse_int_or_str_of_int [simp]: "parse_int_or (str_of_int i) d = or_int i d"
  by (simp add: parse_int_or_def)

lemma parse_int_Nil [simp]: "parse_int [] = None"
  by (simp add: parse_int_def)

lemma parse_int_or_Nil [simp]: "parse_int_or [] d = d"
  by (simp add: parse_int_or_def)

section \<open>\<^verbatim>\<open>toFixed\<close>\<close>

text \<open>
  \<^verbatim>\<open>x.toFixed(f)\<close>: the integer nearest to \<^verbatim>\<open>x * 10^f\<close>, the larger one on a tie, printed with
  \<^verbatim>\<open>f\<close> fraction digits; a negative number is printed through its absolute value.
\<close>

definition round_half_up :: "rat \<Rightarrow> int" where
  "round_half_up x = \<lfloor>x + 1 / 2\<rfloor>"

definition pad_start :: "nat \<Rightarrow> char \<Rightarrow> string \<Rightarrow> string" where
  "pad_start n c s = replicate (n - length s) c @ s"

definition fixed_nat :: "nat \<Rightarrow> nat \<Rightarrow> string" where
  "fixed_nat f n =
     (if f = 0 then str_of_nat n
      else (let s = pad_start (f + 1) (CHR ''0'') (str_of_nat n)
            in take (length s - f) s @ CHR ''.'' # drop (length s - f) s))"

definition to_fixed :: "nat \<Rightarrow> rat \<Rightarrow> string" where
  "to_fixed f x =
     (if x < 0 then CHR ''-'' # fixed_nat f (nat (round_half_up (- x * 10 ^ f)))
      else fixed_nat f (nat (round_half_up (x * 10 ^ f))))"

text \<open>\<^verbatim>\<open>String(parseFloat(x.toFixed(1)))\<close> for a nonnegative \<^verbatim>\<open>x\<close>: one decimal, none if it is 0.\<close>

definition str_of_tenths :: "nat \<Rightarrow> string" where
  "str_of_tenths n =
     str_of_nat (n div 10) @ (if n mod 10 = 0 then [] else [CHR ''.'', digit (n mod 10)])"

lemma round_half_up_of_int [simp]: "round_half_up (of_int n) = n"
  by (simp add: round_half_up_def floor_eq_iff)

lemma round_half_up_error: "\<bar>of_int (round_half_up x) - x\<bar> \<le> 1 / 2"
proof -
  have "of_int (round_half_up x) \<le> x + 1 / 2" "x + 1 / 2 < of_int (round_half_up x) + 1"
    unfolding round_half_up_def by linarith+
  then show ?thesis unfolding abs_le_iff by (auto simp: field_simps)
qed

lemma round_half_up_nonneg: "0 \<le> x \<Longrightarrow> 0 \<le> round_half_up x"
  by (simp add: round_half_up_def)

lemma round_half_up_mono: "x \<le> y \<Longrightarrow> round_half_up x \<le> round_half_up y"
  by (simp add: round_half_up_def floor_mono)

lemma set_pad_start: "set (pad_start n c s) \<subseteq> insert c (set s)"
  by (auto simp: pad_start_def)

lemma fixed_nat_chars: "c \<in> set (fixed_nat f n) \<Longrightarrow> is_digit c \<or> c = CHR ''.''"
proof -
  have zero: "is_digit CHR ''0''" by (simp add: is_digit_def)
  assume "c \<in> set (fixed_nat f n)"
  then show ?thesis
    using zero set_pad_start [of "f + 1" "CHR ''0''" "str_of_nat n"] str_of_nat_digits [of c n]
    by (auto simp: fixed_nat_def Let_def split: if_splits dest!: in_set_takeD in_set_dropD)
qed

lemma to_fixed_chars: "c \<in> set (to_fixed f x) \<Longrightarrow> is_digit c \<or> c = CHR ''.'' \<or> c = CHR ''-''"
  using fixed_nat_chars by (auto simp: to_fixed_def split: if_splits)

lemma str_of_tenths_chars: "c \<in> set (str_of_tenths n) \<Longrightarrow> is_digit c \<or> c = CHR ''.''"
  using str_of_nat_digits by (auto simp: str_of_tenths_def split: if_splits)

section \<open>Case, searching, splitting\<close>

definition to_lower_char :: "char \<Rightarrow> char" where
  "to_lower_char c =
     (if 65 \<le> (of_char c :: nat) \<and> (of_char c :: nat) \<le> 90 then char_of ((of_char c :: nat) + 32) else c)"

definition to_upper_char :: "char \<Rightarrow> char" where
  "to_upper_char c =
     (if 97 \<le> (of_char c :: nat) \<and> (of_char c :: nat) \<le> 122 then char_of ((of_char c :: nat) - 32) else c)"

definition to_lower :: "string \<Rightarrow> string" where
  "to_lower = map to_lower_char"

definition to_upper :: "string \<Rightarrow> string" where
  "to_upper = map to_upper_char"

fun starts_with :: "string \<Rightarrow> string \<Rightarrow> bool" where
  "starts_with [] s = True"
| "starts_with (p # ps) [] = False"
| "starts_with (p # ps) (c # cs) = (p = c \<and> starts_with ps cs)"

fun str_includes :: "string \<Rightarrow> string \<Rightarrow> bool" where
  "str_includes p [] = (p = [])"
| "str_includes p (c # cs) = (starts_with p (c # cs) \<or> str_includes p cs)"

definition trim :: "string \<Rightarrow> string" where
  "trim s = rev (dropWhile is_space (rev (dropWhile is_space s)))"

fun split_on :: "char \<Rightarrow> string \<Rightarrow> string list" where
  "split_on d [] = [[]]"
| "split_on d (c # cs) =
     (if c = d then [] # split_on d cs
      else (case split_on d cs of [] \<Rightarrow> [[c]] | w # ws \<Rightarrow> (c # w) # ws))"

fun join_with :: "string \<Rightarrow> string list \<Rightarrow> string" where
  "join_with sep [] = []"
| "join_with sep [w] = w"
| "join_with sep (w # ws) = w @ sep @ join_with sep ws"

text \<open>\<^verbatim>\<open>s.replace(/c/g, r)\<close> for a single character \<^verbatim>\<open>c\<close>.\<close>

definition replace_all :: "char \<Rightarrow> string \<Rightarrow> string \<Rightarrow> string" where
  "replace_all c r s = concat (map (\<lambda>x. if x = c then r else [x]) s)"

text \<open>\<^verbatim>\<open>s.replace(c, r)\<close> with a one-character string \<^verbatim>\<open>c\<close>: the first occurrence only.\<close>

fun replace_first :: "char \<Rightarrow> string \<Rightarrow> string \<Rightarrow> string" where
  "replace_first c r [] = []"
| "replace_first c r (x # xs) = (if x = c then r @ xs else x # replace_first c r xs)"

lemma starts_with_append: "starts_with p s \<longleftrightarrow> (\<exists>t. s = p @ t)"
  by (induction p s rule: starts_with.induct) auto

lemma includes_iff: "str_includes p s \<longleftrightarrow> (\<exists>a b. s = a @ p @ b)"
proof (induction p s rule: str_includes.induct)
  case (1 p)
  then show ?case by simp
next
  case (2 p c cs)
  show ?case
  proof
    assume "str_includes p (c # cs)"
    then consider t where "c # cs = p @ t" | a b where "cs = a @ p @ b"
      using 2 by (auto simp: starts_with_append)
    then show "\<exists>a b. c # cs = a @ p @ b"
    proof cases
      case (1 t)
      then show ?thesis by (intro exI [of _ "[]"] exI [of _ t]) simp
    next
      case (2 a b)
      then show ?thesis by (intro exI [of _ "c # a"] exI [of _ b]) simp
    qed
  next
    assume "\<exists>a b. c # cs = a @ p @ b"
    then obtain a b where ab: "c # cs = a @ p @ b" by blast
    show "str_includes p (c # cs)"
    proof (cases a)
      case Nil
      then have "starts_with p (c # cs)"
        using ab by (auto simp: starts_with_append)
      then show ?thesis by simp
    next
      case (Cons x a')
      with ab have "cs = a' @ p @ b" by simp
      with 2 show ?thesis by auto
    qed
  qed
qed

lemma split_on_nonempty [simp]: "split_on d s \<noteq> []"
  by (induction s) (auto split: list.splits)

lemma join_split: "join_with [d] (split_on d s) = s"
proof (induction s)
  case (Cons c cs)
  obtain w ws where ws: "split_on d cs = w # ws"
    by (cases "split_on d cs") auto
  with Cons show ?case by (cases ws) auto
qed simp

lemma replace_all_append [simp]: "replace_all c r (s @ t) = replace_all c r s @ replace_all c r t"
  by (simp add: replace_all_def)

lemma replace_all_Nil [simp]: "replace_all c r [] = []"
  by (simp add: replace_all_def)

lemma replace_all_Cons: "replace_all c r (x # s) = (if x = c then r else [x]) @ replace_all c r s"
  by (simp add: replace_all_def)

section \<open>URI components\<close>

definition is_unreserved :: "char \<Rightarrow> bool" where
  "is_unreserved c =
     (is_digit c \<or> (65 \<le> (of_char c :: nat) \<and> (of_char c :: nat) \<le> 90)
      \<or> (97 \<le> (of_char c :: nat) \<and> (of_char c :: nat) \<le> 122)
      \<or> c \<in> set [CHR ''-'', CHR ''_'', CHR ''.'', CHR ''!'', CHR ''~'', CHR ''*'', CHR 0x27, CHR ''('', CHR '')''])"

definition hex_digit :: "nat \<Rightarrow> char" where
  "hex_digit n = (if n < 10 then char_of (48 + n) else char_of (55 + n))"

definition encode_char :: "char \<Rightarrow> string" where
  "encode_char c =
     (if is_unreserved c then [c]
      else [CHR ''%'', hex_digit (of_char c div 16), hex_digit (of_char c mod 16)])"

text \<open>\<^verbatim>\<open>encodeURIComponent\<close>: every byte that is not unreserved as \<^verbatim>\<open>%XX\<close>.\<close>

definition encode_uri :: "string \<Rightarrow> string" where
  "encode_uri s = concat (map encode_char s)"

text \<open>\<^verbatim>\<open>decodeURIComponent\<close>; \<^verbatim>\<open>None\<close> is the URIError of a malformed escape.\<close>

fun decode_uri :: "string \<Rightarrow> string option" where
  "decode_uri [] = Some []"
| "decode_uri (c # cs) =
     (if c = CHR ''%'' then
        (case cs of
           a # b # rest \<Rightarrow>
             (case (hex_val a, hex_val b) of
                (Some x, Some y) \<Rightarrow> map_option ((#) (char_of (16 * x + y))) (decode_uri rest)
              | _ \<Rightarrow> None)
         | _ \<Rightarrow> None)
      else map_option ((#) c) (decode_uri cs))"

lemma hex_val_hex_digit [simp]: "n < 16 \<Longrightarrow> hex_val (hex_digit n) = Some n"
  by (simp add: hex_val_def hex_digit_def)

lemma of_char_less_256: "(of_char c :: nat) < 256"
  using of_char_mod_256 [of c, where 'a = nat] by (metis mod_less_divisor zero_less_numeral)

lemma decode_encode_char: "decode_uri (encode_char c @ s) = map_option ((#) c) (decode_uri s)"
proof (cases "is_unreserved c")
  case True
  then have "c \<noteq> CHR ''%''" by (auto simp: is_unreserved_def is_digit_def)
  with True show ?thesis by (simp add: encode_char_def)
next
  case False
  have "(of_char c :: nat) div 16 < 16"
    using of_char_less_256 [of c] by (simp add: less_mult_imp_div_less)
  moreover have "16 * ((of_char c :: nat) div 16) + of_char c mod 16 = of_char c"
    by simp
  ultimately show ?thesis
    using False by (simp add: encode_char_def)
qed

lemma decode_encode_uri: "decode_uri (encode_uri s) = Some s"
  by (induction s) (simp_all add: encode_uri_def decode_encode_char)

lemma hex_digit_unreserved: "n < 16 \<Longrightarrow> is_unreserved (hex_digit n)"
  by (auto simp: is_unreserved_def is_digit_def hex_digit_def)

lemma encode_char_chars: "x \<in> set (encode_char c) \<Longrightarrow> is_unreserved x \<or> x = CHR ''%''"
proof -
  have "(of_char c :: nat) div 16 < 16"
    using of_char_less_256 [of c] by (simp add: less_mult_imp_div_less)
  then show "x \<in> set (encode_char c) \<Longrightarrow> ?thesis"
    by (auto simp: encode_char_def hex_digit_unreserved split: if_splits)
qed

lemma encode_uri_chars: "x \<in> set (encode_uri s) \<Longrightarrow> is_unreserved x \<or> x = CHR ''%''"
  using encode_char_chars by (auto simp: encode_uri_def)

lemma encode_uri_inject: "encode_uri s = encode_uri t \<longleftrightarrow> s = t"
  by (metis decode_encode_uri option.inject)

lemma encode_uri_separators:
  "CHR ''&'' \<notin> set (encode_uri s)" "CHR ''='' \<notin> set (encode_uri s)"
  "CHR ''?'' \<notin> set (encode_uri s)" "CHR ''#'' \<notin> set (encode_uri s)"
  "CHR ''/'' \<notin> set (encode_uri s)"
  by (auto dest!: encode_uri_chars simp: is_unreserved_def is_digit_def)

end
