(* ===== verification/Html.thy ===== *)
theory Html
  imports JsText
begin

text \<open>
  Markup. The template literals that the program assigns to \<^verbatim>\<open>innerHTML\<close> are modelled as trees
  of elements whose text nodes and attribute values are the strings the template interpolates,
  exactly as it interpolates them (escaped or not); \<^verbatim>\<open>ser\<close> is the string the template evaluates
  to. White space between tags is dropped, and a run of white space with a line break inside a
  text is one blank.

  The specification side is a tokenizer for the string, with the states of the HTML standard's
  tokenizer that quoted attributes, character data and tags need: \<^verbatim>\<open>lex_html\<close>. A tree is
  \<^verbatim>\<open>safe\<close> when no text holds \<^verbatim>\<open><\<close> and no attribute value holds a double quote, and then the
  tokenizer finds exactly the tags of the template, whatever the data is. Escaping functions are
  the interface: two locales state what a text escaper and an attribute escaper promise.
\<close>

section \<open>Trees and their serialisation\<close>

datatype attr = At string string | Flag string

datatype html = Txt string | El string "attr list" "html list"

definition void_tags :: "string list" where
  "void_tags = [''input'', ''br'', ''col'']"

abbreviation sq :: string where "sq \<equiv> [CHR 0x27]"
abbreviation dq :: string where "dq \<equiv> [CHR 0x22]"

definition ser_attr :: "attr \<Rightarrow> string" where
  "ser_attr a = (case a of
       At n v \<Rightarrow> CHR '' '' # n @ CHR ''='' # dq @ v @ dq
     | Flag n \<Rightarrow> CHR '' '' # n)"

fun ser :: "html \<Rightarrow> string" where
  "ser (Txt s) = s"
| "ser (El t as hs) =
     CHR ''<'' # t @ concat (map ser_attr as) @ CHR ''>'' #
     (if t \<in> set void_tags then [] else concat (map ser hs) @ ''</'' @ t @ ''>'')"

definition ser_list :: "html list \<Rightarrow> string" where
  "ser_list hs = concat (map ser hs)"

definition flag_if :: "bool \<Rightarrow> string \<Rightarrow> attr list" where
  "flag_if b n = (if b then [Flag n] else [])"

section \<open>The tokenizer\<close>

datatype tok = Ch char | Open string "attr list" | Close string

datatype lexst =
    Data
  | TagOpen
  | TagName string
  | EndTag string
  | BeforeAttr string "attr list"
  | AttrName string "attr list" string
  | BeforeVal string "attr list" string
  | ValDq string "attr list" string string
  | ValSq string "attr list" string string
  | ValBare string "attr list" string string
  | Bogus

definition is_alpha :: "char \<Rightarrow> bool" where
  "is_alpha c = ((65 \<le> (of_char c :: nat) \<and> (of_char c :: nat) \<le> 90)
                 \<or> (97 \<le> (of_char c :: nat) \<and> (of_char c :: nat) \<le> 122))"

fun lex_step :: "lexst \<Rightarrow> char \<Rightarrow> lexst \<times> tok list" where
  "lex_step Data c = (if c = CHR ''<'' then (TagOpen, []) else (Data, [Ch c]))"
| "lex_step TagOpen c =
     (if c = CHR ''/'' then (EndTag [], [])
      else if c = CHR ''!'' \<or> c = CHR ''?'' then (Bogus, [])
      else if is_alpha c then (TagName [c], [])
      else if c = CHR ''<'' then (TagOpen, [Ch (CHR ''<'')])
      else (Data, [Ch (CHR ''<''), Ch c]))"
| "lex_step (TagName n) c =
     (if is_space c \<or> c = CHR ''/'' then (BeforeAttr n [], [])
      else if c = CHR ''>'' then (Data, [Open n []])
      else (TagName (n @ [c]), []))"
| "lex_step (EndTag n) c =
     (if c = CHR ''>'' then (Data, [Close n]) else (EndTag (n @ [c]), []))"
| "lex_step (BeforeAttr n as) c =
     (if is_space c \<or> c = CHR ''/'' then (BeforeAttr n as, [])
      else if c = CHR ''>'' then (Data, [Open n as])
      else (AttrName n as [c], []))"
| "lex_step (AttrName n as a) c =
     (if is_space c \<or> c = CHR ''/'' then (BeforeAttr n (as @ [Flag a]), [])
      else if c = CHR ''>'' then (Data, [Open n (as @ [Flag a])])
      else if c = CHR ''='' then (BeforeVal n as a, [])
      else (AttrName n as (a @ [c]), []))"
| "lex_step (BeforeVal n as a) c =
     (if is_space c then (BeforeVal n as a, [])
      else if c = CHR 0x22 then (ValDq n as a [], [])
      else if c = CHR 0x27 then (ValSq n as a [], [])
      else if c = CHR ''>'' then (Data, [Open n (as @ [At a []])])
      else (ValBare n as a [c], []))"
| "lex_step (ValDq n as a v) c =
     (if c = CHR 0x22 then (BeforeAttr n (as @ [At a v]), []) else (ValDq n as a (v @ [c]), []))"
| "lex_step (ValSq n as a v) c =
     (if c = CHR 0x27 then (BeforeAttr n (as @ [At a v]), []) else (ValSq n as a (v @ [c]), []))"
| "lex_step (ValBare n as a v) c =
     (if is_space c then (BeforeAttr n (as @ [At a v]), [])
      else if c = CHR ''>'' then (Data, [Open n (as @ [At a v])])
      else (ValBare n as a (v @ [c]), []))"
| "lex_step Bogus c = (if c = CHR ''>'' then (Data, []) else (Bogus, []))"

fun lex_from :: "lexst \<Rightarrow> string \<Rightarrow> lexst \<times> tok list" where
  "lex_from st [] = (st, [])"
| "lex_from st (c # cs) =
     (case lex_step st c of (st', ts) \<Rightarrow>
        (case lex_from st' cs of (st'', us) \<Rightarrow> (st'', ts @ us)))"

definition lex_html :: "string \<Rightarrow> lexst \<times> tok list" where
  "lex_html s = lex_from Data s"

fun toks :: "html \<Rightarrow> tok list" where
  "toks (Txt s) = map Ch s"
| "toks (El t as hs) =
     Open t as # (if t \<in> set void_tags then [] else concat (map toks hs) @ [Close t])"

definition toks_list :: "html list \<Rightarrow> tok list" where
  "toks_list hs = concat (map toks hs)"

section \<open>Safe trees\<close>

definition name_char :: "char \<Rightarrow> bool" where
  "name_char c = (\<not> is_space c \<and> c \<noteq> CHR ''/'' \<and> c \<noteq> CHR ''>'' \<and> c \<noteq> CHR ''='')"

definition name_ok :: "string \<Rightarrow> bool" where
  "name_ok n = (n \<noteq> [] \<and> is_alpha (hd n) \<and> list_all name_char n)"

definition safe_attr :: "attr \<Rightarrow> bool" where
  "safe_attr a = (case a of At n v \<Rightarrow> name_ok n \<and> CHR 0x22 \<notin> set v | Flag n \<Rightarrow> name_ok n)"

fun safe :: "html \<Rightarrow> bool" where
  "safe (Txt s) = (CHR ''<'' \<notin> set s)"
| "safe (El t as hs) = (name_ok t \<and> list_all safe_attr as \<and> list_all safe hs)"

definition safe_list :: "html list \<Rightarrow> bool" where
  "safe_list hs = list_all safe hs"

lemma safe_list_simps [simp, markup_safe]:
  "safe_list []"
  "safe_list (h # hs) = (safe h \<and> safe_list hs)"
  "safe_list (hs @ gs) = (safe_list hs \<and> safe_list gs)"
  by (simp_all add: safe_list_def)

lemma safe_list_concat_map [markup_safe]:
  "safe_list (concat (map f xs)) = (\<forall>x \<in> set xs. safe_list (f x))"
  by (induction xs) auto

lemma safe_list_map [markup_safe]: "safe_list (map f xs) = (\<forall>x \<in> set xs. safe (f x))"
  by (induction xs) auto

lemma safe_El [markup_safe]:
  "safe (El t as hs) = (name_ok t \<and> list_all safe_attr as \<and> safe_list hs)"
  by (simp add: safe_list_def)

lemma safe_Txt [markup_safe]: "safe (Txt s) = (CHR ''<'' \<notin> set s)"
  by simp

lemma safe_attr_simps [markup_safe]:
  "safe_attr (At n v) = (name_ok n \<and> CHR 0x22 \<notin> set v)"
  "safe_attr (Flag n) = name_ok n"
  by (simp_all add: safe_attr_def)

lemma safe_flag_if [markup_safe]: "list_all safe_attr (flag_if b n) = (b \<longrightarrow> name_ok n)"
  by (simp add: flag_if_def safe_attr_def)

declare safe.simps [simp del]

lemma set_if [markup_safe]: "(c \<in> set (if b then s else t)) = (if b then c \<in> set s else c \<in> set t)"
  by simp

lemma safe_list_if [markup_safe]:
  "safe_list (if b then hs else gs) = (if b then safe_list hs else safe_list gs)"
  by simp

lemma lex_from_append:
  "lex_from st (s @ u) =
     (case lex_from st s of (st', ts) \<Rightarrow>
        (case lex_from st' u of (st'', us) \<Rightarrow> (st'', ts @ us)))"
  by (induction st s rule: lex_from.induct) (auto split: prod.splits)

lemma lex_append:
  "lex_from st s = (st', ts) \<Longrightarrow> lex_from st' u = (st'', us) \<Longrightarrow> lex_from st (s @ u) = (st'', ts @ us)"
  by (simp add: lex_from_append)

lemma lex_data: "CHR ''<'' \<notin> set s \<Longrightarrow> lex_from Data s = (Data, map Ch s)"
  by (induction s) auto

lemma lex_tag_name: "list_all name_char m \<Longrightarrow> lex_from (TagName n) m = (TagName (n @ m), [])"
  by (induction m arbitrary: n) (auto simp: name_char_def)

lemma lex_end_tag: "list_all name_char m \<Longrightarrow> lex_from (EndTag n) m = (EndTag (n @ m), [])"
  by (induction m arbitrary: n) (auto simp: name_char_def)

lemma lex_attr_name:
  "list_all name_char m \<Longrightarrow> lex_from (AttrName t as n) m = (AttrName t as (n @ m), [])"
  by (induction m arbitrary: n) (auto simp: name_char_def)

lemma lex_value: "CHR 0x22 \<notin> set v \<Longrightarrow> lex_from (ValDq t as n w) v = (ValDq t as n (w @ v), [])"
  by (induction v arbitrary: w) auto

text \<open>
  Between two attributes the tokenizer is either before an attribute, with the attributes read
  so far, or still in the name of a valueless one, which the next blank or \<^verbatim>\<open>>\<close> completes.
\<close>

definition attr_pos :: "string \<Rightarrow> attr list \<Rightarrow> lexst \<Rightarrow> bool" where
  "attr_pos t as st =
     (st = BeforeAttr t as \<or> (as = [] \<and> st = TagName t)
      \<or> (\<exists>bs n. as = bs @ [Flag n] \<and> st = AttrName t bs n))"

lemma lex_attr:
  assumes "safe_attr a" "attr_pos t as st"
  shows "\<exists>st'. lex_from st (ser_attr a) = (st', []) \<and> attr_pos t (as @ [a]) st'"
proof -
  have space: "lex_step st CHR '' '' = (BeforeAttr t as, [])"
    using assms(2) by (auto simp: attr_pos_def is_space_def)
  show ?thesis
  proof (cases a)
    case (At n v)
    then obtain x xs where n: "n = x # xs" "is_alpha x" "list_all name_char (x # xs)"
      and v: "CHR 0x22 \<notin> set v"
      using assms(1) by (cases n) (auto simp: safe_attr_def name_ok_def)
    have start: "lex_step (BeforeAttr t as) x = (AttrName t as [x], [])"
      using n by (auto simp: name_char_def)
    have "lex_from st (ser_attr a) = (BeforeAttr t (as @ [a]), [])"
      using At n v space start lex_attr_name [of xs t as "[x]"] lex_value [of v t as n "[]"]
      by (simp add: ser_attr_def lex_from_append is_space_def)
    then show ?thesis by (simp add: attr_pos_def)
  next
    case (Flag n)
    then obtain x xs where n: "n = x # xs" "is_alpha x" "list_all name_char (x # xs)"
      using assms(1) by (cases n) (auto simp: safe_attr_def name_ok_def)
    have start: "lex_step (BeforeAttr t as) x = (AttrName t as [x], [])"
      using n by (auto simp: name_char_def)
    have "lex_from st (ser_attr a) = (AttrName t as n, [])"
      using Flag n space start lex_attr_name [of xs t as "[x]"]
      by (simp add: ser_attr_def)
    with Flag show ?thesis by (auto simp: attr_pos_def)
  qed
qed

lemma lex_attrs:
  "list_all safe_attr bs \<Longrightarrow> attr_pos t as st \<Longrightarrow>
   \<exists>st'. lex_from st (concat (map ser_attr bs)) = (st', []) \<and> attr_pos t (as @ bs) st'"
proof (induction bs arbitrary: as st)
  case Nil
  then show ?case by auto
next
  case (Cons b bs)
  from Cons.prems obtain st1 where 1: "lex_from st (ser_attr b) = (st1, [])" "attr_pos t (as @ [b]) st1"
    using lex_attr [of b t as st] by auto
  from Cons.IH [of "as @ [b]" st1] Cons.prems 1 obtain st2
    where "lex_from st1 (concat (map ser_attr bs)) = (st2, [])" "attr_pos t ((as @ [b]) @ bs) st2"
    by auto
  with 1 show ?case by (auto simp: lex_from_append)
qed

lemma lex_open_tag:
  assumes "name_ok t" "list_all safe_attr as"
  shows "lex_from Data (CHR ''<'' # t @ concat (map ser_attr as) @ ''>'') = (Data, [Open t as])"
proof -
  obtain x xs where t: "t = x # xs" "is_alpha x" "list_all name_char xs"
    using assms(1) by (cases t) (auto simp: name_ok_def)
  have x: "x \<noteq> CHR ''/''" "x \<noteq> CHR ''!''" "x \<noteq> CHR ''?''"
    using t(2) by (auto simp: is_alpha_def)
  have name: "lex_from Data (CHR ''<'' # t) = (TagName t, [])"
    using t x lex_tag_name [of xs "[x]"] by simp
  obtain st where st: "lex_from (TagName t) (concat (map ser_attr as)) = (st, [])" "attr_pos t as st"
    using lex_attrs [OF assms(2), of t "[]" "TagName t"] by (auto simp: attr_pos_def)
  have "lex_from st ''>'' = (Data, [Open t as])"
    using st(2) by (auto simp: attr_pos_def is_space_def)
  with name st(1) show ?thesis
    by (metis append.assoc append_Cons append_Nil lex_append)
qed

lemma lex_close_tag: "name_ok t \<Longrightarrow> lex_from Data (''</'' @ t @ ''>'') = (Data, [Close t])"
  using lex_end_tag [of t "[]"] by (simp add: name_ok_def lex_from_append)

lemma lex_concat:
  "(\<And>x. x \<in> set xs \<Longrightarrow> lex_from Data (f x) = (Data, g x)) \<Longrightarrow>
   lex_from Data (concat (map f xs)) = (Data, concat (map g xs))"
  by (induction xs) (auto simp: lex_from_append)

lemma lex_ser: "safe h \<Longrightarrow> lex_from Data (ser h) = (Data, toks h)"
proof (induction h)
  case (Txt s)
  then show ?case by (simp add: safe.simps lex_data)
next
  case (El t as hs)
  then have ok: "name_ok t" "list_all safe_attr as" and hs: "\<And>h. h \<in> set hs \<Longrightarrow> safe h"
    by (auto simp: safe.simps list_all_iff)
  note open_tag = lex_open_tag [OF ok]
  have body: "lex_from Data (concat (map ser hs)) = (Data, concat (map toks hs))"
    using El.IH hs by (intro lex_concat) auto
  show ?case
  proof (cases "t \<in> set void_tags")
    case True
    with open_tag show ?thesis by simp
  next
    case False
    have "ser (El t as hs) = (CHR ''<'' # t @ concat (map ser_attr as) @ ''>'') @
            (concat (map ser hs) @ (''</'' @ t @ ''>''))"
      using False by simp
    moreover have "lex_from Data (concat (map ser hs) @ (''</'' @ t @ ''>'')) =
            (Data, concat (map toks hs) @ [Close t])"
      using body lex_close_tag [OF ok(1)] by (rule lex_append)
    ultimately show ?thesis
      using False open_tag by (simp only: lex_append toks.simps) simp
  qed
qed

lemma lex_ser_list: "safe_list hs \<Longrightarrow> lex_html (ser_list hs) = (Data, toks_list hs)"
  unfolding lex_html_def ser_list_def toks_list_def safe_list_def
  by (rule lex_concat) (auto simp: lex_ser list_all_iff)

section \<open>Character references\<close>

text \<open>The references the escapers produce; any other ampersand stands for itself.\<close>

fun html_decode :: "string \<Rightarrow> string" where
  "html_decode [] = []"
| "html_decode (c # s) =
     (if c = CHR ''&'' then
        (if take 4 s = ''amp;'' then CHR ''&'' # html_decode (drop 4 s)
         else if take 3 s = ''lt;'' then CHR ''<'' # html_decode (drop 3 s)
         else if take 3 s = ''gt;'' then CHR ''>'' # html_decode (drop 3 s)
         else if take 5 s = ''quot;'' then CHR 0x22 # html_decode (drop 5 s)
         else if take 4 s = ''#39;'' then CHR 0x27 # html_decode (drop 4 s)
         else c # html_decode s)
      else c # html_decode s)"

section \<open>Escapers as interfaces\<close>

locale text_escaper =
  fixes esc :: "string \<Rightarrow> string"
  assumes no_lt: "CHR ''<'' \<notin> set (esc s)"
    and decode_esc: "html_decode (esc s) = s"
begin

lemma esc_inject: "esc s = esc t \<longleftrightarrow> s = t"
  by (metis decode_esc)

lemma safe_text: "safe (Txt (esc s))"
  by (simp add: safe.simps no_lt)

lemma lex_text: "lex_html (esc s) = (Data, map Ch (esc s))"
  by (simp add: lex_html_def lex_data no_lt)

end

locale attr_escaper = text_escaper +
  assumes no_dquote: "CHR 0x22 \<notin> set (esc s)"
begin

lemma safe_value: "safe_attr (At n (esc s)) = name_ok n"
  by (simp add: safe_attr_def no_dquote)

text \<open>
  An escaped value between double quotes: the browser reads the attribute back as the data,
  and goes on after the closing quote as the template meant.
\<close>

lemma lex_quoted:
  "lex_from (ValDq t as n []) (esc s @ dq @ rest) = lex_from (BeforeAttr t (as @ [At n (esc s)])) rest"
  by (simp add: lex_from_append lex_value no_dquote split: prod.splits)

end

end
