(* ===== verification/Browser.thy ===== *)
theory Browser
  imports Html
begin

text \<open>
  What the page scripts share of the browser: the elements that scripts look up by id, session
  storage, the timers, the toasts on screen and the log of HTTP requests, as one record that
  the handlers take and return. Callbacks given to timers are the constructors of
  \<^verbatim>\<open>callback\<close>, one per closure of the sources. Session storage and the timers are interfaces,
  stated as locales and interpreted here: the selectors, the idle tracker, the reconnect logic
  and the job pollers use the lemmas proved inside them. A node has the value of its attribute, in a text or password
  input without line breaks.
\<close>

section \<open>Elements\<close>

datatype content = Markup "html list" | Plain string

record node =
  content :: content
  val :: string
  checked :: bool
  disabled :: bool
  cls :: string
  style_of :: "string \<Rightarrow> string"

fun attr_val :: "string \<Rightarrow> attr list \<Rightarrow> string option" where
  "attr_val n [] = None"
| "attr_val n (At m v # as) = (if m = n then Some (html_decode v) else attr_val n as)"
| "attr_val n (Flag m # as) = (if m = n then Some [] else attr_val n as)"

text \<open>
  The value of a select element: its selected option (the last one, if a template marks
  several), else its first option. An option without a value attribute counts as its text.
\<close>

fun text_of :: "html \<Rightarrow> string" where
  "text_of (Txt s) = html_decode s"
| "text_of (El t as hs) = concat (map text_of hs)"

fun options_of :: "html \<Rightarrow> (string \<times> bool) list" where
  "options_of (Txt s) = []"
| "options_of (El t as hs) =
     (if t = ''option''
      then [(or_none (attr_val ''value'' as) (concat (map text_of hs)), attr_val ''selected'' as \<noteq> None)]
      else concat (map options_of hs))"

definition select_value :: "(string \<times> bool) list \<Rightarrow> string" where
  "select_value os =
     (case filter snd (rev os) of
        (v, _) # _ \<Rightarrow> v
      | [] \<Rightarrow> (case os of [] \<Rightarrow> [] | (v, _) # _ \<Rightarrow> v))"

text \<open>
  The value of a new input element is its attribute; a browser drops the line breaks from the value of
  a text or password input.
\<close>

definition one_line :: "string \<Rightarrow> string" where
  "one_line s = filter (\<lambda>c. c \<noteq> CHR 0x0A \<and> c \<noteq> CHR 0x0D) s"

definition text_input :: "string \<Rightarrow> attr list \<Rightarrow> bool" where
  "text_input t as = (t = ''input'' \<and> attr_val ''type'' as \<in> {None, Some ''text'', Some ''password''})"

definition mk_node :: "string \<Rightarrow> attr list \<Rightarrow> html list \<Rightarrow> node" where
  "mk_node t as hs =
     \<lparr> content = Markup hs,
       val = (if t = ''select'' then select_value (concat (map options_of hs))
              else if text_input t as then one_line (or_none (attr_val ''value'' as) [])
              else or_none (attr_val ''value'' as) []),
       checked = (attr_val ''checked'' as \<noteq> None),
       disabled = (attr_val ''disabled'' as \<noteq> None),
       cls = or_none (attr_val ''class'' as) [],
       style_of = (\<lambda>_. []) \<rparr>"

lemma one_line_id: "CHR 0x0A \<notin> set s \<Longrightarrow> CHR 0x0D \<notin> set s \<Longrightarrow> one_line s = s"
  by (auto simp: one_line_def filter_id_conv)

lemma one_line_simps [simp]: "one_line [] = []" "one_line (one_line s) = one_line s"
  by (simp_all add: one_line_def)

lemma text_input_eval [simp]:
  "t \<noteq> ''input'' \<Longrightarrow> text_input t as = False"
  "text_input ''input'' as = (attr_val ''type'' as \<in> {None, Some ''text'', Some ''password''})"
  by (simp_all add: text_input_def)

text \<open>The elements of a fragment that carry an id, in document order.\<close>

fun nodes_of :: "html \<Rightarrow> (string \<times> node) list" where
  "nodes_of (Txt s) = []"
| "nodes_of (El t as hs) =
     (case attr_val ''id'' as of None \<Rightarrow> [] | Some i \<Rightarrow> [(i, mk_node t as hs)])
     @ concat (map nodes_of hs)"

definition nodes_of_list :: "html list \<Rightarrow> (string \<times> node) list" where
  "nodes_of_list hs = concat (map nodes_of hs)"

section \<open>Requests\<close>

datatype json =
  JNull | JBool bool | JInt int | JStr string | JArr "json list" | JObj "(string \<times> json) list"

record request =
  rq_method :: string
  rq_path :: string
  rq_session :: string
  rq_body :: "json option"

definition get_rq :: "string \<Rightarrow> request" where
  "get_rq p = \<lparr>rq_method = ''GET'', rq_path = p, rq_session = [], rq_body = None\<rparr>"

definition post_rq :: "string \<Rightarrow> json option \<Rightarrow> request" where
  "post_rq p d = \<lparr>rq_method = ''POST'', rq_path = p, rq_session = [], rq_body = d\<rparr>"

definition delete_rq :: "string \<Rightarrow> request" where
  "delete_rq p = \<lparr>rq_method = ''DELETE'', rq_path = p, rq_session = [], rq_body = None\<rparr>"

section \<open>Timers\<close>

datatype callback =
    IdleExpire
  | ToastFade nat
  | ToastRemove nat
  | Reconnect
  | BackupPoll
  | VacuumPoll
  | DbioPoll
  | RepackRefresh
  | RepackLoadOnce
  | VacuumLoadOnce
  | TunerRestarted
  | TunerReanalyze
  | ConfigReloaded
  | ConfigFocus
  | LocksReload
  | PgbReload

record timer =
  tid :: nat
  repeating :: bool
  delay :: nat
  action :: callback

record toast =
  toast_key :: nat
  toast_msg :: string
  toast_kind :: string
  faded :: bool

text \<open>
  What the user does at the two dialogs, as inputs that the browser consumes: at the login dialog
  a submitted password (with the server's reply to it), the cancel button, or a key; at a
  confirmation the answer. When the inputs run out, the dialog stays open.
\<close>

datatype login_reply =
    LoginNetworkError
  | LoginBadJson
  | LoginRejected string
  | LoginAccepted "string option"

datatype login_event =
    SubmitClick string login_reply
  | EnterKey string login_reply
  | OtherKey
  | EscapeKey
  | CancelClick

record browser =
  dom :: "string \<rightharpoonup> node"
  session :: "string \<rightharpoonup> string"
  next_id :: nat
  timers :: "timer list"
  toasts :: "toast list"
  idle_timer :: "nat option"
  sent :: "request list"
  login_inputs :: "login_event list"
  confirm_inputs :: "bool list"
  downloads :: "string list"
  confirm_log :: "html list list"

definition set_timer :: "bool \<Rightarrow> nat \<Rightarrow> callback \<Rightarrow> browser \<Rightarrow> nat \<times> browser" where
  "set_timer r d a b =
     (next_id b,
      b\<lparr>timers := timers b @ [\<lparr>tid = next_id b, repeating = r, delay = d, action = a\<rparr>],
        next_id := Suc (next_id b)\<rparr>)"

abbreviation set_timeout :: "nat \<Rightarrow> callback \<Rightarrow> browser \<Rightarrow> nat \<times> browser" where
  "set_timeout \<equiv> set_timer False"

abbreviation set_interval :: "nat \<Rightarrow> callback \<Rightarrow> browser \<Rightarrow> nat \<times> browser" where
  "set_interval \<equiv> set_timer True"

definition clear_timer :: "nat \<Rightarrow> browser \<Rightarrow> browser" where
  "clear_timer i b = b\<lparr>timers := filter (\<lambda>t. tid t \<noteq> i) (timers b)\<rparr>"

definition timers_ok :: "browser \<Rightarrow> bool" where
  "timers_ok b = (distinct (map tid (timers b)) \<and> (\<forall>t \<in> set (timers b). tid t < next_id b))"

text \<open>
  The slot discipline: a script keeps the id of its timer in a field; the live timers that run
  its callback are exactly the one in the field.
\<close>

definition slot_inv :: "callback \<Rightarrow> nat option \<Rightarrow> timer list \<Rightarrow> bool" where
  "slot_inv a s ts =
     (map tid (filter (\<lambda>t. action t = a) ts) = (case s of None \<Rightarrow> [] | Some i \<Rightarrow> [i]))"

lemma slot_inv_SomeD:
  assumes "slot_inv a (Some i) ts"
  shows "\<exists>t \<in> set ts. action t = a \<and> tid t = i" "t \<in> set ts \<Longrightarrow> action t = a \<Longrightarrow> tid t = i"
proof -
  from assms have eq: "map tid (filter (\<lambda>t. action t = a) ts) = [i]"
    by (simp add: slot_inv_def)
  have "set (map tid (filter (\<lambda>t. action t = a) ts)) = {i}"
    unfolding eq by simp
  then have image: "tid ` {t \<in> set ts. action t = a} = {i}"
    by simp
  from image show "\<exists>t \<in> set ts. action t = a \<and> tid t = i" by blast
  from image show "t \<in> set ts \<Longrightarrow> action t = a \<Longrightarrow> tid t = i" by blast
qed

lemma slot_inv_None: "slot_inv a None ts \<longleftrightarrow> (\<forall>t \<in> set ts. action t \<noteq> a)"
  by (auto simp: slot_inv_def filter_empty_conv)

definition slot_le :: "callback \<Rightarrow> nat option \<Rightarrow> timer list \<Rightarrow> bool" where
  "slot_le a s ts = (\<forall>t \<in> set ts. action t = a \<longrightarrow> s = Some (tid t))"

lemma slot_inv_le: "slot_inv a s ts \<Longrightarrow> slot_le a s ts"
  by (cases s) (auto simp: slot_le_def slot_inv_None dest: slot_inv_SomeD(2))

lemma slot_le_None: "slot_le a None ts = slot_inv a None ts"
  by (auto simp: slot_le_def slot_inv_None)

lemma slot_le_subset: "set ts' \<subseteq> set ts \<Longrightarrow> slot_le a s ts \<Longrightarrow> slot_le a s ts'"
  by (auto simp: slot_le_def)

definition clear_slot :: "nat option \<Rightarrow> browser \<Rightarrow> browser" where
  "clear_slot s b = (case s of None \<Rightarrow> b | Some i \<Rightarrow> clear_timer i b)"

locale timer_service =
  fixes start :: "bool \<Rightarrow> nat \<Rightarrow> callback \<Rightarrow> 'b \<Rightarrow> nat \<times> 'b"
    and clear :: "nat \<Rightarrow> 'b \<Rightarrow> 'b"
    and live :: "'b \<Rightarrow> timer list"
    and ok :: "'b \<Rightarrow> bool"
  assumes ok_distinct: "ok b \<Longrightarrow> distinct (map tid (live b))"
    and start_fresh: "ok b \<Longrightarrow> fst (start r d a b) \<notin> tid ` set (live b)"
    and live_start:
      "live (snd (start r d a b)) =
         live b @ [\<lparr>tid = fst (start r d a b), repeating = r, delay = d, action = a\<rparr>]"
    and ok_start: "ok b \<Longrightarrow> ok (snd (start r d a b))"
    and live_clear: "live (clear i b) = filter (\<lambda>t. tid t \<noteq> i) (live b)"
    and ok_clear: "ok b \<Longrightarrow> ok (clear i b)"
begin

lemma clear_slot_inv: "slot_le a (Some i) (live b) \<Longrightarrow> slot_inv a None (live (clear i b))"
  by (auto simp: slot_inv_None live_clear slot_le_def)

lemma start_slot_inv:
  "slot_inv a None (live b) \<Longrightarrow> slot_inv a (Some (fst (start r d a b))) (live (snd (start r d a b)))"
  by (simp add: slot_inv_def live_start)

lemma start_other_slot: "a' \<noteq> a \<Longrightarrow> slot_inv a' s (live b) \<Longrightarrow> slot_inv a' s (live (snd (start r d a b)))"
  by (auto simp: slot_inv_def live_start)

lemma clear_other_slot:
  assumes "ok b" "slot_inv a (Some i) (live b)" "slot_inv a' s (live b)" "a' \<noteq> a"
  shows "slot_inv a' s (live (clear i b))"
proof -
  from assms(2) obtain t where t: "t \<in> set (live b)" "tid t = i" "action t = a"
    using slot_inv_SomeD(1) by blast
  have "tid u \<noteq> i" if "u \<in> set (live b)" "action u = a'" for u
    using ok_distinct [OF assms(1)] t that assms(4) by (auto simp: distinct_map inj_on_def)
  then have "filter (\<lambda>u. action u = a') (live (clear i b)) = filter (\<lambda>u. action u = a') (live b)"
    by (auto simp: live_clear intro!: filter_cong)
  with assms(3) show ?thesis by (simp add: slot_inv_def)
qed

text \<open>Replacing the timer of a slot: one live timer for the callback before, one after.\<close>

lemma restart_slot_inv:
  assumes "slot_le a s (live b)"
    and "b' = (case s of None \<Rightarrow> b | Some i \<Rightarrow> clear i b)"
  shows "slot_inv a (Some (fst (start r d a b'))) (live (snd (start r d a b')))"
  using assms by (cases s) (auto intro: start_slot_inv clear_slot_inv simp: slot_le_None)

end

interpretation tm: timer_service set_timer clear_timer timers timers_ok
  by unfold_locales
    (auto simp: set_timer_def clear_timer_def timers_ok_def distinct_map intro: inj_on_subset)

lemma clear_slot_None: "slot_le a s (timers b) \<Longrightarrow> slot_inv a None (timers (clear_slot s b))"
  by (cases s) (auto simp: clear_slot_def tm.clear_slot_inv slot_le_None)

lemma clear_slot_ok: "timers_ok b \<Longrightarrow> timers_ok (clear_slot s b)"
  by (cases s) (auto simp: clear_slot_def tm.ok_clear)

lemma restart_slot:
  "slot_le a s (timers b) \<Longrightarrow>
   slot_inv a (Some (fst (set_timer r d a (clear_slot s b)))) (timers (snd (set_timer r d a (clear_slot s b))))"
  by (rule tm.restart_slot_inv) (simp_all add: clear_slot_def)

section \<open>Session storage\<close>

definition get_item :: "string \<Rightarrow> browser \<Rightarrow> string" where
  "get_item k b = or_none (session b k) []"

definition set_item :: "string \<Rightarrow> string \<Rightarrow> browser \<Rightarrow> browser" where
  "set_item k v b = b\<lparr>session := (session b)(k \<mapsto> v)\<rparr>"

definition remove_item :: "string \<Rightarrow> browser \<Rightarrow> browser" where
  "remove_item k b = b\<lparr>session := (session b)(k := None)\<rparr>"

locale key_value_store =
  fixes get :: "string \<Rightarrow> 'b \<Rightarrow> string"
    and put :: "string \<Rightarrow> string \<Rightarrow> 'b \<Rightarrow> 'b"
    and del :: "string \<Rightarrow> 'b \<Rightarrow> 'b"
  assumes get_put: "get k (put k' v b) = (if k' = k then v else get k b)"
    and get_del: "get k (del k' b) = (if k' = k then [] else get k b)"
begin

text \<open>
  A selection with a default: read the slot, and when it is empty store the default. The slot
  then holds what was returned, other slots keep their value, and asking again changes nothing.
\<close>

lemma ensure_get:
  assumes "d \<noteq> []"
    and "b' = (if get k b = [] then put k d b else b)"
  shows "get k b' = or_str (get k b) d" "get k b' \<noteq> []" "k' \<noteq> k \<Longrightarrow> get k' b' = get k' b"
  using assms by (auto simp: get_put or_str_def)

end

interpretation ss: key_value_store get_item set_item remove_item
  by unfold_locales (simp_all add: get_item_def set_item_def remove_item_def)

section \<open>Writing to elements\<close>

definition element :: "string \<Rightarrow> browser \<Rightarrow> bool" where
  "element i b = (dom b i \<noteq> None)"

definition upd_node :: "string \<Rightarrow> (node \<Rightarrow> node) \<Rightarrow> browser \<Rightarrow> browser" where
  "upd_node i f b = b\<lparr>dom := (dom b)(i := map_option f (dom b i))\<rparr>"

text \<open>
  \<^verbatim>\<open>el.innerHTML = ...\<close>: the elements of the old fragment leave the document, those of the
  new one enter it with the state their attributes give them.
\<close>

definition drop_ids :: "content \<Rightarrow> (string \<rightharpoonup> node) \<Rightarrow> (string \<rightharpoonup> node)" where
  "drop_ids c d =
     (case c of
        Markup hs \<Rightarrow> (\<lambda>j. if j \<in> fst ` set (nodes_of_list hs) then None else d j)
      | Plain _ \<Rightarrow> d)"

definition set_inner :: "string \<Rightarrow> html list \<Rightarrow> browser \<Rightarrow> browser" where
  "set_inner i hs b =
     (case dom b i of
        None \<Rightarrow> b
      | Some n \<Rightarrow>
          b\<lparr>dom := ((drop_ids (content n) (dom b))(i \<mapsto> n\<lparr>content := Markup hs\<rparr>))
                     ++ map_of (nodes_of_list hs)\<rparr>)"

definition set_text :: "string \<Rightarrow> string \<Rightarrow> browser \<Rightarrow> browser" where
  "set_text i s b =
     (case dom b i of
        None \<Rightarrow> b
      | Some n \<Rightarrow> b\<lparr>dom := (drop_ids (content n) (dom b))(i \<mapsto> n\<lparr>content := Plain s\<rparr>)\<rparr>)"

definition set_val :: "string \<Rightarrow> string \<Rightarrow> browser \<Rightarrow> browser" where
  "set_val i v = upd_node i (\<lambda>n. n\<lparr>val := v\<rparr>)"

definition set_checked :: "string \<Rightarrow> bool \<Rightarrow> browser \<Rightarrow> browser" where
  "set_checked i v = upd_node i (\<lambda>n. n\<lparr>checked := v\<rparr>)"

definition set_disabled :: "string \<Rightarrow> bool \<Rightarrow> browser \<Rightarrow> browser" where
  "set_disabled i v = upd_node i (\<lambda>n. n\<lparr>disabled := v\<rparr>)"

definition set_class :: "string \<Rightarrow> string \<Rightarrow> browser \<Rightarrow> browser" where
  "set_class i c = upd_node i (\<lambda>n. n\<lparr>cls := c\<rparr>)"

definition set_style :: "string \<Rightarrow> string \<Rightarrow> string \<Rightarrow> browser \<Rightarrow> browser" where
  "set_style i p v = upd_node i (\<lambda>n. n\<lparr>style_of := (style_of n)(p := v)\<rparr>)"

text \<open>
  \<^verbatim>\<open>document.getElementById(i)?.value\<close> and \<^verbatim>\<open>?.checked\<close>: an absent element reads as
  undefined, which the sources use as a falsy value.
\<close>

definition value_of :: "string \<Rightarrow> browser \<Rightarrow> string" where
  "value_of i b = (case dom b i of None \<Rightarrow> [] | Some n \<Rightarrow> val n)"

definition is_checked :: "string \<Rightarrow> browser \<Rightarrow> bool" where
  "is_checked i b = (case dom b i of None \<Rightarrow> False | Some n \<Rightarrow> checked n)"

definition inner :: "string \<Rightarrow> browser \<Rightarrow> html list" where
  "inner i b = (case dom b i of Some n \<Rightarrow> (case content n of Markup hs \<Rightarrow> hs | Plain _ \<Rightarrow> []) | None \<Rightarrow> [])"

section \<open>Frames\<close>

lemma set_timer_frame [simp, browser_simps]:
  "dom (snd (set_timer r d a b)) = dom b" "session (snd (set_timer r d a b)) = session b"
  "toasts (snd (set_timer r d a b)) = toasts b" "sent (snd (set_timer r d a b)) = sent b"
  "idle_timer (snd (set_timer r d a b)) = idle_timer b"
  "login_inputs (snd (set_timer r d a b)) = login_inputs b" "confirm_inputs (snd (set_timer r d a b)) = confirm_inputs b" "downloads (snd (set_timer r d a b)) = downloads b" "confirm_log (snd (set_timer r d a b)) = confirm_log b"
  by (simp_all add: set_timer_def)

lemma clear_slot_frame [simp, browser_simps]:
  "dom (clear_slot s b) = dom b" "session (clear_slot s b) = session b"
  "toasts (clear_slot s b) = toasts b" "sent (clear_slot s b) = sent b"
  "idle_timer (clear_slot s b) = idle_timer b" "next_id (clear_slot s b) = next_id b"
  "login_inputs (clear_slot s b) = login_inputs b" "confirm_inputs (clear_slot s b) = confirm_inputs b" "downloads (clear_slot s b) = downloads b" "confirm_log (clear_slot s b) = confirm_log b"
  by (simp_all add: clear_slot_def clear_timer_def split: option.splits)

lemma storage_frame [simp, browser_simps]:
  "dom (set_item k v b) = dom b" "timers (set_item k v b) = timers b"
  "toasts (set_item k v b) = toasts b" "sent (set_item k v b) = sent b"
  "next_id (set_item k v b) = next_id b" "idle_timer (set_item k v b) = idle_timer b"
  "dom (remove_item k b) = dom b" "timers (remove_item k b) = timers b"
  "toasts (remove_item k b) = toasts b" "sent (remove_item k b) = sent b"
  "next_id (remove_item k b) = next_id b" "idle_timer (remove_item k b) = idle_timer b"
  "login_inputs (set_item k v b) = login_inputs b" "confirm_inputs (set_item k v b) = confirm_inputs b" "downloads (set_item k v b) = downloads b" "confirm_log (set_item k v b) = confirm_log b"
  "login_inputs (remove_item k b) = login_inputs b" "confirm_inputs (remove_item k b) = confirm_inputs b" "downloads (remove_item k b) = downloads b" "confirm_log (remove_item k b) = confirm_log b"
  by (simp_all add: set_item_def remove_item_def)

lemma upd_node_frame [simp, browser_simps]:
  "session (upd_node i f b) = session b" "timers (upd_node i f b) = timers b"
  "toasts (upd_node i f b) = toasts b" "sent (upd_node i f b) = sent b"
  "next_id (upd_node i f b) = next_id b" "idle_timer (upd_node i f b) = idle_timer b"
  "login_inputs (upd_node i f b) = login_inputs b" "confirm_inputs (upd_node i f b) = confirm_inputs b" "downloads (upd_node i f b) = downloads b" "confirm_log (upd_node i f b) = confirm_log b"
  by (simp_all add: upd_node_def)

lemma set_inner_frame [simp, browser_simps]:
  "session (set_inner i hs b) = session b" "timers (set_inner i hs b) = timers b"
  "toasts (set_inner i hs b) = toasts b" "sent (set_inner i hs b) = sent b"
  "next_id (set_inner i hs b) = next_id b" "idle_timer (set_inner i hs b) = idle_timer b"
  "session (set_text i s b) = session b" "timers (set_text i s b) = timers b"
  "toasts (set_text i s b) = toasts b" "sent (set_text i s b) = sent b"
  "next_id (set_text i s b) = next_id b" "idle_timer (set_text i s b) = idle_timer b"
  "login_inputs (set_inner i hs b) = login_inputs b" "confirm_inputs (set_inner i hs b) = confirm_inputs b" "downloads (set_inner i hs b) = downloads b" "confirm_log (set_inner i hs b) = confirm_log b"
  "login_inputs (set_text i s b) = login_inputs b" "confirm_inputs (set_text i s b) = confirm_inputs b" "downloads (set_text i s b) = downloads b" "confirm_log (set_text i s b) = confirm_log b"
  by (simp_all add: set_inner_def set_text_def split: option.splits)

lemmas node_setters = set_val_def set_checked_def set_disabled_def set_class_def set_style_def

lemma set_inner_content:
  "element i b \<Longrightarrow> i \<notin> fst ` set (nodes_of_list hs) \<Longrightarrow>
   element i (set_inner i hs b) \<and> inner i (set_inner i hs b) = hs"
  by (auto simp: element_def inner_def set_inner_def map_add_def dest!: map_of_SomeD
      split: option.splits) (metis fst_conv image_eqI)

lemma inner_lookup:
  "element i b \<Longrightarrow> map_of (nodes_of_list hs) j = Some n \<Longrightarrow> dom (set_inner i hs b) j = Some n"
  by (auto simp: element_def set_inner_def map_add_def)

lemma timers_ok_cong: "timers b' = timers b \<Longrightarrow> next_id b' = next_id b \<Longrightarrow> timers_ok b' = timers_ok b"
  by (simp add: timers_ok_def)

lemma get_item_frame [simp, browser_simps]:
  "get_item k (set_inner i hs b) = get_item k b" "get_item k (upd_node i f b) = get_item k b"
  "get_item k (set_text i s b) = get_item k b" "get_item k (snd (set_timer r d a b)) = get_item k b"
  "get_item k (clear_slot sl b) = get_item k b"
  by (simp_all add: get_item_def)

section \<open>Toasts\<close>

text \<open>
  \<^verbatim>\<open>showToast\<close>, app.js: nothing without the container; else the toast enters it and fades
  after 3.5 s, and is removed 0.3 s later.
\<close>

definition showToast :: "string \<Rightarrow> string \<Rightarrow> browser \<Rightarrow> browser" where
  "showToast msg kind b =
     (if \<not> element ''toast-container'' b then b
      else (let k = next_id b;
                b1 = b\<lparr>toasts := toasts b @ [\<lparr>toast_key = k, toast_msg = msg, toast_kind = kind, faded = False\<rparr>]\<rparr>
            in snd (set_timeout 3500 (ToastFade k) b1)))"

definition toast_fade :: "nat \<Rightarrow> browser \<Rightarrow> browser" where
  "toast_fade k b =
     snd (set_timeout 300 (ToastRemove k)
       (b\<lparr>toasts := map (\<lambda>t. if toast_key t = k then t\<lparr>faded := True\<rparr> else t) (toasts b)\<rparr>))"

definition toast_remove :: "nat \<Rightarrow> browser \<Rightarrow> browser" where
  "toast_remove k b = b\<lparr>toasts := filter (\<lambda>t. toast_key t \<noteq> k) (toasts b)\<rparr>"

lemma showToast_frame [simp, browser_simps]:
  "dom (showToast m k b) = dom b" "session (showToast m k b) = session b"
  "sent (showToast m k b) = sent b" "idle_timer (showToast m k b) = idle_timer b"
  "get_item key (showToast m k b) = get_item key b"
  "login_inputs (showToast m k b) = login_inputs b" "confirm_inputs (showToast m k b) = confirm_inputs b" "downloads (showToast m k b) = downloads b" "confirm_log (showToast m k b) = confirm_log b"
  by (simp_all add: showToast_def Let_def get_item_def)

lemma showToast_ok: "timers_ok b \<Longrightarrow> timers_ok (showToast m k b)"
proof -
  assume ok: "timers_ok b"
  have "timers_ok (b\<lparr>toasts := ts\<rparr>)" for ts
    using ok by (simp add: timers_ok_def)
  then show ?thesis using ok by (simp add: showToast_def Let_def tm.ok_start)
qed

lemma showToast_slot:
  "(\<And>n. a \<noteq> ToastFade n) \<Longrightarrow> slot_inv a s (timers b) \<Longrightarrow> slot_inv a s (timers (showToast m k b))"
  by (auto simp: showToast_def Let_def slot_inv_def set_timer_def)

end
