(* ===== verification/Format.thy ===== *)
theory Format
  imports Browser
begin

text \<open>
  The formatting helpers of app.js: byte counts, ages, durations, counters, HTML escaping, the
  job summary card. Instants are milliseconds since the epoch; \<^verbatim>\<open>now\<close> stands for
  \<^verbatim>\<open>Date.now()\<close>, and a timestamp field of a reply holds the instant it denotes.
\<close>

section \<open>formatBytes\<close>

text \<open>
  \<^verbatim>\<open>Math.floor(Math.log(b) / Math.log(1024))\<close> in exact arithmetic: the exponent of the largest
  power of 1024 that is at most \<^verbatim>\<open>b\<close>, negative for \<^verbatim>\<open>b < 1\<close>.
\<close>

fun log1024_nat :: "nat \<Rightarrow> nat" where
  "log1024_nat n = (if n < 1024 then 0 else Suc (log1024_nat (n div 1024)))"

fun clog1024_nat :: "nat \<Rightarrow> nat" where
  "clog1024_nat n = (if n \<le> 1 then 0 else Suc (clog1024_nat ((n + 1023) div 1024)))"

declare log1024_nat.simps [simp del] clog1024_nat.simps [simp del]

definition log1024 :: "rat \<Rightarrow> int" where
  "log1024 b =
     (if 1 \<le> b then int (log1024_nat (nat \<lfloor>b\<rfloor>)) else - int (clog1024_nat (nat \<lceil>1 / b\<rceil>)))"

definition byte_units :: "string list" where
  "byte_units = [''B'', ''KB'', ''MB'', ''GB'', ''TB'']"

text \<open>\<^verbatim>\<open>s[i]\<close>: an index outside the array is undefined, which prints as such.\<close>

definition byte_unit :: "int \<Rightarrow> string" where
  "byte_unit i = (if 0 \<le> i \<and> i < 5 then byte_units ! nat i else ''undefined'')"

definition scale1024 :: "rat \<Rightarrow> int \<Rightarrow> rat" where
  "scale1024 b i = (if 0 \<le> i then b / 1024 ^ nat i else b * 1024 ^ nat (- i))"

definition formatBytes :: "rat \<Rightarrow> string" where
  "formatBytes b =
     (if b = 0 then ''0 B''
      else if b < 0 then ''NaN undefined''
      else (let i = log1024 b
            in str_of_tenths (nat (round_half_up (scale1024 b i * 10))) @ '' '' @ byte_unit i))"

lemma log1024_nat_bounds: "0 < n \<Longrightarrow> 1024 ^ log1024_nat n \<le> n \<and> n < 1024 ^ Suc (log1024_nat n)"
proof (induction n rule: log1024_nat.induct)
  case (1 n)
  show ?case
  proof (cases "n < 1024")
    case True
    with "1.prems" show ?thesis by (simp add: log1024_nat.simps [of n])
  next
    case False
    then have pos: "0 < n div 1024" by simp
    have "1024 ^ log1024_nat (n div 1024) \<le> n div 1024 \<and> n div 1024 < 1024 ^ Suc (log1024_nat (n div 1024))"
      using "1.IH" [OF False pos] .
    then have "1024 * 1024 ^ log1024_nat (n div 1024) \<le> n"
      and "n < 1024 * 1024 ^ Suc (log1024_nat (n div 1024))"
      by (auto simp: less_eq_div_iff_mult_less_eq div_less_iff_less_mult mult.commute)
    with False show ?thesis by (simp add: log1024_nat.simps [of n])
  qed
qed

lemma log1024_ge_1:
  assumes "1 \<le> b"
  shows "\<exists>e. log1024 b = int e \<and> 1024 ^ e \<le> b \<and> b < 1024 ^ Suc e"
proof -
  define n where "n = nat \<lfloor>b\<rfloor>"
  have "1 \<le> \<lfloor>b\<rfloor>" using assms by linarith
  then have n: "0 < n" "of_nat n \<le> b" "b < of_nat (Suc n)"
    using of_int_floor_le [of b] floor_correct [of b] by (auto simp: n_def)
  have "log1024 b = int (log1024_nat n)"
    using assms by (simp add: log1024_def n_def)
  moreover have "(1024::rat) ^ log1024_nat n \<le> b"
  proof -
    have "of_nat (1024 ^ log1024_nat n) \<le> (of_nat n :: rat)"
      using log1024_nat_bounds [OF n(1)] by (simp only: of_nat_le_iff)
    with n(2) have "of_nat (1024 ^ log1024_nat n) \<le> b" by (rule order_trans [rotated])
    then show ?thesis by (simp only: of_nat_power of_nat_numeral)
  qed
  moreover have "b < (1024::rat) ^ Suc (log1024_nat n)"
  proof -
    have "of_nat (Suc n) \<le> (of_nat (1024 ^ Suc (log1024_nat n)) :: rat)"
      using log1024_nat_bounds [OF n(1)] by (simp only: of_nat_le_iff Suc_le_eq)
    with n(3) have "b < of_nat (1024 ^ Suc (log1024_nat n))" by (rule order_less_le_trans)
    then show ?thesis by (simp only: of_nat_power of_nat_numeral)
  qed
  ultimately show ?thesis by blast
qed

lemma clog1024_nat_pos: "1 < n \<Longrightarrow> 0 < clog1024_nat n"
  by (simp add: clog1024_nat.simps [of n])

lemma log1024_below_1: "0 < b \<Longrightarrow> b < 1 \<Longrightarrow> log1024 b < 0"
proof -
  assume b: "0 < b" "b < 1"
  then have "1 < 1 / b" by simp
  then have "1 < \<lceil>1 / b\<rceil>" by linarith
  then have "1 < nat \<lceil>1 / b\<rceil>" by simp
  then have "0 < clog1024_nat (nat \<lceil>1 / b\<rceil>)" by (rule clog1024_nat_pos)
  with b show ?thesis by (simp add: log1024_def)
qed

text \<open>The exponent is determined by the interval: no two powers fit.\<close>

lemma log1024_ge_pow: "1024 ^ k \<le> b \<Longrightarrow> int k \<le> log1024 b"
proof -
  assume k: "1024 ^ k \<le> b"
  have "(1::rat) \<le> 1024 ^ k" by simp
  with k have b: "1 \<le> b" by linarith
  then obtain e where e: "log1024 b = int e" "b < 1024 ^ Suc e"
    using log1024_ge_1 by blast
  from k e(2) have "(1024::rat) ^ k < 1024 ^ Suc e" by linarith
  then have "k < Suc e" by (rule power_less_imp_less_exp [rotated]) simp
  with e show ?thesis by simp
qed

section \<open>Ages, durations, counters\<close>

definition timeAgo :: "int \<Rightarrow> int \<Rightarrow> string" where
  "timeAgo now d =
     (let s = (now - d) div 1000 in
      if s < 60 then str_of_int s @ ''s ago''
      else (let m = s div 60 in
        if m < 60 then str_of_int m @ ''m ago''
        else (let h = m div 60 in
          if h < 24 then str_of_int h @ ''h ago''
          else str_of_int (h div 24) @ ''d ago'')))"

definition formatDuration :: "rat \<Rightarrow> string" where
  "formatDuration ms =
     (if ms = 0 \<or> ms < 0 then ''-''
      else (let s = \<lfloor>ms / 1000\<rfloor> in
        if s < 60 then str_of_int s @ ''s''
        else (let m = s div 60 in
          if m < 60 then str_of_int m @ ''m '' @ str_of_int (s mod 60) @ ''s''
          else (let h = m div 60 in
            str_of_int h @ ''h '' @ str_of_int (m mod 60) @ ''m''))))"

text \<open>
  \<^verbatim>\<open>ns\<close> is Number's decimal printing, which matters below 1000 only; for counters it prints the
  integer. \<^verbatim>\<open>None\<close> is null or undefined.
\<close>

definition fmtNum :: "(rat \<Rightarrow> string) \<Rightarrow> rat option \<Rightarrow> string" where
  "fmtNum ns n =
     (case n of
        None \<Rightarrow> ''0''
      | Some x \<Rightarrow>
          if 1000000000 \<le> x then to_fixed 1 (x / 1000000000) @ ''B''
          else if 1000000 \<le> x then to_fixed 1 (x / 1000000) @ ''M''
          else if 1000 \<le> x then to_fixed 1 (x / 1000) @ ''K''
          else ns x)"

definition int_str :: "rat \<Rightarrow> string" where
  "int_str x = str_of_int \<lfloor>x\<rfloor>"

abbreviation fmt_count :: "int \<Rightarrow> string" where
  "fmt_count n \<equiv> fmtNum int_str (Some (of_int n))"

text \<open>Texts without any character that matters to the tokenizer or the decoder.\<close>

definition plain_char :: "char \<Rightarrow> bool" where
  "plain_char c = (c \<noteq> CHR ''<'' \<and> c \<noteq> CHR 0x22 \<and> c \<noteq> CHR ''&'')"

definition plain_str :: "string \<Rightarrow> bool" where
  "plain_str s = list_all plain_char s"

lemma plain_str_simps [simp]:
  "plain_str []" "plain_str (c # s) = (plain_char c \<and> plain_str s)"
  "plain_str (s @ t) = (plain_str s \<and> plain_str t)"
  by (simp_all add: plain_str_def)

lemma plain_str_if [simp]: "plain_str (if b then s else t) = (if b then plain_str s else plain_str t)"
  by simp

lemma plain_digit: "is_digit c \<Longrightarrow> plain_char c"
  by (auto simp: plain_char_def is_digit_def)

lemma plain_number_texts [simp]:
  "plain_str (str_of_int i)" "plain_str (str_of_nat n)" "plain_str (to_fixed f x)"
  "plain_str (str_of_tenths n)"
  unfolding plain_str_def list_all_iff
  by (auto dest!: str_of_int_chars str_of_nat_digits to_fixed_chars str_of_tenths_chars
      simp: plain_digit) (simp_all add: plain_char_def)

lemma plain_timeAgo [simp]: "plain_str (timeAgo now d)"
  by (simp add: timeAgo_def Let_def plain_char_def)

lemma plain_formatDuration [simp]: "plain_str (formatDuration ms)"
  by (simp add: formatDuration_def Let_def plain_char_def)

lemma plain_fmtNum: "(\<And>x. plain_str (ns x)) \<Longrightarrow> plain_str (fmtNum ns n)"
  by (simp add: fmtNum_def plain_char_def split: option.splits)

lemma plain_fmt_count [simp]: "plain_str (fmt_count n)"
  by (rule plain_fmtNum) (simp add: int_str_def)

lemma plain_formatBytes [simp]: "plain_str (formatBytes b)"
proof -
  have "plain_str (byte_unit i)" for i
    by (auto simp: byte_unit_def byte_units_def nth_Cons plain_char_def split: nat.splits)
  then show ?thesis by (simp add: formatBytes_def Let_def plain_char_def)
qed

lemma plain_strD: "plain_str s \<Longrightarrow> CHR ''<'' \<notin> set s \<and> CHR 0x22 \<notin> set s"
  by (auto simp: plain_str_def list_all_iff plain_char_def)

lemmas number_texts_safe [simp, markup_safe] =
  plain_number_texts [THEN plain_strD] plain_timeAgo [THEN plain_strD]
  plain_formatDuration [THEN plain_strD] plain_fmt_count [THEN plain_strD]
  plain_formatBytes [THEN plain_strD]

section \<open>escHtml\<close>

definition escHtml :: "string \<Rightarrow> string" where
  "escHtml s =
     (if s = [] then []
      else replace_all CHR 0x22 ''&quot;''
             (replace_all CHR ''>'' ''&gt;''
               (replace_all CHR ''<'' ''&lt;'' (replace_all CHR ''&'' ''&amp;'' s))))"

definition esc_char :: "char \<Rightarrow> string" where
  "esc_char c =
     (if c = CHR ''&'' then ''&amp;'' else if c = CHR ''<'' then ''&lt;''
      else if c = CHR ''>'' then ''&gt;'' else if c = CHR 0x22 then ''&quot;'' else [c])"

lemma escHtml_concat: "escHtml s = concat (map esc_char s)"
proof (induction s)
  case Nil
  then show ?case by (simp add: escHtml_def)
next
  case (Cons c s)
  have "escHtml (c # s) = esc_char c @ escHtml s"
    by (cases "s = []") (auto simp: escHtml_def esc_char_def replace_all_Cons)
  with Cons show ?case by simp
qed

lemma decode_esc_char: "html_decode (esc_char c @ s) = c # html_decode s"
  by (auto simp: esc_char_def)

lemma esc_char_safe: "CHR ''<'' \<notin> set (esc_char c)" "CHR 0x22 \<notin> set (esc_char c)"
  by (auto simp: esc_char_def)

interpretation eh: attr_escaper escHtml
proof unfold_locales
  fix s
  show "CHR ''<'' \<notin> set (escHtml s)" and "CHR 0x22 \<notin> set (escHtml s)"
    by (auto simp: escHtml_concat esc_char_safe)
  show "html_decode (escHtml s) = s"
    unfolding escHtml_concat by (induction s) (simp_all add: decode_esc_char)
qed

lemmas eh_safe [simp, markup_safe] = eh.no_lt eh.no_dquote

text \<open>
  The escapers written as methods of the page objects, all of them the same text: five
  replacements, a single quote included.
\<close>

definition esc5 :: "string \<Rightarrow> string" where
  "esc5 s =
     replace_all CHR 0x22 ''&quot;''
       (replace_all CHR 0x27 ''&#39;''
         (replace_all CHR ''>'' ''&gt;''
           (replace_all CHR ''<'' ''&lt;'' (replace_all CHR ''&'' ''&amp;'' s))))"

lemma esc5_Nil [simp]: "esc5 [] = []"
  by (simp add: esc5_def)

definition esc5_char :: "char \<Rightarrow> string" where
  "esc5_char c = (if c = CHR 0x27 then ''&#39;'' else esc_char c)"

lemma esc5_concat: "esc5 s = concat (map esc5_char s)"
proof (induction s)
  case (Cons c s)
  have "esc5 (c # s) = esc5_char c @ esc5 s"
    by (auto simp: esc5_def esc5_char_def esc_char_def replace_all_Cons)
  with Cons show ?case by simp
qed simp

lemma decode_esc5_char: "html_decode (esc5_char c @ s) = c # html_decode s"
  by (auto simp: esc5_char_def decode_esc_char)

lemma esc5_char_safe:
  "CHR ''<'' \<notin> set (esc5_char c)" "CHR 0x22 \<notin> set (esc5_char c)" "CHR 0x27 \<notin> set (esc5_char c)"
  by (auto simp: esc5_char_def esc_char_def)

interpretation e5: attr_escaper esc5
proof unfold_locales
  fix s
  show "CHR ''<'' \<notin> set (esc5 s)" and "CHR 0x22 \<notin> set (esc5 s)"
    by (auto simp: esc5_concat esc5_char_safe)
  show "html_decode (esc5 s) = s"
    unfolding esc5_concat by (induction s) (simp_all add: decode_esc5_char)
qed

lemmas e5_safe [simp, markup_safe] = e5.no_lt e5.no_dquote

lemma esc5_no_squote: "CHR 0x27 \<notin> set (esc5 s)"
  by (auto simp: esc5_concat esc5_char_safe)

section \<open>Jobs\<close>

record job =
  job_id :: string
  job_type :: string
  job_status :: string
  job_target :: string
  job_database :: string
  job_message :: string
  job_details :: string
  job_artifact :: string
  job_started :: "int option"
  job_finished :: "int option"

definition jobStatusClass :: "string \<Rightarrow> string" where
  "jobStatusClass status =
     (if status = ''succeeded'' then ''green''
      else if status = ''failed'' then ''red''
      else if status = ''canceled'' then ''yellow''
      else ''accent'')"

definition renderJobSummary :: "int \<Rightarrow> job option \<Rightarrow> bool \<Rightarrow> html list" where
  "renderJobSummary now j showDownload =
     (case j of
        None \<Rightarrow> [El ''span'' [At ''class'' ''mono-xs dim''] [Txt ''no recent job'']]
      | Some job \<Rightarrow>
          (let statusCls = jobStatusClass (job_status job);
               finished = (case job_finished job of None \<Rightarrow> []
                           | Some t \<Rightarrow> '' '' @ u_middot @ '' finished '' @ timeAgo now t);
               detail = (if job_details job = [] then []
                 else [El ''div'' [At ''class'' ''mono-xs dim'', At ''style'' ''margin-top:4px;white-space:pre-wrap''] [Txt (escHtml (job_details job))]]);
               artifact = (if showDownload \<and> job_status job = ''succeeded'' \<and> job_artifact job \<noteq> []
                 then [El ''button'' [At ''class'' ''btn btn-sm'', At ''onclick'' (''JobUI.download('' @ sq @ (job_id job) @ sq @ '')''), At ''style'' ''font-size:9px;margin-left:8px''] [Txt ''download'']] else [])
           in [El ''div'' [At ''class'' ''card'', At ''style'' ''padding:8px 12px'']
      ([El ''div'' [At ''class'' ''flex-between'', At ''style'' ''gap:12px'']
        ([El ''div'' []
          [El ''span'' [At ''class'' (''mono-xs '' @ statusCls)]
           [Txt ((escHtml (job_type job)) @ '' '' @ (escHtml (job_status job)))],
          El ''span'' [At ''class'' ''mono-xs dim'']
           [Txt ((escHtml (or_str (job_message job) (job_target job))) @ finished)]]] @ artifact)] @ detail)]))"

lemmas name_ok_eval = name_ok_def is_alpha_def name_char_def is_space_def

lemma jobStatusClass_plain [simp, markup_safe]: "CHR 0x22 \<notin> set (jobStatusClass s)"
  by (simp add: jobStatusClass_def)

lemma renderJobSummary_safe:
  "(\<And>j. jo = Some j \<Longrightarrow> CHR 0x22 \<notin> set (job_id j)) \<Longrightarrow> safe_list (renderJobSummary now jo d)"
  by (cases jo) (auto simp: renderJobSummary_def Let_def markup_safe name_ok_eval split: option.splits)

section \<open>Properties\<close>

lemma unit_bounds:
  assumes "0 < u" "u \<le> s"
  shows "s div u * u \<le> s" "s < (s div u + 1) * u" "1 \<le> (s::int) div u"
proof -
  have eq: "s = s div u * u + s mod u" by simp
  have "0 \<le> s mod u" "s mod u < u" using assms(1) by simp_all
  with eq show "s div u * u \<le> s" "s < (s div u + 1) * u" unfolding distrib_right by linarith+
  have "u div u \<le> s div u" using assms by (intro zdiv_mono1) simp_all
  with assms(1) show "1 \<le> s div u" by simp
qed

text \<open>
  for every size from one byte up to one pebibyte, \<^verbatim>\<open>formatBytes\<close> prints a number of
  tenths and a unit such that the unit is the largest power of 1024 that is at most the size, and
  the number is the size in that unit to within half a tenth.
\<close>

theorem formatBytes_accurate:
  assumes "1 \<le> b" "b < 1024 ^ 5"
  shows "\<exists>e n. e < 5 \<and> formatBytes b = str_of_tenths n @ '' '' @ byte_units ! e
    \<and> 1024 ^ e \<le> b \<and> b < 1024 ^ Suc e \<and> \<bar>of_nat n / 10 * 1024 ^ e - b\<bar> \<le> 1024 ^ e / 20"
proof -
  obtain e where e: "log1024 b = int e" "1024 ^ e \<le> b" "b < 1024 ^ Suc e"
    using log1024_ge_1 [OF assms(1)] by blast
  from e(2) assms(2) have "(1024::rat) ^ e < 1024 ^ 5" by linarith
  then have e5: "e < 5" by (rule power_less_imp_less_exp [rotated]) simp
  define x where "x = b / 1024 ^ e * 10"
  define n where "n = nat (round_half_up x)"
  have "0 \<le> round_half_up x" using assms(1) by (intro round_half_up_nonneg) (simp add: x_def)
  then have n: "of_nat n = (of_int (round_half_up x) :: rat)" by (simp add: n_def)
  have p: "(0::rat) < 1024 ^ e" by simp
  have err: "\<bar>of_nat n - x\<bar> \<le> 1 / 2" unfolding n by (rule round_half_up_error)
  have "of_nat n / 10 * 1024 ^ e - b = (of_nat n - x) * (1024 ^ e / 10)"
    by (simp add: x_def field_simps)
  then have "\<bar>of_nat n / 10 * 1024 ^ e - b\<bar> = \<bar>of_nat n - x\<bar> * (1024 ^ e / 10)"
    by (simp only: abs_mult) simp
  also have "\<dots> \<le> 1 / 2 * (1024 ^ e / 10)" using err by (intro mult_right_mono) simp_all
  finally have "\<bar>of_nat n / 10 * 1024 ^ e - b\<bar> \<le> 1024 ^ e / 20" by simp
  moreover have "formatBytes b = str_of_tenths n @ '' '' @ byte_units ! e"
    using assms e e5 by (simp add: formatBytes_def byte_unit_def scale1024_def n_def x_def)
  ultimately show ?thesis using e e5 by blast
qed

theorem formatBytes_accurate_witness:
  "\<exists>e n. e < 5 \<and> formatBytes 1536 = str_of_tenths n @ '' '' @ byte_units ! e
    \<and> 1024 ^ e \<le> (1536::rat) \<and> (1536::rat) < 1024 ^ Suc e \<and> \<bar>of_nat n / 10 * 1024 ^ e - (1536::rat)\<bar> \<le> 1024 ^ e / 20"
  by (rule formatBytes_accurate) simp_all

text \<open>
  outside that range the unit is looked up outside the table: a positive size below one
  byte (a rate, for instance), and any size from one pebibyte up, prints \<^verbatim>\<open>undefined\<close> for its unit.
\<close>

theorem formatBytes_no_unit:
  assumes "0 < b" "b < 1 \<or> 1024 ^ 5 \<le> b"
  shows "\<exists>t. formatBytes b = t @ '' undefined''"
proof -
  have "log1024 b < 0 \<or> 5 \<le> log1024 b"
    using assms log1024_below_1 [of b] log1024_ge_pow [of 5 b] by auto
  then have "byte_unit (log1024 b) = ''undefined''" by (auto simp: byte_unit_def)
  with assms(1) show ?thesis by (simp add: formatBytes_def Let_def)
qed

theorem formatBytes_no_unit_witness:
  "(\<exists>t. formatBytes (1 / 2) = t @ '' undefined'') \<and> (\<exists>t. formatBytes (1024 ^ 5) = t @ '' undefined'')"
  using formatBytes_no_unit [of "1 / 2"] formatBytes_no_unit [of "1024 ^ 5"] by simp

definition age_units :: "(string \<times> int \<times> int) list" where
  "age_units = [(''s'', 1, 60), (''m'', 60, 60), (''h'', 3600, 24)]"

lemma timeAgo_cases:
  fixes now d :: int
  defines "s \<equiv> (now - d) div 1000"
  shows "s < 60 \<Longrightarrow> timeAgo now d = str_of_int s @ ''s ago''"
    and "60 \<le> s \<Longrightarrow> s < 3600 \<Longrightarrow> timeAgo now d = str_of_int (s div 60) @ ''m ago''"
    and "3600 \<le> s \<Longrightarrow> s < 86400 \<Longrightarrow> timeAgo now d = str_of_int (s div 3600) @ ''h ago''"
    and "86400 \<le> s \<Longrightarrow> timeAgo now d = str_of_int (s div 86400) @ ''d ago''"
proof -
  have h: "s div 60 div 60 = s div 3600" using zdiv_zmult2_eq [of 60 s 60] by simp
  have dd: "s div 60 div 60 div 24 = s div 86400"
    using zdiv_zmult2_eq [of 60 s 60] zdiv_zmult2_eq [of 24 s 3600] by simp
  show "s < 60 \<Longrightarrow> timeAgo now d = str_of_int s @ ''s ago''"
    unfolding timeAgo_def Let_def s_def [symmetric] by simp
  show "60 \<le> s \<Longrightarrow> s < 3600 \<Longrightarrow> timeAgo now d = str_of_int (s div 60) @ ''m ago''"
  proof -
    assume "60 \<le> s" "s < 3600"
    then have "\<not> s < 60" "s div 60 < 60" by linarith+
    then show ?thesis unfolding timeAgo_def Let_def s_def [symmetric] by simp
  qed
  show "3600 \<le> s \<Longrightarrow> s < 86400 \<Longrightarrow> timeAgo now d = str_of_int (s div 3600) @ ''h ago''"
  proof -
    assume "3600 \<le> s" "s < 86400"
    then have "\<not> s < 60" "\<not> s div 60 < 60" "s div 60 div 60 < 24" by linarith+
    then show ?thesis unfolding timeAgo_def Let_def s_def [symmetric] by (simp add: h)
  qed
  show "86400 \<le> s \<Longrightarrow> timeAgo now d = str_of_int (s div 86400) @ ''d ago''"
  proof -
    assume "86400 \<le> s"
    then have "\<not> s < 60" "\<not> s div 60 < 60" "\<not> s div 60 div 60 < 24" by linarith+
    then show ?thesis unfolding timeAgo_def Let_def s_def [symmetric] by (simp add: dd)
  qed
qed

text \<open>
  the age that \<^verbatim>\<open>timeAgo\<close> prints for a past instant is the elapsed time rounded down to whole units
  of a second, minute, hour or day, the largest unit that fits once, and the number stays below the
  next unit.
\<close>

theorem timeAgo_bounds:
  assumes "d \<le> now"
  shows "\<exists>n u size bound. timeAgo now d = str_of_int n @ u @ '' ago''
    \<and> n * size \<le> (now - d) div 1000 \<and> (now - d) div 1000 < (n + 1) * size
    \<and> ((u, size, bound) \<in> set age_units \<and> n < bound \<and> (u = ''s'' \<or> 1 \<le> n) \<or> (u, size) = (''d'', 86400) \<and> 1 \<le> n)"
proof -
  define s where "s = (now - d) div 1000"
  have s0: "0 \<le> s" using assms by (simp add: s_def)
  note cs = timeAgo_cases [of now d, folded s_def]
  consider "s < 60" | "60 \<le> s" "s < 3600" | "3600 \<le> s" "s < 86400" | "86400 \<le> s" by linarith
  then show ?thesis
  proof cases
    case 1
    then show ?thesis unfolding s_def [symmetric] using cs(1)
      by (intro exI [of _ s] exI [of _ "''s''"] exI [of _ 1] exI [of _ 60]) (simp add: age_units_def)
  next
    case 2
    then have "s div 60 < 60" by linarith
    then show ?thesis unfolding s_def [symmetric] using cs(2) [OF 2] unit_bounds [of 60 s] 2
      by (intro exI [of _ "s div 60"] exI [of _ "''m''"] exI [of _ 60] exI [of _ 60]) (simp add: age_units_def)
  next
    case 3
    then have "s div 3600 < 24" by linarith
    then show ?thesis unfolding s_def [symmetric] using cs(3) [OF 3] unit_bounds [of 3600 s] 3
      by (intro exI [of _ "s div 3600"] exI [of _ "''h''"] exI [of _ 3600] exI [of _ 24]) (simp add: age_units_def)
  next
    case 4
    then show ?thesis unfolding s_def [symmetric] using cs(4) [OF 4] unit_bounds [of 86400 s]
      by (intro exI [of _ "s div 86400"] exI [of _ "''d''"] exI [of _ 86400] exI [of _ 0]) simp
  qed
qed

theorem timeAgo_bounds_witness:
  "\<exists>n u size bound. timeAgo 7300000 100000 = str_of_int n @ u @ '' ago''
    \<and> n * size \<le> ((7300000::int) - 100000) div 1000 \<and> ((7300000::int) - 100000) div 1000 < (n + 1) * size
    \<and> ((u, size, bound) \<in> set age_units \<and> n < bound \<and> (u = ''s'' \<or> 1 \<le> n) \<or> (u, size) = (''d'', 86400) \<and> 1 \<le> n)"
  by (rule timeAgo_bounds) simp

text \<open>
  C33: whatever text the server puts into a job, the browser tokenizes the rendered summary into
  exactly the elements, attributes and texts of the template: no field of the job opens a tag or
  ends an attribute (the job id must be free of double quotes, as ids of the server are).
\<close>

theorem jobSummary_markup:
  assumes "CHR 0x22 \<notin> set (job_id j)"
  shows "lex_html (ser_list (renderJobSummary now (Some j) d)) = (Data, toks_list (renderJobSummary now (Some j) d))"
  using renderJobSummary_safe [of "Some j" now d] assms by (intro lex_ser_list) simp

definition hostile_job :: job where
  "hostile_job = \<lparr>job_id = ''7'', job_type = ''<script>'', job_status = ''succeeded'', job_target = [],
     job_database = [], job_message = ''</span><b>'', job_details = ''<i>'', job_artifact = ''x'',
     job_started = None, job_finished = Some 0\<rparr>"

theorem jobSummary_markup_witness:
  "lex_html (ser_list (renderJobSummary 5000 (Some hostile_job) True)) =
     (Data, toks_list (renderJobSummary 5000 (Some hostile_job) True))"
  by (rule jobSummary_markup) (simp add: hostile_job_def)

end
