(* ===== verification/Session.thy ===== *)
theory Session
  imports Format
begin

text \<open>
  The session layer of app.js: \<^verbatim>\<open>apiProtected\<close>, the login dialog, the idle tracker and the job
  artifact download. A server is a function of the requests sent so far and the request at
  hand, so every theorem holds for every behaviour of the server along a run. The first part
  runs one call at a time, which is what the page components use; the second is the machine
  of several calls in flight over the one login dialog the page has.
\<close>

section \<open>Replies\<close>

text \<open>
  What \<^verbatim>\<open>fetch\<close> and the reading of its body can do: a body (\<^verbatim>\<open>None\<close> when the parsed JSON is
  falsy), a body that is no JSON, status 401, another error status with the \<^verbatim>\<open>error\<close> field of its
  JSON body (empty when absent) and the status text, or a network failure.
\<close>

datatype 'a http =
    Ok "'a option"
  | BadJson string
  | Unauthorized
  | HttpError string string
  | NetworkError string

type_synonym 'a net = "request list \<Rightarrow> request \<Rightarrow> 'a http"

abbreviation session_key :: string where "session_key \<equiv> ''pgaio_session''"

section \<open>IdleTracker\<close>

definition idle_timeout :: nat where
  "idle_timeout = 15 * 60 * 1000"

definition idle_reset :: "browser \<Rightarrow> browser" where
  "idle_reset b =
     (let b1 = clear_slot (idle_timer b) b;
          (i, b2) = set_timeout idle_timeout IdleExpire b1
      in b2\<lparr>idle_timer := Some i\<rparr>)"

definition idle_expire :: "browser \<Rightarrow> browser" where
  "idle_expire b =
     (if get_item session_key b \<noteq> []
      then showToast (''session expired '' @ u_dash @ '' please login again'') ''info'' (remove_item session_key b)
      else b)"

text \<open>
  The document events that count as activity each reset the timer; \<^verbatim>\<open>start\<close> registers them
  and resets once. A fired timer leaves the list of live timers before its callback runs.
\<close>

definition activity_events :: "string list" where
  "activity_events = [''mousemove'', ''keydown'', ''click'', ''scroll'', ''touchstart'']"

definition idle_on_event :: "string \<Rightarrow> browser \<Rightarrow> browser" where
  "idle_on_event e b = (if e \<in> set activity_events then idle_reset b else b)"

definition idle_start :: "browser \<Rightarrow> browser" where
  "idle_start b = idle_reset b"

definition idle_fire :: "nat \<Rightarrow> browser \<Rightarrow> browser" where
  "idle_fire i b =
     (if \<exists>t \<in> set (timers b). tid t = i \<and> action t = IdleExpire
      then idle_expire (clear_timer i b) else b)"

lemma idle_reset_frame [simp, browser_simps]:
  "session (idle_reset b) = session b" "dom (idle_reset b) = dom b" "sent (idle_reset b) = sent b"
  "toasts (idle_reset b) = toasts b" "login_inputs (idle_reset b) = login_inputs b"
  "confirm_inputs (idle_reset b) = confirm_inputs b" "get_item k (idle_reset b) = get_item k b"
  by (simp_all add: idle_reset_def set_timer_def get_item_def Let_def)

lemma idle_reset_ok: "timers_ok b \<Longrightarrow> timers_ok (idle_reset b)"
  using tm.ok_start [OF clear_slot_ok, of b False idle_timeout IdleExpire "idle_timer b"]
  by (simp add: idle_reset_def timers_ok_def set_timer_def Let_def)

text \<open>After any activity exactly one expiry is pending, and it is the one the tracker holds.\<close>

lemma idle_reset_slot:
  "slot_le IdleExpire (idle_timer b) (timers b) \<Longrightarrow>
   slot_inv IdleExpire (idle_timer (idle_reset b)) (timers (idle_reset b))"
  using restart_slot [of IdleExpire "idle_timer b" b False idle_timeout]
  by (simp add: idle_reset_def set_timer_def Let_def)

lemma idle_expire_slot:
  "slot_le IdleExpire (idle_timer b) (timers b) \<Longrightarrow>
   slot_le IdleExpire (idle_timer (idle_expire b)) (timers (idle_expire b))"
  by (auto simp: idle_expire_def showToast_def Let_def set_timer_def slot_le_def)

lemma idle_fire_slot:
  "slot_le IdleExpire (idle_timer b) (timers b) \<Longrightarrow>
   slot_le IdleExpire (idle_timer (idle_fire i b)) (timers (idle_fire i b))"
proof -
  assume le: "slot_le IdleExpire (idle_timer b) (timers b)"
  have "slot_le IdleExpire (idle_timer (clear_timer i b)) (timers (clear_timer i b))"
    using le by (auto simp: clear_timer_def slot_le_def)
  with le show ?thesis by (simp add: idle_fire_def idle_expire_slot)
qed

lemma idle_expire_session: "get_item session_key (idle_expire b) = []"
  by (simp add: idle_expire_def ss.get_del)

datatype idle_event = DomEvent string | Fire nat

fun idle_run :: "idle_event list \<Rightarrow> browser \<Rightarrow> browser" where
  "idle_run [] b = b"
| "idle_run (DomEvent e # es) b = idle_run es (idle_on_event e b)"
| "idle_run (Fire i # es) b = idle_run es (idle_fire i b)"

lemma idle_on_event_slot:
  "slot_le IdleExpire (idle_timer b) (timers b) \<Longrightarrow>
   slot_le IdleExpire (idle_timer (idle_on_event e b)) (timers (idle_on_event e b))"
  by (simp add: idle_on_event_def slot_inv_le idle_reset_slot)

lemma idle_run_slot:
  "slot_le IdleExpire (idle_timer b) (timers b) \<Longrightarrow>
   slot_le IdleExpire (idle_timer (idle_run es b)) (timers (idle_run es b))"
proof (induction es arbitrary: b)
  case (Cons e es)
  then show ?case
    by (cases e) (simp_all add: idle_on_event_slot idle_fire_slot)
qed simp

section \<open>The login dialog\<close>

definition login_markup :: "html list" where
  "login_markup = [El ''div'' [At ''class'' ''auth-dialog'']
      [El ''div'' [At ''class'' ''auth-title''] [Txt ''authentication required''],
      El ''div'' [At ''class'' ''auth-desc''] [Txt ''enter the dashboard password''],
      El ''input'' [At ''type'' ''password'', At ''id'' ''login-password-input'', At ''class'' ''auth-input'', At ''autocomplete'' ''current-password'', At ''placeholder'' ''password'', Flag ''autofocus''] [],
      El ''div'' [At ''id'' ''login-error'', At ''class'' ''mono-xs red'', At ''style'' ''margin-bottom:8px;min-height:14px''] [],
      El ''div'' [At ''class'' ''auth-actions'']
       [El ''button'' [At ''class'' ''btn btn-sm'', At ''id'' ''login-cancel''] [Txt ''cancel''],
       El ''button'' [At ''class'' ''btn btn-sm btn-primary'', At ''id'' ''login-confirm''] [Txt ''login'']]]]"

record login_modal =
  lm_value :: string
  lm_error :: string
  lm_red :: bool

definition new_login_modal :: login_modal where
  "new_login_modal = \<lparr>lm_value = [], lm_error = [], lm_red = False\<rparr>"

datatype login_result = StillOpen login_modal | LoggedIn string | ClosedByUser

definition login_rq :: "string \<Rightarrow> request" where
  "login_rq password = post_rq ''/auth/login'' (Some (JObj [(''password'', JStr password)]))"

text \<open>
  \<^verbatim>\<open>submit\<close>: an empty password is refused without a request; a reply that cannot be read, or an
  accepted one without a data object, shows as a connection error; a rejected password clears
  the field; an accepted one stores the session, restarts the idle timer and closes the dialog.
\<close>

definition login_submit ::
    "string \<Rightarrow> login_reply \<Rightarrow> login_modal \<Rightarrow> browser \<Rightarrow> login_result \<times> browser" where
  "login_submit password r m b =
     (if password = [] then (StillOpen (m\<lparr>lm_value := [], lm_red := True, lm_error := ''enter your password''\<rparr>), b)
      else (let b1 = b\<lparr>sent := sent b @ [login_rq password]\<rparr>; m1 = m\<lparr>lm_value := password\<rparr> in
        case r of
          LoginNetworkError \<Rightarrow> (StillOpen (m1\<lparr>lm_error := ''connection error''\<rparr>), b1)
        | LoginBadJson \<Rightarrow> (StillOpen (m1\<lparr>lm_error := ''connection error''\<rparr>), b1)
        | LoginRejected e \<Rightarrow>
            (StillOpen (m1\<lparr>lm_error := or_str e ''invalid password'', lm_value := [], lm_red := True\<rparr>), b1)
        | LoginAccepted None \<Rightarrow> (StillOpen (m1\<lparr>lm_error := ''connection error''\<rparr>), b1)
        | LoginAccepted (Some sid) \<Rightarrow>
            (LoggedIn sid, idle_reset (set_item session_key sid b1))))"

fun login_event :: "login_event \<Rightarrow> login_modal \<Rightarrow> browser \<Rightarrow> login_result \<times> browser" where
  "login_event (SubmitClick pw r) m b = login_submit pw r m b"
| "login_event (EnterKey pw r) m b = login_submit pw r m b"
| "login_event OtherKey m b = (StillOpen m, b)"
| "login_event EscapeKey m b = (ClosedByUser, b)"
| "login_event CancelClick m b = (ClosedByUser, b)"

fun login_loop :: "login_event list \<Rightarrow> login_modal \<Rightarrow> browser \<Rightarrow> login_result \<times> browser" where
  "login_loop [] m b = (StillOpen m, b\<lparr>login_inputs := []\<rparr>)"
| "login_loop (e # es) m b =
     (case login_event e m b of
        (StillOpen m', b') \<Rightarrow> login_loop es m' b'
      | (res, b') \<Rightarrow> (res, b'\<lparr>login_inputs := es\<rparr>))"

definition showLoginModal :: "browser \<Rightarrow> login_result \<times> browser" where
  "showLoginModal b = login_loop (login_inputs b) new_login_modal b"

lemma login_loop_inputs:
  "login_loop es m b = (LoggedIn s, b') \<Longrightarrow> length (login_inputs b') < length es"
proof (induction es m b rule: login_loop.induct)
  case (2 e es m b)
  then show ?case by (auto split: prod.splits login_result.splits)
qed simp

lemma showLoginModal_inputs:
  "showLoginModal b = (LoggedIn s, b') \<Longrightarrow> length (login_inputs b') < length (login_inputs b)"
  by (simp add: showLoginModal_def login_loop_inputs)

text \<open>What the dialog changes: a new session only when it succeeds, else nothing but the log.\<close>

lemma login_event_session:
  "login_event e m b = (res, b') \<Longrightarrow>
   session b' = (case res of LoggedIn s \<Rightarrow> (session b)(session_key \<mapsto> s) | _ \<Rightarrow> session b)
   \<and> toasts b' = toasts b \<and> dom b' = dom b
   \<and> (\<exists>pws. sent b' = sent b @ map login_rq pws \<and> list_all (\<lambda>p. p \<noteq> []) pws)"
  by (cases e)
    (auto simp: login_submit_def Let_def set_item_def
      split: if_splits login_reply.splits option.splits
      intro: exI [of _ "[]"] exI [of _ "[_]"])

lemma login_loop_session:
  "login_loop es m b = (res, b') \<Longrightarrow>
   session b' = (case res of LoggedIn s \<Rightarrow> (session b)(session_key \<mapsto> s) | _ \<Rightarrow> session b)
   \<and> toasts b' = toasts b \<and> dom b' = dom b
   \<and> (\<exists>pws. sent b' = sent b @ map login_rq pws \<and> list_all (\<lambda>p. p \<noteq> []) pws)"
proof (induction es arbitrary: m b)
  case Nil
  then show ?case by (auto intro: exI [of _ "[]"])
next
  case (Cons e es)
  obtain r1 b1 where ev: "login_event e m b = (r1, b1)" by fastforce
  note step = login_event_session [OF ev]
  show ?case
  proof (cases r1)
    case (StillOpen m1)
    with Cons.prems ev have loop: "login_loop es m1 b1 = (res, b')" by simp
    from step obtain p1 where p1: "sent b1 = sent b @ map login_rq p1" "list_all (\<lambda>p. p \<noteq> []) p1" by blast
    from Cons.IH [OF loop] obtain p2 where p2: "sent b' = sent b1 @ map login_rq p2" "list_all (\<lambda>p. p \<noteq> []) p2"
      by blast
    have "sent b' = sent b @ map login_rq (p1 @ p2) \<and> list_all (\<lambda>p. p \<noteq> []) (p1 @ p2)"
      using p1 p2 by simp
    moreover have "session b1 = session b" "toasts b1 = toasts b" "dom b1 = dom b"
      using step StillOpen by simp_all
    ultimately show ?thesis
      using Cons.IH [OF loop] by (intro conjI) (auto simp del: map_append split: login_result.splits)
  next
    case (LoggedIn s)
    with Cons.prems ev have "res = LoggedIn s" "b' = b1\<lparr>login_inputs := es\<rparr>" by auto
    with step LoggedIn show ?thesis by auto
  next
    case ClosedByUser
    with Cons.prems ev have "res = ClosedByUser" "b' = b1\<lparr>login_inputs := es\<rparr>" by auto
    with step ClosedByUser show ?thesis by auto
  qed
qed

lemma showLoginModal_session:
  "showLoginModal b = (res, b') \<Longrightarrow>
   session b' = (case res of LoggedIn s \<Rightarrow> (session b)(session_key \<mapsto> s) | _ \<Rightarrow> session b)
   \<and> toasts b' = toasts b \<and> dom b' = dom b
   \<and> (\<exists>pws. sent b' = sent b @ map login_rq pws \<and> list_all (\<lambda>p. p \<noteq> []) pws)"
  unfolding showLoginModal_def by (rule login_loop_session)

section \<open>apiProtected\<close>

function tryRequest :: "'a net \<Rightarrow> request \<Rightarrow> string \<Rightarrow> browser \<Rightarrow> 'a outcome \<times> browser" where
  "tryRequest net rq sid b =
     (let q = rq\<lparr>rq_session := sid\<rparr>; b1 = b\<lparr>sent := sent b @ [q]\<rparr> in
      case net (sent b) q of
        Unauthorized \<Rightarrow>
          (case showLoginModal (remove_item session_key b1) of
             (LoggedIn newSid, b2) \<Rightarrow> tryRequest net rq newSid b2
           | (ClosedByUser, b2) \<Rightarrow> (Rejected ''cancelled'', b2)
           | (StillOpen _, b2) \<Rightarrow> (Pending, b2))
      | HttpError e st \<Rightarrow> (let msg = or_str e st in (Rejected msg, showToast msg ''error'' b1))
      | NetworkError e \<Rightarrow> (Rejected e, b1)
      | BadJson e \<Rightarrow> (Rejected e, b1)
      | Ok None \<Rightarrow> (Pending, b1)
      | Ok (Some d) \<Rightarrow> (Resolved d, b1))"
  by pat_completeness auto
termination
  by (relation "measure (\<lambda>(net, rq, sid, b). length (login_inputs b))")
    (auto dest!: showLoginModal_inputs [OF sym])

declare tryRequest.simps [simp del]

definition apiProtected :: "'a net \<Rightarrow> request \<Rightarrow> browser \<Rightarrow> 'a outcome \<times> browser" where
  "apiProtected net rq b =
     (let sid = get_item session_key b in
      if sid \<noteq> [] then tryRequest net rq sid b
      else (case showLoginModal b of
              (LoggedIn newSid, b1) \<Rightarrow> tryRequest net rq newSid b1
            | (ClosedByUser, b1) \<Rightarrow> (Rejected ''cancelled'', b1)
            | (StillOpen _, b1) \<Rightarrow> (Pending, b1)))"

definition api :: "'a net \<Rightarrow> request \<Rightarrow> browser \<Rightarrow> 'a outcome \<times> browser" where
  "api net rq b = apiProtected net rq b"

text \<open>
  The requests of a call: login attempts, and the request itself under a session that was in
  storage when it was sent.
\<close>

definition call_requests :: "request \<Rightarrow> request list \<Rightarrow> bool" where
  "call_requests rq qs = list_all (\<lambda>q. (\<exists>pw. pw \<noteq> [] \<and> q = login_rq pw) \<or> (\<exists>sid. q = rq\<lparr>rq_session := sid\<rparr>)) qs"

lemma call_requests_simps [simp]:
  "call_requests rq []" "call_requests rq (qs @ rs) = (call_requests rq qs \<and> call_requests rq rs)"
  "call_requests rq (rq\<lparr>rq_session := sid\<rparr> # qs) = call_requests rq qs"
  by (auto simp: call_requests_def)

lemma call_requests_login: "list_all (\<lambda>p. p \<noteq> []) pws \<Longrightarrow> call_requests rq (map login_rq pws)"
  by (auto simp: call_requests_def list_all_iff)

lemma login_requests:
  "showLoginModal b = (res, b') \<Longrightarrow> \<exists>qs. sent b' = sent b @ qs \<and> call_requests rq qs"
  using showLoginModal_session [of b res b'] call_requests_login [of _ rq] by blast

lemma tryRequest_sent:
  "tryRequest net rq sid b = (r, b') \<Longrightarrow> \<exists>qs. sent b' = sent b @ qs \<and> call_requests rq qs"
proof (induction net rq sid b rule: tryRequest.induct)
  case (1 net rq sid b)
  let ?q = "rq\<lparr>rq_session := sid\<rparr>"
  let ?b1 = "b\<lparr>sent := sent b @ [?q]\<rparr>"
  show ?case
  proof (cases "net (sent b) ?q")
    case Unauthorized
    obtain res b2 where lg: "showLoginModal (remove_item session_key ?b1) = (res, b2)" by fastforce
    from login_requests [OF lg, of rq] obtain qs
      where qs: "sent b2 = sent b @ ?q # qs" "call_requests rq qs" by auto
    show ?thesis
    proof (cases res)
      case (LoggedIn s)
      with "1.prems" Unauthorized lg have next_try: "tryRequest net rq s b2 = (r, b')"
        by (simp add: tryRequest.simps [of net rq sid])
      obtain rs where "sent b' = sent b2 @ rs" "call_requests rq rs"
        using "1.IH" [OF refl refl Unauthorized lg [unfolded LoggedIn, symmetric] refl next_try] by blast
      with qs have "sent b' = sent b @ ([?q] @ qs @ rs) \<and> call_requests rq ([?q] @ qs @ rs)"
        by simp
      then show ?thesis by blast
    next
      case ClosedByUser
      with "1.prems" Unauthorized lg have "b' = b2" by (simp add: tryRequest.simps [of net rq sid])
      with qs have "sent b' = sent b @ ([?q] @ qs) \<and> call_requests rq ([?q] @ qs)" by simp
      then show ?thesis by blast
    next
      case (StillOpen m)
      with "1.prems" Unauthorized lg have "b' = b2" by (simp add: tryRequest.simps [of net rq sid])
      with qs have "sent b' = sent b @ ([?q] @ qs) \<and> call_requests rq ([?q] @ qs)" by simp
      then show ?thesis by blast
    qed
  next
    case (Ok d)
    with "1.prems" have "sent b' = sent b @ [?q]"
      by (auto simp: tryRequest.simps [of net rq sid] Let_def split: option.splits)
    then show ?thesis by (metis call_requests_simps(1,3))
  next
    case (BadJson e)
    with "1.prems" have "sent b' = sent b @ [?q]" by (auto simp: tryRequest.simps [of net rq sid])
    then show ?thesis by (metis call_requests_simps(1,3))
  next
    case (HttpError e st)
    with "1.prems" have "sent b' = sent b @ [?q]"
      by (auto simp: tryRequest.simps [of net rq sid] Let_def)
    then show ?thesis by (metis call_requests_simps(1,3))
  next
    case (NetworkError e)
    with "1.prems" have "sent b' = sent b @ [?q]" by (auto simp: tryRequest.simps [of net rq sid])
    then show ?thesis by (metis call_requests_simps(1,3))
  qed
qed

lemma apiProtected_sent:
  "apiProtected net rq b = (r, b') \<Longrightarrow> \<exists>qs. sent b' = sent b @ qs \<and> call_requests rq qs"
proof (cases "get_item session_key b = []")
  case False
  then show "apiProtected net rq b = (r, b') \<Longrightarrow> ?thesis"
    by (auto simp: apiProtected_def Let_def dest: tryRequest_sent)
next
  case True
  assume call: "apiProtected net rq b = (r, b')"
  obtain res b1 where lg: "showLoginModal b = (res, b1)" by fastforce
  from login_requests [OF lg, of rq] obtain qs where qs: "sent b1 = sent b @ qs" "call_requests rq qs"
    by blast
  show ?thesis
  proof (cases res)
    case (LoggedIn s)
    with True call lg have "tryRequest net rq s b1 = (r, b')"
      by (simp add: apiProtected_def)
    from tryRequest_sent [OF this] obtain rs where "sent b' = sent b1 @ rs" "call_requests rq rs" by blast
    with qs have "sent b' = sent b @ (qs @ rs) \<and> call_requests rq (qs @ rs)" by simp
    then show ?thesis by blast
  qed (use True call lg qs in \<open>auto simp: apiProtected_def\<close>)
qed

text \<open>A call in an established session that the server keeps: one request, and it settles.\<close>

lemma apiProtected_authorized:
  assumes "get_item session_key b \<noteq> []"
    and "net (sent b) (rq\<lparr>rq_session := get_item session_key b\<rparr>) = r"
  shows "r = Ok (Some d) \<Longrightarrow>
      apiProtected net rq b = (Resolved d, b\<lparr>sent := sent b @ [rq\<lparr>rq_session := get_item session_key b\<rparr>]\<rparr>)"
    and "r = HttpError e st \<Longrightarrow>
      apiProtected net rq b =
        (Rejected (or_str e st),
         showToast (or_str e st) ''error'' (b\<lparr>sent := sent b @ [rq\<lparr>rq_session := get_item session_key b\<rparr>]\<rparr>))"
    and "r = NetworkError m \<or> r = BadJson m \<Longrightarrow>
      apiProtected net rq b = (Rejected m, b\<lparr>sent := sent b @ [rq\<lparr>rq_session := get_item session_key b\<rparr>]\<rparr>)"
    and "r = Ok None \<Longrightarrow>
      apiProtected net rq b = (Pending, b\<lparr>sent := sent b @ [rq\<lparr>rq_session := get_item session_key b\<rparr>]\<rparr>)"
  using assms by (auto simp: apiProtected_def tryRequest.simps Let_def)

text \<open>
  The requests among \<open>qs\<close>, sent after \<open>h\<close>, that the server did not refuse with status 401, logins aside; and the requests
  of one call: logins and the request itself, of which none but the last can have been taken.
\<close>

fun taken :: "'a net \<Rightarrow> request list \<Rightarrow> request list \<Rightarrow> request list" where
  "taken net h [] = []"
| "taken net h (q # qs) =
     (if rq_path q = ''/auth/login'' \<or> net h q = Unauthorized then taken net (h @ [q]) qs else q # taken net (h @ [q]) qs)"

definition one_call :: "'a net \<Rightarrow> request list \<Rightarrow> request \<Rightarrow> request list \<Rightarrow> bool" where
  "one_call net h rq qs = (call_requests rq qs \<and> (taken net h qs = [] \<or> taken net h qs = [last qs]))"

lemma taken_append: "taken net h (xs @ ys) = taken net h xs @ taken net (h @ xs) ys"
  by (induction xs arbitrary: h) simp_all

lemma taken_logins: "taken net h (map login_rq pws) = []"
  by (induction pws arbitrary: h) (simp_all add: login_rq_def post_rq_def)

lemma one_call_Nil [simp]: "one_call net h rq []"
  by (simp add: one_call_def)

lemma one_call_append:
  "call_requests rq xs \<Longrightarrow> taken net h xs = [] \<Longrightarrow> one_call net (h @ xs) rq ys \<Longrightarrow> one_call net h rq (xs @ ys)"
  by (cases "ys = []") (auto simp: one_call_def taken_append)

lemma one_call_logins:
  assumes "showLoginModal b = (res, b1)"
  shows "\<exists>xs. sent b1 = sent b @ xs \<and> call_requests rq xs \<and> taken net h xs = []"
  using showLoginModal_session [OF assms] call_requests_login [of _ rq] taken_logins [of net h] by blast

lemma tryRequest_one:
  assumes "rq_path rq \<noteq> ''/auth/login''"
  shows "tryRequest net rq sid b = (r, b') \<Longrightarrow>
    \<exists>qs. sent b' = sent b @ rq\<lparr>rq_session := sid\<rparr> # qs \<and> one_call net (sent b) rq (rq\<lparr>rq_session := sid\<rparr> # qs)"
  using assms
proof (induction net rq sid b rule: tryRequest.induct)
  case (1 net rq sid b)
  let ?q = "rq\<lparr>rq_session := sid\<rparr>"
  let ?b1 = "b\<lparr>sent := sent b @ [?q]\<rparr>"
  have single: "one_call net (sent b) rq [?q]" by (simp add: one_call_def)
  show ?case
  proof (cases "net (sent b) ?q")
    case Unauthorized
    obtain res b2 where lg: "showLoginModal (remove_item session_key ?b1) = (res, b2)" by fastforce
    from one_call_logins [OF lg, of rq net "sent b @ [?q]"] obtain xs where
      xs: "sent b2 = sent b @ ?q # xs" "call_requests rq xs" "taken net (sent b @ [?q]) xs = []" by auto
    have first: "call_requests rq (?q # xs)" "taken net (sent b) (?q # xs) = []" using xs Unauthorized by simp_all
    show ?thesis
    proof (cases res)
      case (LoggedIn s)
      with "1.prems" Unauthorized lg have again: "tryRequest net rq s b2 = (r, b')"
        by (simp add: tryRequest.simps [of net rq sid])
      from "1.IH" [OF refl refl Unauthorized lg [unfolded LoggedIn, symmetric] refl again "1.prems"(2)]
      obtain ys where ys: "sent b' = sent b2 @ rq\<lparr>rq_session := s\<rparr> # ys" "one_call net (sent b2) rq (rq\<lparr>rq_session := s\<rparr> # ys)" by blast
      from one_call_append [OF first] ys xs(1) show ?thesis by auto
    qed (use "1.prems"(1) Unauthorized lg xs(1) one_call_append [OF first, of "[]"] in \<open>auto simp: tryRequest.simps [of net rq sid]\<close>)
  next
    case (Ok d)
    with "1.prems"(1) single show ?thesis by (cases d) (auto simp: tryRequest.simps [of net rq sid] Let_def)
  qed (use "1.prems"(1) single in \<open>auto simp: tryRequest.simps [of net rq sid] Let_def\<close>)
qed

lemma apiProtected_one:
  assumes "rq_path rq \<noteq> ''/auth/login''" "apiProtected net rq b = (r, b')"
  shows "\<exists>qs. sent b' = sent b @ qs \<and> one_call net (sent b) rq qs
    \<and> (if get_item session_key b \<noteq> [] then qs \<noteq> [] \<and> hd qs = rq\<lparr>rq_session := get_item session_key b\<rparr> else True)"
proof (cases "get_item session_key b = []")
  case False
  then show ?thesis using tryRequest_one [OF assms(1)] assms(2) by (fastforce simp: apiProtected_def)
next
  case True
  obtain res b1 where lg: "showLoginModal b = (res, b1)" by fastforce
  from one_call_logins [OF lg, of rq net "sent b"] obtain xs where
    xs: "sent b1 = sent b @ xs" "call_requests rq xs" "taken net (sent b) xs = []" by blast
  show ?thesis
  proof (cases res)
    case (LoggedIn s)
    with True assms(2) lg have "tryRequest net rq s b1 = (r, b')" by (simp add: apiProtected_def)
    from tryRequest_one [OF assms(1) this] obtain ys where
      "sent b' = sent b1 @ ys" "one_call net (sent b1) rq ys" by auto
    with one_call_append [OF xs(2,3)] xs(1) True show ?thesis by auto
  qed (use True assms(2) lg xs one_call_append [OF xs(2,3), of "[]"] in \<open>auto simp: apiProtected_def\<close>)
qed

text \<open>The server answered the last of the requests \<open>qs\<close>, which is no login, with the value \<open>d\<close>: then, and only then, the call resolves with it.\<close>

definition answered :: "'a net \<Rightarrow> request list \<Rightarrow> request list \<Rightarrow> 'a \<Rightarrow> bool" where
  "answered net h qs d = (qs \<noteq> [] \<and> rq_path (last qs) \<noteq> ''/auth/login'' \<and> net (h @ butlast qs) (last qs) = Ok (Some d))"

lemma answered_append: "ys \<noteq> [] \<Longrightarrow> answered net h (xs @ ys) d = answered net (h @ xs) ys d"
  by (simp add: answered_def butlast_append)

lemma answered_logins: "\<not> answered net h (map login_rq pws) d"
  by (cases pws rule: rev_cases) (simp_all add: answered_def login_rq_def post_rq_def)

lemma tryRequest_answered:
  assumes "rq_path rq \<noteq> ''/auth/login''"
  shows "tryRequest net rq sid b = (r, b') \<Longrightarrow>
    \<exists>qs. sent b' = sent b @ qs \<and> qs \<noteq> [] \<and> (\<forall>d. answered net (sent b) qs d \<longleftrightarrow> r = Resolved d)"
  using assms
proof (induction net rq sid b rule: tryRequest.induct)
  case (1 net rq sid b)
  let ?q = "rq\<lparr>rq_session := sid\<rparr>"
  let ?b1 = "b\<lparr>sent := sent b @ [?q]\<rparr>"
  show ?case
  proof (cases "net (sent b) ?q")
    case Unauthorized
    obtain res b2 where lg: "showLoginModal (remove_item session_key ?b1) = (res, b2)" by fastforce
    from showLoginModal_session [OF lg] obtain pws where xs: "sent b2 = sent b @ ?q # map login_rq pws" by auto
    have no: "\<not> answered net (sent b) (?q # map login_rq pws) d" for d
    proof (cases "pws = []")
      case False
      then show ?thesis using answered_append [of "map login_rq pws" net "sent b" "[?q]" d] answered_logins [of net] by simp
    qed (simp add: answered_def Unauthorized)
    show ?thesis
    proof (cases res)
      case (LoggedIn s)
      with "1.prems" Unauthorized lg have again: "tryRequest net rq s b2 = (r, b')"
        by (simp add: tryRequest.simps [of net rq sid])
      from "1.IH" [OF refl refl Unauthorized lg [unfolded LoggedIn, symmetric] refl again "1.prems"(2)]
      obtain ys where ys: "sent b' = sent b2 @ ys" "ys \<noteq> []" "\<And>d. answered net (sent b2) ys d \<longleftrightarrow> r = Resolved d" by blast
      then have "sent b' = sent b @ ((?q # map login_rq pws) @ ys) \<and> (?q # map login_rq pws) @ ys \<noteq> []
          \<and> (\<forall>d. answered net (sent b) ((?q # map login_rq pws) @ ys) d \<longleftrightarrow> r = Resolved d)"
        using xs answered_append [OF ys(2), of net "sent b" "?q # map login_rq pws"] by simp
      then show ?thesis by blast
    qed (use "1.prems"(1) Unauthorized lg xs no in \<open>auto simp: tryRequest.simps [of net rq sid]\<close>)
  next
    case (Ok d)
    with "1.prems" show ?thesis by (cases d) (auto simp: tryRequest.simps [of net rq sid] Let_def answered_def)
  qed (use "1.prems" in \<open>auto simp: tryRequest.simps [of net rq sid] Let_def answered_def\<close>)
qed

lemma apiProtected_answered:
  assumes "rq_path rq \<noteq> ''/auth/login''" "apiProtected net rq b = (r, b')" "sent b' = sent b @ qs"
  shows "answered net (sent b) qs d \<longleftrightarrow> r = Resolved d"
proof (cases "get_item session_key b = []")
  case False
  then show ?thesis using tryRequest_answered [OF assms(1)] assms(2,3) by (fastforce simp: apiProtected_def)
next
  case True
  obtain res b1 where lg: "showLoginModal b = (res, b1)" by fastforce
  from showLoginModal_session [OF lg] obtain pws where xs: "sent b1 = sent b @ map login_rq pws" by blast
  show ?thesis
  proof (cases res)
    case (LoggedIn s)
    with True assms(2) lg have "tryRequest net rq s b1 = (r, b')" by (simp add: apiProtected_def)
    from tryRequest_answered [OF assms(1) this] obtain ys where
      "sent b' = sent b1 @ ys" "ys \<noteq> []" "\<And>d. answered net (sent b1) ys d \<longleftrightarrow> r = Resolved d" by blast
    then show ?thesis using xs assms(3) answered_append [of ys net "sent b" "map login_rq pws"] by simp
  qed (use True assms(2,3) lg xs answered_logins [of net] in \<open>auto simp: apiProtected_def\<close>)
qed

text \<open>A login dialog takes at least one input, and every input of it sends at most one request.\<close>

lemma login_event_count:
  "login_event e m b = (res, b') \<Longrightarrow> length (sent b') \<le> Suc (length (sent b))"
  by (cases e) (auto simp: login_submit_def Let_def set_item_def split: if_splits login_reply.splits option.splits)

lemma login_loop_count:
  "login_loop es m b = (res, b') \<Longrightarrow> length (sent b') + length (login_inputs b') \<le> length (sent b) + length es \<and> length (login_inputs b') \<le> length es
    \<and> (case res of StillOpen m' \<Rightarrow> login_inputs b' = [] | _ \<Rightarrow> True)"
proof (induction es m b rule: login_loop.induct)
  case (2 e es m b)
  obtain r1 b1 where ev: "login_event e m b = (r1, b1)" by fastforce
  note n = login_event_count [OF ev]
  show ?case
  proof (cases r1)
    case (StillOpen m1)
    with "2.prems" ev have "login_loop es m1 b1 = (res, b')" by simp
    from "2.IH" [OF ev [symmetric] StillOpen this] n show ?thesis by simp
  qed (use "2.prems" ev n in auto)
qed auto

lemma showLoginModal_count:
  "showLoginModal b = (res, b') \<Longrightarrow> length (sent b') + length (login_inputs b') \<le> length (sent b) + length (login_inputs b)
    \<and> length (login_inputs b') \<le> length (login_inputs b) \<and> (case res of StillOpen m' \<Rightarrow> login_inputs b' = [] | _ \<Rightarrow> True)"
  unfolding showLoginModal_def by (rule login_loop_count)

lemma tryRequest_count:
  assumes "\<And>h q. net h q \<noteq> Ok None"
  shows "tryRequest net rq sid b = (r, b') \<Longrightarrow>
    length (sent b') + 2 * length (login_inputs b') \<le> length (sent b) + 2 * length (login_inputs b) + 1
    \<and> (if r = Pending then login_inputs b' = [] else True)"
  using assms
proof (induction net rq sid b rule: tryRequest.induct)
  case (1 net rq sid b)
  let ?q = "rq\<lparr>rq_session := sid\<rparr>"
  let ?b1 = "remove_item session_key (b\<lparr>sent := sent b @ [?q]\<rparr>)"
  show ?case
  proof (cases "net (sent b) ?q")
    case Unauthorized
    obtain res b2 where lg: "showLoginModal ?b1 = (res, b2)" by fastforce
    note n = showLoginModal_count [OF lg]
    show ?thesis
    proof (cases res)
      case (LoggedIn s)
      with "1.prems" Unauthorized lg have again: "tryRequest net rq s b2 = (r, b')"
        by (simp add: tryRequest.simps [of net rq sid])
      from "1.IH" [OF refl refl Unauthorized lg [unfolded LoggedIn, symmetric] refl again "1.prems"(2)]
      show ?thesis using n showLoginModal_inputs [OF lg [unfolded LoggedIn]] by simp
    qed (use "1.prems"(1) Unauthorized lg n in \<open>auto simp: tryRequest.simps [of net rq sid]\<close>)
  next
    case (Ok d)
    with "1.prems" show ?thesis by (cases d) (auto simp: tryRequest.simps [of net rq sid] Let_def)
  qed (use "1.prems"(1) in \<open>auto simp: tryRequest.simps [of net rq sid] Let_def\<close>)
qed

section \<open>JobUI\<close>

definition jobs_get_rq :: "string \<Rightarrow> request" where
  "jobs_get_rq jobId = get_rq (''/jobs/'' @ encode_uri jobId)"

definition JobUI_get :: "job option net \<Rightarrow> string \<Rightarrow> browser \<Rightarrow> job option outcome \<times> browser" where
  "JobUI_get net jobId b = apiProtected net (jobs_get_rq jobId) b"

text \<open>
  \<^verbatim>\<open>header?.match(/filename="(.+)"/)?.[1] || 'artifact.bin'\<close>: the leftmost \<^verbatim>\<open>filename="\<close> that is
  followed by at least one character and a quote, up to the last quote of the line.
\<close>

definition greedy_quoted :: "string \<Rightarrow> string option" where
  "greedy_quoted s =
     (let line = takeWhile (\<lambda>c. c \<noteq> CHR 0x0A \<and> c \<noteq> CHR 0x0D) s;
          body = rev (drop 1 (dropWhile (\<lambda>c. c \<noteq> CHR 0x22) (rev line)))
      in if CHR 0x22 \<in> set line \<and> body \<noteq> [] then Some body else None)"

fun match_filename :: "string \<Rightarrow> string option" where
  "match_filename [] = None"
| "match_filename (c # cs) =
     (if starts_with (''filename='' @ dq) (c # cs)
      then (case greedy_quoted (drop 10 (c # cs)) of Some f \<Rightarrow> Some f | None \<Rightarrow> match_filename cs)
      else match_filename cs)"

definition download_name :: "string option \<Rightarrow> string" where
  "download_name header =
     (case header of None \<Rightarrow> ''artifact.bin'' | Some h \<Rightarrow> or_none (match_filename h) ''artifact.bin'')"

datatype download_reply =
    DlUnauthorized
  | DlError string string
  | DlNetwork string
  | DlBlob "string option"

type_synonym download_net = "request list \<Rightarrow> request \<Rightarrow> download_reply"

definition download_rq :: "string \<Rightarrow> string \<Rightarrow> request" where
  "download_rq jobId sid = (get_rq (''/jobs/'' @ encode_uri jobId @ ''/download''))\<lparr>rq_session := sid\<rparr>"

text \<open>
  After a 401 the retry runs in the callback of the login dialog: the first call has already
  returned, and an error of the retry reaches nobody.
\<close>

function doDownload :: "download_net \<Rightarrow> string \<Rightarrow> string \<Rightarrow> browser \<Rightarrow> unit outcome \<times> browser" where
  "doDownload net jobId sid b =
     (let q = download_rq jobId sid; b1 = b\<lparr>sent := sent b @ [q]\<rparr> in
      case net (sent b) q of
        DlUnauthorized \<Rightarrow>
          (case showLoginModal (remove_item session_key b1) of
             (LoggedIn newSid, b2) \<Rightarrow> (Resolved (), snd (doDownload net jobId newSid b2))
           | (ClosedByUser, b2) \<Rightarrow> (Resolved (), b2)
           | (StillOpen _, b2) \<Rightarrow> (Resolved (), b2))
      | DlError e st \<Rightarrow> (Rejected (or_str e st), b1)
      | DlNetwork e \<Rightarrow> (Rejected e, b1)
      | DlBlob header \<Rightarrow> (Resolved (), b1\<lparr>downloads := downloads b1 @ [download_name header]\<rparr>))"
  by pat_completeness auto
termination
  by (relation "measure (\<lambda>(net, jobId, sid, b). length (login_inputs b))")
    (auto dest!: showLoginModal_inputs [OF sym])

declare doDownload.simps [simp del]

definition JobUI_download :: "download_net \<Rightarrow> string \<Rightarrow> browser \<Rightarrow> browser" where
  "JobUI_download net jobId b =
     (let sid = get_item session_key b in
      if sid \<noteq> [] then
        (case doDownload net jobId sid b of
           (Rejected e, b1) \<Rightarrow> showToast (''download failed: '' @ e) ''error'' b1
         | (_, b1) \<Rightarrow> b1)
      else (case showLoginModal b of
              (LoggedIn newSid, b1) \<Rightarrow> snd (doDownload net jobId newSid b1)
            | (_, b1) \<Rightarrow> b1))"

lemma greedy_quoted_exact:
  "f \<noteq> [] \<Longrightarrow> CHR 0x22 \<notin> set f \<Longrightarrow> CHR 0x0A \<notin> set f \<Longrightarrow> CHR 0x0D \<notin> set f \<Longrightarrow>
   greedy_quoted (f @ dq) = Some f"
proof -
  assume f: "f \<noteq> []" "CHR 0x22 \<notin> set f" "CHR 0x0A \<notin> set f" "CHR 0x0D \<notin> set f"
  have "takeWhile (\<lambda>c. c \<noteq> CHR 0x0A \<and> c \<noteq> CHR 0x0D) (f @ dq) = f @ dq"
    using f by (intro takeWhile_eq_all_conv [THEN iffD2]) auto
  then show ?thesis using f by (simp add: greedy_quoted_def)
qed

section \<open>Several calls, one dialog\<close>

text \<open>
  The page has one login dialog: opening it removes the one on screen, with the two callbacks of
  the call that opened it. But a submitted password is a request of its own, and its answer runs the callback of
  the dialog it was submitted in, whatever is on screen by then: in the meantime the button can be pressed again, the
  dialog cancelled, or another call can open its own. So every dialog has a number, a call is a promise that settles once
  (\<^verbatim>\<open>Pending\<close> until then), and requests in flight, for a call or for a login, are lists of their own.
\<close>

record 'a sess =
  calls :: "nat \<Rightarrow> 'a outcome option"
  flights :: "(nat \<times> string) list"
  logins :: "(nat \<times> nat) list"
  modal :: "(nat \<times> nat) option"
  fresh :: nat
  stored :: string

text \<open>
  The events: a call starts; the \<open>n\<close>-th request in flight is answered; the password of the dialog on screen is
  submitted; the \<open>n\<close>-th login in flight is answered, with a session or not; the dialog is cancelled; the idle timer
  removes the session.
\<close>

datatype 'a sess_event =
    Call nat
  | Reply nat "'a http"
  | LoginSubmit
  | LoginReply nat "string option"
  | LoginCancel
  | IdleLogout

definition drop_nth :: "nat \<Rightarrow> 'b list \<Rightarrow> 'b list" where
  "drop_nth n xs = take n xs @ drop (Suc n) xs"

definition settle :: "nat \<Rightarrow> 'a outcome \<Rightarrow> 'a sess \<Rightarrow> 'a sess" where
  "settle i r s = (if calls s i = Some Pending then s\<lparr>calls := (calls s)(i \<mapsto> r)\<rparr> else s)"

definition open_modal :: "nat \<Rightarrow> 'a sess \<Rightarrow> 'a sess" where
  "open_modal i s = s\<lparr>modal := Some (fresh s, i), fresh := Suc (fresh s)\<rparr>"

definition send_call :: "nat \<Rightarrow> string \<Rightarrow> 'a sess \<Rightarrow> 'a sess" where
  "send_call i sid s = s\<lparr>flights := flights s @ [(i, sid)]\<rparr>"

definition start_call :: "nat \<Rightarrow> 'a sess \<Rightarrow> 'a sess" where
  "start_call i s =
     (if calls s i \<noteq> None then s
      else (let s1 = s\<lparr>calls := (calls s)(i \<mapsto> Pending)\<rparr>
            in if stored s \<noteq> [] then send_call i (stored s) s1 else open_modal i s1))"

definition on_reply :: "nat \<Rightarrow> 'a http \<Rightarrow> 'a sess \<Rightarrow> 'a sess" where
  "on_reply n r s =
     (if length (flights s) \<le> n then s
      else (let i = fst (flights s ! n); s1 = s\<lparr>flights := drop_nth n (flights s)\<rparr> in
        case r of
          Unauthorized \<Rightarrow> open_modal i (s1\<lparr>stored := []\<rparr>)
        | HttpError e st \<Rightarrow> settle i (Rejected (or_str e st)) s1
        | NetworkError e \<Rightarrow> settle i (Rejected e) s1
        | BadJson e \<Rightarrow> settle i (Rejected e) s1
        | Ok None \<Rightarrow> s1
        | Ok (Some d) \<Rightarrow> settle i (Resolved d) s1))"

definition on_submit :: "'a sess \<Rightarrow> 'a sess" where
  "on_submit s = (case modal s of None \<Rightarrow> s | Some m \<Rightarrow> s\<lparr>logins := logins s @ [m]\<rparr>)"

definition on_login :: "nat \<Rightarrow> string option \<Rightarrow> 'a sess \<Rightarrow> 'a sess" where
  "on_login n r s =
     (if length (logins s) \<le> n then s
      else (let m = logins s ! n; s1 = s\<lparr>logins := drop_nth n (logins s)\<rparr> in
        case r of
          None \<Rightarrow> s1
        | Some sid \<Rightarrow>
            send_call (snd m) sid (s1\<lparr>stored := sid, modal := (if modal s = Some m then None else modal s)\<rparr>)))"

definition on_login_cancel :: "'a sess \<Rightarrow> 'a sess" where
  "on_login_cancel s =
     (case modal s of
        None \<Rightarrow> s
      | Some m \<Rightarrow> settle (snd m) (Rejected ''cancelled'') (s\<lparr>modal := None\<rparr>))"

fun sess_step :: "'a sess \<Rightarrow> 'a sess_event \<Rightarrow> 'a sess" where
  "sess_step s (Call i) = start_call i s"
| "sess_step s (Reply n r) = on_reply n r s"
| "sess_step s LoginSubmit = on_submit s"
| "sess_step s (LoginReply n r) = on_login n r s"
| "sess_step s LoginCancel = on_login_cancel s"
| "sess_step s IdleLogout = s\<lparr>stored := []\<rparr>"

definition sess_run :: "'a sess \<Rightarrow> 'a sess_event list \<Rightarrow> 'a sess" where
  "sess_run s es = fold (\<lambda>e s. sess_step s e) es s"

lemma sess_run_simps [simp]: "sess_run s [] = s" "sess_run s (e # es) = sess_run (sess_step s e) es"
  by (simp_all add: sess_run_def)

lemma sess_run_append: "sess_run s (es @ fs) = sess_run (sess_run s es) fs"
  by (simp add: sess_run_def)

lemmas sess_step_defs = start_call_def on_reply_def on_submit_def on_login_def on_login_cancel_def open_modal_def send_call_def settle_def

lemma set_drop_nth: "set (drop_nth n xs) \<subseteq> set xs"
  by (auto simp: drop_nth_def dest: in_set_takeD in_set_dropD)

lemma all_drop_nth: "list_all P xs \<Longrightarrow> list_all P (drop_nth n xs)"
  using set_drop_nth [of n xs] by (auto simp: list_all_iff)

lemma all_nth: "list_all P xs \<Longrightarrow> n < length xs \<Longrightarrow> P (xs ! n)"
  by (simp add: list_all_length)

text \<open>
  Everything in flight belongs to a call that was started, no number of a dialog is given twice, and a login in flight
  that was submitted in the dialog on screen is one for the call that opened it.
\<close>

definition sess_inv :: "'a sess \<Rightarrow> bool" where
  "sess_inv s =
     (list_all (\<lambda>f. calls s (fst f) \<noteq> None) (flights s)
      \<and> list_all (\<lambda>l. calls s (snd l) \<noteq> None \<and> fst l < fresh s) (logins s)
      \<and> (case modal s of
           None \<Rightarrow> True
         | Some m \<Rightarrow> calls s (snd m) \<noteq> None \<and> fst m < fresh s \<and> list_all (\<lambda>l. fst l \<noteq> fst m \<or> l = m) (logins s)))"

lemma sess_inv_settle: "sess_inv (settle i r s) = sess_inv s"
proof -
  have "calls (settle i r s) j = None \<longleftrightarrow> calls s j = None" for j by (simp add: settle_def)
  moreover have "flights (settle i r s) = flights s" "logins (settle i r s) = logins s" "modal (settle i r s) = modal s" "fresh (settle i r s) = fresh s"
    by (simp_all add: settle_def)
  ultimately show ?thesis by (simp add: sess_inv_def split: option.splits)
qed

lemma sess_inv_open: "sess_inv s \<Longrightarrow> calls s i \<noteq> None \<Longrightarrow> sess_inv (open_modal i s)"
  by (auto simp: sess_inv_def open_modal_def list_all_iff)

lemma sess_inv_parts:
  assumes "sess_inv s"
  shows "sess_inv (s\<lparr>stored := x\<rparr>)" "sess_inv (s\<lparr>flights := drop_nth n (flights s)\<rparr>)" "sess_inv (s\<lparr>logins := drop_nth n (logins s)\<rparr>)"
    "sess_inv (s\<lparr>modal := None\<rparr>)" "calls s i \<noteq> None \<Longrightarrow> sess_inv (send_call i sid s)" "sess_inv (s\<lparr>calls := (calls s)(i \<mapsto> r)\<rparr>)"
proof -
  show "sess_inv (s\<lparr>calls := (calls s)(i \<mapsto> r)\<rparr>)" using assms by (auto simp: sess_inv_def list_all_iff split: option.splits)
qed (use assms in \<open>(cases "modal s"; auto simp: sess_inv_def send_call_def all_drop_nth)+\<close>)

lemma sess_step_inv:
  assumes "sess_inv s"
  shows "sess_inv (sess_step s e)"
proof (cases e)
  case (Call i)
  then show ?thesis
    using sess_inv_parts(5) [OF sess_inv_parts(6) [OF assms, of i Pending], of i "stored s"] sess_inv_open [OF sess_inv_parts(6) [OF assms, of i Pending], of i] assms
    by (simp add: start_call_def Let_def)
next
  case (Reply n r)
  have "calls s (fst (flights s ! n)) \<noteq> None" if "n < length (flights s)"
    using assms that by (simp add: sess_inv_def list_all_length)
  then have "\<not> length (flights s) \<le> n \<Longrightarrow> sess_inv (open_modal (fst (flights s ! n)) (s\<lparr>flights := drop_nth n (flights s), stored := []\<rparr>))"
    using sess_inv_open [OF sess_inv_parts(1) [OF sess_inv_parts(2) [OF assms, of n], of "[]"], of "fst (flights s ! n)"] by simp
  then show ?thesis
    using Reply assms sess_inv_parts(2) [OF assms, of n] by (simp add: on_reply_def Let_def sess_inv_settle split: http.splits option.splits)
next
  case LoginSubmit
  then show ?thesis using assms by (auto simp: on_submit_def sess_inv_def split: option.splits)
next
  case (LoginReply n r)
  show ?thesis
  proof (cases "length (logins s) \<le> n")
    case True
    then show ?thesis using LoginReply assms by (simp add: on_login_def)
  next
    case False
    let ?m = "logins s ! n" and ?s = "s\<lparr>logins := drop_nth n (logins s)\<rparr>"
    have c: "calls s (snd ?m) \<noteq> None" using assms False by (simp add: sess_inv_def list_all_length)
    have i: "sess_inv (?s\<lparr>stored := sid\<rparr>)" for sid by (rule sess_inv_parts(1) [OF sess_inv_parts(3) [OF assms]])
    have "sess_inv (send_call (snd ?m) sid (?s\<lparr>stored := sid\<rparr>))" "sess_inv (send_call (snd ?m) sid (?s\<lparr>stored := sid, modal := None\<rparr>))" for sid
      using sess_inv_parts(5) [OF i [of sid]] sess_inv_parts(5) [OF sess_inv_parts(4) [OF i [of sid]]] c by simp_all
    then show ?thesis
      using LoginReply False sess_inv_parts(3) [OF assms, of n] by (cases r) (simp_all add: on_login_def Let_def)
  qed
next
  case LoginCancel
  then show ?thesis using assms sess_inv_parts(4) [OF assms] by (simp add: on_login_cancel_def sess_inv_settle split: option.splits)
next
  case IdleLogout
  then show ?thesis using sess_inv_parts(1) [OF assms] by simp
qed

lemma sess_run_inv: "sess_inv s \<Longrightarrow> sess_inv (sess_run s es)"
  by (induction es arbitrary: s) (auto simp: sess_step_inv)

lemma done_step: "calls s i = Some r \<Longrightarrow> r \<noteq> Pending \<Longrightarrow> calls (sess_step s e) i = Some r"
  by (cases e) (auto simp: sess_step_defs Let_def split: option.splits http.splits)

lemma done_run: "calls s i = Some r \<Longrightarrow> r \<noteq> Pending \<Longrightarrow> calls (sess_run s es) i = Some r"
  by (induction es arbitrary: s) (auto simp: done_step)

text \<open>
  What changes a call: it starts once; an answer to a request of its own settles it with the outcome of that answer, but a 401 and a
  falsy body do not; cancelling the dialog that it opened rejects it. No login settles a call, and nothing that
  happens to another call.
\<close>

definition settled_by :: "'a sess_event \<Rightarrow> 'a sess \<Rightarrow> nat \<Rightarrow> 'a outcome option \<Rightarrow> bool" where
  "settled_by e s j r =
     (case e of
        Call k \<Rightarrow> k = j \<and> calls s j = None \<and> r = Some Pending
      | Reply n x \<Rightarrow>
          n < length (flights s) \<and> fst (flights s ! n) = j \<and> calls s j = Some Pending
          \<and> (case x of
               Ok (Some d) \<Rightarrow> r = Some (Resolved d)
             | HttpError m st \<Rightarrow> r = Some (Rejected (if m = [] then st else m))
             | NetworkError m \<Rightarrow> r = Some (Rejected m)
             | BadJson m \<Rightarrow> r = Some (Rejected m)
             | _ \<Rightarrow> False)
      | LoginCancel \<Rightarrow>
          (case modal s of None \<Rightarrow> False | Some m \<Rightarrow> snd m = j) \<and> calls s j = Some Pending \<and> r = Some (Rejected ''cancelled'')
      | _ \<Rightarrow> False)"

lemma settled_by_step:
  "calls (sess_step s e) j \<noteq> calls s j \<Longrightarrow> settled_by e s j (calls (sess_step s e) j)"
  by (cases e) (auto simp: settled_by_def sess_step_defs or_str_def Let_def split: option.splits http.splits if_splits)

text \<open>
  A call that has not settled settles only by an answer to one of its requests or at its dialog: without a request in
  flight, a login in flight and the dialog on screen it never will.
\<close>

definition idle_call :: "nat \<Rightarrow> 'a sess \<Rightarrow> bool" where
  "idle_call i s =
     (list_all (\<lambda>f. fst f \<noteq> i) (flights s) \<and> list_all (\<lambda>l. snd l \<noteq> i) (logins s)
      \<and> (case modal s of None \<Rightarrow> True | Some m \<Rightarrow> snd m \<noteq> i))"

definition orphan :: "nat \<Rightarrow> 'a sess \<Rightarrow> bool" where
  "orphan i s = (calls s i = Some Pending \<and> idle_call i s)"

lemma orphan_step:
  assumes "orphan i s"
  shows "orphan i (sess_step s e)"
proof -
  have f: "n < length (flights s) \<Longrightarrow> fst (flights s ! n) \<noteq> i" and l: "n < length (logins s) \<Longrightarrow> snd (logins s ! n) \<noteq> i" for n
    using assms by (simp_all add: orphan_def idle_call_def list_all_length)
  show ?thesis
    using assms f l
    by (cases e) (auto simp: orphan_def idle_call_def sess_step_defs Let_def all_drop_nth not_le split: option.splits http.splits)
qed

lemma orphan_run: "orphan i s \<Longrightarrow> orphan i (sess_run s es)"
  by (induction es arbitrary: s) (auto simp: orphan_step)

lemma second_unauthorized_orphans:
  assumes "calls s i = Some Pending" "m < length (flights s)" "fst (flights s ! m) = i"
    and "list_all (\<lambda>f. fst f \<noteq> i) (drop_nth m (flights s))" "list_all (\<lambda>l. snd l \<noteq> i) (logins s)"
    and "n < length (drop_nth m (flights s))"
  shows "orphan i (sess_run s [Reply m Unauthorized, Reply n Unauthorized])"
proof -
  have "fst (drop_nth m (flights s) ! n) \<noteq> i" using assms(4,6) by (simp add: list_all_length)
  then show ?thesis using assms by (simp add: orphan_def idle_call_def on_reply_def open_modal_def Let_def all_drop_nth)
qed

section \<open>Properties\<close>

lemma tryRequest_resolved:
  assumes "get_item session_key b = sid" "tryRequest net rq sid b = (Resolved d, b')"
  shows "\<exists>qs. sent b' = sent b @ qs @ [rq\<lparr>rq_session := get_item session_key b'\<rparr>] \<and> call_requests rq qs
    \<and> net (sent b @ qs) (rq\<lparr>rq_session := get_item session_key b'\<rparr>) = Ok (Some d)"
  using assms
proof (induction net rq sid b rule: tryRequest.induct)
  case (1 net rq sid b)
  let ?q = "rq\<lparr>rq_session := sid\<rparr>"
  let ?b1 = "b\<lparr>sent := sent b @ [?q]\<rparr>"
  show ?case
  proof (cases "net (sent b) ?q")
    case Unauthorized
    obtain res b2 where lg: "showLoginModal (remove_item session_key ?b1) = (res, b2)" by fastforce
    from login_requests [OF lg, of rq] obtain qs
      where qs: "sent b2 = sent b @ ?q # qs" "call_requests rq qs" by auto
    show ?thesis
    proof (cases res)
      case (LoggedIn s)
      with "1.prems" Unauthorized lg have again: "tryRequest net rq s b2 = (Resolved d, b')"
        by (simp add: tryRequest.simps [of net rq sid])
      have "get_item session_key b2 = s"
        using showLoginModal_session [OF lg] LoggedIn by (simp add: get_item_def)
      from "1.IH" [OF refl refl Unauthorized lg [unfolded LoggedIn, symmetric] refl this again]
      obtain rs where rs: "sent b' = sent b2 @ rs @ [rq\<lparr>rq_session := get_item session_key b'\<rparr>]" "call_requests rq rs"
        "net (sent b2 @ rs) (rq\<lparr>rq_session := get_item session_key b'\<rparr>) = Ok (Some d)" by blast
      have "sent b' = sent b @ ([?q] @ qs @ rs) @ [rq\<lparr>rq_session := get_item session_key b'\<rparr>]
          \<and> call_requests rq ([?q] @ qs @ rs)
          \<and> net (sent b @ ([?q] @ qs @ rs)) (rq\<lparr>rq_session := get_item session_key b'\<rparr>) = Ok (Some d)"
        using rs qs by simp
      then show ?thesis by blast
    qed (use "1.prems" Unauthorized lg in \<open>simp_all add: tryRequest.simps [of net rq sid]\<close>)
  next
    case (Ok x)
    with "1.prems" have "x = Some d" "b' = ?b1"
      by (auto simp: tryRequest.simps [of net rq sid] Let_def split: option.splits)
    moreover have "get_item session_key ?b1 = sid" using "1.prems"(1) by (simp add: get_item_def)
    ultimately show ?thesis using Ok by (intro exI [of _ "[]"]) simp
  qed (use "1.prems" in \<open>simp_all add: tryRequest.simps [of net rq sid] Let_def\<close>)
qed

lemma apiProtected_resolved:
  assumes "apiProtected net rq b = (Resolved d, b')"
  shows "\<exists>qs. sent b' = sent b @ qs @ [rq\<lparr>rq_session := get_item session_key b'\<rparr>] \<and> call_requests rq qs
    \<and> net (sent b @ qs) (rq\<lparr>rq_session := get_item session_key b'\<rparr>) = Ok (Some d)"
proof (cases "get_item session_key b = []")
  case False
  with assms show ?thesis by (intro tryRequest_resolved) (simp_all add: apiProtected_def Let_def)
next
  case True
  obtain res b1 where lg: "showLoginModal b = (res, b1)" by fastforce
  from login_requests [OF lg, of rq] obtain qs where qs: "sent b1 = sent b @ qs" "call_requests rq qs" by blast
  from assms True lg obtain s where s: "res = LoggedIn s" "tryRequest net rq s b1 = (Resolved d, b')"
    by (auto simp: apiProtected_def split: login_result.splits)
  have "get_item session_key b1 = s" using showLoginModal_session [OF lg] s by (simp add: get_item_def)
  from tryRequest_resolved [OF this s(2)] obtain rs where
    "sent b' = sent b1 @ rs @ [rq\<lparr>rq_session := get_item session_key b'\<rparr>]" "call_requests rq rs"
    "net (sent b1 @ rs) (rq\<lparr>rq_session := get_item session_key b'\<rparr>) = Ok (Some d)" by blast
  with qs have "sent b' = sent b @ (qs @ rs) @ [rq\<lparr>rq_session := get_item session_key b'\<rparr>] \<and> call_requests rq (qs @ rs)
      \<and> net (sent b @ (qs @ rs)) (rq\<lparr>rq_session := get_item session_key b'\<rparr>) = Ok (Some d)" by simp
  then show ?thesis by blast
qed

text \<open>
  C1: a value that \<^verbatim>\<open>apiProtected\<close> resolves with is the server's answer to this very request, sent
  last and under the session that storage holds afterwards; everything the call sent before is a
  login attempt with a password, or the same request under an earlier session. This holds for every
  server and everything the user does at the login dialog.
\<close>

theorem api_resolved:
  assumes "apiProtected net rq b = (Resolved d, b')"
  shows "\<exists>qs. sent b' = sent b @ qs @ [rq\<lparr>rq_session := get_item session_key b'\<rparr>] \<and> call_requests rq qs
    \<and> net (sent b @ qs) (rq\<lparr>rq_session := get_item session_key b'\<rparr>) = Ok (Some d)"
  by (rule apiProtected_resolved [OF assms])

text \<open>A page at the start: no session, the user will log in, and a server that rejects the first session.\<close>

definition sample_browser :: browser where
  "sample_browser = \<lparr>dom = Map.empty, session = [session_key \<mapsto> ''old''], next_id = 0, timers = [], toasts = [],
     idle_timer = None, sent = [], login_inputs = [SubmitClick ''pw'' (LoginAccepted (Some ''new''))],
     confirm_inputs = [], downloads = [], confirm_log = []\<rparr>"

definition sample_net :: "nat net" where
  "sample_net h q = (if rq_session q = ''new'' then Ok (Some 7) else Unauthorized)"

theorem api_resolved_witness:
  "\<exists>b'. apiProtected sample_net (get_rq ''/settings'') sample_browser = (Resolved 7, b')
    \<and> (\<exists>qs. sent b' = sent sample_browser @ qs @ [(get_rq ''/settings'')\<lparr>rq_session := get_item session_key b'\<rparr>]
      \<and> call_requests (get_rq ''/settings'') qs
      \<and> sample_net (sent sample_browser @ qs) ((get_rq ''/settings'')\<lparr>rq_session := get_item session_key b'\<rparr>) = Ok (Some 7))"
proof -
  obtain r b' where call: "apiProtected sample_net (get_rq ''/settings'') sample_browser = (r, b')" by fastforce
  moreover from call have "r = Resolved 7"
    by (simp add: apiProtected_def tryRequest.simps sample_net_def sample_browser_def get_item_def get_rq_def
        showLoginModal_def login_submit_def Let_def remove_item_def set_item_def idle_reset_def set_timer_def
        clear_slot_def)
  ultimately show ?thesis using api_resolved [of sample_net "get_rq ''/settings''" sample_browser 7 b'] by blast
qed

text \<open>
  C2: a call ends after finitely many retries, even against a server that answers 401 for ever: besides its first request it
  sends at most two requests per input of the user, a login and a retry; and unless the server sends a falsy body it
  stays open only at a dialog that waits for the user.
\<close>

theorem retries_bounded:
  assumes "apiProtected net rq b = (r, b')" "\<And>h q. net h q \<noteq> Ok None"
  shows "length (sent b') + 2 * length (login_inputs b') \<le> length (sent b) + 2 * length (login_inputs b) + 1
    \<and> (if r = Pending then login_inputs b' = [] else True)"
proof (cases "get_item session_key b = []")
  case False
  then show ?thesis using tryRequest_count [OF assms(2)] assms(1) by (simp add: apiProtected_def)
next
  case True
  obtain res b1 where lg: "showLoginModal b = (res, b1)" by fastforce
  note n = showLoginModal_count [OF lg]
  show ?thesis
  proof (cases res)
    case (LoggedIn s)
    with True assms(1) lg have "tryRequest net rq s b1 = (r, b')" by (simp add: apiProtected_def)
    from tryRequest_count [OF assms(2) this] show ?thesis using n showLoginModal_inputs [OF lg [unfolded LoggedIn]] by simp
  qed (use True assms(1) lg n in \<open>auto simp: apiProtected_def\<close>)
qed

theorem retries_bounded_witness:
  "let b = sample_browser\<lparr>login_inputs := replicate 3 (SubmitClick ''pw'' (LoginAccepted (Some ''s'')))\<rparr>;
       (r :: unit outcome, b') = apiProtected (\<lambda>_ _. Unauthorized) (get_rq ''/jobs'') b
   in length (sent b') + 2 * length (login_inputs b') \<le> length (sent b) + 2 * length (login_inputs b) + 1
      \<and> (if r = Pending then login_inputs b' = [] else True)"
proof -
  let ?b = "sample_browser\<lparr>login_inputs := replicate 3 (SubmitClick ''pw'' (LoginAccepted (Some ''s'')))\<rparr>"
  obtain r b1 where c: "apiProtected (\<lambda>_ _. Unauthorized) (get_rq ''/jobs'') ?b = (r :: unit outcome, b1)" by fastforce
  show ?thesis using retries_bounded [OF c] by (simp only: Let_def c split) simp
qed

text \<open>
  in an established session, a successful reply whose JSON body is falsy (\<^verbatim>\<open>null\<close>, \<^verbatim>\<open>0\<close>, the empty
  string) leaves the promise pending for good: the caller neither continues nor reports an error.
\<close>

theorem falsy_reply_hangs:
  assumes "get_item session_key b \<noteq> []"
    and "net (sent b) (rq\<lparr>rq_session := get_item session_key b\<rparr>) = Ok None"
  shows "\<exists>b'. apiProtected net rq b = (Pending, b') \<and> toasts b' = toasts b \<and> dom b' = dom b"
  using apiProtected_authorized(4) [OF assms(1), of net rq "Ok None"] assms(2) by simp

theorem falsy_reply_hangs_witness:
  "\<exists>b'. apiProtected (\<lambda>h q. Ok None :: nat http) (get_rq ''/settings'') sample_browser = (Pending, b')
    \<and> toasts b' = toasts sample_browser \<and> dom b' = dom sample_browser"
  by (rule falsy_reply_hangs) (simp_all add: sample_browser_def get_item_def)

lemma idle_fire_ok: "timers_ok b \<Longrightarrow> timers_ok (idle_fire i b)"
proof -
  assume "timers_ok b"
  then have "timers_ok (clear_timer i b)" by (rule tm.ok_clear)
  moreover from this have "timers_ok (remove_item session_key (clear_timer i b))"
    by (simp add: timers_ok_def)
  ultimately show ?thesis using \<open>timers_ok b\<close> by (simp add: idle_fire_def idle_expire_def showToast_ok)
qed

lemma idle_run_ok: "timers_ok b \<Longrightarrow> timers_ok (idle_run es b)"
  by (induction es b rule: idle_run.induct) (auto simp: idle_on_event_def idle_reset_ok idle_fire_ok)

text \<open>
  C5: however document events and expiring timers interleave, the idle tracker never has two
  expiries pending; after any activity exactly one is pending, for fifteen minutes; and when it
  fires, the session is gone.
\<close>

theorem idle_tracker:
  fixes b es e
  assumes "timers b = []" "idle_timer b = None" "e \<in> set activity_events"
  defines "b1 \<equiv> idle_run es b"
  shows "length (filter (\<lambda>t. action t = IdleExpire) (timers b1)) \<le> 1
    \<and> map delay (filter (\<lambda>t. action t = IdleExpire) (timers (idle_on_event e b1))) = [900000]
    \<and> (\<exists>i. idle_timer (idle_on_event e b1) = Some i \<and> get_item session_key (idle_fire i (idle_on_event e b1)) = [])"
proof -
  have le: "slot_le IdleExpire (idle_timer b1) (timers b1)"
    unfolding b1_def by (rule idle_run_slot) (simp add: assms slot_le_def)
  have ok: "timers_ok b1" unfolding b1_def by (rule idle_run_ok) (simp add: assms timers_ok_def)
  have "length (filter (\<lambda>t. action t = IdleExpire) (timers b1)) \<le> 1"
  proof (rule filter_distinct_at_most_one)
    show "distinct (timers b1)" using ok by (simp add: timers_ok_def distinct_map)
    fix x y assume xy: "x \<in> set (timers b1)" "y \<in> set (timers b1)" "action x = IdleExpire" "action y = IdleExpire"
    then have "tid x = tid y" using le unfolding slot_le_def by (metis option.inject)
    then show "x = y" using ok xy(1,2) unfolding timers_ok_def distinct_map by (meson inj_onD)
  qed
  moreover
  let ?r = "idle_reset b1"
  have r: "idle_on_event e b1 = ?r" using assms(3) by (simp add: idle_on_event_def)
  have slot: "slot_inv IdleExpire (idle_timer ?r) (timers ?r)" by (rule idle_reset_slot [OF le])
  obtain i where i: "idle_timer ?r = Some i" by (simp add: idle_reset_def Let_def set_timer_def)
  have gone: "slot_inv IdleExpire None (timers (clear_slot (idle_timer b1) b1))" using le by (rule clear_slot_None)
  then have "filter (\<lambda>t. action t = IdleExpire) (timers (clear_slot (idle_timer b1) b1)) = []"
    by (simp add: slot_inv_def)
  then have "map delay (filter (\<lambda>t. action t = IdleExpire) (timers ?r)) = [900000]"
    by (simp add: idle_reset_def Let_def set_timer_def idle_timeout_def)
  moreover have "get_item session_key (idle_fire i ?r) = []"
    using slot_inv_SomeD(1) [of IdleExpire i "timers ?r"] slot i by (auto simp: idle_fire_def idle_expire_session)
  ultimately show ?thesis using r i by auto
qed

theorem idle_tracker_witness:
  "length (filter (\<lambda>t. action t = IdleExpire) (timers (idle_run [DomEvent ''click'', Fire 0, DomEvent ''scroll''] sample_browser))) \<le> 1
    \<and> map delay (filter (\<lambda>t. action t = IdleExpire)
        (timers (idle_on_event ''click'' (idle_run [DomEvent ''click'', Fire 0, DomEvent ''scroll''] sample_browser)))) = [900000]
    \<and> (\<exists>i. idle_timer (idle_on_event ''click'' (idle_run [DomEvent ''click'', Fire 0, DomEvent ''scroll''] sample_browser)) = Some i
      \<and> get_item session_key (idle_fire i (idle_on_event ''click'' (idle_run [DomEvent ''click'', Fire 0, DomEvent ''scroll''] sample_browser))) = [])"
  by (rule idle_tracker) (simp_all add: sample_browser_def activity_events_def)

text \<open>
  C4: when the only request of a call and a request of another call both come back with status 401, the second
  opens the login dialog in place of the first one's: whatever happens later, to logins in flight too, the first call
  is at a dialog that is gone, and its promise never settles.
\<close>

theorem second_401_strands:
  assumes "calls s i = Some Pending" "m < length (flights s)" "fst (flights s ! m) = i"
    and "list_all (\<lambda>f. fst f \<noteq> i) (drop_nth m (flights s))" "list_all (\<lambda>l. snd l \<noteq> i) (logins s)"
    and "n < length (drop_nth m (flights s))"
  shows "calls (sess_run s ([Reply m Unauthorized, Reply n Unauthorized] @ es)) i = Some Pending"
  using orphan_run [OF second_unauthorized_orphans [OF assms], of es] by (simp only: sess_run_append orphan_def)

definition two_calls :: "nat sess" where
  "two_calls = \<lparr>calls = [1 \<mapsto> Pending, 2 \<mapsto> Pending], flights = [(1, ''s''), (2, ''s'')], logins = [], modal = None, fresh = 0, stored = ''s''\<rparr>"

theorem second_401_strands_witness:
  "calls (sess_run two_calls ([Reply 0 Unauthorized, Reply 0 Unauthorized]
     @ [LoginSubmit, LoginReply 0 (Some ''t''), Reply 0 (Ok (Some 5)), LoginCancel])) 1 = Some Pending"
  by (rule second_401_strands) (simp_all add: two_calls_def drop_nth_def)

text \<open>
  C3: with any number of calls over the one dialog, and in every order of answers, submitted passwords and
  cancellations, a call that has settled keeps its outcome, everything in flight belongs to a call that was started, and a
  login submitted in the dialog on screen is one for the call that opened it. A call settles only by an answer to a request of its
  own, with the outcome of that answer, or by the cancellation of the dialog that it opened.
\<close>

theorem settled_calls_final:
  assumes "sess_inv s" "calls s i = Some r" "r \<noteq> Pending"
  shows "calls (sess_run s es) i = Some r \<and> sess_inv (sess_run s es)
    \<and> (if calls (sess_run s (es @ [e])) j = calls (sess_run s es) j then True
        else settled_by e (sess_run s es) j (calls (sess_run s (es @ [e])) j))"
  using assms done_run sess_run_inv settled_by_step [of "sess_run s es" e j] by (metis sess_run_append sess_run_simps)

theorem settled_calls_final_witness:
  "let s = sess_run two_calls [Reply 0 (Ok (Some 4))]; es = [Reply 0 Unauthorized, LoginSubmit, LoginSubmit, LoginReply 1 (Some ''t'')] in
   calls (sess_run s es) 1 = Some (Resolved 4) \<and> sess_inv (sess_run s es)
    \<and> (if calls (sess_run s (es @ [Reply 0 (Ok (Some 9))])) 2 = calls (sess_run s es) 2 then True
        else settled_by (Reply 0 (Ok (Some 9))) (sess_run s es) 2 (calls (sess_run s (es @ [Reply 0 (Ok (Some 9))])) 2))"
  unfolding Let_def
  by (rule settled_calls_final) (simp_all add: two_calls_def sess_inv_def on_reply_def settle_def Let_def drop_nth_def)

text \<open>
  Nothing disables the button while a login is in flight: a password submitted twice runs the callback of the dialog
  twice, and the request of the call is sent twice, whatever it does.
\<close>

theorem double_submit_repeats:
  assumes "modal s = Some (d, i)" "logins s = []"
  shows "flights (sess_run s [LoginSubmit, LoginSubmit, LoginReply 0 (Some x), LoginReply 0 (Some y)]) = flights s @ [(i, x), (i, y)]"
  using assms by (simp add: on_submit_def on_login_def send_call_def Let_def drop_nth_def)

lemma match_filename_skip: "CHR ''f'' \<notin> set p \<Longrightarrow> match_filename (p @ s) = match_filename s"
  by (induction p) auto

text \<open>
  C34: the name a download is saved under is the one in the \<^verbatim>\<open>Content-Disposition\<close> header, for every
  name without quotes and line breaks; without a header it is \<^verbatim>\<open>artifact.bin\<close>.
\<close>

theorem download_name_exact:
  assumes "f \<noteq> []" "CHR 0x22 \<notin> set f" "CHR 0x0A \<notin> set f" "CHR 0x0D \<notin> set f"
  shows "download_name (Some (''attachment; filename='' @ dq @ f @ dq)) = f \<and> download_name None = ''artifact.bin''"
proof -
  have "match_filename (''filename='' @ dq @ f @ dq) = Some f"
    using greedy_quoted_exact [OF assms] by simp
  moreover have "match_filename (''attachment; '' @ ''filename='' @ dq @ f @ dq) = match_filename (''filename='' @ dq @ f @ dq)"
    by (rule match_filename_skip) simp
  ultimately show ?thesis by (simp add: download_name_def)
qed

theorem download_name_exact_witness:
  "download_name (Some (''attachment; filename='' @ dq @ ''db_2024.dump'' @ dq)) = ''db_2024.dump'' \<and> download_name None = ''artifact.bin''"
  by (rule download_name_exact) simp_all

text \<open>
  the same failed download is reported with a toast when the session was there at the click, and not
  at all when the user had to log in first.
\<close>

theorem download_error_lost:
  assumes "\<And>h q. net h q = DlError e st"
  shows "if get_item session_key b \<noteq> []
    then JobUI_download net jobId b =
      showToast (''download failed: '' @ or_str e st) ''error'' (b\<lparr>sent := sent b @ [download_rq jobId (get_item session_key b)]\<rparr>)
    else toasts (JobUI_download net jobId b) = toasts b"
proof (cases "get_item session_key b = []")
  case True
  obtain res b1 where lg: "showLoginModal b = (res, b1)" by fastforce
  have "toasts b1 = toasts b" using showLoginModal_session [OF lg] by simp
  with True lg show ?thesis
    by (cases res) (simp_all add: JobUI_download_def doDownload.simps Let_def assms)
qed (simp add: JobUI_download_def doDownload.simps Let_def assms)

theorem download_error_lost_witness:
  "JobUI_download (\<lambda>h q. DlError ''gone'' ''Not Found'') ''7'' sample_browser =
     showToast (''download failed: '' @ or_str ''gone'' ''Not Found'') ''error''
       (sample_browser\<lparr>sent := sent sample_browser @ [download_rq ''7'' (get_item session_key sample_browser)]\<rparr>)
   \<and> toasts (JobUI_download (\<lambda>h q. DlError ''gone'' ''Not Found'') ''7'' (sample_browser\<lparr>session := Map.empty\<rparr>)) = []"
  using download_error_lost [of "\<lambda>h q. DlError ''gone'' ''Not Found''" "''gone''" "''Not Found''" sample_browser "''7''"]
    download_error_lost [of "\<lambda>h q. DlError ''gone'' ''Not Found''" "''gone''" "''Not Found''" "sample_browser\<lparr>session := Map.empty\<rparr>" "''7''"]
  by (simp add: sample_browser_def get_item_def)

end
