(* ===== verification/Dialogs.thy ===== *)
theory Dialogs
  imports Session
begin

text \<open>
  \<^verbatim>\<open>showConfirm\<close> of app.js. The page handlers use the sequential form: one dialog, one answer from
  the user. The second part is the dialog as the event machine the code builds, with every
  listener it registers and removes, for any number of dialogs.
\<close>

section \<open>The markup\<close>

text \<open>\<^verbatim>\<open>message.replace(/\n/g, '<br>')\<close>: the lines of the message, unescaped, with line breaks.\<close>

fun br_lines :: "string list \<Rightarrow> html list" where
  "br_lines [] = []"
| "br_lines [l] = [Txt l]"
| "br_lines (l # ls) = Txt l # El ''br'' [] [] # br_lines ls"

definition message_markup :: "string \<Rightarrow> html list" where
  "message_markup m = br_lines (split_on CHR 0x0A m)"

lemma ser_br_lines: "ws \<noteq> [] \<Longrightarrow> ser_list (br_lines ws) = join_with ''<br>'' ws"
  by (induction ws rule: br_lines.induct) (simp_all add: ser_list_def void_tags_def)

lemma join_br_split: "join_with ''<br>'' (split_on CHR 0x0A m) = replace_all CHR 0x0A ''<br>'' m"
proof (induction m)
  case (Cons c m)
  obtain w ws where ws: "split_on CHR 0x0A m = w # ws" by (cases "split_on CHR 0x0A m") auto
  with Cons show ?case by (cases ws) (auto simp: replace_all_Cons)
qed simp

lemma message_markup_ser: "ser_list (message_markup m) = replace_all CHR 0x0A ''<br>'' m"
  by (simp add: message_markup_def ser_br_lines join_br_split)

record confirm_options =
  danger :: bool
  confirmText :: string
  cancelText :: string

definition default_options :: confirm_options where
  "default_options = \<lparr>danger = False, confirmText = ''confirm'', cancelText = ''cancel''\<rparr>"

definition danger_options :: "string \<Rightarrow> confirm_options" where
  "danger_options t = default_options\<lparr>danger := True, confirmText := t\<rparr>"

definition confirm_markup :: "string \<Rightarrow> string \<Rightarrow> confirm_options \<Rightarrow> html list" where
  "confirm_markup title message opts =
     (let msgHtml = message_markup message in
      [El ''div'' [At ''class'' ''modal-dialog'', At ''style'' ''width:380px'']
      [El ''div'' [At ''class'' ''modal-header'']
       [El ''span'' [At ''class'' ''modal-title''] [Txt title],
       El ''button'' [At ''class'' ''modal-close'', At ''id'' ''confirm-close''] [Txt ''&times;'']],
      El ''div'' [At ''class'' ''modal-body'']
       [El ''div'' [At ''class'' ''mono-xs'', At ''style'' ''line-height:1.6''] msgHtml],
      El ''div'' [At ''class'' ''modal-footer'']
       [El ''button'' [At ''class'' ''btn btn-sm'', At ''id'' ''confirm-cancel''] [Txt (cancelText opts)],
       El ''button'' [At ''class'' (''btn btn-sm '' @ (if danger opts then ''btn-danger'' else ''btn-primary'')), At ''id'' ''confirm-ok''] [Txt (confirmText opts)]]]])"

definition showConfirm ::
    "string \<Rightarrow> string \<Rightarrow> confirm_options \<Rightarrow> browser \<Rightarrow> bool outcome \<times> browser" where
  "showConfirm title message opts b =
     (let b1 = b\<lparr>confirm_log := confirm_log b @ [confirm_markup title message opts]\<rparr> in
      case confirm_inputs b of
        [] \<Rightarrow> (Pending, b1)
      | a # as \<Rightarrow> (Resolved a, b1\<lparr>confirm_inputs := as\<rparr>))"

lemma showConfirm_frame:
  "showConfirm t m opts b = (r, b') \<Longrightarrow>
   dom b' = dom b \<and> session b' = session b \<and> sent b' = sent b \<and> timers b' = timers b
   \<and> toasts b' = toasts b \<and> next_id b' = next_id b \<and> idle_timer b' = idle_timer b
   \<and> login_inputs b' = login_inputs b \<and> get_item k b' = get_item k b"
  by (auto simp: showConfirm_def Let_def get_item_def split: list.splits)

section \<open>The dialog as a machine\<close>

text \<open>
  A dialog has its overlay in the document or not, its \<^verbatim>\<open>keydown\<close> listener on the document or
  not, and its promise resolved or not. The overlay on screen is found by its id, so there is
  at most one; the listeners are on the document, and a key runs every one of them.
\<close>

record dialog =
  listening :: bool
  result :: "bool option"

record dialogs =
  boxes :: "(nat \<times> dialog) list"
  overlay :: "nat option"

datatype dialog_event =
    OpenDialog nat
  | OkButton
  | CancelButton
  | CloseButton
  | OverlayClick
  | KeyDown string

text \<open>\<^verbatim>\<open>cleanup(r)\<close>: the overlay goes, the promise resolves unless it has already.\<close>

definition resolve_box :: "bool \<Rightarrow> dialog \<Rightarrow> dialog" where
  "resolve_box r d = (if result d = None then d\<lparr>result := Some r\<rparr> else d)"

definition on_box :: "nat \<Rightarrow> (dialog \<Rightarrow> dialog) \<Rightarrow> (nat \<times> dialog) list \<Rightarrow> (nat \<times> dialog) list" where
  "on_box i f = map (\<lambda>(j, d). (j, if j = i then f d else d))"

definition dialog_cleanup :: "nat \<Rightarrow> bool \<Rightarrow> dialogs \<Rightarrow> dialogs" where
  "dialog_cleanup i r ds =
     ds\<lparr>overlay := (if overlay ds = Some i then None else overlay ds),
       boxes := on_box i (resolve_box r) (boxes ds)\<rparr>"

definition click_overlay_button :: "bool \<Rightarrow> dialogs \<Rightarrow> dialogs" where
  "click_overlay_button r ds =
     (case overlay ds of None \<Rightarrow> ds | Some i \<Rightarrow> dialog_cleanup i r ds)"

text \<open>The keydown handlers, in the order they were added: each removes itself and cleans up.\<close>

definition run_listener :: "bool \<Rightarrow> nat \<Rightarrow> dialogs \<Rightarrow> dialogs" where
  "run_listener r i ds =
     dialog_cleanup i r (ds\<lparr>boxes := on_box i (\<lambda>d. d\<lparr>listening := False\<rparr>) (boxes ds)\<rparr>)"

definition run_listeners :: "bool \<Rightarrow> dialogs \<Rightarrow> dialogs" where
  "run_listeners r ds =
     fold (run_listener r) (map fst (filter (\<lambda>(j, d). listening d) (boxes ds))) ds"

fun dialog_step :: "dialogs \<Rightarrow> dialog_event \<Rightarrow> dialogs" where
  "dialog_step ds (OpenDialog i) =
     (if i \<in> fst ` set (boxes ds) then ds
      else ds\<lparr>boxes := boxes ds @ [(i, \<lparr>listening = True, result = None\<rparr>)], overlay := Some i\<rparr>)"
| "dialog_step ds OkButton = click_overlay_button True ds"
| "dialog_step ds CancelButton = click_overlay_button False ds"
| "dialog_step ds CloseButton = click_overlay_button False ds"
| "dialog_step ds OverlayClick = click_overlay_button False ds"
| "dialog_step ds (KeyDown k) =
     (if k = ''Escape'' then run_listeners False ds
      else if k = ''Enter'' then run_listeners True ds
      else ds)"

definition dialog_run :: "dialogs \<Rightarrow> dialog_event list \<Rightarrow> dialogs" where
  "dialog_run ds es = fold (\<lambda>e ds. dialog_step ds e) es ds"

definition no_dialogs :: dialogs where
  "no_dialogs = \<lparr>boxes = [], overlay = None\<rparr>"

definition answer :: "nat \<Rightarrow> dialogs \<Rightarrow> bool option" where
  "answer i ds = (case map_of (boxes ds) i of None \<Rightarrow> None | Some d \<Rightarrow> result d)"

definition hears :: "nat \<Rightarrow> dialogs \<Rightarrow> bool" where
  "hears i ds = (case map_of (boxes ds) i of None \<Rightarrow> False | Some d \<Rightarrow> listening d)"

lemma map_of_on_box: "map_of (on_box i f xs) j = map_option (if j = i then f else id) (map_of xs j)"
  by (induction xs) (auto simp: on_box_def)

lemma keys_on_box [simp]: "map fst (on_box i f xs) = map fst xs"
  by (induction xs) (auto simp: on_box_def)

lemma set_keys_on_box [simp]: "fst ` set (on_box i f xs) = fst ` set xs"
  by (metis keys_on_box set_map)

lemma answer_cleanup:
  "answer j (dialog_cleanup i r ds) =
     (if j = i \<and> i \<in> fst ` set (boxes ds) \<and> answer i ds = None then Some r else answer j ds)"
  by (auto simp: answer_def dialog_cleanup_def map_of_on_box resolve_box_def map_of_eq_None_iff
      split: option.splits dest: map_of_SomeD) (force dest: map_of_SomeD)+

lemma answer_listener:
  "answer j (run_listener r i ds) =
     (if j = i \<and> i \<in> fst ` set (boxes ds) \<and> answer i ds = None then Some r else answer j ds)"
proof -
  let ?ds = "ds\<lparr>boxes := on_box i (\<lambda>d. d\<lparr>listening := False\<rparr>) (boxes ds)\<rparr>"
  have "answer k ?ds = answer k ds" for k
    by (auto simp: answer_def map_of_on_box split: option.splits)
  then show ?thesis
    by (simp add: run_listener_def answer_cleanup)
qed

lemma keys_listener [simp]: "map fst (boxes (run_listener r i ds)) = map fst (boxes ds)"
  by (simp add: run_listener_def dialog_cleanup_def)

lemma keys_fold_listener [simp]: "map fst (boxes (fold (run_listener r) is ds)) = map fst (boxes ds)"
  by (induction "is" arbitrary: ds) simp_all

lemma answer_fold_listeners:
  "set is \<subseteq> fst ` set (boxes ds) \<Longrightarrow>
   answer j (fold (run_listener r) is ds) =
     (if j \<in> set is \<and> answer j ds = None then Some r else answer j ds)"
proof (induction "is" arbitrary: ds)
  case (Cons i "is")
  have keys: "fst ` set (boxes (run_listener r i ds)) = fst ` set (boxes ds)"
    by (metis keys_listener set_map)
  with Cons show ?case by (auto simp: answer_listener)
qed simp

text \<open>An answer, once given, is final: a promise resolves once.\<close>

lemma answer_stable_step: "answer i ds = Some r \<Longrightarrow> answer i (dialog_step ds e) = Some r"
proof (cases e)
  case (KeyDown k)
  assume ans: "answer i ds = Some r"
  have "set (map fst (filter (\<lambda>(j, d). listening d) (boxes ds))) \<subseteq> fst ` set (boxes ds)" by auto
  with KeyDown ans show ?thesis
    by (simp add: run_listeners_def answer_fold_listeners)
next
  case (OpenDialog j)
  assume "answer i ds = Some r"
  with OpenDialog show ?thesis
    by (auto simp: answer_def map_add_Some_iff split: option.splits)
qed (auto simp: click_overlay_button_def answer_cleanup split: option.splits)

lemma answer_stable_run: "answer i ds = Some r \<Longrightarrow> answer i (dialog_run ds es) = Some r"
  by (induction es arbitrary: ds) (auto simp: dialog_run_def answer_stable_step)

lemma answer_on_key:
  assumes "distinct (map fst (boxes ds))" "hears i ds" "answer i ds = None"
    and "k = ''Enter'' \<and> r = True \<or> k = ''Escape'' \<and> r = False"
  shows "answer i (dialog_step ds (KeyDown k)) = Some r"
proof -
  obtain d where d: "map_of (boxes ds) i = Some d" "listening d"
    using assms(2) by (auto simp: hears_def split: option.splits)
  then have "i \<in> set (map fst (filter (\<lambda>(j, d). listening d) (boxes ds)))"
    by (force dest: map_of_SomeD)
  moreover have "set (map fst (filter (\<lambda>(j, d). listening d) (boxes ds))) \<subseteq> fst ` set (boxes ds)"
    by auto
  ultimately show ?thesis
    using assms(3,4) by (auto simp: run_listeners_def answer_fold_listeners)
qed

section \<open>Properties\<close>

lemma keys_dialog_step: "distinct (map fst (boxes ds)) \<Longrightarrow> distinct (map fst (boxes (dialog_step ds e)))"
proof (cases e)
  case (KeyDown k)
  assume "distinct (map fst (boxes ds))"
  with KeyDown show ?thesis by (simp add: run_listeners_def)
qed (auto simp: click_overlay_button_def dialog_cleanup_def split: option.splits)

lemma keys_dialog_run: "distinct (map fst (boxes ds)) \<Longrightarrow> distinct (map fst (boxes (dialog_run ds es)))"
  by (induction es arbitrary: ds) (auto simp: dialog_run_def keys_dialog_step)

text \<open>
  C36: in every run of the confirmation dialogs, Enter answers yes, and Escape no, to every dialog whose
  key listener is still on the document and that has no answer yet: also to one that a later dialog
  replaced on screen. The answer is final: no later event changes it.
\<close>

theorem enter_answers_all:
  fixes before after i k
  defines "ds \<equiv> dialog_run no_dialogs before"
  assumes "hears i ds" "answer i ds = None" "k = ''Enter'' \<or> k = ''Escape''"
  shows "answer i (dialog_run ds (KeyDown k # after)) = Some (k = ''Enter'')"
proof -
  have "distinct (map fst (boxes ds))"
    unfolding ds_def by (rule keys_dialog_run) (simp add: no_dialogs_def)
  from answer_on_key [OF this assms(2,3), of k "k = ''Enter''"] assms(4)
  have "answer i (dialog_step ds (KeyDown k)) = Some (k = ''Enter'')" by auto
  then show ?thesis using answer_stable_run [of i "dialog_step ds (KeyDown k)" _ after] by (simp add: dialog_run_def)
qed

theorem enter_answers_all_witness:
  "answer 1 (dialog_run (dialog_run no_dialogs [OpenDialog 1, OpenDialog 2]) (KeyDown ''Enter'' # [CancelButton])) = Some (''Enter'' = ''Enter'')"
  by (rule enter_answers_all)
    (simp_all add: dialog_run_def no_dialogs_def hears_def answer_def)

end
