(* ===== verification/Selectors.thy ===== *)
theory Selectors
  imports Dialogs
begin

text \<open>
  The two selectors of app.js that the pages share: the connection profile of a feature and the
  database, each a slot of session storage with a cached list behind it, and the settings
  document they read.
\<close>

section \<open>The settings document\<close>

record profile =
  p_name :: string
  p_label :: string
  p_type :: string
  p_host :: string
  p_port :: int
  p_database :: string
  p_ssl :: string
  p_desc :: string
  p_enabled :: bool

record backup_config =
  bk_enabled :: bool
  bk_interval :: int
  bk_weekday :: int
  bk_hour :: int
  bk_retain :: int

text \<open>
  An absent \<^verbatim>\<open>connections\<close> object reads as one without profiles and routes; the backup section
  may be missing, and then writing to it is a TypeError.
\<close>

record settings =
  s_profiles :: "profile list"
  s_routes :: "(string \<times> string) list"
  s_backup :: "backup_config option"

definition empty_settings :: settings where
  "empty_settings = \<lparr>s_profiles = [], s_routes = [], s_backup = None\<rparr>"

section \<open>ProfileSelector\<close>

type_synonym settings_net = "settings option net"

definition profile_key :: "string \<Rightarrow> string" where
  "profile_key feature = ''pgaio_profile_'' @ feature"

definition loadSettings ::
    "settings_net \<Rightarrow> settings option \<Rightarrow> browser \<Rightarrow> settings outcome \<times> settings option \<times> browser" where
  "loadSettings net cache b =
     (case cache of
        Some s \<Rightarrow> (Resolved s, cache, b)
      | None \<Rightarrow>
          (case api net (get_rq ''/settings'') b of
             (Resolved r, b1) \<Rightarrow> (let s = or_none r empty_settings in (Resolved s, Some s, b1))
           | (Rejected e, b1) \<Rightarrow> (Rejected e, None, b1)
           | (Pending, b1) \<Rightarrow> (Pending, None, b1)))"

definition enabled_profiles :: "settings \<Rightarrow> profile list" where
  "enabled_profiles s = filter p_enabled (s_profiles s)"

definition getProfiles ::
    "settings_net \<Rightarrow> settings option \<Rightarrow> browser \<Rightarrow> profile list outcome \<times> settings option \<times> browser" where
  "getProfiles net cache b =
     (case loadSettings net cache b of
        (Resolved s, c, b1) \<Rightarrow> (Resolved (enabled_profiles s), c, b1)
      | (Rejected e, c, b1) \<Rightarrow> (Rejected e, c, b1)
      | (Pending, c, b1) \<Rightarrow> (Pending, c, b1))"

definition default_profile :: "string \<Rightarrow> settings \<Rightarrow> string" where
  "default_profile feature s = or_str (or_none (map_of (s_routes s) feature) []) ''direct-postgres''"

definition getDefault ::
    "settings_net \<Rightarrow> string \<Rightarrow> settings option \<Rightarrow> browser \<Rightarrow> string outcome \<times> settings option \<times> browser" where
  "getDefault net feature cache b =
     (case loadSettings net cache b of
        (Resolved s, c, b1) \<Rightarrow> (Resolved (default_profile feature s), c, b1)
      | (Rejected e, c, b1) \<Rightarrow> (Rejected e, c, b1)
      | (Pending, c, b1) \<Rightarrow> (Pending, c, b1))"

definition getSelected :: "string \<Rightarrow> browser \<Rightarrow> string" where
  "getSelected feature b = get_item (profile_key feature) b"

definition setSelected :: "string \<Rightarrow> string \<Rightarrow> browser \<Rightarrow> browser" where
  "setSelected feature p b = set_item (profile_key feature) p b"

definition ensureSelected ::
    "settings_net \<Rightarrow> string \<Rightarrow> settings option \<Rightarrow> browser \<Rightarrow> string outcome \<times> settings option \<times> browser" where
  "ensureSelected net feature cache b =
     (let selected = getSelected feature b in
      if selected \<noteq> [] then (Resolved selected, cache, b)
      else (case getDefault net feature cache b of
              (Resolved fallback, c, b1) \<Rightarrow> (Resolved fallback, c, setSelected feature fallback b1)
            | (Rejected e, c, b1) \<Rightarrow> (Rejected e, c, b1)
            | (Pending, c, b1) \<Rightarrow> (Pending, c, b1)))"

definition profile_option :: "string \<Rightarrow> profile \<Rightarrow> html" where
  "profile_option selected p =
     El ''option'' ([At ''value'' (escHtml (p_name p))] @ flag_if (p_name p = selected) ''selected'')
       [Txt (escHtml (or_str (p_label p) (p_name p)))]"

definition profile_select :: "string \<Rightarrow> profile list \<Rightarrow> html list" where
  "profile_select selected ps =
     [El ''select'' [At ''class'' ''db-select'', At ''title'' ''connection profile''] (map (profile_option selected) ps)]"

text \<open>
  \<^verbatim>\<open>renderInto\<close>: both awaits must resolve before the markup is written; without the container
  nothing happens at all. The change listener it registers is \<^verbatim>\<open>profile_change\<close>.
\<close>

definition profile_renderInto ::
    "settings_net \<Rightarrow> string \<Rightarrow> string \<Rightarrow> settings option \<Rightarrow> browser \<Rightarrow> unit outcome \<times> settings option \<times> browser" where
  "profile_renderInto net container feature cache b =
     (if \<not> element container b then (Resolved (), cache, b)
      else (case getProfiles net cache b of
          (Rejected e, c, b1) \<Rightarrow> (Rejected e, c, b1)
        | (Pending, c, b1) \<Rightarrow> (Pending, c, b1)
        | (Resolved ps, c, b1) \<Rightarrow>
            (case ensureSelected net feature c b1 of
               (Rejected e, c2, b2) \<Rightarrow> (Rejected e, c2, b2)
             | (Pending, c2, b2) \<Rightarrow> (Pending, c2, b2)
             | (Resolved sel, c2, b2) \<Rightarrow>
                 (Resolved (), c2, set_inner container (profile_select sel ps) b2))))"

definition profile_change :: "string \<Rightarrow> string \<Rightarrow> (string \<Rightarrow> browser \<Rightarrow> browser) \<Rightarrow> browser \<Rightarrow> browser" where
  "profile_change feature v onChange b = onChange v (setSelected feature v b)"

definition profile_getParam :: "string \<Rightarrow> browser \<Rightarrow> string" where
  "profile_getParam feature b =
     (let selected = getSelected feature b
      in if selected \<noteq> [] then ''&profile='' @ encode_uri selected else [])"

definition resetCache :: "settings option \<Rightarrow> settings option" where
  "resetCache cache = None"

section \<open>DbSelector\<close>

abbreviation db_key :: string where "db_key \<equiv> ''pgaio_selected_db''"

text \<open>A failed load caches the empty list: the selector does not ask again.\<close>

definition db_load ::
    "string list option net \<Rightarrow> string list option \<Rightarrow> browser \<Rightarrow> string list outcome \<times> string list option \<times> browser" where
  "db_load net cache b =
     (case cache of
        Some ds \<Rightarrow> (Resolved ds, cache, b)
      | None \<Rightarrow>
          (case api net (get_rq ''/database/list'') b of
             (Resolved r, b1) \<Rightarrow> (let ds = or_none r [] in (Resolved ds, Some ds, b1))
           | (Rejected e, b1) \<Rightarrow> (Resolved [], Some [], b1)
           | (Pending, b1) \<Rightarrow> (Pending, None, b1)))"

definition db_getSelected :: "browser \<Rightarrow> string" where
  "db_getSelected b = get_item db_key b"

definition db_setSelected :: "string \<Rightarrow> browser \<Rightarrow> browser" where
  "db_setSelected db b = set_item db_key db b"

definition db_getParam :: "browser \<Rightarrow> string" where
  "db_getParam b =
     (let db = db_getSelected b in if db \<noteq> [] then ''?database='' @ encode_uri db else [])"

definition db_option :: "string \<Rightarrow> string \<Rightarrow> html" where
  "db_option sel d =
     El ''option'' ([At ''value'' (escHtml d)] @ flag_if (d = sel) ''selected'') [Txt (escHtml d)]"

definition db_select :: "string \<Rightarrow> string list \<Rightarrow> html list" where
  "db_select sel dbs =
     [El ''select'' [At ''id'' ''db-selector'', At ''class'' ''db-select'', At ''title'' ''select database'']
      ([El ''option'' [At ''value'' ''''] [Txt ''default database'']] @ (map (db_option sel) dbs))]"

text \<open>\<^verbatim>\<open>container.innerHTML\<close> without a check: an absent container is a TypeError.\<close>

definition db_renderInto ::
    "string list option net \<Rightarrow> string \<Rightarrow> string list option \<Rightarrow> browser \<Rightarrow>
     unit outcome \<times> string list option \<times> browser" where
  "db_renderInto net container cache b =
     (case db_load net cache b of
        (Resolved dbs, c, b1) \<Rightarrow>
          (if element container b1
           then (Resolved (), c, set_inner container (db_select (db_getSelected b1) dbs) b1)
           else (Rejected ''TypeError'', c, b1))
      | (Rejected e, c, b1) \<Rightarrow> (Rejected e, c, b1)
      | (Pending, c, b1) \<Rightarrow> (Pending, c, b1))"

definition db_change :: "string \<Rightarrow> (string \<Rightarrow> browser \<Rightarrow> browser) \<Rightarrow> browser \<Rightarrow> browser" where
  "db_change v onChange b = onChange v (db_setSelected v b)"

section \<open>What the selects show\<close>

lemma options_of_El_option:
  "options_of (El ''option'' as hs) =
     [(or_none (attr_val ''value'' as) (concat (map text_of hs)), attr_val ''selected'' as \<noteq> None)]"
  by simp

lemma profile_option_value: "options_of (profile_option sel p) = [(p_name p, p_name p = sel)]"
  by (simp add: profile_option_def flag_if_def eh.decode_esc)

lemma db_option_value: "options_of (db_option sel d) = [(d, d = sel)]"
  by (simp add: db_option_def flag_if_def eh.decode_esc)

lemma select_value_marked:
  assumes "sel \<in> fst ` set os" "\<forall>x \<in> set os. snd x = (fst x = sel)"
  shows "select_value os = sel"
proof -
  obtain x where x: "x \<in> set os" "fst x = sel" using assms(1) by auto
  with assms(2) have "snd x" by simp
  with x have "filter snd (rev os) \<noteq> []" by (auto simp: filter_empty_conv)
  then obtain v g rest where fl: "filter snd (rev os) = (v, g) # rest" by (cases "filter snd (rev os)") auto
  then have vg: "(v, g) \<in> set (filter snd (rev os))" by simp
  then have "(v, g) \<in> set os \<and> g" by auto
  with assms(2) have "v = sel" by fastforce
  with fl show ?thesis by (simp add: select_value_def)
qed

lemma select_value_unmarked:
  assumes "\<forall>x \<in> set os. \<not> snd x"
  shows "select_value os = (case os of [] \<Rightarrow> [] | (v, _) # _ \<Rightarrow> v)"
proof -
  have "filter snd (rev os) = []" using assms by (simp add: filter_empty_conv)
  then show ?thesis by (simp add: select_value_def)
qed

lemma concat_map_options:
  "(\<And>x. options_of (f x) = [(g x, g x = sel)]) \<Longrightarrow>
   concat (map options_of (map f xs)) = map (\<lambda>x. (g x, g x = sel)) xs"
  by (induction xs) auto

lemma profile_select_options:
  "concat (map options_of (profile_select sel ps)) = map (\<lambda>p. (p_name p, p_name p = sel)) ps"
  by (simp add: profile_select_def concat_map_options [OF profile_option_value, simplified])

lemma db_select_options:
  "concat (map options_of (db_select sel ds)) = ([], False) # map (\<lambda>d. (d, d = sel)) ds"
  by (simp add: db_select_def concat_map_options [OF db_option_value, simplified])

lemma profile_select_shows:
  "sel \<in> p_name ` set ps \<Longrightarrow> select_value (concat (map options_of (profile_select sel ps))) = sel"
  unfolding profile_select_options by (rule select_value_marked) (auto simp: image_image)

lemma profile_select_stale:
  "sel \<notin> p_name ` set ps \<Longrightarrow>
   select_value (concat (map options_of (profile_select sel ps))) = (case ps of [] \<Rightarrow> [] | p # _ \<Rightarrow> p_name p)"
  unfolding profile_select_options by (subst select_value_unmarked) (auto split: list.splits)

lemma db_select_shows:
  "sel \<in> set ds \<Longrightarrow> sel \<noteq> [] \<Longrightarrow> select_value (concat (map options_of (db_select sel ds))) = sel"
  unfolding db_select_options by (rule select_value_marked) (auto simp: image_image)

lemma db_select_stale:
  "sel \<notin> set ds \<Longrightarrow> select_value (concat (map options_of (db_select sel ds))) = []"
  unfolding db_select_options by (subst select_value_unmarked) auto

lemma profile_select_safe: "safe_list (profile_select sel ps)"
  by (simp add: profile_select_def profile_option_def markup_safe name_ok_eval)

lemma db_select_safe: "safe_list (db_select sel ds)"
  by (simp add: db_select_def db_option_def markup_safe name_ok_eval)

section \<open>Selection\<close>

lemma ensureSelected_resolved:
  assumes "ensureSelected net f c b = (Resolved p, c', b')"
  shows "getSelected f b' = p \<and> p \<noteq> []"
proof (cases "getSelected f b = []")
  case False
  with assms show ?thesis by (auto simp: ensureSelected_def Let_def)
next
  case True
  with assms obtain b1 where "b' = setSelected f p b1" "getDefault net f c b = (Resolved p, c', b1)"
    by (auto simp: ensureSelected_def Let_def split: prod.splits outcome.splits)
  moreover from this(2) have "p \<noteq> []"
    by (auto simp: getDefault_def default_profile_def or_str_def split: prod.splits outcome.splits if_splits)
  ultimately show ?thesis by (simp add: getSelected_def setSelected_def ss.get_put)
qed

lemma ensureSelected_again:
  assumes "ensureSelected net f c b = (Resolved p, c', b')"
  shows "ensureSelected net f c' b' = (Resolved p, c', b')"
  using ensureSelected_resolved [OF assms] by (simp add: ensureSelected_def Let_def)

lemma profile_key_inject [simp]: "profile_key f = profile_key g \<longleftrightarrow> f = g"
  by (simp add: profile_key_def)

lemma loadSettings_cached:
  "loadSettings net c b = (Resolved s, c', b') \<Longrightarrow> c' = Some s \<and> loadSettings net c' b'' = (Resolved s, c', b'')"
  by (auto simp: loadSettings_def Let_def split: option.splits prod.splits outcome.splits)

lemma setSelected_frame:
  "getSelected g (setSelected f p b) = (if g = f then p else getSelected g b)"
  by (simp add: getSelected_def setSelected_def ss.get_put)

section \<open>Properties\<close>

lemma tryRequest_dom: "tryRequest net rq sid b = (r, b') \<Longrightarrow> dom b' = dom b"
proof (induction net rq sid b rule: tryRequest.induct)
  case (1 net rq sid b)
  let ?b1 = "b\<lparr>sent := sent b @ [rq\<lparr>rq_session := sid\<rparr>]\<rparr>"
  show ?case
  proof (cases "net (sent b) (rq\<lparr>rq_session := sid\<rparr>)")
    case Unauthorized
    obtain res b2 where lg: "showLoginModal (remove_item session_key ?b1) = (res, b2)" by fastforce
    then have d: "dom b2 = dom b" using showLoginModal_session by fastforce
    show ?thesis
    proof (cases res)
      case (LoggedIn s)
      with "1.prems" Unauthorized lg have "tryRequest net rq s b2 = (r, b')"
        by (simp add: tryRequest.simps [of net rq sid])
      from "1.IH" [OF refl refl Unauthorized lg [unfolded LoggedIn, symmetric] refl this] d show ?thesis by simp
    qed (use "1.prems" Unauthorized lg d in \<open>simp_all add: tryRequest.simps [of net rq sid]\<close>)
  qed (use "1.prems" in \<open>auto simp: tryRequest.simps [of net rq sid] Let_def split: option.splits\<close>)
qed

lemma api_dom: "api net rq b = (r, b') \<Longrightarrow> dom b' = dom b"
  by (auto simp: api_def apiProtected_def Let_def tryRequest_dom split: if_splits prod.splits login_result.splits
      dest: showLoginModal_session)

lemma loadSettings_dom: "loadSettings net c b = (r, c', b') \<Longrightarrow> dom b' = dom b"
  by (auto simp: loadSettings_def Let_def split: option.splits prod.splits outcome.splits dest: api_dom)

lemma ensureSelected_dom: "ensureSelected net f c b = (r, c', b') \<Longrightarrow> dom b' = dom b"
  by (auto simp: ensureSelected_def getDefault_def setSelected_def Let_def
      split: if_splits prod.splits outcome.splits dest: loadSettings_dom)

lemma ensureSelected_cache: "ensureSelected net f (Some s) b = (Resolved p, c', b') \<Longrightarrow> c' = Some s"
  by (auto simp: ensureSelected_def getDefault_def loadSettings_def Let_def split: if_splits)

lemma profile_select_no_ids [simp]: "nodes_of_list (profile_select sel ps) = []"
proof -
  have "concat (map nodes_of (map (profile_option sel) ps)) = []"
    by (induction ps) (simp_all add: profile_option_def flag_if_def)
  then show ?thesis by (simp add: profile_select_def nodes_of_list_def)
qed

text \<open>
  C35: after the profile selector of a feature is rendered, the select shows the stored profile if it
  is among the enabled ones, and otherwise the first enabled one, while the requests of the page
  carry the stored one in both cases: a stored profile that was disabled or removed is used, but
  not shown.
\<close>

theorem profile_select_truth:
  assumes "element cont b" "profile_renderInto net cont f c b = (Resolved (), c', b')"
  shows "\<exists>s. c' = Some s
    \<and> select_value (concat (map options_of (inner cont b'))) =
        (if getSelected f b' \<in> p_name ` set (enabled_profiles s) then getSelected f b'
         else (case enabled_profiles s of [] \<Rightarrow> [] | p # _ \<Rightarrow> p_name p))
    \<and> getSelected f b' \<noteq> [] \<and> profile_getParam f b' = ''&profile='' @ encode_uri (getSelected f b')"
proof -
  from assms obtain s b1 where load: "loadSettings net c b = (Resolved s, Some s, b1)"
    and rest: "profile_renderInto net cont f c b =
      (case ensureSelected net f (Some s) b1 of
         (Rejected e, c2, b2) \<Rightarrow> (Rejected e, c2, b2) | (Pending, c2, b2) \<Rightarrow> (Pending, c2, b2)
       | (Resolved sel, c2, b2) \<Rightarrow> (Resolved (), c2, set_inner cont (profile_select sel (enabled_profiles s)) b2))"
    by (auto simp: profile_renderInto_def getProfiles_def dest!: loadSettings_cached split: prod.splits outcome.splits)
  obtain r c2 b2 where ens: "ensureSelected net f (Some s) b1 = (r, c2, b2)" by (metis surj_pair)
  with rest assms(2) obtain sel where r: "r = Resolved sel" by (cases r) auto
  have c: "c' = Some s" "b' = set_inner cont (profile_select sel (enabled_profiles s)) b2"
    using rest ens r assms(2) ensureSelected_cache [of net f s b1 sel c2 b2] by auto
  have sel: "getSelected f b2 = sel" "sel \<noteq> []" using ensureSelected_resolved ens r by blast+
  have "element cont b2"
    using assms(1) loadSettings_dom [OF load] ensureSelected_dom [OF ens] by (simp add: element_def)
  then have inner: "inner cont b' = profile_select sel (enabled_profiles s)"
    using set_inner_content [of cont b2 "profile_select sel (enabled_profiles s)"] c by simp
  have get: "getSelected f b' = sel" using sel(1) c(2) by (simp add: getSelected_def)
  show ?thesis
    using c(1) sel(2) inner get profile_select_shows [of sel "enabled_profiles s"] profile_select_stale [of sel "enabled_profiles s"]
    by (auto simp: profile_getParam_def Let_def)
qed

definition sample_profile :: "string \<Rightarrow> bool \<Rightarrow> profile" where
  "sample_profile n e = \<lparr>p_name = n, p_label = [], p_type = ''direct'', p_host = ''db'', p_port = 5432,
     p_database = ''postgres'', p_ssl = ''disable'', p_desc = [], p_enabled = e\<rparr>"

definition sample_settings :: settings where
  "sample_settings = \<lparr>s_profiles = [sample_profile ''pgbouncer'' True, sample_profile ''old'' False], s_routes = [(''sql'', ''pgbouncer'')], s_backup = None\<rparr>"

definition selector_page :: browser where
  "selector_page = sample_browser\<lparr>dom := [''sql-profile'' \<mapsto> mk_node ''div'' [] []], session := [profile_key ''sql'' \<mapsto> ''old'']\<rparr>"

theorem profile_select_truth_witness:
  "\<exists>b'. profile_renderInto (\<lambda>h q. Unauthorized) ''sql-profile'' ''sql'' (Some sample_settings) selector_page = (Resolved (), Some sample_settings, b')
    \<and> (\<exists>s. Some sample_settings = Some s
    \<and> select_value (concat (map options_of (inner ''sql-profile'' b'))) =
        (if getSelected ''sql'' b' \<in> p_name ` set (enabled_profiles s) then getSelected ''sql'' b'
         else (case enabled_profiles s of [] \<Rightarrow> [] | p # _ \<Rightarrow> p_name p))
    \<and> getSelected ''sql'' b' \<noteq> [] \<and> profile_getParam ''sql'' b' = ''&profile='' @ encode_uri (getSelected ''sql'' b'))"
proof -
  have el: "element ''sql-profile'' selector_page" by (simp add: selector_page_def element_def)
  have "\<exists>b'. profile_renderInto (\<lambda>h q. Unauthorized) ''sql-profile'' ''sql'' (Some sample_settings) selector_page = (Resolved (), Some sample_settings, b')"
    using el by (simp add: profile_renderInto_def getProfiles_def loadSettings_def ensureSelected_def getSelected_def
        get_item_def selector_page_def Let_def)
  then obtain b' where b': "profile_renderInto (\<lambda>h q. Unauthorized) ''sql-profile'' ''sql'' (Some sample_settings) selector_page = (Resolved (), Some sample_settings, b')"
    by blast
  show ?thesis using profile_select_truth [OF el b'] b' by blast
qed

text \<open>
  the database a page appends to its URLs decodes to exactly the selected database, whatever
  characters its name has, and brings no separator of its own into the URL.
\<close>

theorem db_param_roundtrip:
  assumes "db_getSelected b \<noteq> []"
  shows "\<exists>e. db_getParam b = ''?database='' @ e \<and> decode_uri e = Some (db_getSelected b)
    \<and> CHR ''&'' \<notin> set e \<and> CHR ''#'' \<notin> set e \<and> CHR ''/'' \<notin> set e"
proof (intro exI conjI)
  show "db_getParam b = ''?database='' @ encode_uri (db_getSelected b)"
    using assms by (simp add: db_getParam_def Let_def)
qed (simp_all add: decode_encode_uri encode_uri_separators)

theorem db_param_roundtrip_witness:
  "\<exists>e. db_getParam (db_setSelected ''a&b/c#d'' sample_browser) = ''?database='' @ e
    \<and> decode_uri e = Some (db_getSelected (db_setSelected ''a&b/c#d'' sample_browser))
    \<and> CHR ''&'' \<notin> set e \<and> CHR ''#'' \<notin> set e \<and> CHR ''/'' \<notin> set e"
  by (rule db_param_roundtrip) (simp add: db_getSelected_def db_setSelected_def ss.get_put)

end
