(* ===== verification/Router.thy ===== *)
theory Router
  imports Selectors
begin

text \<open>
  The dashboard socket, the router and the start of the page, from app.js. The sockets a page
  opened are kept in a list, with their ready state and whether their \<^verbatim>\<open>onclose\<close> handler is
  still attached; the variable \<^verbatim>\<open>ws\<close> is an index into it. The steps of the socket are an
  inductive relation, one rule per thing that can happen next. What the page modules do
  when rendered, and the module that receives the socket's data, are arguments here.
\<close>

section \<open>The socket\<close>

datatype ready = Connecting | Opened | Closing | Closed

record socket =
  ready_state :: ready
  wired :: bool
  sock_url :: string

record shell =
  web :: browser
  sockets :: "socket list"
  ws :: "nat option"
  retry :: "nat option"
  secure :: bool
  host :: string
  hash :: string
  nav :: "(string \<times> bool) list"
  routed :: bool

definition upd_web :: "(browser \<Rightarrow> browser) \<Rightarrow> shell \<Rightarrow> shell" where
  "upd_web f s = s\<lparr>web := f (web s)\<rparr>"

definition set_ready :: "nat \<Rightarrow> ready \<Rightarrow> shell \<Rightarrow> shell" where
  "set_ready i r s = s\<lparr>sockets := (sockets s)[i := (sockets s ! i)\<lparr>ready_state := r\<rparr>]\<rparr>"

definition unwire :: "nat \<Rightarrow> shell \<Rightarrow> shell" where
  "unwire i s = s\<lparr>sockets := (sockets s)[i := (sockets s ! i)\<lparr>wired := False\<rparr>]\<rparr>"

definition updateWsStatus :: "bool \<Rightarrow> browser \<Rightarrow> browser" where
  "updateWsStatus on b =
     set_text ''ws-status'' (if on then ''connected'' else ''disconnected'')
       (set_class ''ws-indicator'' (''ws-dot '' @ (if on then ''online'' else ''offline'')) b)"

definition scheduleReconnect :: "shell \<Rightarrow> shell" where
  "scheduleReconnect s =
     (if retry s \<noteq> None then s
      else (let (i, b) = set_timeout 3000 Reconnect (web s) in s\<lparr>web := b, retry := Some i\<rparr>))"

definition ws_url :: "shell \<Rightarrow> string" where
  "ws_url s =
     (if secure s then ''wss'' else ''ws'') @ ''://'' @ host s
     @ ''/api/dashboard/ws?interval=1&session_id='' @ encode_uri (get_item session_key (web s))"

text \<open>\<^verbatim>\<open>accepted\<close>: whether the constructor of the socket returns, rather than throws.\<close>

definition connectWebSocket :: "bool \<Rightarrow> shell \<Rightarrow> shell" where
  "connectWebSocket accepted s =
     (if (\<exists>i. ws s = Some i \<and> ready_state (sockets s ! i) = Opened) then s
      else if \<not> accepted then scheduleReconnect s
      else s\<lparr>sockets := sockets s @ [\<lparr>ready_state = Connecting, wired = True, sock_url = ws_url s\<rparr>],
             ws := Some (length (sockets s))\<rparr>)"

definition cancel_retry :: "shell \<Rightarrow> shell" where
  "cancel_retry s =
     (case retry s of
        None \<Rightarrow> s
      | Some i \<Rightarrow> s\<lparr>web := clear_timer i (web s), retry := None\<rparr>)"

text \<open>\<^verbatim>\<open>close()\<close>: the close event comes later, as an event of its own.\<close>

definition close_socket :: "nat \<Rightarrow> shell \<Rightarrow> shell" where
  "close_socket i s =
     (if ready_state (sockets s ! i) = Closed then s else set_ready i Closing s)"

definition disconnectWebSocket :: "shell \<Rightarrow> shell" where
  "disconnectWebSocket s =
     (let s1 = cancel_retry s;
          s2 = (case ws s1 of None \<Rightarrow> s1 | Some i \<Rightarrow> (close_socket i (unwire i s1))\<lparr>ws := None\<rparr>)
      in upd_web (updateWsStatus False) s2)"

definition sock_onopen :: "nat \<Rightarrow> shell \<Rightarrow> shell" where
  "sock_onopen i s = cancel_retry (upd_web (updateWsStatus True) (set_ready i Opened s))"

text \<open>
  \<^verbatim>\<open>onmessage\<close>: a frame that is no JSON, or that the consumer rejects, is logged and dropped;
  \<^verbatim>\<open>onData\<close> says what the consumer does, \<^verbatim>\<open>clock\<close> is the time as the browser prints it.
\<close>

definition sock_onmessage ::
    "('d \<Rightarrow> browser \<Rightarrow> browser option) \<Rightarrow> 'd option \<Rightarrow> string \<Rightarrow> shell \<Rightarrow> shell" where
  "sock_onmessage onData data clock s =
     (case data of
        None \<Rightarrow> s
      | Some d \<Rightarrow>
          (case onData d (web s) of
             None \<Rightarrow> s
           | Some b \<Rightarrow> s\<lparr>web := set_text ''last-update'' clock b\<rparr>))"

definition sock_onclose :: "nat \<Rightarrow> shell \<Rightarrow> shell" where
  "sock_onclose i s =
     (if wired (sockets s ! i)
      then scheduleReconnect (upd_web (updateWsStatus False) (set_ready i Closed s))
      else set_ready i Closed s)"

text \<open>\<^verbatim>\<open>onerror\<close> closes the socket that \<^verbatim>\<open>ws\<close> names at that time; without one it is a TypeError.\<close>

definition sock_onerror :: "shell \<Rightarrow> shell" where
  "sock_onerror s = (case ws s of None \<Rightarrow> s | Some j \<Rightarrow> close_socket j s)"

definition reconnect_fire :: "bool \<Rightarrow> nat \<Rightarrow> shell \<Rightarrow> shell" where
  "reconnect_fire accepted i s =
     connectWebSocket accepted (s\<lparr>web := clear_timer i (web s), retry := None\<rparr>)"

text \<open>
  One rule per event: the router connects or disconnects, a socket opens (unless it was closed
  first), receives, fails, closes; a pending reconnect fires.
\<close>

inductive ws_step :: "shell \<Rightarrow> shell \<Rightarrow> bool" where
  WsConnect: "ws_step s (connectWebSocket a s)"
| WsDisconnect: "ws_step s (disconnectWebSocket s)"
| WsOpen: "i < length (sockets s) \<Longrightarrow> ready_state (sockets s ! i) = Connecting \<Longrightarrow> ws_step s (sock_onopen i s)"
| WsClose: "i < length (sockets s) \<Longrightarrow> ready_state (sockets s ! i) \<noteq> Closed \<Longrightarrow> ws_step s (sock_onclose i s)"
| WsError: "ws_step s (sock_onerror s)"
| WsFire: "t \<in> set (timers (web s)) \<Longrightarrow> action t = Reconnect \<Longrightarrow> ws_step s (reconnect_fire a (tid t) s)"

inductive_cases ws_stepE: "ws_step s s'"

inductive ws_reach :: "shell \<Rightarrow> shell \<Rightarrow> bool" for s0 where
  ws_start: "ws_reach s0 s0"
| ws_next: "ws_reach s0 s \<Longrightarrow> ws_step s s' \<Longrightarrow> ws_reach s0 s'"

text \<open>The same events without the router: what happens to a page on its own.\<close>

inductive ws_drift :: "shell \<Rightarrow> shell \<Rightarrow> bool" where
  DriftRefl: "ws_drift s s"
| DriftOpen: "ws_drift s0 s \<Longrightarrow> i < length (sockets s) \<Longrightarrow> ready_state (sockets s ! i) = Connecting \<Longrightarrow>
    ws_drift s0 (sock_onopen i s)"
| DriftClose: "ws_drift s0 s \<Longrightarrow> i < length (sockets s) \<Longrightarrow> ready_state (sockets s ! i) \<noteq> Closed \<Longrightarrow>
    ws_drift s0 (sock_onclose i s)"
| DriftError: "ws_drift s0 s \<Longrightarrow> ws_drift s0 (sock_onerror s)"
| DriftFire: "ws_drift s0 s \<Longrightarrow> t \<in> set (timers (web s)) \<Longrightarrow> action t = Reconnect \<Longrightarrow>
    ws_drift s0 (reconnect_fire a (tid t) s)"

section \<open>Socket invariants\<close>

definition ws_ok :: "shell \<Rightarrow> bool" where
  "ws_ok s =
     (timers_ok (web s) \<and> slot_inv Reconnect (retry s) (timers (web s))
      \<and> (\<forall>i. ws s = Some i \<longrightarrow> i < length (sockets s)))"

lemma updateWsStatus_frame [simp, browser_simps]:
  "timers (updateWsStatus on b) = timers b" "next_id (updateWsStatus on b) = next_id b"
  "session (updateWsStatus on b) = session b" "sent (updateWsStatus on b) = sent b"
  by (simp_all add: updateWsStatus_def node_setters)

lemma set_ready_frames [simp]:
  "web (set_ready i r s) = web s" "retry (set_ready i r s) = retry s" "ws (set_ready i r s) = ws s"
  "length (sockets (set_ready i r s)) = length (sockets s)" "nav (set_ready i r s) = nav s"
  "hash (set_ready i r s) = hash s"
  by (simp_all add: set_ready_def)

lemma unwire_frames [simp]:
  "web (unwire i s) = web s" "retry (unwire i s) = retry s" "ws (unwire i s) = ws s"
  "length (sockets (unwire i s)) = length (sockets s)" "nav (unwire i s) = nav s"
  "hash (unwire i s) = hash s"
  by (simp_all add: unwire_def)

lemma close_socket_frames [simp]:
  "web (close_socket i s) = web s" "retry (close_socket i s) = retry s" "ws (close_socket i s) = ws s"
  "length (sockets (close_socket i s)) = length (sockets s)" "nav (close_socket i s) = nav s"
  "hash (close_socket i s) = hash s"
  by (simp_all add: close_socket_def)

lemma upd_web_frames [simp]:
  "sockets (upd_web f s) = sockets s" "retry (upd_web f s) = retry s" "ws (upd_web f s) = ws s"
  "web (upd_web f s) = f (web s)" "nav (upd_web f s) = nav s" "hash (upd_web f s) = hash s"
  by (simp_all add: upd_web_def)

lemma cancel_retry_frames [simp]:
  "sockets (cancel_retry s) = sockets s" "ws (cancel_retry s) = ws s" "nav (cancel_retry s) = nav s"
  "hash (cancel_retry s) = hash s"
  by (cases "retry s"; simp add: cancel_retry_def)+

lemma schedule_frames [simp]:
  "sockets (scheduleReconnect s) = sockets s" "ws (scheduleReconnect s) = ws s"
  "nav (scheduleReconnect s) = nav s" "hash (scheduleReconnect s) = hash s"
  by (cases "retry s"; simp add: scheduleReconnect_def set_timer_def)+

lemma connect_nav [simp]: "nav (connectWebSocket a s) = nav s" "nav (disconnectWebSocket s) = nav s"
  by (simp_all add: connectWebSocket_def disconnectWebSocket_def Let_def split: option.splits)

lemma ws_ok_status: "ws_ok s \<Longrightarrow> ws_ok (upd_web (updateWsStatus on) s)"
  by (simp add: ws_ok_def timers_ok_def)

lemma ws_ok_set_ready: "ws_ok s \<Longrightarrow> ws_ok (set_ready i r s)"
  by (simp add: ws_ok_def)

lemma ws_ok_cancel: "ws_ok s \<Longrightarrow> ws_ok (cancel_retry s) \<and> retry (cancel_retry s) = None"
  by (cases "retry s")
    (auto simp: ws_ok_def cancel_retry_def tm.ok_clear intro: tm.clear_slot_inv slot_inv_le)

lemma ws_ok_schedule: "ws_ok s \<Longrightarrow> ws_ok (scheduleReconnect s) \<and> retry (scheduleReconnect s) \<noteq> None"
proof (cases "retry s")
  case None
  assume ok: "ws_ok s"
  have "slot_inv Reconnect (Some (next_id (web s))) (timers (snd (set_timeout 3000 Reconnect (web s))))"
    using tm.start_slot_inv [of Reconnect "web s" False 3000] ok None
    by (simp add: ws_ok_def set_timer_def)
  moreover have "timers_ok (snd (set_timeout 3000 Reconnect (web s)))"
    using ok by (simp add: ws_ok_def tm.ok_start)
  ultimately show ?thesis
    using None ok by (simp add: scheduleReconnect_def ws_ok_def set_timer_def)
qed (simp add: scheduleReconnect_def)

lemma ws_ok_connect: "ws_ok s \<Longrightarrow> ws_ok (connectWebSocket a s)"
  by (auto simp: connectWebSocket_def ws_ok_schedule) (auto simp: ws_ok_def)

lemma ws_ok_disconnect: "ws_ok s \<Longrightarrow> ws_ok (disconnectWebSocket s)"
proof -
  assume "ws_ok s"
  then have "ws_ok (cancel_retry s)" by (simp add: ws_ok_cancel)
  then show ?thesis
    unfolding disconnectWebSocket_def Let_def
    by (intro ws_ok_status) (auto simp: ws_ok_def split: option.splits)
qed

lemma ws_ok_fire:
  assumes "ws_ok s" "t \<in> set (timers (web s))" "action t = Reconnect"
  shows "ws_ok (reconnect_fire a (tid t) s)"
proof -
  have "retry s = Some (tid t)"
    using assms by (auto simp: ws_ok_def dest!: slot_inv_le simp: slot_le_def)
  then have "ws_ok (s\<lparr>web := clear_timer (tid t) (web s), retry := None\<rparr>)"
    using assms(1) by (auto simp: ws_ok_def tm.ok_clear intro: tm.clear_slot_inv slot_inv_le)
  then show ?thesis by (simp add: reconnect_fire_def ws_ok_connect)
qed

lemma ws_ok_close: "ws_ok s \<Longrightarrow> ws_ok (sock_onclose i s)"
  by (simp add: sock_onclose_def ws_ok_schedule ws_ok_status ws_ok_set_ready)

lemma ws_ok_open: "ws_ok s \<Longrightarrow> ws_ok (sock_onopen i s)"
  by (simp add: sock_onopen_def ws_ok_cancel ws_ok_status ws_ok_set_ready)

lemma ws_ok_error: "ws_ok s \<Longrightarrow> ws_ok (sock_onerror s)"
  by (auto simp: sock_onerror_def ws_ok_def split: option.splits)

lemma ws_step_ok: "ws_step s s' \<Longrightarrow> ws_ok s \<Longrightarrow> ws_ok s'"
  by (erule ws_stepE)
    (simp_all add: ws_ok_connect ws_ok_disconnect ws_ok_open ws_ok_close ws_ok_error ws_ok_fire)

lemma ws_reach_ok: "ws_reach s0 s \<Longrightarrow> ws_ok s0 \<Longrightarrow> ws_ok s"
  by (induction rule: ws_reach.induct) (auto intro: ws_step_ok)

text \<open>
  A page is \<^verbatim>\<open>solo\<close> when the only socket that could still call its \<^verbatim>\<open>onclose\<close> is the one in
  \<^verbatim>\<open>ws\<close>, and \<^verbatim>\<open>quiet\<close> when there is none and no reconnect is pending.
\<close>

definition live_wired :: "shell \<Rightarrow> nat set" where
  "live_wired s = {i. i < length (sockets s) \<and> wired (sockets s ! i) \<and> ready_state (sockets s ! i) \<noteq> Closed}"

definition solo :: "shell \<Rightarrow> bool" where
  "solo s = (\<forall>i \<in> live_wired s. ws s = Some i)"

definition quiet :: "shell \<Rightarrow> bool" where
  "quiet s = (retry s = None \<and> ws s = None \<and> live_wired s = {} \<and> (\<forall>t \<in> set (timers (web s)). action t \<noteq> Reconnect))"

lemma live_wired_set_ready:
  "i < length (sockets s) \<Longrightarrow>
   live_wired (set_ready i r s) =
     (if r = Closed then live_wired s - {i} else live_wired s \<union> (if wired (sockets s ! i) then {i} else {}))"
  by (auto simp: live_wired_def set_ready_def nth_list_update split: if_splits)

lemma live_wired_unwire: "live_wired (unwire i s) = live_wired s - {i}"
  by (cases "i < length (sockets s)") (auto simp: live_wired_def unwire_def nth_list_update)

lemma live_wired_close: "i < length (sockets s) \<Longrightarrow> live_wired (close_socket i s) = live_wired s"
proof (cases "ready_state (sockets s ! i) = Closed")
  case False
  assume "i < length (sockets s)"
  with False have "wired (sockets s ! i) \<Longrightarrow> i \<in> live_wired s" by (simp add: live_wired_def)
  with False \<open>i < length (sockets s)\<close> show ?thesis
    by (auto simp: close_socket_def live_wired_set_ready)
qed (simp add: close_socket_def)

lemma live_wired_frames [simp]:
  "live_wired (upd_web f s) = live_wired s" "live_wired (cancel_retry s) = live_wired s"
  "live_wired (scheduleReconnect s) = live_wired s" "live_wired (s\<lparr>ws := w\<rparr>) = live_wired s"
  by (simp_all add: live_wired_def)

lemma disconnect_quiet: "ws_ok s \<Longrightarrow> solo s \<Longrightarrow> quiet (disconnectWebSocket s)"
proof -
  assume ok: "ws_ok s" and solo: "solo s"
  have "ws_ok (disconnectWebSocket s)" by (rule ws_ok_disconnect [OF ok])
  moreover have none: "retry (disconnectWebSocket s) = None"
    using ok by (auto simp: disconnectWebSocket_def Let_def ws_ok_cancel split: option.splits)
  moreover have "ws (disconnectWebSocket s) = None"
    by (auto simp: disconnectWebSocket_def Let_def split: option.splits)
  moreover have "live_wired (disconnectWebSocket s) = {}"
  proof (cases "ws s")
    case None
    with solo show ?thesis by (auto simp: disconnectWebSocket_def Let_def solo_def)
  next
    case (Some i)
    with ok have "i < length (sockets (unwire i (cancel_retry s)))" by (simp add: ws_ok_def)
    with Some solo show ?thesis
      by (auto simp: disconnectWebSocket_def Let_def solo_def live_wired_close live_wired_unwire)
  qed
  ultimately show ?thesis by (auto simp: quiet_def ws_ok_def slot_inv_None)
qed

text \<open>A quiet page stays quiet: nothing but the router connects it again.\<close>

lemma quiet_drift: "ws_drift s0 s \<Longrightarrow> quiet s0 \<Longrightarrow> quiet s"
proof (induction rule: ws_drift.induct)
  case (DriftOpen s0 s i)
  then have q: "quiet s" by simp
  with DriftOpen(2,3) have "\<not> wired (sockets s ! i)" by (auto simp: quiet_def live_wired_def)
  with q DriftOpen(2) show ?case
    by (auto simp: quiet_def sock_onopen_def live_wired_set_ready cancel_retry_def)
next
  case (DriftClose s0 s i)
  then have q: "quiet s" by simp
  with DriftClose(2,3) have "\<not> wired (sockets s ! i)" by (auto simp: quiet_def live_wired_def)
  with q DriftClose(2) show ?case by (auto simp: quiet_def sock_onclose_def live_wired_set_ready)
next
  case (DriftFire s0 s t a)
  then show ?case by (auto simp: quiet_def)
qed (auto simp: quiet_def sock_onerror_def)

lemma reconnect_after_close:
  assumes "ws_ok s" "ws s = Some i" "ready_state (sockets s ! i) \<noteq> Closed" "wired (sockets s ! i)"
  shows "\<exists>t \<in> set (timers (web (sock_onclose i s))). action t = Reconnect
    \<and> retry (sock_onclose i s) = Some (tid t)
    \<and> ws (reconnect_fire True (tid t) (sock_onclose i s)) = Some (length (sockets s))
    \<and> retry (reconnect_fire True (tid t) (sock_onclose i s)) = None"
proof -
  let ?s = "sock_onclose i s"
  have ok: "ws_ok ?s" by (rule ws_ok_close [OF assms(1)])
  have "retry ?s \<noteq> None"
    using assms by (simp add: sock_onclose_def ws_ok_schedule ws_ok_status ws_ok_set_ready)
  then obtain k where k: "retry ?s = Some k" by auto
  with ok obtain t where t: "t \<in> set (timers (web ?s))" "action t = Reconnect" "tid t = k"
    by (auto simp: ws_ok_def dest!: slot_inv_SomeD(1))
  have i: "i < length (sockets s)" using assms by (simp add: ws_ok_def)
  have "ws ?s = Some i" "ready_state (sockets ?s ! i) = Closed" "length (sockets ?s) = length (sockets s)"
    using assms i by (simp_all add: sock_onclose_def) (simp add: set_ready_def)
  then have "ws (reconnect_fire True k ?s) = Some (length (sockets s)) \<and> retry (reconnect_fire True k ?s) = None"
    by (simp add: reconnect_fire_def connectWebSocket_def)
  with t k show ?thesis by blast
qed

section \<open>The pages\<close>

record page =
  page_key :: string
  title :: string
  sub :: string
  wants_ws :: bool

definition mk_page :: "string \<Rightarrow> string \<Rightarrow> string \<Rightarrow> page" where
  "mk_page k t d = \<lparr>page_key = k, title = t, sub = d, wants_ws = False\<rparr>"

definition dashboard_page :: page where
  "dashboard_page = \<lparr>page_key = ''dashboard'', title = ''dashboard'', sub = ''real-time monitoring'', wants_ws = True\<rparr>"

definition pages :: "page list" where
  "pages =
    [dashboard_page,
     mk_page ''backups'' ''backups'' ''wal-g backup & restore'',
     mk_page ''jobs'' ''job center'' ''background operations & artifacts'',
     mk_page ''planner'' ''maintenance planner'' ''actionable table and index recommendations'',
     mk_page ''profiles'' ''connection profiles'' ''feature routing between direct postgres and pgbouncer'',
     mk_page ''drift'' ''schema drift'' ''compare object drift between databases'',
     mk_page ''s3'' ''s3 browser'' ''browse backup storage'',
     mk_page ''database'' ''export / import'' ''pg_dump & pg_restore'',
     mk_page ''logs'' ''logs'' ''postgresql log stream'',
     mk_page ''config'' ''config'' ''postgresql settings'',
     mk_page ''server'' ''server'' ''databases & schemas overview'',
     mk_page ''sql'' ''sql editor'' ''execute queries'',
     mk_page ''pgbouncer'' ''pgbouncer'' ''connection pool'',
     mk_page ''queries'' ''slow queries'' ''pg_stat_statements analysis'',
     mk_page ''vacuum'' ''vacuum monitor'' ''dead tuples & maintenance'',
     mk_page ''locks'' ''lock monitor'' ''conflicts and blocking chains'',
     mk_page ''roles'' ''roles & privileges'' ''role graph, grants, default privileges'',
     mk_page ''indexes'' ''index advisor'' ''missing, unused & duplicate'',
     mk_page ''extensions'' ''extensions'' ''postgresql extension manager'',
     mk_page ''alerts'' ''alerts'' ''notifications & thresholds'',
     mk_page ''tuner'' ''db tuner'' ''optimization wizard'',
     mk_page ''auth'' ''dashboard password'' ''authentication'']"

text \<open>The \<^verbatim>\<open>auth\<close> page renders itself; the others hand the content element to their module.\<close>

definition auth_markup :: "html list" where
  "auth_markup = [El ''div'' [At ''class'' ''auth-setup'']
      [El ''div'' [At ''class'' ''card'', At ''style'' ''padding:24px'']
       [El ''div'' [At ''class'' ''card-title'', At ''style'' ''margin-bottom:16px''] [Txt ''Dashboard password''],
       El ''p'' [At ''class'' ''dim'', At ''style'' ''font-size:11px;margin-bottom:16px'']
        [Txt ''The password is generated once during the first container start and persists in the PostgreSQL volume.''],
       El ''p'' [At ''class'' ''mono-xs green''] [Txt ''docker compose logs pgaio''],
       El ''p'' [At ''class'' ''dim'', At ''style'' ''font-size:10px;margin-top:16px'']
        [Txt ''Set '',
        El ''code'' [] [Txt ''PGAIO_PASSWORD''],
        Txt '' to provide your own password.'']]]]"

definition render_page :: "(string \<Rightarrow> browser \<Rightarrow> browser) \<Rightarrow> page \<Rightarrow> browser \<Rightarrow> browser" where
  "render_page render p b =
     (if page_key p = ''auth'' then set_inner ''page-content'' auth_markup b else render (page_key p) b)"

text \<open>
  \<^verbatim>\<open>pages[hash] || pages.dashboard\<close>: the table is a plain object, so the names of
  \<^verbatim>\<open>Object.prototype\<close> are found in it too, as values without a title and a render function.
\<close>

definition prototype_names :: "string list" where
  "prototype_names =
    [''constructor'', ''__defineGetter__'', ''__defineSetter__'', ''hasOwnProperty'',
     ''__lookupGetter__'', ''__lookupSetter__'', ''isPrototypeOf'', ''propertyIsEnumerable'',
     ''toString'', ''valueOf'', ''__proto__'', ''toLocaleString'']"

datatype lookup = Page page | Inherited

definition page_lookup :: "string \<Rightarrow> lookup" where
  "page_lookup h =
     (case find (\<lambda>p. page_key p = h) pages of
        Some p \<Rightarrow> Page p
      | None \<Rightarrow> if h \<in> set prototype_names then Inherited else Page dashboard_page)"

definition route_key :: "string \<Rightarrow> string" where
  "route_key h = or_str (replace_first CHR ''#'' [] h) ''dashboard''"

definition navigate ::
    "(string \<Rightarrow> browser \<Rightarrow> browser) \<Rightarrow> (browser \<Rightarrow> browser) \<Rightarrow> bool \<Rightarrow> shell \<Rightarrow> unit outcome \<times> shell" where
  "navigate render destroyLogs accepted s =
     (let h = route_key (hash s);
          found = page_lookup h;
          ttl = (case found of Page p \<Rightarrow> title p | Inherited \<Rightarrow> []);
          sb = (case found of Page p \<Rightarrow> sub p | Inherited \<Rightarrow> []);
          s1 = upd_web destroyLogs s;
          s2 = upd_web (\<lambda>b. set_text ''page-subtitle'' sb (set_text ''page-title'' ttl b)) s1;
          s3 = s2\<lparr>nav := map (\<lambda>(d, _). (d, d = h)) (nav s2)\<rparr>;
          s4 = upd_web (set_inner ''page-content'' []) s3
      in case found of
           Inherited \<Rightarrow> (Rejected ''TypeError: page.render is not a function'', s4)
         | Page p \<Rightarrow>
             (let s5 = upd_web (render_page render p) s4
              in (Resolved (), if wants_ws p then connectWebSocket accepted s5 else disconnectWebSocket s5)))"

text \<open>
  \<^verbatim>\<open>DOMContentLoaded\<close>: the idle tracker starts, any stored session is dropped, and the first
  page is shown once the login dialog succeeds; from then on a change of the hash routes (a
  first page that throws leaves the listener unregistered).
\<close>

definition page_init ::
    "(string \<Rightarrow> browser \<Rightarrow> browser) \<Rightarrow> (browser \<Rightarrow> browser) \<Rightarrow> bool \<Rightarrow> shell \<Rightarrow> shell" where
  "page_init render destroyLogs accepted s =
     (case showLoginModal (remove_item session_key (idle_start (web s))) of
        (LoggedIn _, b) \<Rightarrow>
          (case navigate render destroyLogs accepted (s\<lparr>web := b\<rparr>) of
             (Resolved _, s1) \<Rightarrow> s1\<lparr>routed := True\<rparr>
           | (_, s1) \<Rightarrow> s1)
      | (_, b) \<Rightarrow> s\<lparr>web := b\<rparr>)"

lemma page_keys_distinct: "distinct (map page_key pages)"
  by code_simp

lemma dashboard_in_pages: "dashboard_page \<in> set pages"
  by (simp add: pages_def)

lemma page_lookup_member: "page_lookup h = Page p \<Longrightarrow> p \<in> set pages"
  by (auto simp: page_lookup_def find_Some_iff dashboard_in_pages split: option.splits if_splits)

lemma page_lookup_key: "page_lookup h = Page p \<Longrightarrow> page_key p = h \<or> p = dashboard_page"
  by (auto simp: page_lookup_def find_Some_iff split: option.splits if_splits)

lemma ws_pages: "list_all (\<lambda>p. wants_ws p = (page_key p = ''dashboard'')) pages"
  by code_simp

lemma only_dashboard_ws: "p \<in> set pages \<Longrightarrow> wants_ws p \<longleftrightarrow> page_key p = ''dashboard''"
  using ws_pages by (simp add: list_all_iff)

lemma route_key_hash: "CHR ''#'' \<notin> set k \<Longrightarrow> k \<noteq> [] \<Longrightarrow> route_key (CHR ''#'' # k) = k"
  by (simp add: route_key_def or_str_def)

lemma navigate_nav:
  "navigate render d a s = (r, s') \<Longrightarrow>
   nav s' = map (\<lambda>(k, _). (k, k = route_key (hash s))) (nav s)"
  by (cases "page_lookup (route_key (hash s))") (auto simp: navigate_def Let_def)

lemma auth_markup_safe: "safe_list auth_markup"
  by (simp add: auth_markup_def markup_safe name_ok_eval)

section \<open>Properties\<close>

text \<open>
  C8: in every run of the socket, whatever order its events, the router and the timers come in, at
  most one reconnect is pending, and one is pending exactly when \<^verbatim>\<open>wsReconnectTimer\<close> is set.
\<close>

theorem one_reconnect:
  assumes "ws_ok s0" "ws_reach s0 s"
  shows "length (filter (\<lambda>t. action t = Reconnect) (timers (web s))) \<le> 1
    \<and> ((\<exists>t \<in> set (timers (web s)). action t = Reconnect) = (retry s \<noteq> None))"
proof -
  have inv: "slot_inv Reconnect (retry s) (timers (web s))"
    using ws_reach_ok [OF assms(2,1)] by (simp add: ws_ok_def)
  then have "length (map tid (filter (\<lambda>t. action t = Reconnect) (timers (web s)))) \<le> 1"
    by (simp add: slot_inv_def split: option.splits)
  moreover have "(\<exists>t \<in> set (timers (web s)). action t = Reconnect) = (retry s \<noteq> None)"
    using inv by (cases "retry s") (auto simp: slot_inv_None dest!: slot_inv_SomeD(1))
  ultimately show ?thesis by simp
qed

definition sample_shell :: shell where
  "sample_shell = \<lparr>web = sample_browser, sockets = [], ws = None, retry = None, secure = True, host = ''db.example'',
     hash = ''#dashboard'', nav = [(''dashboard'', True), (''logs'', False)], routed = True\<rparr>"

definition connecting_shell :: shell where
  "connecting_shell = connectWebSocket True sample_shell"

lemma sample_shell_ok: "ws_ok sample_shell"
  by (simp add: sample_shell_def sample_browser_def ws_ok_def timers_ok_def slot_inv_None)

lemma connecting_shell_ok: "ws_ok connecting_shell"
  unfolding connecting_shell_def by (rule ws_ok_connect [OF sample_shell_ok])

lemma connecting_shell_facts:
  "ws connecting_shell = Some 0" "length (sockets connecting_shell) = 1"
  "ready_state (sockets connecting_shell ! 0) = Connecting" "wired (sockets connecting_shell ! 0)"
  by (simp_all add: connecting_shell_def sample_shell_def connectWebSocket_def)

theorem one_reconnect_witness:
  "length (filter (\<lambda>t. action t = Reconnect) (timers (web (sock_onclose 0 connecting_shell)))) \<le> 1
    \<and> ((\<exists>t \<in> set (timers (web (sock_onclose 0 connecting_shell))). action t = Reconnect) = (retry (sock_onclose 0 connecting_shell) \<noteq> None))"
proof (rule one_reconnect [OF sample_shell_ok])
  have "ws_reach sample_shell connecting_shell"
    unfolding connecting_shell_def by (blast intro: ws_start ws_next WsConnect)
  then show "ws_reach sample_shell (sock_onclose 0 connecting_shell)"
    by (rule ws_next) (simp add: WsClose connecting_shell_facts)
qed

text \<open>
  C9: once a page that holds a single live socket disconnects, nothing that happens on its own, late
  close events and errors of old sockets included, connects it again or schedules a reconnect.
\<close>

theorem disconnect_final:
  assumes "ws_ok s" "solo s" "ws_drift (disconnectWebSocket s) s'"
  shows "ws s' = None \<and> retry s' = None \<and> filter (\<lambda>t. action t = Reconnect) (timers (web s')) = []"
  using quiet_drift [OF assms(3) disconnect_quiet [OF assms(1,2)]] by (simp add: quiet_def filter_empty_conv)

theorem disconnect_final_witness:
  "ws (sock_onclose 0 (disconnectWebSocket connecting_shell)) = None
    \<and> retry (sock_onclose 0 (disconnectWebSocket connecting_shell)) = None
    \<and> filter (\<lambda>t. action t = Reconnect) (timers (web (sock_onclose 0 (disconnectWebSocket connecting_shell)))) = []"
proof (rule disconnect_final [OF connecting_shell_ok])
  show "solo connecting_shell"
    using connecting_shell_facts by (auto simp: solo_def live_wired_def)
  show "ws_drift (disconnectWebSocket connecting_shell) (sock_onclose 0 (disconnectWebSocket connecting_shell))"
    by (rule DriftClose [OF DriftRefl])
      (simp_all add: disconnectWebSocket_def connecting_shell_def sample_shell_def connectWebSocket_def cancel_retry_def
        close_socket_def set_ready_def unwire_def upd_web_def Let_def)
qed

text \<open>
  C10: when the socket of the page is lost, a reconnect is pending afterwards, and when it fires the page
  has a new socket and no reconnect is pending any more.
\<close>

theorem reconnect_restores:
  assumes "ws_ok s" "ws s = Some i" "ready_state (sockets s ! i) \<noteq> Closed" "wired (sockets s ! i)"
  shows "\<exists>t \<in> set (timers (web (sock_onclose i s))). action t = Reconnect
    \<and> retry (sock_onclose i s) = Some (tid t)
    \<and> ws (reconnect_fire True (tid t) (sock_onclose i s)) = Some (length (sockets s))
    \<and> retry (reconnect_fire True (tid t) (sock_onclose i s)) = None"
  by (rule reconnect_after_close [OF assms])

theorem reconnect_restores_witness:
  "\<exists>t \<in> set (timers (web (sock_onclose 0 connecting_shell))). action t = Reconnect
    \<and> retry (sock_onclose 0 connecting_shell) = Some (tid t)
    \<and> ws (reconnect_fire True (tid t) (sock_onclose 0 connecting_shell)) = Some (length (sockets connecting_shell))
    \<and> retry (reconnect_fire True (tid t) (sock_onclose 0 connecting_shell)) = None"
  by (rule reconnect_restores) (simp_all add: connecting_shell_ok connecting_shell_facts)

text \<open>
  connecting while the socket is still connecting opens a second one and loses the first, whose
  \<^verbatim>\<open>onclose\<close> stays attached: after the page disconnects, the close of the lost socket still
  schedules a reconnect.
\<close>

theorem double_connect_leaks:
  assumes "ws_ok s" "ws s = Some i" "ready_state (sockets s ! i) = Connecting" "wired (sockets s ! i)"
  defines "s1 \<equiv> disconnectWebSocket (connectWebSocket True s)"
  shows "ws s1 = None \<and> retry s1 = None \<and> i \<in> live_wired s1 \<and> retry (sock_onclose i s1) \<noteq> None"
proof -
  let ?c = "connectWebSocket True s" and ?n = "length (sockets s)"
  have i: "i < ?n" using assms(1,2) by (simp add: ws_ok_def)
  have c: "?c = s\<lparr>sockets := sockets s @ [\<lparr>ready_state = Connecting, wired = True, sock_url = ws_url s\<rparr>], ws := Some ?n\<rparr>"
    using assms(2,3) by (simp add: connectWebSocket_def)
  then have parts: "ws ?c = Some ?n" "sockets ?c = sockets s @ [\<lparr>ready_state = Connecting, wired = True, sock_url = ws_url s\<rparr>]" by simp_all
  have "i \<in> live_wired ?c" using i assms(3,4) parts by (simp add: live_wired_def nth_append)
  moreover have s1: "s1 = upd_web (updateWsStatus False) ((close_socket ?n (unwire ?n (cancel_retry ?c)))\<lparr>ws := None\<rparr>)"
    unfolding s1_def disconnectWebSocket_def Let_def using parts by simp
  ultimately have live: "i \<in> live_wired s1" using i parts by (simp add: live_wired_close live_wired_unwire)
  have ok: "ws_ok ?c" by (rule ws_ok_connect [OF assms(1)])
  then have "retry s1 = None" unfolding s1 using ws_ok_cancel by simp
  moreover have "ws s1 = None" unfolding s1 by simp
  moreover have "ws_ok s1" unfolding s1_def by (rule ws_ok_disconnect [OF ok])
  then have "ws_ok (upd_web (updateWsStatus False) (set_ready i Closed s1))" by (intro ws_ok_status ws_ok_set_ready)
  then have "retry (sock_onclose i s1) \<noteq> None"
    using live ws_ok_schedule by (auto simp: sock_onclose_def live_wired_def)
  ultimately show ?thesis using live by blast
qed

theorem double_connect_leaks_witness:
  "ws (disconnectWebSocket (connectWebSocket True connecting_shell)) = None
    \<and> retry (disconnectWebSocket (connectWebSocket True connecting_shell)) = None
    \<and> 0 \<in> live_wired (disconnectWebSocket (connectWebSocket True connecting_shell))
    \<and> retry (sock_onclose 0 (disconnectWebSocket (connectWebSocket True connecting_shell))) \<noteq> None"
  by (rule double_connect_leaks) (simp_all add: connecting_shell_ok connecting_shell_facts)

lemma find_unique: "distinct (map f xs) \<Longrightarrow> x \<in> set xs \<Longrightarrow> find (\<lambda>y. f y = f x) xs = Some x"
  by (induction xs) (auto simp: rev_image_eqI)

lemma page_lookup_page: "p \<in> set pages \<Longrightarrow> page_lookup (page_key p) = Page p"
  by (simp add: page_lookup_def find_unique [OF page_keys_distinct])

lemma page_keys_plain: "list_all (\<lambda>p. CHR ''#'' \<notin> set (page_key p) \<and> page_key p \<noteq> []) pages"
  by code_simp

text \<open>
  C29: the hash of a page in the table leads to that page: its link, and no other, is highlighted, its
  title is shown, its render runs on the emptied content element, and the dashboard is the only page
  that leaves with a socket wanted; every other one leaves without one.
\<close>

theorem navigate_page:
  assumes "p \<in> set pages" "hash s = CHR ''#'' # page_key p"
  shows "\<exists>s4 s'. navigate render destroyLogs acc s = (Resolved (), s')
    \<and> s' = (if page_key p = ''dashboard'' then connectWebSocket acc else disconnectWebSocket) (upd_web (render_page render p) s4)
    \<and> web s4 = set_inner ''page-content'' [] (set_text ''page-subtitle'' (sub p) (set_text ''page-title'' (title p) (destroyLogs (web s))))
    \<and> nav s' = map (\<lambda>(d, _). (d, d = page_key p)) (nav s)
    \<and> (page_key p = ''dashboard'' \<or> ws s' = None)"
proof -
  have key: "CHR ''#'' \<notin> set (page_key p)" "page_key p \<noteq> []"
    using page_keys_plain assms(1) by (auto simp: list_all_iff)
  have route: "route_key (hash s) = page_key p" using route_key_hash [OF key] assms(2) by simp
  let ?s4 = "upd_web (set_inner ''page-content'' [])
      ((upd_web (\<lambda>b. set_text ''page-subtitle'' (sub p) (set_text ''page-title'' (title p) b)) (upd_web destroyLogs s))
        \<lparr>nav := map (\<lambda>(d, _). (d, d = page_key p)) (nav s)\<rparr>)"
  have nav: "navigate render destroyLogs acc s =
      (Resolved (), (if page_key p = ''dashboard'' then connectWebSocket acc else disconnectWebSocket) (upd_web (render_page render p) ?s4))"
    using only_dashboard_ws [OF assms(1)]
    by (simp add: navigate_def Let_def route page_lookup_page [OF assms(1)] upd_web_def)
  have ws_none: "ws (disconnectWebSocket x) = None" for x
    by (simp add: disconnectWebSocket_def Let_def split: option.splits)
  show ?thesis unfolding nav by (rule exI [of _ ?s4], rule exI, (intro conjI; (rule refl)?)) (simp_all add: ws_none)
qed

definition logs_page :: page where
  "logs_page = mk_page ''logs'' ''logs'' ''postgresql log stream''"

theorem navigate_page_witness:
  "\<exists>s4 s'. navigate (\<lambda>k b. set_text ''page-content'' k b) id True (connecting_shell\<lparr>hash := ''#logs''\<rparr>) = (Resolved (), s')
    \<and> s' = (if page_key logs_page = ''dashboard'' then connectWebSocket True else disconnectWebSocket) (upd_web (render_page (\<lambda>k b. set_text ''page-content'' k b) logs_page) s4)
    \<and> web s4 = set_inner ''page-content'' [] (set_text ''page-subtitle'' (sub logs_page) (set_text ''page-title'' (title logs_page) (id (web (connecting_shell\<lparr>hash := ''#logs''\<rparr>)))))
    \<and> nav s' = map (\<lambda>(d, _). (d, d = page_key logs_page)) (nav (connecting_shell\<lparr>hash := ''#logs''\<rparr>))
    \<and> (page_key logs_page = ''dashboard'' \<or> ws s' = None)"
  by (rule navigate_page) (simp_all add: logs_page_def pages_def mk_page_def)

text \<open>
  C40: a hash that names a property of \<^verbatim>\<open>Object.prototype\<close> is found in the page table without being a page:
  instead of falling back to the dashboard, navigation empties the page, throws, and leaves the
  socket of the previous page as it was.
\<close>

theorem prototype_hash_breaks:
  assumes "k \<in> set prototype_names" "hash s = CHR ''#'' # k"
  shows "\<exists>e s'. navigate render destroyLogs acc s = (Rejected e, s') \<and> ws s' = ws s \<and> sockets s' = sockets s
    \<and> web s' = set_inner ''page-content'' [] (set_text ''page-subtitle'' [] (set_text ''page-title'' [] (destroyLogs (web s))))"
proof -
  have "list_all (\<lambda>k. CHR ''#'' \<notin> set k \<and> k \<noteq> [] \<and> page_lookup k = Inherited) prototype_names"
    by code_simp
  with assms(1) have k: "CHR ''#'' \<notin> set k" "k \<noteq> []" "page_lookup k = Inherited"
    by (auto simp: list_all_iff)
  have "route_key (hash s) = k" using route_key_hash [OF k(1,2)] assms(2) by simp
  with k(3) show ?thesis by (simp add: navigate_def Let_def upd_web_def)
qed

theorem prototype_hash_breaks_witness:
  "\<exists>e s'. navigate (\<lambda>k b. b) id True (connecting_shell\<lparr>hash := ''#constructor''\<rparr>) = (Rejected e, s')
    \<and> ws s' = ws (connecting_shell\<lparr>hash := ''#constructor''\<rparr>) \<and> sockets s' = sockets (connecting_shell\<lparr>hash := ''#constructor''\<rparr>)
    \<and> web s' = set_inner ''page-content'' [] (set_text ''page-subtitle'' [] (set_text ''page-title'' [] (id (web (connecting_shell\<lparr>hash := ''#constructor''\<rparr>)))))"
  by (rule prototype_hash_breaks [of "''constructor''"]) (simp_all add: prototype_names_def)

end
