(* ===== verification/Tuner.thy ===== *)
theory Tuner
  imports Selectors "HOL-Library.AList" "HOL-Library.Multiset"
begin

text \<open>
  The tuning wizard, tuner.js: detection of the system, the connection calculator, the analysis,
  the review table with its check boxes, and the application of the selected settings. The
  object \<^verbatim>\<open>_selected\<close> is an association list in insertion order. Of the elements without an id
  that handlers read or write, the wizard state keeps what they hold: the checked radio button, the
  check boxes of the rows in display order, the label of the apply button.
\<close>

section \<open>Data\<close>

record sys_info =
  cpuCores :: int
  totalRamHR :: string
  diskType :: string
  pgVersion :: string
  osInfo :: string
  diskTotalHR :: string

record recommendation =
  rec_name :: string
  rec_category :: string
  currentValue :: string
  newValue :: string
  rec_description :: string
  needRestart :: bool

record pg_connections =
  maxConnections :: int
  superuserReserved :: int

record bouncer_connections =
  maxClientConn :: int
  defaultPoolSize :: int
  minPoolSize :: int
  reservePoolSize :: int
  maxDbConnections :: int

record analysis =
  recommendations :: "recommendation list"
  conn_pg :: pg_connections
  conn_bouncer :: bouncer_connections
  conn_summary :: string

record apply_result =
  applied_count :: nat
  failed_count :: nat
  apply_message :: string

record tuner =
  step :: nat
  sys_data :: "sys_info option"
  result_data :: "analysis option"
  selected :: "(string \<times> bool) list"
  radio :: "string option"
  row_boxes :: "bool list"
  apply_button :: "html list"

definition new_tuner :: tuner where
  "new_tuner = \<lparr>step = 1, sys_data = None, result_data = None, selected = [], radio = None,
     row_boxes = [], apply_button = []\<rparr>"

text \<open>\<^verbatim>\<open>setStep\<close>: which classes the three step marks and the two lines between them carry.\<close>

definition setStep :: "nat \<Rightarrow> tuner \<Rightarrow> tuner" where
  "setStep n t = t\<lparr>step := n\<rparr>"

definition step_active :: "tuner \<Rightarrow> nat \<Rightarrow> bool" where
  "step_active t s = (s = step t)"

definition step_done :: "tuner \<Rightarrow> nat \<Rightarrow> bool" where
  "step_done t s = (s < step t)"

definition line_done :: "tuner \<Rightarrow> nat \<Rightarrow> bool" where
  "line_done t i = (i + 1 < step t)"

section \<open>The frame and step 1\<close>

definition tuner_frame :: "html list" where
  "tuner_frame = [El ''div'' [At ''class'' ''tuner-wizard'']
      [El ''div'' [At ''class'' ''tuner-steps mb-8'']
       [El ''div'' [At ''class'' ''tuner-step active'', At ''data-step'' ''1'']
        [El ''span'' [At ''class'' ''step-num''] [Txt ''1''],
        El ''span'' [At ''class'' ''step-label''] [Txt ''system'']],
       El ''div'' [At ''class'' ''tuner-step-line''] [],
       El ''div'' [At ''class'' ''tuner-step'', At ''data-step'' ''2'']
        [El ''span'' [At ''class'' ''step-num''] [Txt ''2''],
        El ''span'' [At ''class'' ''step-label''] [Txt ''configure'']],
       El ''div'' [At ''class'' ''tuner-step-line''] [],
       El ''div'' [At ''class'' ''tuner-step'', At ''data-step'' ''3'']
        [El ''span'' [At ''class'' ''step-num''] [Txt ''3''],
        El ''span'' [At ''class'' ''step-label''] [Txt ''review'']]],
      El ''div'' [At ''id'' ''tuner-content'']
       [El ''div'' [At ''class'' ''card'']
        [El ''span'' [At ''class'' ''dim mono-xs''] [Txt ''detecting system...'']]]]]"

definition system_markup :: "sys_info \<Rightarrow> html list" where
  "system_markup sys = [El ''div'' [At ''class'' ''card mb-8'']
      [El ''div'' [At ''class'' ''card-title''] [Txt ''system information''],
      El ''div'' [At ''class'' ''tuner-sys-grid'']
       [El ''div'' [At ''class'' ''tuner-sys-item'']
        [El ''div'' [At ''class'' ''tuner-sys-icon'']
         [El ''i'' [At ''data-lucide'' ''cpu''] []],
        El ''div'' []
         [El ''div'' [At ''class'' ''tuner-sys-label''] [Txt ''cpu cores''],
         El ''div'' [At ''class'' ''tuner-sys-value''] [Txt (str_of_int (cpuCores sys))]]],
       El ''div'' [At ''class'' ''tuner-sys-item'']
        [El ''div'' [At ''class'' ''tuner-sys-icon'']
         [El ''i'' [At ''data-lucide'' ''memory-stick''] []],
        El ''div'' []
         [El ''div'' [At ''class'' ''tuner-sys-label''] [Txt ''total ram''],
         El ''div'' [At ''class'' ''tuner-sys-value''] [Txt (esc5 (totalRamHR sys))]]],
       El ''div'' [At ''class'' ''tuner-sys-item'']
        [El ''div'' [At ''class'' ''tuner-sys-icon'']
         [El ''i'' [At ''data-lucide'' ''hard-drive''] []],
        El ''div'' []
         [El ''div'' [At ''class'' ''tuner-sys-label''] [Txt ''disk type''],
         El ''div'' [At ''class'' ''tuner-sys-value''] [Txt (to_upper (diskType sys))]]],
       El ''div'' [At ''class'' ''tuner-sys-item'']
        [El ''div'' [At ''class'' ''tuner-sys-icon'']
         [El ''i'' [At ''data-lucide'' ''database''] []],
        El ''div'' []
         [El ''div'' [At ''class'' ''tuner-sys-label''] [Txt ''postgresql''],
         El ''div'' [At ''class'' ''tuner-sys-value''] [Txt (esc5 (or_str (pgVersion sys) ''unknown''))]]],
       El ''div'' [At ''class'' ''tuner-sys-item'']
        [El ''div'' [At ''class'' ''tuner-sys-icon'']
         [El ''i'' [At ''data-lucide'' ''monitor''] []],
        El ''div'' []
         [El ''div'' [At ''class'' ''tuner-sys-label''] [Txt ''os''],
         El ''div'' [At ''class'' ''tuner-sys-value''] [Txt (esc5 (or_str (osInfo sys) ''linux''))]]],
       El ''div'' [At ''class'' ''tuner-sys-item'']
        [El ''div'' [At ''class'' ''tuner-sys-icon'']
         [El ''i'' [At ''data-lucide'' ''hdd''] []],
        El ''div'' []
         [El ''div'' [At ''class'' ''tuner-sys-label''] [Txt ''disk total''],
         El ''div'' [At ''class'' ''tuner-sys-value''] [Txt (esc5 (diskTotalHR sys))]]]]],
     El ''div'' [At ''class'' ''flex-end'']
      [El ''button'' [At ''class'' ''btn btn-sm btn-primary'', At ''onclick'' ''TunerWizard.goStep2()'']
       [Txt ''next: configure '',
       El ''i'' [At ''data-lucide'' ''arrow-right'', At ''class'' ''icon-sm''] []]]]"

definition detect_error :: "string \<Rightarrow> html list" where
  "detect_error msg = [El ''div'' [At ''class'' ''card'']
      [El ''span'' [At ''class'' ''red mono-xs''] [Txt (''error detecting system: '' @ (esc5 msg))]]]"

definition detecting_markup :: "html list" where
  "detecting_markup = [El ''div'' [At ''class'' ''card'']
      [El ''span'' [At ''class'' ''dim mono-xs''] [Txt ''detecting system configuration...'']]]"

type_synonym tuner_state = "tuner \<times> browser"

definition leave_step2 :: "tuner \<Rightarrow> tuner" where
  "leave_step2 t = t\<lparr>radio := None\<rparr>"

text \<open>Without the content element the handlers end in a TypeError before they ask the server.\<close>

definition renderStep1 :: "sys_info option net \<Rightarrow> tuner_state \<Rightarrow> tuner_state" where
  "renderStep1 net st =
     (let t = setStep 1 (fst st) in
      if \<not> element ''tuner-content'' (snd st) then (t, snd st)
      else (let t1 = leave_step2 t; b = set_inner ''tuner-content'' detecting_markup (snd st) in
        case api net (get_rq ''/tuner/system'') b of
          (Resolved (Some sys), b1) \<Rightarrow>
            (t1\<lparr>sys_data := Some sys\<rparr>, set_inner ''tuner-content'' (system_markup sys) b1)
        | (Resolved None, b1) \<Rightarrow>
            (t1\<lparr>sys_data := None\<rparr>,
             set_inner ''tuner-content'' (detect_error ''Cannot read properties of null'') b1)
        | (Rejected e, b1) \<Rightarrow> (t1, set_inner ''tuner-content'' (detect_error e) b1)
        | (Pending, b1) \<Rightarrow> (t1, b1)))"

definition tuner_render :: "sys_info option net \<Rightarrow> tuner_state \<Rightarrow> tuner_state" where
  "tuner_render net st =
     renderStep1 net
       ((fst st)\<lparr>step := 1, selected := [], radio := None\<rparr>,
        set_inner ''page-content'' tuner_frame (snd st))"

section \<open>Step 2\<close>

definition step2_markup :: "html list" where
  "step2_markup = [El ''div'' [At ''class'' ''card mb-8'']
      [El ''div'' [At ''class'' ''card-title''] [Txt ''workload profile''],
      El ''div'' [At ''class'' ''mono-xs dim mb-8''] [Txt ''select the primary use case for this database''],
      El ''div'' [At ''class'' ''tuner-profiles'']
       [El ''label'' [At ''class'' ''tuner-profile-card active'', At ''data-profile'' ''web'']
        [El ''input'' [At ''type'' ''radio'', At ''name'' ''profile'', At ''value'' ''web'', Flag ''checked'', Flag ''hidden''] [],
        El ''div'' [At ''class'' ''profile-icon'']
         [El ''i'' [At ''data-lucide'' ''globe''] []],
        El ''div'' [At ''class'' ''profile-name''] [Txt ''web / oltp''],
        El ''div'' [At ''class'' ''profile-desc''] [Txt ''high concurrency, short transactions'']],
       El ''label'' [At ''class'' ''tuner-profile-card'', At ''data-profile'' ''olap'']
        [El ''input'' [At ''type'' ''radio'', At ''name'' ''profile'', At ''value'' ''olap'', Flag ''hidden''] [],
        El ''div'' [At ''class'' ''profile-icon'']
         [El ''i'' [At ''data-lucide'' ''bar-chart-3''] []],
        El ''div'' [At ''class'' ''profile-name''] [Txt ''olap''],
        El ''div'' [At ''class'' ''profile-desc''] [Txt ''analytical queries, large data scans'']],
       El ''label'' [At ''class'' ''tuner-profile-card'', At ''data-profile'' ''mixed'']
        [El ''input'' [At ''type'' ''radio'', At ''name'' ''profile'', At ''value'' ''mixed'', Flag ''hidden''] [],
        El ''div'' [At ''class'' ''profile-icon'']
         [El ''i'' [At ''data-lucide'' ''layers''] []],
        El ''div'' [At ''class'' ''profile-name''] [Txt ''mixed''],
        El ''div'' [At ''class'' ''profile-desc''] [Txt ''balanced oltp and analytics'']],
       El ''label'' [At ''class'' ''tuner-profile-card'', At ''data-profile'' ''desktop'']
        [El ''input'' [At ''type'' ''radio'', At ''name'' ''profile'', At ''value'' ''desktop'', Flag ''hidden''] [],
        El ''div'' [At ''class'' ''profile-icon'']
         [El ''i'' [At ''data-lucide'' ''laptop''] []],
        El ''div'' [At ''class'' ''profile-name''] [Txt ''desktop''],
        El ''div'' [At ''class'' ''profile-desc''] [Txt ''development, low resource usage'']]]],
     El ''div'' [At ''class'' ''card mb-8'']
      [El ''div'' [At ''class'' ''card-title''] [Txt ''connection calculator''],
      El ''div'' [At ''class'' ''mono-xs dim mb-8'']
       [Txt ''enter the expected number of application connections. pgbouncer will multiplex these into fewer postgresql connections.''],
      El ''div'' [At ''class'' ''tuner-conn-input'']
       [El ''label'' [At ''class'' ''mono-xs''] [Txt ''expected app connections''],
       El ''input'' [At ''type'' ''number'', At ''id'' ''tuner-conn-count'', At ''value'' ''200'', At ''min'' ''10'', At ''max'' ''50000'', At ''style'' ''background:var(--bg-2);border:1px solid var(--border);color:var(--text-1); padding:6px 10px;font-size:13px;font-family:var(--font);width:140px''] []],
      El ''div'' [At ''id'' ''tuner-conn-preview'', At ''class'' ''mt-8''] []],
     El ''div'' [At ''class'' ''flex-between'']
      [El ''button'' [At ''class'' ''btn btn-sm'', At ''onclick'' ''TunerWizard.renderStep1()'']
       [El ''i'' [At ''data-lucide'' ''arrow-left'', At ''class'' ''icon-sm''] [],
       Txt '' back''],
      El ''button'' [At ''class'' ''btn btn-sm btn-primary'', At ''id'' ''tuner-analyze-btn'', At ''onclick'' ''TunerWizard.analyze()'']
       [El ''i'' [At ''data-lucide'' ''sparkles'', At ''class'' ''icon-sm''] [],
       Txt '' analyze & recommend'']]]"

record preview =
  pv_pg :: int
  pv_pool :: int
  pv_min :: int
  pv_reserve :: int
  pv_ratio :: int

definition reserved :: int where
  "reserved = 3"

definition pg_limit :: "int \<Rightarrow> int \<Rightarrow> int" where
  "pg_limit conn cpu =
     (let pg0 = cpu * 4;
          pg1 = (if pg0 < 50 then 50 else pg0);
          cap0 = conn div 2;
          cap1 = (if cap0 < 50 then 50 else cap0);
          cap2 = (if cap1 > 500 then 500 else cap1)
      in if pg1 > cap2 then cap2 else pg1)"

definition preview_numbers :: "int \<Rightarrow> int \<Rightarrow> preview" where
  "preview_numbers conn cpu =
     (let pgConn = pg_limit conn cpu;
          poolSize = max 5 ((pgConn - reserved) div 2)
      in \<lparr>pv_pg = pgConn, pv_pool = poolSize, pv_min = max 2 (poolSize div 4),
          pv_reserve = max 2 (poolSize div 4), pv_ratio = conn div pgConn\<rparr>)"

definition preview_markup :: "int \<Rightarrow> preview \<Rightarrow> html list" where
  "preview_markup conn p = [El ''div'' [At ''class'' ''tuner-conn-grid'']
      [El ''div'' [At ''class'' ''tuner-conn-section'']
       [El ''div'' [At ''class'' ''conn-section-title''] [Txt ''postgresql''],
       El ''div'' [At ''class'' ''conn-row'']
        [El ''span'' [At ''class'' ''dim''] [Txt ''max_connections''],
        El ''span'' [At ''class'' ''accent''] [Txt (str_of_int (pv_pg p))]],
       El ''div'' [At ''class'' ''conn-row'']
        [El ''span'' [At ''class'' ''dim''] [Txt ''reserved (superuser)''],
        El ''span'' [] [Txt (str_of_int reserved)]]],
      El ''div'' [At ''class'' ''tuner-conn-section'']
       [El ''div'' [At ''class'' ''conn-section-title''] [Txt ''pgbouncer''],
       El ''div'' [At ''class'' ''conn-row'']
        [El ''span'' [At ''class'' ''dim''] [Txt ''max_client_conn''],
        El ''span'' [At ''class'' ''accent''] [Txt (str_of_int conn)]],
       El ''div'' [At ''class'' ''conn-row'']
        [El ''span'' [At ''class'' ''dim''] [Txt ''default_pool_size''],
        El ''span'' [] [Txt (str_of_int (pv_pool p))]],
       El ''div'' [At ''class'' ''conn-row'']
        [El ''span'' [At ''class'' ''dim''] [Txt ''min_pool_size''],
        El ''span'' [] [Txt (str_of_int (pv_min p))]],
       El ''div'' [At ''class'' ''conn-row'']
        [El ''span'' [At ''class'' ''dim''] [Txt ''reserve_pool_size''],
        El ''span'' [] [Txt (str_of_int (pv_reserve p))]],
       El ''div'' [At ''class'' ''conn-row'']
        [El ''span'' [At ''class'' ''dim''] [Txt ''max_db_connections''],
        El ''span'' [] [Txt (str_of_int (pv_pg p - reserved))]]]],
     El ''div'' [At ''class'' ''tuner-conn-summary mono-xs'']
      [El ''i'' [At ''data-lucide'' ''info'', At ''class'' ''icon-sm''] [],
      Txt ''multiplexing ratio: '',
      El ''span'' [At ''class'' ''accent''] [Txt ((str_of_int (pv_ratio p)) @ ''x'')],
      Txt ('' '' @ u_dash @ '' '' @ (str_of_int conn) @ '' app connections '' @ u_arrow @ '' '' @ (str_of_int (pv_pg p)) @ '' pg connections via transaction pooling'')]]"

definition conn_input :: "browser \<Rightarrow> int" where
  "conn_input b = parse_int_or (value_of ''tuner-conn-count'' b) 200"

definition cpu_count :: "tuner \<Rightarrow> int" where
  "cpu_count t = (case sys_data t of None \<Rightarrow> 4 | Some s \<Rightarrow> or_int (cpuCores s) 4)"

definition previewConnections :: "tuner_state \<Rightarrow> tuner_state" where
  "previewConnections st =
     (let conn = conn_input (snd st); p = preview_numbers conn (cpu_count (fst st))
      in (fst st, set_inner ''tuner-conn-preview'' (preview_markup conn p) (snd st)))"

definition goStep2 :: "tuner_state \<Rightarrow> tuner_state" where
  "goStep2 st =
     (let t = setStep 2 (fst st) in
      if \<not> element ''tuner-content'' (snd st) then (t, snd st)
      else previewConnections (t\<lparr>radio := Some ''web''\<rparr>, set_inner ''tuner-content'' step2_markup (snd st)))"

text \<open>A click on one of the four profile cards, and input to the connection field.\<close>

definition pick_profile :: "string \<Rightarrow> tuner_state \<Rightarrow> tuner_state" where
  "pick_profile p st = ((fst st)\<lparr>radio := map_option (\<lambda>_. p) (radio (fst st))\<rparr>, snd st)"

definition conn_typed :: "string \<Rightarrow> tuner_state \<Rightarrow> tuner_state" where
  "conn_typed v st = previewConnections (fst st, set_val ''tuner-conn-count'' v (snd st))"

section \<open>Step 3\<close>

definition is_selected :: "(string \<times> bool) list \<Rightarrow> string \<Rightarrow> bool" where
  "is_selected sel n = (map_of sel n = Some True)"

definition selected_count :: "(string \<times> bool) list \<Rightarrow> nat" where
  "selected_count sel = length (filter snd sel)"

definition apply_label :: "nat \<Rightarrow> html list" where
  "apply_label n = [El ''i'' [At ''data-lucide'' ''check'', At ''class'' ''icon-sm''] [], Txt (''apply selected ('' @ str_of_nat n @ '')'')]"

definition rec_row :: "(string \<times> bool) list \<Rightarrow> recommendation \<Rightarrow> html" where
  "rec_row sel r =
     (let changed = (currentValue r \<noteq> newValue r);
          valueCls = (if changed then ''accent'' else ''dim'');
          ctxCls = (if needRestart r then ''red'' else ''green'');
          ctxLabel = (if needRestart r then ''restart'' else ''reload'')
      in hd [El ''tr'' [At ''class'' (if changed then [] else ''tuner-unchanged'')]
      [El ''td'' []
       [El ''input'' ([At ''type'' ''checkbox''] @ (flag_if (is_selected sel (rec_name r)) ''checked'') @ [At ''onchange'' (''TunerWizard.toggle('' @ sq @ (esc5 (rec_name r)) @ sq @ '', this.checked)'')]) []],
      El ''td'' [At ''style'' ''word-break:break-all''] [Txt (esc5 (rec_name r))],
      El ''td'' [At ''class'' ''dim''] [Txt (esc5 (currentValue r))],
      El ''td'' [At ''class'' ''dim''] [Txt u_arrow],
      El ''td'' [At ''class'' valueCls, At ''style'' ''font-weight:600''] [Txt (esc5 (newValue r))],
      El ''td'' [At ''class'' ''dim'', At ''style'' ''overflow:hidden;text-overflow:ellipsis;white-space:nowrap'', At ''title'' (esc5 (rec_description r))] [Txt (esc5 (rec_description r))],
      El ''td'' []
       [El ''span'' [At ''class'' (''mono-xs '' @ ctxCls)] [Txt ctxLabel]]]])"

definition category_card :: "(string \<times> bool) list \<Rightarrow> string \<times> recommendation list \<Rightarrow> html list" where
  "category_card sel g =
     (let rows = map (rec_row sel) (snd g) in [El ''div'' [At ''class'' ''card mb-8'', At ''style'' ''padding:0'']
      [El ''div'' [At ''style'' ''padding:6px 10px;border-bottom:1px solid var(--border);background:var(--bg-2)'']
       [El ''span'' [At ''class'' ''accent'', At ''style'' ''font-size:11px;font-weight:600''] [Txt (esc5 (fst g))],
       El ''span'' [At ''class'' ''dim'', At ''style'' ''font-size:10px;margin-left:6px''] [Txt (''('' @ (str_of_nat (length (snd g))) @ '')'')]],
      El ''table'' [At ''class'' ''data-table'', At ''style'' ''table-layout:fixed;width:100%'']
       [El ''thead'' []
        [El ''tr'' []
         [El ''th'' [At ''style'' ''width:30px''] [],
         El ''th'' [At ''style'' ''width:210px''] [Txt ''parameter''],
         El ''th'' [At ''style'' ''width:120px''] [Txt ''current''],
         El ''th'' [At ''style'' ''width:20px''] [],
         El ''th'' [At ''style'' ''width:120px''] [Txt ''recommended''],
         El ''th'' [] [Txt ''description''],
         El ''th'' [At ''style'' ''width:70px''] [Txt ''context'']]],
       El ''tbody'' [] rows]]])"

definition groups_of :: "analysis \<Rightarrow> (string \<times> recommendation list) list" where
  "groups_of a = group_by rec_category (recommendations a)"

definition displayed :: "analysis \<Rightarrow> recommendation list" where
  "displayed a = concat (map snd (groups_of a))"

definition step3_head :: "nat \<Rightarrow> nat \<Rightarrow> html list" where
  "step3_head n selectedCount = [El ''div'' [At ''class'' ''flex-between mb-8'']
      [El ''div'' []
       [El ''span'' [At ''class'' ''card-title'', At ''style'' ''margin:0''] [Txt ''recommended changes''],
       El ''span'' [At ''class'' ''mono-xs dim ml-4''] [Txt ((str_of_nat n) @ '' parameters'')]],
      El ''div'' [At ''class'' ''flex gap-4'']
       [El ''label'' [At ''class'' ''mono-xs flex gap-4'', At ''style'' ''cursor:pointer;align-items:center'']
        [El ''input'' ([At ''type'' ''checkbox'', At ''id'' ''tuner-select-all''] @ (flag_if (selectedCount = n) ''checked'') @ [At ''onchange'' ''TunerWizard.toggleAll(this.checked)'']) [],
        Txt ''select all'']]]]"

definition conn_card :: "analysis \<Rightarrow> html list" where
  "conn_card a = [El ''div'' [At ''class'' ''card mb-8'']
      [El ''div'' [At ''class'' ''card-title''] [Txt ''connection configuration''],
      El ''div'' [At ''class'' ''tuner-conn-grid'']
       [El ''div'' [At ''class'' ''tuner-conn-section'']
        [El ''div'' [At ''class'' ''conn-section-title''] [Txt ''postgresql''],
        El ''div'' [At ''class'' ''conn-row'']
         [El ''span'' [At ''class'' ''dim''] [Txt ''max_connections''],
         El ''span'' [At ''class'' ''accent''] [Txt (str_of_int (maxConnections (conn_pg a)))]],
        El ''div'' [At ''class'' ''conn-row'']
         [El ''span'' [At ''class'' ''dim''] [Txt ''superuser_reserved''],
         El ''span'' [] [Txt (str_of_int (superuserReserved (conn_pg a)))]]],
       El ''div'' [At ''class'' ''tuner-conn-section'']
        [El ''div'' [At ''class'' ''conn-section-title''] [Txt ''pgbouncer''],
        El ''div'' [At ''class'' ''conn-row'']
         [El ''span'' [At ''class'' ''dim''] [Txt ''max_client_conn''],
         El ''span'' [At ''class'' ''accent''] [Txt (str_of_int (maxClientConn (conn_bouncer a)))]],
        El ''div'' [At ''class'' ''conn-row'']
         [El ''span'' [At ''class'' ''dim''] [Txt ''default_pool_size''],
         El ''span'' [] [Txt (str_of_int (defaultPoolSize (conn_bouncer a)))]],
        El ''div'' [At ''class'' ''conn-row'']
         [El ''span'' [At ''class'' ''dim''] [Txt ''min_pool_size''],
         El ''span'' [] [Txt (str_of_int (minPoolSize (conn_bouncer a)))]],
        El ''div'' [At ''class'' ''conn-row'']
         [El ''span'' [At ''class'' ''dim''] [Txt ''reserve_pool_size''],
         El ''span'' [] [Txt (str_of_int (reservePoolSize (conn_bouncer a)))]],
        El ''div'' [At ''class'' ''conn-row'']
         [El ''span'' [At ''class'' ''dim''] [Txt ''max_db_connections''],
         El ''span'' [] [Txt (str_of_int (maxDbConnections (conn_bouncer a)))]]]],
      El ''div'' [At ''class'' ''mono-xs dim mt-8''] [Txt (esc5 (conn_summary a))]]]"

definition step3_actions :: "bool \<Rightarrow> nat \<Rightarrow> html list" where
  "step3_actions hasRestart selectedCount =
     (let warning = (if hasRestart then [El ''div'' [At ''class'' ''tuner-warning mono-xs mb-8'']
      [El ''i'' [At ''data-lucide'' ''alert-triangle'', At ''class'' ''icon-sm''] [],
      Txt '' some settings require a postgresql restart to take effect'']] else []);
          restart = (if hasRestart then [El ''button'' [At ''class'' ''btn btn-sm btn-danger'', At ''onclick'' ''TunerWizard.applySelected(true)'']
      [El ''i'' [At ''data-lucide'' ''power'', At ''class'' ''icon-sm''] [],
      Txt ''apply & restart'']] else [])
      in (warning @ [El ''div'' [At ''class'' ''flex-between'']
       [El ''button'' [At ''class'' ''btn btn-sm'', At ''onclick'' ''TunerWizard.goStep2()'']
        [El ''i'' [At ''data-lucide'' ''arrow-left'', At ''class'' ''icon-sm''] [],
        Txt '' back''],
       El ''div'' [At ''class'' ''flex gap-4'']
        ([El ''button'' [At ''class'' ''btn btn-sm btn-primary'', At ''onclick'' ''TunerWizard.applySelected(false)'']
          [El ''i'' [At ''data-lucide'' ''check'', At ''class'' ''icon-sm''] [],
          Txt (''apply selected ('' @ (str_of_nat selectedCount) @ '')'')]] @ restart)]]))"

definition step3_markup :: "analysis \<Rightarrow> (string \<times> bool) list \<Rightarrow> html list" where
  "step3_markup a sel =
     step3_head (length (recommendations a)) (selected_count sel)
     @ concat (map (category_card sel) (groups_of a))
     @ conn_card a
     @ step3_actions (list_ex (\<lambda>r. is_selected sel (rec_name r) \<and> needRestart r) (recommendations a)) (selected_count sel)"

text \<open>\<^verbatim>\<open>None\<close>: the content element is gone, and writing to it throws.\<close>

definition renderStep3 :: "analysis \<Rightarrow> tuner_state \<Rightarrow> tuner_state option" where
  "renderStep3 a st =
     (let t = setStep 3 (fst st) in
      if \<not> element ''tuner-content'' (snd st) then None
      else Some
        ((leave_step2 t)\<lparr>row_boxes := map (\<lambda>r. is_selected (selected t) (rec_name r)) (displayed a),
                          apply_button := apply_label (selected_count (selected t))\<rparr>,
         set_inner ''tuner-content'' (step3_markup a (selected t)) (snd st)))"

definition select_all :: "recommendation list \<Rightarrow> bool \<Rightarrow> (string \<times> bool) list \<Rightarrow> (string \<times> bool) list" where
  "select_all recs v sel = fold (\<lambda>r. AList.update (rec_name r) v) recs sel"

definition analyze_rq :: "string \<Rightarrow> int \<Rightarrow> request" where
  "analyze_rq profile conn =
     post_rq ''/tuner/analyze'' (Some (JObj [(''profile'', JStr profile), (''expectedConnections'', JInt conn)]))"

definition analyze_busy :: "browser \<Rightarrow> browser" where
  "analyze_busy b = set_text ''tuner-analyze-btn'' ''analyzing...'' (set_disabled ''tuner-analyze-btn'' True b)"

definition analyze_label :: "html list" where
  "analyze_label = [El ''i'' [At ''data-lucide'' ''sparkles'', At ''class'' ''icon-sm''] [],
     Txt '' analyze & recommend'']"

definition analyze_failed :: "string \<Rightarrow> browser \<Rightarrow> browser" where
  "analyze_failed e b =
     showToast (''analysis failed: '' @ e) ''error''
       (set_inner ''tuner-analyze-btn'' analyze_label (set_disabled ''tuner-analyze-btn'' False b))"

definition analyze :: "analysis option net \<Rightarrow> tuner_state \<Rightarrow> tuner_state" where
  "analyze net st =
     (let t = fst st; b = analyze_busy (snd st);
          profile = or_str (or_none (radio t) []) ''web'';
          conn = conn_input b
      in case api net (analyze_rq profile conn) b of
           (Resolved None, b1) \<Rightarrow>
             (t\<lparr>result_data := None, selected := []\<rparr>, analyze_failed ''Cannot read properties of null'' b1)
         | (Resolved (Some a), b1) \<Rightarrow>
             (let t1 = t\<lparr>result_data := Some a, selected := select_all (recommendations a) True []\<rparr> in
              case renderStep3 a (t1, b1) of
                Some st1 \<Rightarrow> st1
              | None \<Rightarrow> (setStep 3 t1, analyze_failed ''Cannot set properties of null'' b1))
         | (Rejected e, b1) \<Rightarrow> (t, analyze_failed e b1)
         | (Pending, b1) \<Rightarrow> (t, b1))"

section \<open>The check boxes\<close>

definition updateApplyButton :: "tuner \<Rightarrow> tuner" where
  "updateApplyButton t = t\<lparr>apply_button := apply_label (selected_count (selected t))\<rparr>"

definition toggle :: "string \<Rightarrow> bool \<Rightarrow> tuner \<Rightarrow> tuner" where
  "toggle n v t = updateApplyButton (t\<lparr>selected := AList.update n v (selected t)\<rparr>)"

definition toggleAll :: "bool \<Rightarrow> tuner \<Rightarrow> tuner" where
  "toggleAll v t =
     (case result_data t of
        None \<Rightarrow> t
      | Some a \<Rightarrow>
          updateApplyButton
            (t\<lparr>selected := select_all (recommendations a) v (selected t),
               row_boxes := map (\<lambda>_. v) (row_boxes t)\<rparr>))"

text \<open>What the user does on the review page: a row's box, or the box over all rows.\<close>

datatype box_event = RowBox nat bool | AllBox bool

fun box_step :: "box_event \<Rightarrow> tuner \<Rightarrow> tuner" where
  "box_step (RowBox i v) t =
     (case result_data t of
        None \<Rightarrow> t
      | Some a \<Rightarrow>
          if i < length (displayed a)
          then toggle (rec_name (displayed a ! i)) v (t\<lparr>row_boxes := (row_boxes t)[i := v]\<rparr>)
          else t)"
| "box_step (AllBox v) t = toggleAll v t"

section \<open>Applying\<close>

definition chosen :: "tuner \<Rightarrow> recommendation list" where
  "chosen t =
     (case result_data t of
        None \<Rightarrow> []
      | Some a \<Rightarrow> filter (\<lambda>r. is_selected (selected t) (rec_name r)) (recommendations a))"

definition change_line :: "recommendation \<Rightarrow> string" where
  "change_line r = u_bullet @ '' '' @ rec_name r @ '': '' @ currentValue r @ '' '' @ u_arrow @ '' '' @ newValue r"

definition apply_prompt :: "recommendation list \<Rightarrow> bool \<Rightarrow> string" where
  "apply_prompt recs restarting =
     ''Apply '' @ str_of_nat (length recs) @ '' configuration change(s)?'' @ [CHR 0x0A, CHR 0x0A]
     @ join_with [CHR 0x0A] (map change_line recs)
     @ (if restarting
        then [CHR 0x0A, CHR 0x0A] @ u_warn @ '' PostgreSQL will restart '' @ u_dash @ '' all connections will be briefly interrupted.''
        else [])"

definition bouncer_json :: "bouncer_connections \<Rightarrow> json" where
  "bouncer_json c =
     JObj [(''maxClientConn'', JInt (maxClientConn c)), (''defaultPoolSize'', JInt (defaultPoolSize c)),
           (''minPoolSize'', JInt (minPoolSize c)), (''reservePoolSize'', JInt (reservePoolSize c)),
           (''maxDbConnections'', JInt (maxDbConnections c))]"

definition setting_json :: "recommendation \<Rightarrow> json" where
  "setting_json r = JObj [(''name'', JStr (rec_name r)), (''value'', JStr (newValue r))]"

definition apply_rq :: "recommendation list \<Rightarrow> bouncer_connections \<Rightarrow> request" where
  "apply_rq recs c =
     post_rq ''/tuner/apply''
       (Some (JObj [(''postgresSettings'', JArr (map setting_json recs)), (''pgbouncerSettings'', bouncer_json c)]))"

definition restart_rq :: request where
  "restart_rq = post_rq ''/config/restart'' None"

definition apply_outcome :: "apply_result \<Rightarrow> browser \<Rightarrow> browser" where
  "apply_outcome res b =
     (if 0 < failed_count res
      then showToast (str_of_nat (applied_count res) @ '' applied, '' @ str_of_nat (failed_count res) @ '' failed'') ''warning'' b
      else showToast (apply_message res) ''success'' b)"

definition apply_failed :: "string \<Rightarrow> browser \<Rightarrow> browser" where
  "apply_failed e b = showToast (''apply failed: '' @ e) ''error'' b"

definition after_apply :: "unit net \<Rightarrow> bool \<Rightarrow> browser \<Rightarrow> browser" where
  "after_apply restartNet restarting b =
     (if restarting
      then (case apiProtected restartNet restart_rq b of
              (Resolved _, b1) \<Rightarrow>
                snd (set_timeout 5000 TunerRestarted
                  (showToast (''PostgreSQL restart initiated '' @ u_dash @ '' reconnecting in 5s...'') ''info'' b1))
            | (Rejected e, b1) \<Rightarrow> apply_failed e b1
            | (Pending, b1) \<Rightarrow> b1)
      else snd (set_timeout 1000 TunerReanalyze b))"

definition applySelected ::
    "apply_result option net \<Rightarrow> unit net \<Rightarrow> bool \<Rightarrow> tuner_state \<Rightarrow> tuner_state" where
  "applySelected applyNet restartNet withRestart st =
     (case result_data (fst st) of
        None \<Rightarrow> st
      | Some a \<Rightarrow>
          (let recs = chosen (fst st) in
           if recs = [] then (fst st, showToast ''no settings selected'' ''warning'' (snd st))
           else (let restartNeeded = list_ex needRestart recs;
                     restarting = (withRestart \<and> restartNeeded);
                     act = (if restarting then ''apply and restart PostgreSQL'' else ''apply configuration changes'')
                 in case showConfirm ''apply tuning changes'' (apply_prompt recs restarting)
                          (default_options\<lparr>danger := withRestart, confirmText := act\<rparr>) (snd st) of
                      (Resolved True, b) \<Rightarrow>
                        (case apiProtected applyNet (apply_rq recs (conn_bouncer a)) b of
                           (Resolved (Some res), b1) \<Rightarrow> (fst st, after_apply restartNet restarting (apply_outcome res b1))
                         | (Resolved None, b1) \<Rightarrow> (fst st, apply_failed ''Cannot read properties of null'' b1)
                         | (Rejected e, b1) \<Rightarrow> (fst st, apply_failed e b1)
                         | (Pending, b1) \<Rightarrow> (fst st, b1))
                    | (_, b) \<Rightarrow> (fst st, b))))"

text \<open>The two timers of \<^verbatim>\<open>applySelected\<close>, when they fire.\<close>

definition tuner_timer ::
    "sys_info option net \<Rightarrow> analysis option net \<Rightarrow> callback \<Rightarrow> tuner_state \<Rightarrow> tuner_state" where
  "tuner_timer sysNet anNet c st =
     (if c = TunerRestarted then renderStep1 sysNet (fst st, showToast ''PostgreSQL restarted'' ''success'' (snd st))
      else if c = TunerReanalyze then analyze anNet st
      else st)"

section \<open>The calculator\<close>

lemma pg_limit_min_max: "pg_limit conn cpu = min (max 50 (cpu * 4)) (min 500 (max 50 (conn div 2)))"
proof -
  have "(if (if c < 50 then 50 else c) > k then k else (if c < 50 then 50 else c)) = min (max 50 c) k" for c k :: int
    by (auto simp: min_def max_def)
  moreover have "(if (if d < 50 then 50 else d) > 500 then 500 else (if d < 50 then 50 else d)) = min 500 (max 50 d)" for d :: int
    by (auto simp: min_def max_def)
  ultimately show ?thesis unfolding pg_limit_def Let_def by (simp only:)
qed

lemma preview_bounds:
  "50 \<le> pv_pg (preview_numbers conn cpu) \<and> pv_pg (preview_numbers conn cpu) \<le> 500"
proof -
  have "50 \<le> min (max 50 c) (min 500 (max 50 d)) \<and> min (max 50 c) (min 500 (max 50 d)) \<le> 500" for c d :: int
    by (simp add: min_def max_def)
  then show ?thesis by (simp only: preview_numbers_def Let_def pg_limit_min_max preview.simps)
qed

lemma preview_pool:
  fixes conn cpu :: int
  defines "p \<equiv> preview_numbers conn cpu"
  shows "pv_pool p = (pv_pg p - 3) div 2" "pv_min p = pv_pool p div 4" "pv_reserve p = pv_pool p div 4"
proof -
  have "50 \<le> pv_pg p" using preview_bounds [of conn cpu] by (simp add: p_def)
  moreover have "pv_pool p = max 5 ((pv_pg p - 3) div 2)"
    by (simp add: p_def preview_numbers_def Let_def reserved_def)
  moreover have "pv_min p = max 2 (pv_pool p div 4)" "pv_reserve p = max 2 (pv_pool p div 4)"
    by (simp_all add: p_def preview_numbers_def Let_def)
  ultimately show "pv_pool p = (pv_pg p - 3) div 2" "pv_min p = pv_pool p div 4" "pv_reserve p = pv_pool p div 4"
    by linarith+
qed

section \<open>Grouping\<close>

lemma mset_group_push: "mset (concat (map snd (group_push k x gs))) = add_mset x (mset (concat (map snd gs)))"
  by (induction k x gs rule: group_push.induct) simp_all

lemma mset_group_by: "mset (concat (map snd (group_by key xs))) = mset xs"
  by (induction xs rule: rev_induct) (simp_all add: group_by_snoc mset_group_push)

lemma mset_displayed: "mset (displayed a) = mset (recommendations a)"
  by (simp add: displayed_def groups_of_def mset_group_by)

lemma set_displayed: "set (displayed a) = set (recommendations a)"
  using mset_displayed [of a] by (rule mset_eq_setD)

section \<open>The selection\<close>

lemma is_selected_update [simp]:
  "is_selected (AList.update n v sel) m = (if m = n then v else is_selected sel m)"
  by (simp add: is_selected_def update_conv')

lemma is_selected_all:
  "is_selected (select_all recs v sel) n = (if n \<in> rec_name ` set recs then v else is_selected sel n)"
  unfolding select_all_def by (induction recs arbitrary: sel) auto

lemma keys_select_all:
  "fst ` set (select_all recs v sel) = fst ` set sel \<union> rec_name ` set recs"
  unfolding select_all_def
  by (induction recs arbitrary: sel) (auto simp: dom_update [unfolded dom_map_of_conv_image_fst])

lemma distinct_select_all: "distinct (map fst sel) \<Longrightarrow> distinct (map fst (select_all recs v sel))"
  unfolding select_all_def by (induction recs arbitrary: sel) (auto simp: distinct_update)

text \<open>
  The review page is consistent when the boxes, the label and the selection agree: the box of a
  row is checked iff its parameter is selected, the label counts the selected parameters, and the
  selection has no parameter that is not on the page.
\<close>

definition review_ok :: "analysis \<Rightarrow> tuner \<Rightarrow> bool" where
  "review_ok a t =
     (result_data t = Some a
      \<and> row_boxes t = map (\<lambda>r. is_selected (selected t) (rec_name r)) (displayed a)
      \<and> apply_button t = apply_label (selected_count (selected t))
      \<and> distinct (map fst (selected t)) \<and> fst ` set (selected t) = rec_name ` set (recommendations a))"

lemma selected_count_chosen:
  assumes "distinct (map rec_name (recommendations a))" "review_ok a t"
  shows "selected_count (selected t) = length (chosen t)"
proof -
  let ?sel = "selected t"
  have keys: "distinct (map fst ?sel)" "fst ` set ?sel = rec_name ` set (recommendations a)"
    using assms(2) by (auto simp: review_ok_def)
  have "fst ` set (filter snd ?sel) = rec_name ` set (chosen t)"
  proof -
    have "n \<in> fst ` set (filter snd ?sel) \<longleftrightarrow> is_selected ?sel n" for n
      using keys(1) by (force simp: is_selected_def)
    moreover have "n \<in> rec_name ` set (chosen t) \<longleftrightarrow> is_selected ?sel n" for n
      using assms(2) keys(2) by (auto simp: chosen_def review_ok_def is_selected_def image_iff dest: map_of_SomeD) force
    ultimately show ?thesis by blast
  qed
  moreover have "distinct (map fst (filter snd ?sel))" by (rule distinct_map_filter [OF keys(1)])
  moreover have "distinct (map rec_name (chosen t))"
    using assms distinct_map_filter by (auto simp: chosen_def review_ok_def)
  ultimately show ?thesis
    unfolding selected_count_def by (metis distinct_card length_map set_map)
qed

lemma review_after_analyze:
  assumes "element ''tuner-content'' b"
  shows "\<exists>st. renderStep3 a (t\<lparr>result_data := Some a, selected := select_all (recommendations a) True []\<rparr>, b) = Some st
    \<and> review_ok a (fst st) \<and> chosen (fst st) = recommendations a \<and> radio (fst st) = None"
proof -
  have "filter (\<lambda>r. is_selected (select_all (recommendations a) True []) (rec_name r)) (recommendations a) = recommendations a"
    by (simp add: is_selected_all filter_id_conv)
  moreover have "distinct (map fst (select_all (recommendations a) True []))"
    by (rule distinct_select_all) simp
  ultimately show ?thesis
    using assms by (simp add: renderStep3_def Let_def review_ok_def setStep_def leave_step2_def keys_select_all chosen_def)
qed

lemma review_all: "review_ok a t \<Longrightarrow> review_ok a (toggleAll v t)"
proof -
  assume ok: "review_ok a t"
  have "row_boxes t = map (\<lambda>r. is_selected (selected t) (rec_name r)) (displayed a)"
    using ok by (simp add: review_ok_def)
  then have "map (\<lambda>_. v) (row_boxes t) = map (\<lambda>r. is_selected (select_all (recommendations a) v (selected t)) (rec_name r)) (displayed a)"
    by (simp add: is_selected_all set_displayed)
  with ok show ?thesis
    by (auto simp: review_ok_def toggleAll_def updateApplyButton_def keys_select_all distinct_select_all)
qed

lemma review_row:
  assumes "review_ok a t" "distinct (map rec_name (recommendations a))"
  shows "review_ok a (box_step (RowBox i v) t)"
proof (cases "i < length (displayed a)")
  case True
  let ?n = "rec_name (displayed a ! i)"
  have "mset (map rec_name (displayed a)) = mset (map rec_name (recommendations a))"
    using mset_displayed by (metis mset_map)
  with assms(2) have dist: "distinct (map rec_name (displayed a))"
    by (metis mset_eq_imp_distinct_iff)
  have same: "rec_name (displayed a ! j) = ?n \<longleftrightarrow> j = i" if "j < length (displayed a)" for j
    using dist True that by (metis length_map nth_eq_iff_index_eq nth_map)
  have boxes: "(row_boxes t)[i := v] = map (\<lambda>r. is_selected (AList.update ?n v (selected t)) (rec_name r)) (displayed a)"
    using assms(1) True same by (intro nth_equalityI) (auto simp: review_ok_def nth_list_update)
  have "?n \<in> rec_name ` set (recommendations a)"
    using True set_displayed [of a] by (metis imageI nth_mem)
  with assms(1) boxes True show ?thesis
    by (auto simp: review_ok_def toggle_def updateApplyButton_def distinct_update
        dom_update [unfolded dom_map_of_conv_image_fst])
qed (use assms in \<open>simp add: review_ok_def\<close>)

lemma review_run:
  "review_ok a t \<Longrightarrow> distinct (map rec_name (recommendations a)) \<Longrightarrow> review_ok a (fold box_step es t)"
proof (induction es arbitrary: t)
  case (Cons e es)
  have "review_ok a (box_step e t)"
    using Cons.prems by (cases e) (simp_all add: review_row review_all del: box_step.simps(1))
  with Cons show ?case by simp
qed simp

section \<open>Markup\<close>

lemma rec_row_safe: "safe (rec_row sel r)"
  by (simp add: rec_row_def Let_def markup_safe name_ok_eval flag_if_def)

lemma preview_markup_safe: "safe_list (preview_markup conn p)"
  by (simp add: preview_markup_def markup_safe name_ok_eval)

lemma category_card_safe: "safe_list (category_card sel g)"
  by (auto simp: category_card_def Let_def markup_safe name_ok_eval safe_list_def list_all_iff rec_row_safe)

lemma step3_markup_safe: "safe_list (step3_markup a sel)"
proof -
  have "safe_list (step3_head n m)" "safe_list (conn_card a)" "safe_list (step3_actions h m)" for n m h
    by (simp_all add: step3_head_def conn_card_def step3_actions_def Let_def markup_safe name_ok_eval flag_if_def)
  moreover have "safe_list (concat (map (category_card sel) gs))" for gs
    by (induction gs) (simp_all add: markup_safe category_card_safe)
  ultimately show ?thesis by (simp add: step3_markup_def markup_safe)
qed

section \<open>Properties\<close>

text \<open>
  whatever number of connections is typed in and whatever the machine, the calculator proposes between
  50 and 500 PostgreSQL connections, never more than half of the application connections unless
  that is below 50; and the three pools fit into the connections that are not reserved.
\<close>

theorem calculator_bounds:
  fixes conn cpu :: int
  defines "p \<equiv> preview_numbers conn cpu"
  shows "50 \<le> pv_pg p \<and> pv_pg p \<le> 500 \<and> pv_pg p \<le> max 50 (conn div 2)
    \<and> 23 \<le> pv_pool p \<and> 5 \<le> pv_min p \<and> pv_min p \<le> pv_pool p \<and> pv_pool p + pv_reserve p \<le> pv_pg p - reserved"
proof -
  have pg: "50 \<le> pv_pg p \<and> pv_pg p \<le> 500" unfolding p_def by (rule preview_bounds)
  have eq: "pv_pg p = min (max 50 (cpu * 4)) (min 500 (max 50 (conn div 2)))"
    by (simp only: p_def preview_numbers_def Let_def pg_limit_min_max preview.simps)
  then have "pv_pg p \<le> max 50 (conn div 2)" by linarith
  moreover have pools: "pv_pool p = (pv_pg p - 3) div 2" "pv_min p = pv_pool p div 4" "pv_reserve p = pv_pool p div 4"
    unfolding p_def by (rule preview_pool)+
  moreover have "23 \<le> (pv_pg p - 3) div 2" using pg by linarith
  moreover have "(pv_pg p - 3) div 2 * 2 \<le> pv_pg p - 3" by linarith
  moreover have "5 \<le> x div 4 \<and> x div 4 \<le> x \<and> x div 4 * 4 \<le> x" if "23 \<le> x" for x :: int using that by linarith
  ultimately show ?thesis using pg unfolding reserved_def by (smt (verit))
qed

text \<open>
  C22: on the review page of any analysis with distinct parameter names, after any sequence of clicks on the
  boxes of the rows and on the box over all rows, the box of every row says whether its parameter
  is selected, and the number on the apply button is the number of settings that applying would send.
\<close>

theorem review_consistent:
  fixes a t b es t0 b0
  assumes "element ''tuner-content'' b" "distinct (map rec_name (recommendations a))"
    and "renderStep3 a (t\<lparr>result_data := Some a, selected := select_all (recommendations a) True []\<rparr>, b) = Some (t0, b0)"
  defines "t1 \<equiv> fold box_step es t0"
  shows "chosen t0 = recommendations a
    \<and> row_boxes t1 = map (\<lambda>r. is_selected (selected t1) (rec_name r)) (displayed a)
    \<and> apply_button t1 = apply_label (length (chosen t1))
    \<and> mset (displayed a) = mset (recommendations a)"
proof -
  from review_after_analyze [OF assms(1), of a t] assms(3) have ok: "review_ok a t0" "chosen t0 = recommendations a"
    by auto
  have "review_ok a t1" unfolding t1_def by (rule review_run [OF ok(1) assms(2)])
  with ok(2) selected_count_chosen [OF assms(2) this] show ?thesis
    by (simp add: review_ok_def mset_displayed)
qed

definition sample_rec :: "string \<Rightarrow> string \<Rightarrow> string \<Rightarrow> bool \<Rightarrow> recommendation" where
  "sample_rec n cat v r = \<lparr>rec_name = n, rec_category = cat, currentValue = ''old'', newValue = v, rec_description = [], needRestart = r\<rparr>"

definition sample_analysis :: analysis where
  "sample_analysis = \<lparr>recommendations = [sample_rec ''shared_buffers'' ''memory'' ''1GB'' True, sample_rec ''work_mem'' ''memory'' ''8MB'' False],
     conn_pg = \<lparr>maxConnections = 100, superuserReserved = 3\<rparr>,
     conn_bouncer = \<lparr>maxClientConn = 200, defaultPoolSize = 48, minPoolSize = 12, reservePoolSize = 12, maxDbConnections = 97\<rparr>,
     conn_summary = []\<rparr>"

definition tuner_page :: browser where
  "tuner_page = sample_browser\<lparr>dom := [''tuner-content'' \<mapsto> mk_node ''div'' [] []], confirm_inputs := [True]\<rparr>"

lemma tuner_page_element: "element ''tuner-content'' tuner_page"
  by (simp add: tuner_page_def element_def)

theorem review_consistent_witness:
  "\<exists>t0 b0. renderStep3 sample_analysis (new_tuner\<lparr>result_data := Some sample_analysis, selected := select_all (recommendations sample_analysis) True []\<rparr>, tuner_page) = Some (t0, b0)
    \<and> chosen t0 = recommendations sample_analysis
    \<and> row_boxes (fold box_step [RowBox 1 False, AllBox True, RowBox 0 False] t0) =
        map (\<lambda>r. is_selected (selected (fold box_step [RowBox 1 False, AllBox True, RowBox 0 False] t0)) (rec_name r)) (displayed sample_analysis)
    \<and> apply_button (fold box_step [RowBox 1 False, AllBox True, RowBox 0 False] t0) =
        apply_label (length (chosen (fold box_step [RowBox 1 False, AllBox True, RowBox 0 False] t0)))
    \<and> mset (displayed sample_analysis) = mset (recommendations sample_analysis)"
proof -
  obtain t0 b0 where r: "renderStep3 sample_analysis (new_tuner\<lparr>result_data := Some sample_analysis, selected := select_all (recommendations sample_analysis) True []\<rparr>, tuner_page) = Some (t0, b0)"
    using review_after_analyze [OF tuner_page_element, of sample_analysis new_tuner] by auto
  have "distinct (map rec_name (recommendations sample_analysis))"
    by (simp add: sample_analysis_def sample_rec_def)
  from review_consistent [OF tuner_page_element this r, of "[RowBox 1 False, AllBox True, RowBox 0 False]"] r
  show ?thesis by blast
qed

text \<open>The parameters whose box is ticked on the page, and the recommendations that name them.\<close>

definition ticked :: "analysis \<Rightarrow> tuner \<Rightarrow> string list" where
  "ticked a t = map (\<lambda>x. rec_name (fst x)) (filter snd (zip (displayed a) (row_boxes t)))"

lemma ticked_chosen:
  assumes "review_ok a t"
  shows "filter (\<lambda>r. rec_name r \<in> set (ticked a t)) (recommendations a) = chosen t"
proof -
  have boxes: "row_boxes t = map (\<lambda>r. is_selected (selected t) (rec_name r)) (displayed a)" "result_data t = Some a"
    using assms by (simp_all add: review_ok_def)
  have "ticked a t = map rec_name (filter (\<lambda>r. is_selected (selected t) (rec_name r)) (displayed a))"
  proof -
    have "map (\<lambda>x. rec_name (fst x)) (filter snd (zip rs (map f rs))) = map rec_name (filter f rs)" for f rs
      by (induction rs) simp_all
    then show ?thesis by (simp add: ticked_def boxes(1))
  qed
  then have "rec_name r \<in> set (ticked a t) \<longleftrightarrow> is_selected (selected t) (rec_name r)" if "r \<in> set (recommendations a)" for r
    using that set_displayed [of a] by auto
  then show ?thesis by (auto simp: chosen_def boxes(2) intro: filter_cong)
qed

lemma apply_outcome_frame [simp]:
  "sent (apply_outcome res b) = sent b" "get_item k (apply_outcome res b) = get_item k b"
  by (simp_all add: apply_outcome_def)

lemma apply_failed_frame [simp]: "sent (apply_failed e b) = sent b" "get_item k (apply_failed e b) = get_item k b"
  by (simp_all add: apply_failed_def)

text \<open>What follows an accepted application: with a restart to make, one call of it.\<close>

lemma after_apply_one:
  "\<exists>qs. sent (after_apply restartNet restarting b) = sent b @ qs
    \<and> (if restarting
       then one_call restartNet (sent b) restart_rq qs
         \<and> (if get_item session_key b \<noteq> [] then qs \<noteq> [] \<and> hd qs = restart_rq\<lparr>rq_session := get_item session_key b\<rparr> else True)
       else qs = [])"
proof (cases restarting)
  case True
  obtain x b1 where call: "apiProtected restartNet restart_rq b = (x, b1)" by fastforce
  have "sent (after_apply restartNet True b) = sent b1"
    by (cases x) (simp_all add: after_apply_def call)
  moreover have "rq_path restart_rq \<noteq> ''/auth/login''" by (simp add: restart_rq_def post_rq_def)
  ultimately show ?thesis using apiProtected_one [OF _ call] True by simp
qed (simp add: after_apply_def)

text \<open>The call of the application and what follows it.\<close>

definition apply_call :: "apply_result option net \<Rightarrow> unit net \<Rightarrow> bool \<Rightarrow> request \<Rightarrow> browser \<Rightarrow> browser" where
  "apply_call applyNet restartNet restarting rq b =
     (case apiProtected applyNet rq b of
        (Resolved (Some res), b1) \<Rightarrow> after_apply restartNet restarting (apply_outcome res b1)
      | (Resolved None, b1) \<Rightarrow> apply_failed ''Cannot read properties of null'' b1
      | (Rejected e, b1) \<Rightarrow> apply_failed e b1
      | (Pending, b1) \<Rightarrow> b1)"

definition restart_part :: "apply_result option net \<Rightarrow> unit net \<Rightarrow> bool \<Rightarrow> request list \<Rightarrow> string \<Rightarrow> request list \<Rightarrow> request list \<Rightarrow> bool" where
  "restart_part applyNet restartNet restarting h sid qs1 qs2 =
     (if restarting \<and> (\<exists>res. answered applyNet h qs1 (Some res))
      then one_call restartNet (h @ qs1) restart_rq qs2
        \<and> (if sid \<noteq> [] \<and> length qs1 = 1 then qs2 \<noteq> [] \<and> hd qs2 = restart_rq\<lparr>rq_session := sid\<rparr> else True)
      else qs2 = [])"

lemma apply_call_one:
  assumes "rq_path rq \<noteq> ''/auth/login''"
  shows "\<exists>qs1 qs2. sent (apply_call applyNet restartNet restarting rq b) = sent b @ qs1 @ qs2
    \<and> one_call applyNet (sent b) rq qs1
    \<and> (if get_item session_key b \<noteq> [] then qs1 \<noteq> [] \<and> hd qs1 = rq\<lparr>rq_session := get_item session_key b\<rparr> else True)
    \<and> restart_part applyNet restartNet restarting (sent b) (get_item session_key b) qs1 qs2"
proof -
  obtain x b1 where call: "apiProtected applyNet rq b = (x, b1)" by fastforce
  from apiProtected_one [OF assms call] obtain qs1 where qs1: "sent b1 = sent b @ qs1" "one_call applyNet (sent b) rq qs1"
    "if get_item session_key b \<noteq> [] then qs1 \<noteq> [] \<and> hd qs1 = rq\<lparr>rq_session := get_item session_key b\<rparr> else True" by blast
  note ans = apiProtected_answered [OF assms call qs1(1)]
  show ?thesis
  proof (cases "\<exists>res. x = Resolved (Some res)")
    case True
    then obtain res where res: "x = Resolved (Some res)" by blast
    have same: "get_item session_key b1 = get_item session_key b" if "get_item session_key b \<noteq> []" "length qs1 = 1"
    proof -
      let ?q = "rq\<lparr>rq_session := get_item session_key b\<rparr>"
      from that qs1(3) have q: "qs1 = [?q]" by (cases qs1) auto
      then have "applyNet (sent b) ?q = Ok (Some (Some res))" using ans [of "Some res"] res by (simp add: answered_def)
      from apiProtected_authorized(1) [where net = applyNet and rq = rq and b = b, OF that(1) this refl] call show ?thesis by (simp add: get_item_def)
    qed
    from after_apply_one [of restartNet restarting "apply_outcome res b1"] obtain qs2 where
      qs2: "sent (after_apply restartNet restarting (apply_outcome res b1)) = sent b1 @ qs2"
      "if restarting then one_call restartNet (sent b1) restart_rq qs2
         \<and> (if get_item session_key b1 \<noteq> [] then qs2 \<noteq> [] \<and> hd qs2 = restart_rq\<lparr>rq_session := get_item session_key b1\<rparr> else True)
       else qs2 = []" unfolding apply_outcome_frame by blast
    have "restart_part applyNet restartNet restarting (sent b) (get_item session_key b) qs1 qs2"
      using qs2(2) same ans [of "Some res"] res qs1(1) by (auto simp: restart_part_def)
    then show ?thesis using qs1(2,3) qs2(1) res qs1(1) call by (intro exI [of _ qs1] exI [of _ qs2]) (simp add: apply_call_def)
  next
    case False
    then have "sent (apply_call applyNet restartNet restarting rq b) = sent b1"
      by (cases x) (auto simp: apply_call_def call split: option.splits)
    moreover have "restart_part applyNet restartNet restarting (sent b) (get_item session_key b) qs1 []"
      using False ans by (auto simp: restart_part_def)
    ultimately show ?thesis using qs1 by (intro exI [of _ qs1] exI [of _ "[]"]) simp
  qed
qed

text \<open>
  C23: on the review page of any analysis with distinct parameter names, after any clicks on its boxes and whatever
  the servers answer: applying sends nothing unless a box is ticked and the user confirms. Then it makes one call whose body lists
  exactly the recommendations whose row is ticked, in the order of the analysis, each with its name and recommended value, and the
  connection settings: an answered application is never repeated, and in an established session it is the first request. Only if the
  server accepted it, the restart button was used and a ticked setting needs a restart, one call of the restart follows.
\<close>

theorem apply_sends_selection:
  fixes a t es t0 b0 b1 b r
  assumes "element ''tuner-content'' b0" "distinct (map rec_name (recommendations a))"
    and "renderStep3 a (t\<lparr>result_data := Some a, selected := select_all (recommendations a) True []\<rparr>, b0) = Some (t0, b1)"
  defines "t1 \<equiv> fold box_step es t0"
  defines "ws \<equiv> filter (\<lambda>w. rec_name w \<in> set (ticked a t1)) (recommendations a)"
  defines "rq \<equiv> post_rq ''/tuner/apply''
    (Some (JObj [(''postgresSettings'', JArr (map (\<lambda>w. JObj [(''name'', JStr (rec_name w)), (''value'', JStr (newValue w))]) ws)),
                 (''pgbouncerSettings'', JObj [(''maxClientConn'', JInt (maxClientConn (conn_bouncer a))),
                    (''defaultPoolSize'', JInt (defaultPoolSize (conn_bouncer a))), (''minPoolSize'', JInt (minPoolSize (conn_bouncer a))),
                    (''reservePoolSize'', JInt (reservePoolSize (conn_bouncer a))), (''maxDbConnections'', JInt (maxDbConnections (conn_bouncer a)))])]))"
  defines "again \<equiv> post_rq ''/config/restart'' None"
  shows "\<exists>qs1 qs2. sent (snd (applySelected applyNet restartNet r (t1, b))) = sent b @ qs1 @ qs2
    \<and> (if ws \<noteq> [] \<and> (\<exists>as. confirm_inputs b = True # as)
       then one_call applyNet (sent b) rq qs1
         \<and> (if get_item session_key b \<noteq> [] then qs1 \<noteq> [] \<and> hd qs1 = rq\<lparr>rq_session := get_item session_key b\<rparr> else True)
         \<and> (if r \<and> list_ex needRestart ws \<and> (\<exists>res. answered applyNet (sent b) qs1 (Some res))
            then one_call restartNet (sent b @ qs1) again qs2
              \<and> (if get_item session_key b \<noteq> [] \<and> length qs1 = 1
                 then qs2 \<noteq> [] \<and> hd qs2 = again\<lparr>rq_session := get_item session_key b\<rparr> else True)
            else qs2 = [])
       else qs1 = [] \<and> qs2 = [])"
proof -
  from review_after_analyze [OF assms(1), of a t] assms(3) have ok: "review_ok a t0" by auto
  have ok1: "review_ok a t1" unfolding t1_def by (rule review_run [OF ok assms(2)])
  have ws: "chosen t1 = ws" unfolding ws_def by (rule ticked_chosen [OF ok1, symmetric])
  have data: "result_data t1 = Some a" using ok1 by (simp add: review_ok_def)
  have rq: "apply_rq ws (conn_bouncer a) = rq" by (simp add: apply_rq_def rq_def setting_json_def [abs_def] bouncer_json_def)
  have again: "restart_rq = again" by (simp add: restart_rq_def again_def)
  show ?thesis
  proof (cases "ws = []")
    case True
    then show ?thesis using data ws by (simp add: applySelected_def Let_def)
  next
    case False
    let ?restarting = "r \<and> list_ex needRestart ws"
    obtain c b2 where conf: "showConfirm ''apply tuning changes'' (apply_prompt ws ?restarting)
        (default_options\<lparr>danger := r, confirmText := (if ?restarting then ''apply and restart PostgreSQL'' else ''apply configuration changes'')\<rparr>) b = (c, b2)"
      by fastforce
    have keep: "sent b2 = sent b" "get_item session_key b2 = get_item session_key b"
      using showConfirm_frame [OF conf, of session_key] by simp_all
    have c: "c = (case confirm_inputs b of [] \<Rightarrow> Pending | x # _ \<Rightarrow> Resolved x)"
      using conf by (auto simp: showConfirm_def Let_def split: list.splits)
    show ?thesis
    proof (cases "c = Resolved True")
      case True
      then have yes: "\<exists>as. confirm_inputs b = True # as" using c by (auto split: list.splits)
      have run: "snd (applySelected applyNet restartNet r (t1, b)) = apply_call applyNet restartNet ?restarting rq b2"
        using data False conf True
        by (simp add: applySelected_def Let_def ws rq apply_call_def split: prod.split outcome.split option.split)
      have path: "rq_path rq \<noteq> ''/auth/login''" by (simp add: rq_def post_rq_def)
      from apply_call_one [OF path, of applyNet restartNet ?restarting b2] show ?thesis
        unfolding run keep restart_part_def again using False yes by (simp add: conj_assoc)
    next
      case other: False
      then have "\<not> (\<exists>as. confirm_inputs b = True # as)" using c by auto
      moreover have "snd (applySelected applyNet restartNet r (t1, b)) = b2"
        using data False conf other by (cases c) (auto simp: applySelected_def Let_def ws split: bool.splits)
      ultimately show ?thesis using keep by simp
    qed
  qed
qed

definition review_state :: tuner where
  "review_state = new_tuner\<lparr>result_data := Some sample_analysis, selected := [(''shared_buffers'', False), (''work_mem'', True)]\<rparr>"

theorem apply_sends_selection_witness:
  "\<exists>t0 b1. renderStep3 sample_analysis (new_tuner\<lparr>result_data := Some sample_analysis, selected := select_all (recommendations sample_analysis) True []\<rparr>, tuner_page) = Some (t0, b1)
    \<and> (\<exists>qs1 qs2. sent (snd (applySelected (\<lambda>h q. HttpError [] ''500'') (\<lambda>h q. Ok (Some ())) True (fold box_step [RowBox 0 False] t0, tuner_page))) =
          sent tuner_page @ qs1 @ qs2)"
proof -
  obtain t0 b1 where r: "renderStep3 sample_analysis (new_tuner\<lparr>result_data := Some sample_analysis, selected := select_all (recommendations sample_analysis) True []\<rparr>, tuner_page) = Some (t0, b1)"
    using review_after_analyze [OF tuner_page_element, of sample_analysis new_tuner] by auto
  have "distinct (map rec_name (recommendations sample_analysis))"
    by (simp add: sample_analysis_def sample_rec_def)
  from apply_sends_selection [OF tuner_page_element this r, of "\<lambda>h q. HttpError [] ''500''" "\<lambda>h q. Ok (Some ())" True "[RowBox 0 False]" tuner_page] r
  show ?thesis by blast
qed

lemma replaced_id_gone:
  assumes "dom b c = Some n" "content n = Markup hs" "j \<in> fst ` set (nodes_of_list hs)"
    and "j \<notin> fst ` set (nodes_of_list hs')" "j \<noteq> c"
  shows "dom (set_inner c hs' b) j = None"
proof -
  have "map_of (nodes_of_list hs') j = None"
    using assms(4) by (simp add: map_of_eq_None_iff)
  then show ?thesis using assms(1,2,3,5) by (simp add: set_inner_def drop_ids_def map_add_def)
qed

lemma row_nodes [simp]: "nodes_of (rec_row sel r) = []"
  by (simp add: rec_row_def Let_def flag_if_def)

lemma card_nodes: "concat (map nodes_of (category_card sel g)) = []"
proof -
  have "concat (map nodes_of (map (rec_row sel) rs)) = []" for rs by (induction rs) simp_all
  then show ?thesis by (simp add: category_card_def Let_def)
qed

lemma step3_ids: "fst ` set (nodes_of_list (step3_markup a sel)) \<subseteq> {''tuner-select-all''}"
proof -
  have "concat (map nodes_of (concat (map (category_card sel) gs))) = []" for gs
    by (induction gs) (simp_all add: card_nodes)
  then show ?thesis
    by (auto simp: nodes_of_list_def step3_markup_def step3_head_def conn_card_def step3_actions_def Let_def flag_if_def)
qed

text \<open>
  the review page replaces the form of step 2, so the analysis that runs by itself after applying
  always asks for the web profile and 200 connections, whatever the user had chosen.
\<close>

theorem reanalysis_forgets_profile:
  assumes "inner ''tuner-content'' b = step2_markup" "renderStep3 a (t, b) = Some (t1, b1)"
    and "get_item session_key b1 \<noteq> []" "\<And>h q. net h q = NetworkError e"
  shows "sent (snd (tuner_timer sysNet net TunerReanalyze (t1, b1))) =
    sent b1 @ [(analyze_rq ''web'' 200)\<lparr>rq_session := get_item session_key b1\<rparr>]"
proof -
  have el: "element ''tuner-content'' b" and b1: "b1 = set_inner ''tuner-content'' (step3_markup a (selected t)) b" "radio t1 = None"
    using assms(2) by (auto simp: renderStep3_def Let_def setStep_def leave_step2_def split: if_splits)
  have s2: "''tuner-conn-count'' \<in> fst ` set (nodes_of_list step2_markup)"
    by (simp add: step2_markup_def nodes_of_list_def)
  have s2ne: "step2_markup \<noteq> []" by (simp add: step2_markup_def)
  have old: "\<exists>n. dom b ''tuner-content'' = Some n \<and> content n = Markup step2_markup"
    using el assms(1) s2ne by (auto simp: inner_def element_def split: option.splits content.splits)
  obtain n where n: "dom b ''tuner-content'' = Some n" "content n = Markup step2_markup" using old by blast
  have conn_gone: "dom b1 ''tuner-conn-count'' = None"
    unfolding b1 using s2 step3_ids [of a "selected t"] by (intro replaced_id_gone [OF n]) auto
  have "''tuner-analyze-btn'' \<in> fst ` set (nodes_of_list step2_markup)" by (simp add: step2_markup_def nodes_of_list_def)
  then have btn: "dom b1 ''tuner-analyze-btn'' = None"
    unfolding b1 using step3_ids [of a "selected t"] by (intro replaced_id_gone [OF n]) auto
  have busy: "analyze_busy b1 = b1"
    using btn by (simp add: analyze_busy_def node_setters upd_node_def set_text_def fun_upd_idem_iff)
  then have conn: "conn_input (analyze_busy b1) = 200" using conn_gone by (simp add: conn_input_def value_of_def)
  have call: "api net (analyze_rq ''web'' 200) b1 = (Rejected e, b1\<lparr>sent := sent b1 @ [(analyze_rq ''web'' 200)\<lparr>rq_session := get_item session_key b1\<rparr>]\<rparr>)"
    using apiProtected_authorized(3) [OF assms(3) refl, of net "analyze_rq ''web'' 200" e] assms(4) by (simp add: api_def)
  show ?thesis
    using conn busy call b1(2) by (simp add: tuner_timer_def analyze_def Let_def analyze_failed_def node_setters)
qed

theorem reanalysis_forgets_profile_witness:
  "\<exists>t1 b1. renderStep3 sample_analysis (review_state\<lparr>radio := Some ''olap''\<rparr>, set_inner ''tuner-content'' step2_markup tuner_page) = Some (t1, b1)
    \<and> sent (snd (tuner_timer (\<lambda>h q. Unauthorized) (\<lambda>h q. NetworkError ''down'') TunerReanalyze (t1, b1))) =
      sent b1 @ [(analyze_rq ''web'' 200)\<lparr>rq_session := get_item session_key b1\<rparr>]"
proof -
  let ?b = "set_inner ''tuner-content'' step2_markup tuner_page"
  have no: "''tuner-content'' \<notin> fst ` set (nodes_of_list step2_markup)"
    by (simp add: step2_markup_def nodes_of_list_def)
  have el: "element ''tuner-content'' ?b" and inn: "inner ''tuner-content'' ?b = step2_markup"
    using set_inner_content [OF tuner_page_element no] by simp_all
  obtain t1 b1 where r: "renderStep3 sample_analysis (review_state\<lparr>radio := Some ''olap''\<rparr>, ?b) = Some (t1, b1)"
    using el by (simp add: renderStep3_def Let_def)
  then have "get_item session_key b1 \<noteq> []"
    by (auto simp: renderStep3_def Let_def tuner_page_def sample_browser_def split: if_splits) (simp add: get_item_def)
  from reanalysis_forgets_profile [OF inn r this, of "\<lambda>h q. NetworkError ''down''" "''down''" "\<lambda>h q. Unauthorized"] r
  show ?thesis by blast
qed

end
