(* ===== verification/Polling.thy ===== *)
theory Polling
  imports Selectors
begin

text \<open>
  What the pages with background jobs share: \<^verbatim>\<open>Promise.all\<close> over two calls, overlays added to
  the body of the document, the clock, and the discipline of a poller, the interval that asks for
  the status of a job until it has ended. The discipline is a locale over the three operations
  of a page that touch it; each page interprets it on its own handlers. A call that a handler starts
  without awaiting it is queued, and the queue answers in any order.
\<close>

section \<open>Promise.all\<close>

definition all2 :: "'a outcome \<Rightarrow> 'b outcome \<Rightarrow> ('a \<times> 'b) outcome" where
  "all2 x y =
     (case (x, y) of
        (Rejected e, _) \<Rightarrow> Rejected e
      | (_, Rejected e) \<Rightarrow> Rejected e
      | (Resolved a, Resolved b) \<Rightarrow> Resolved (a, b)
      | _ \<Rightarrow> Pending)"

definition both ::
    "(browser \<Rightarrow> 'a outcome \<times> browser) \<Rightarrow> (browser \<Rightarrow> 'b outcome \<times> browser) \<Rightarrow> browser \<Rightarrow>
     ('a \<times> 'b) outcome \<times> browser" where
  "both f g b = (let (x, b1) = f b; (y, b2) = g b1 in (all2 x y, b2))"

lemma all2_simps [simp]:
  "all2 (Resolved a) (Resolved b) = Resolved (a, b)" "all2 (Rejected e) y = Rejected e"
  "all2 (Resolved a) (Rejected e) = Rejected e" "all2 Pending (Rejected e) = Rejected e"
  "all2 (Resolved a) Pending = Pending" "all2 Pending (Resolved b) = Pending" "all2 Pending Pending = Pending"
  by (simp_all add: all2_def split: outcome.splits)

lemma all2_Resolved: "all2 x y = Resolved p \<longleftrightarrow> x = Resolved (fst p) \<and> y = Resolved (snd p)"
  by (cases x; cases y) auto

section \<open>Clock and overlays\<close>

record clock =
  now :: int
  locale_text :: "int \<Rightarrow> string"
  time_text :: "int \<Rightarrow> string"
  local_iso :: string
  number_text :: "rat \<Rightarrow> string"

definition date_text :: "clock \<Rightarrow> int option \<Rightarrow> string" where
  "date_text c t = (case t of None \<Rightarrow> ''Invalid Date'' | Some x \<Rightarrow> locale_text c x)"

definition remove_overlay :: "string \<Rightarrow> browser \<Rightarrow> browser" where
  "remove_overlay i b =
     (case dom b i of
        None \<Rightarrow> b
      | Some n \<Rightarrow> b\<lparr>dom := (drop_ids (content n) (dom b))(i := None)\<rparr>)"

definition add_overlay :: "string \<Rightarrow> html list \<Rightarrow> browser \<Rightarrow> browser" where
  "add_overlay i hs b =
     (let b1 = remove_overlay i b
      in b1\<lparr>dom := ((dom b1)(i \<mapsto> mk_node ''div'' [At ''class'' ''modal-overlay''] hs)) ++ map_of (nodes_of_list hs)\<rparr>)"

lemma overlay_frame [simp, browser_simps]:
  "timers (remove_overlay i b) = timers b" "next_id (remove_overlay i b) = next_id b"
  "idle_timer (remove_overlay i b) = idle_timer b" "session (remove_overlay i b) = session b"
  "sent (remove_overlay i b) = sent b" "toasts (remove_overlay i b) = toasts b"
  "confirm_inputs (remove_overlay i b) = confirm_inputs b"
  "timers (add_overlay i hs b) = timers b" "next_id (add_overlay i hs b) = next_id b"
  "idle_timer (add_overlay i hs b) = idle_timer b" "session (add_overlay i hs b) = session b"
  "sent (add_overlay i hs b) = sent b" "toasts (add_overlay i hs b) = toasts b"
  "confirm_inputs (add_overlay i hs b) = confirm_inputs b"
  by (simp_all add: remove_overlay_def add_overlay_def Let_def split: option.splits)

lemma remove_overlay_gone: "\<not> element i (remove_overlay i b)"
  by (simp add: remove_overlay_def element_def split: option.splits)

section \<open>Selects\<close>

text \<open>\<^verbatim>\<open>select.innerHTML = options\<close>: the value follows the new options, which carry no ids.\<close>

definition set_options :: "string \<Rightarrow> html list \<Rightarrow> browser \<Rightarrow> browser" where
  "set_options i os = upd_node i (\<lambda>n. n\<lparr>content := Markup os, val := select_value (concat (map options_of os))\<rparr>)"

lemma value_of_set_options:
  "element i b \<Longrightarrow> value_of i (set_options i os b) = select_value (concat (map options_of os))"
  by (auto simp: element_def value_of_def set_options_def upd_node_def)

text \<open>The options of a select whose values are numbers, the current one marked.\<close>

definition number_option :: "int option \<Rightarrow> (int \<Rightarrow> string) \<Rightarrow> int \<Rightarrow> html" where
  "number_option cur label n =
     El ''option'' ([At ''value'' (str_of_int n)] @ flag_if (cur = Some n) ''selected'') [Txt (label n)]"

lemma decode_plain: "plain_str s \<Longrightarrow> html_decode s = s"
  by (induction s) (simp_all add: plain_char_def)

lemma number_option_value:
  "options_of (number_option cur l n) = [(str_of_int n, cur = Some n)]"
  by (simp add: number_option_def flag_if_def decode_plain)

lemma number_option_nodes [simp]: "nodes_of (number_option cur l n) = []"
  by (simp add: number_option_def flag_if_def)

lemma number_option_safe [markup_safe]: "CHR ''<'' \<notin> set (l n) \<Longrightarrow> safe (number_option cur l n)"
  by (simp add: number_option_def flag_if_def markup_safe name_ok_eval)

text \<open>
  The select shows the current number when it is among the choices; a number that is not shows,
  and reads back, as the first choice.
\<close>

lemma number_select_value:
  "select_value (concat (map options_of (map (number_option cur l) ns))) =
     (case cur of
        Some n \<Rightarrow> if n \<in> set ns then str_of_int n else (case ns of [] \<Rightarrow> [] | m # _ \<Rightarrow> str_of_int m)
      | None \<Rightarrow> (case ns of [] \<Rightarrow> [] | m # _ \<Rightarrow> str_of_int m))"
proof -
  have os: "concat (map options_of (map (number_option cur l) ns)) = map (\<lambda>n. (str_of_int n, cur = Some n)) ns"
    by (induction ns) (simp_all add: number_option_value)
  show ?thesis
  proof (cases "\<exists>n \<in> set ns. cur = Some n")
    case True
    then obtain n where n: "n \<in> set ns" "cur = Some n" by auto
    have "str_of_int m = str_of_int n \<longleftrightarrow> m = n" for m
      by (metis option.inject parse_int_str_of_int)
    with n show ?thesis
      unfolding os by (subst select_value_marked [of "str_of_int n"]) (auto simp: image_image)
  next
    case False
    then show ?thesis
      unfolding os by (subst select_value_unmarked) (auto split: option.splits list.splits)
  qed
qed

section \<open>Holding a timer slot\<close>

text \<open>
  The timers are well formed, the id the idle tracker holds is not the id of another script's
  timer, and the slot \<^verbatim>\<open>s\<close> of the callback \<^verbatim>\<open>a\<close> names its only live timer.
\<close>

definition web_ok :: "browser \<Rightarrow> bool" where
  "web_ok b =
     (timers_ok b
      \<and> (\<forall>t \<in> set (timers b). idle_timer b = Some (tid t) \<longrightarrow> action t = IdleExpire)
      \<and> (\<forall>i. idle_timer b = Some i \<longrightarrow> i < next_id b))"

definition held :: "callback \<Rightarrow> nat option \<Rightarrow> browser \<Rightarrow> bool" where
  "held a s b = (web_ok b \<and> slot_inv a s (timers b))"

fun own_callback :: "callback \<Rightarrow> bool" where
  "own_callback IdleExpire = False"
| "own_callback (ToastFade n) = False"
| "own_callback (ToastRemove n) = False"
| "own_callback _ = True"

named_theorems held_intros \<open>browser operations that keep a slot\<close>

lemma held_cong:
  "timers b' = timers b \<Longrightarrow> next_id b' = next_id b \<Longrightarrow> idle_timer b' = idle_timer b \<Longrightarrow>
   held a s b \<Longrightarrow> held a s b'"
  by (simp add: held_def web_ok_def timers_ok_def)

lemma held_frames [held_intros]:
  "held a s b \<Longrightarrow> held a s (set_inner i hs b)" "held a s b \<Longrightarrow> held a s (set_text i t b)"
  "held a s b \<Longrightarrow> held a s (upd_node i f b)" "held a s b \<Longrightarrow> held a s (set_item k v b)"
  "held a s b \<Longrightarrow> held a s (remove_item k b)" "held a s b \<Longrightarrow> held a s (b\<lparr>sent := q\<rparr>)"
  "held a s b \<Longrightarrow> held a s (b\<lparr>login_inputs := l\<rparr>)" "held a s b \<Longrightarrow> held a s (b\<lparr>downloads := d\<rparr>)"
  "held a s b \<Longrightarrow> held a s (remove_overlay i b)" "held a s b \<Longrightarrow> held a s (add_overlay i hs b)"
  "held a s b \<Longrightarrow> held a s (b\<lparr>toasts := ts\<rparr>)"
  by (auto elim!: held_cong [rotated 3])

lemma held_setters [held_intros]:
  "held a s b \<Longrightarrow> held a s (set_val i v b)" "held a s b \<Longrightarrow> held a s (set_checked i c b)"
  "held a s b \<Longrightarrow> held a s (set_disabled i c b)" "held a s b \<Longrightarrow> held a s (set_class i v b)"
  "held a s b \<Longrightarrow> held a s (set_style i v w b)" "held a s b \<Longrightarrow> held a s (set_options i os b)"
  by (simp_all add: node_setters set_options_def held_frames)

lemma held_start:
  "held a None b \<Longrightarrow> own_callback a \<Longrightarrow> held a (Some (fst (set_timer r d a b))) (snd (set_timer r d a b))"
proof -
  assume h: "held a None b" and own: "own_callback a"
  then have "slot_inv a (Some (fst (set_timer r d a b))) (timers (snd (set_timer r d a b)))"
    by (simp add: held_def tm.start_slot_inv)
  moreover have "web_ok (snd (set_timer r d a b))"
    using h by (auto simp: held_def web_ok_def tm.ok_start tm.live_start) (auto simp: set_timer_def)
  ultimately show ?thesis by (simp add: held_def)
qed

lemma held_other [held_intros]:
  "held a s b \<Longrightarrow> a' \<noteq> a \<Longrightarrow> held a s (snd (set_timer r d a' b))"
proof -
  assume h: "held a s b" and ne: "a' \<noteq> a"
  then have "slot_inv a s (timers (snd (set_timer r d a' b)))"
    by (simp add: held_def tm.start_other_slot [OF ne [symmetric]])
  moreover have "web_ok (snd (set_timer r d a' b))"
    using h by (auto simp: held_def web_ok_def tm.ok_start tm.live_start) (auto simp: set_timer_def)
  ultimately show ?thesis by (simp add: held_def)
qed

lemma held_clear: "held a s b \<Longrightarrow> held a None (clear_slot s b)"
proof -
  assume h: "held a s b"
  then have "slot_inv a None (timers (clear_slot s b))"
    by (simp add: held_def clear_slot_None slot_inv_le)
  moreover have "web_ok (clear_slot s b)"
    using h by (auto simp: held_def web_ok_def clear_slot_ok)
      (auto simp: clear_slot_def clear_timer_def split: option.splits)
  ultimately show ?thesis by (simp add: held_def)
qed

lemma web_ok_clear: "web_ok b \<Longrightarrow> web_ok (clear_timer i b)"
  by (auto simp: web_ok_def tm.ok_clear) (auto simp: clear_timer_def)

lemma held_clear_other:
  assumes "held a s b" "held a' s' b" "a' \<noteq> a"
  shows "held a s (clear_slot s' b)"
proof (cases s')
  case (Some i)
  have "slot_inv a s (timers (clear_timer i b))"
    using assms Some by (intro tm.clear_other_slot [of b a']) (auto simp: held_def web_ok_def)
  with assms(1) Some show ?thesis by (simp add: held_def clear_slot_def web_ok_clear)
qed (use assms in \<open>simp add: clear_slot_def\<close>)

lemma held_clear_fired:
  assumes "held a s b" "t \<in> set (timers b)" "action t \<noteq> a"
  shows "held a s (clear_timer (tid t) b)"
proof -
  have "distinct (map tid (timers b))"
    using assms(1) by (simp add: held_def web_ok_def timers_ok_def)
  then have "tid u \<noteq> tid t" if "u \<in> set (timers b)" "action u = a" for u
    using assms(2,3) that by (auto simp: distinct_map inj_on_def)
  then have "filter (\<lambda>u. action u = a) (timers (clear_timer (tid t) b)) = filter (\<lambda>u. action u = a) (timers b)"
    by (auto simp: clear_timer_def intro!: filter_cong)
  with assms(1) show ?thesis by (simp add: held_def slot_inv_def web_ok_clear)
qed

lemma held_restart:
  assumes "held a s b" "own_callback a" "set_timer r d a (clear_slot s b) = (i, b')"
  shows "held a (Some i) b'"
  using held_start [OF held_clear [OF assms(1)] assms(2), of r d] assms(3) by simp

lemma held_showToast [held_intros]: "own_callback a \<Longrightarrow> held a s b \<Longrightarrow> held a s (showToast m k b)"
  by (auto simp: showToast_def Let_def intro!: held_intros)

lemma held_idle_reset [held_intros]: "own_callback a \<Longrightarrow> held a s b \<Longrightarrow> held a s (idle_reset b)"
proof -
  assume own: "own_callback a" and h: "held a s b"
  let ?b1 = "clear_slot (idle_timer b) b"
  have "slot_inv a s (timers ?b1)"
  proof (cases "idle_timer b")
    case None
    with h show ?thesis by (simp add: clear_slot_def held_def)
  next
    case (Some i)
    have "filter (\<lambda>t. action t = a) (timers ?b1) = filter (\<lambda>t. action t = a) (timers b)"
      using h Some own by (auto simp: held_def web_ok_def clear_slot_def clear_timer_def intro!: filter_cong)
    with h show ?thesis by (simp add: held_def slot_inv_def)
  qed
  moreover have ne: "a \<noteq> IdleExpire" using own by auto
  ultimately have "slot_inv a s (timers (idle_reset b))"
    using tm.start_other_slot [OF ne, of s ?b1 False idle_timeout]
    by (simp add: idle_reset_def Let_def set_timer_def)
  moreover have "web_ok (idle_reset b)"
  proof -
    have "timers_ok b" using h by (simp add: held_def web_ok_def)
    then have "timers_ok (idle_reset b)" by (rule idle_reset_ok)
    then show ?thesis
      using h by (auto simp: web_ok_def timers_ok_def idle_reset_def Let_def set_timer_def)
  qed
  ultimately show ?thesis by (simp add: held_def)
qed

section \<open>Calls keep the slots of other scripts\<close>

lemma held_login_event:
  "own_callback a \<Longrightarrow> held a s b \<Longrightarrow> login_event e m b = (res, b') \<Longrightarrow> held a s b'"
  by (cases e)
    (auto simp: login_submit_def Let_def split: if_splits login_reply.splits option.splits intro!: held_intros)

lemma held_login_loop:
  "own_callback a \<Longrightarrow> held a s b \<Longrightarrow> login_loop es m b = (res, b') \<Longrightarrow> held a s b'"
proof (induction es m b rule: login_loop.induct)
  case (2 e es m b)
  then show ?case
    by (auto split: prod.splits login_result.splits intro!: held_intros dest: held_login_event)
qed (auto intro: held_intros)

lemma held_showLoginModal:
  "own_callback a \<Longrightarrow> held a s b \<Longrightarrow> showLoginModal b = (res, b') \<Longrightarrow> held a s b'"
  unfolding showLoginModal_def by (rule held_login_loop)

lemma held_tryRequest:
  "own_callback a \<Longrightarrow> held a s b \<Longrightarrow> tryRequest net rq sid b = (r, b') \<Longrightarrow> held a s b'"
proof (induction net rq sid b rule: tryRequest.induct)
  case (1 net rq sid b)
  let ?b1 = "b\<lparr>sent := sent b @ [rq\<lparr>rq_session := sid\<rparr>]\<rparr>"
  have h1: "held a s ?b1" using "1.prems"(2) by (rule held_intros)
  show ?case
  proof (cases "net (sent b) (rq\<lparr>rq_session := sid\<rparr>)")
    case Unauthorized
    obtain res b2 where lg: "showLoginModal (remove_item session_key ?b1) = (res, b2)" by fastforce
    have h2: "held a s b2"
      using "1.prems"(1) h1 lg by (auto intro: held_showLoginModal held_intros)
    show ?thesis
    proof (cases res)
      case (LoggedIn sid')
      with "1.prems" Unauthorized lg have "tryRequest net rq sid' b2 = (r, b')"
        by (simp add: tryRequest.simps [of net rq sid])
      then show ?thesis
        using "1.IH" [OF refl refl Unauthorized lg [unfolded LoggedIn, symmetric] refl "1.prems"(1) h2] by blast
    qed (use "1.prems" Unauthorized lg h2 in \<open>simp_all add: tryRequest.simps [of net rq sid]\<close>)
  qed (use "1.prems" h1 in \<open>auto simp: tryRequest.simps [of net rq sid] Let_def split: option.splits intro!: held_intros\<close>)
qed

lemma held_apiProtected:
  "own_callback a \<Longrightarrow> held a s b \<Longrightarrow> apiProtected net rq b = (r, b') \<Longrightarrow> held a s b'"
  by (auto simp: apiProtected_def Let_def split: if_splits prod.splits login_result.splits
      dest: held_showLoginModal held_tryRequest)

lemma held_api:
  "own_callback a \<Longrightarrow> held a s b \<Longrightarrow> api net rq b = (r, b') \<Longrightarrow> held a s b'"
  unfolding api_def by (rule held_apiProtected)

lemma held_showConfirm: "held a s b \<Longrightarrow> showConfirm t m opts b = (r, b') \<Longrightarrow> held a s b'"
  by (erule held_cong [rotated 3]) (auto dest: showConfirm_frame)

lemma held_both:
  assumes "\<And>b x b'. held a s b \<Longrightarrow> f b = (x, b') \<Longrightarrow> held a s b'"
    and "\<And>b y b'. held a s b \<Longrightarrow> g b = (y, b') \<Longrightarrow> held a s b'"
    and "held a s b" "both f g b = (z, b')"
  shows "held a s b'"
proof -
  obtain x b1 where f: "f b = (x, b1)" by fastforce
  obtain y b2 where g: "g b1 = (y, b2)" by fastforce
  have "held a s b2" using assms(2) [OF assms(1) [OF assms(3) f] g] .
  then show ?thesis using assms(4) f g by (simp add: both_def)
qed

lemma held_snd:
  "own_callback a \<Longrightarrow> held a s b \<Longrightarrow> held a s (snd (apiProtected net rq b))"
  "own_callback a \<Longrightarrow> held a s b \<Longrightarrow> held a s (snd (api net rq b))"
  "held a s b \<Longrightarrow> held a s (snd (showConfirm t m opts b))"
  by (metis held_apiProtected prod.collapse, metis held_api prod.collapse, metis held_showConfirm prod.collapse)

section \<open>The poller of a page\<close>

text \<open>
  What can happen to a page's poller: the page tracks a new job, the interval ticks, or a status
  call that is in flight comes back.
\<close>

datatype poll_event = Track string | Tick | Answer nat

fun poll_run ::
    "(string \<Rightarrow> 'p \<Rightarrow> 'p) \<Rightarrow> ('p \<Rightarrow> 'p) \<Rightarrow> (nat \<Rightarrow> 'p \<Rightarrow> 'p) \<Rightarrow> poll_event list \<Rightarrow> 'p \<Rightarrow> 'p" where
  "poll_run track tick reply [] p = p"
| "poll_run track tick reply (Track j # es) p = poll_run track tick reply es (track j p)"
| "poll_run track tick reply (Tick # es) p = poll_run track tick reply es (tick p)"
| "poll_run track tick reply (Answer i # es) p = poll_run track tick reply es (reply i p)"

fun last_tracked :: "poll_event list \<Rightarrow> string \<Rightarrow> string" where
  "last_tracked [] d = d"
| "last_tracked (Track j # es) d = last_tracked es (if j = [] then d else j)"
| "last_tracked (_ # es) d = last_tracked es d"

locale job_poller =
  fixes cb :: callback
    and slot :: "'m \<Rightarrow> nat option"
    and job :: "'m \<Rightarrow> string"
    and track :: "string \<Rightarrow> 'm \<times> browser \<Rightarrow> 'm \<times> browser"
    and tick :: "'m \<times> browser \<Rightarrow> 'm \<times> browser"
    and reply :: "nat \<Rightarrow> 'm \<times> browser \<Rightarrow> 'm \<times> browser"
  assumes track_held: "held cb (slot m) b \<Longrightarrow> track j (m, b) = (m', b') \<Longrightarrow> held cb (slot m') b'"
    and track_job: "track j (m, b) = (m', b') \<Longrightarrow> job m' = (if j = [] then job m else j)"
    and track_slot: "j \<noteq> [] \<Longrightarrow> track j (m, b) = (m', b') \<Longrightarrow> slot m' \<noteq> None"
    and track_none: "track [] (m, b) = (m, b)"
    and tick_held: "held cb (slot m) b \<Longrightarrow> tick (m, b) = (m', b') \<Longrightarrow> held cb (slot m') b'"
    and tick_keeps: "tick (m, b) = (m', b') \<Longrightarrow> job m' = job m \<and> slot m' = slot m"
    and reply_held: "held cb (slot m) b \<Longrightarrow> reply i (m, b) = (m', b') \<Longrightarrow> held cb (slot m') b'"
    and reply_keeps: "reply i (m, b) = (m', b') \<Longrightarrow> job m' = job m \<and> (slot m' = slot m \<or> slot m' = None)"
begin

definition poller_ok :: "'m \<times> browser \<Rightarrow> bool" where
  "poller_ok p = (held cb (slot (fst p)) (snd p) \<and> (slot (fst p) \<noteq> None \<longrightarrow> job (fst p) \<noteq> []))"

lemma poller_ok_track: "poller_ok p \<Longrightarrow> poller_ok (track j p)"
proof (cases p)
  case (Pair m b)
  assume ok: "poller_ok p"
  obtain m' b' where t: "track j (m, b) = (m', b')" by fastforce
  have "held cb (slot m') b'"
    using track_held [OF _ t] ok Pair by (simp add: poller_ok_def)
  moreover have "slot m' \<noteq> None \<longrightarrow> job m' \<noteq> []"
  proof (cases "j = []")
    case True
    with t track_none [of m b] ok Pair show ?thesis by (simp add: poller_ok_def)
  next
    case False
    with track_job [OF t] show ?thesis by simp
  qed
  ultimately show ?thesis using t Pair by (simp add: poller_ok_def)
qed

lemma poller_ok_tick: "poller_ok p \<Longrightarrow> poller_ok (tick p)"
  by (cases p; cases "tick p") (auto simp: poller_ok_def dest: tick_held tick_keeps)

lemma poller_ok_reply: "poller_ok p \<Longrightarrow> poller_ok (reply i p)"
proof (cases p)
  case (Pair m b)
  assume ok: "poller_ok p"
  obtain m' b' where t: "reply i (m, b) = (m', b')" by fastforce
  have "held cb (slot m') b'"
    using reply_held [OF _ t] ok Pair by (simp add: poller_ok_def)
  moreover have "slot m' \<noteq> None \<longrightarrow> job m' \<noteq> []"
    using reply_keeps [OF t] ok Pair by (auto simp: poller_ok_def)
  ultimately show ?thesis using t Pair by (simp add: poller_ok_def)
qed

lemma poller_ok_run: "poller_ok p \<Longrightarrow> poller_ok (poll_run track tick reply es p)"
proof (induction es arbitrary: p)
  case (Cons e es)
  then show ?case by (cases e) (simp_all add: poller_ok_track poller_ok_tick poller_ok_reply)
qed simp

text \<open>At every moment of every run at most one interval of the page is alive, and it has a job.\<close>

lemma one_poller:
  assumes "held cb (slot m) b" "slot m \<noteq> None \<longrightarrow> job m \<noteq> []"
    and "poll_run track tick reply es (m, b) = (m', b')"
  shows "length (filter (\<lambda>t. action t = cb) (timers b')) \<le> 1"
    and "(\<exists>t \<in> set (timers b'). action t = cb) \<longrightarrow> job m' \<noteq> []"
proof -
  have "poller_ok (poll_run track tick reply es (m, b))"
    using assms(1,2) by (intro poller_ok_run) (simp add: poller_ok_def)
  then have h: "held cb (slot m') b'" and j: "slot m' \<noteq> None \<longrightarrow> job m' \<noteq> []"
    using assms(3) by (simp_all add: poller_ok_def)
  have "length (map tid (filter (\<lambda>t. action t = cb) (timers b'))) \<le> 1"
    using h by (simp add: held_def slot_inv_def split: option.splits)
  then show "length (filter (\<lambda>t. action t = cb) (timers b')) \<le> 1" by simp
  show "(\<exists>t \<in> set (timers b'). action t = cb) \<longrightarrow> job m' \<noteq> []"
    using h j by (cases "slot m'") (auto simp: held_def slot_inv_None)
qed

lemma job_is_last: "job (fst (poll_run track tick reply es p)) = last_tracked es (job (fst p))"
proof (induction es arbitrary: p)
  case (Cons e es)
  have "job (fst (track j p)) = (if j = [] then job (fst p) else j)" for j
    using track_job [of j "fst p" "snd p" "fst (track j p)" "snd (track j p)"] by simp
  moreover have "job (fst (tick p)) = job (fst p)"
    using tick_keeps [of "fst p" "snd p" "fst (tick p)" "snd (tick p)"] by simp
  moreover have "job (fst (reply i p)) = job (fst p)" for i
    using reply_keeps [of i "fst p" "snd p" "fst (reply i p)" "snd (reply i p)"] by simp
  ultimately show ?case using Cons by (cases e) simp_all
qed simp

end

end
