(* ===== verification/Backup.thy ===== *)
theory Backup
  imports Polling
begin

text \<open>
  The backup page, backup.js: the schedule and retention card, the list of backups, the jobs that
  trigger, verify and restore, and point-in-time recovery. The server is one record of replies
  per endpoint. The status request that \<^verbatim>\<open>renderJobStatus\<close> sends is queued in
  \<^verbatim>\<open>bk_asked\<close> and comes back as an event of its own.
\<close>

section \<open>State and server\<close>

record backup_page =
  bk_job :: string
  bk_poller :: "nat option"
  bk_asked :: "string list"

definition new_backup_page :: backup_page where
  "new_backup_page = \<lparr>bk_job = [], bk_poller = None, bk_asked = []\<rparr>"

record schedule =
  sc_enabled :: bool
  sc_interval :: int
  sc_weekday :: int
  sc_hour :: int
  sc_next_inc :: "int option"
  sc_next_full :: "int option"

record backup_item =
  bi_name :: string
  bi_size :: rat
  bi_start :: "int option"
  bi_wal :: string

record backup_server =
  sv_schedule :: "schedule option net"
  sv_settings :: "settings option net"
  sv_save :: "unit net"
  sv_list :: "backup_item list net"
  sv_start :: "string net"
  sv_job :: "job option net"

section \<open>Schedule and retention\<close>

definition interval_choices :: "int list" where
  "interval_choices = [1, 3, 6, 12, 24]"

definition weekday_names :: "string list" where
  "weekday_names = [''Sun'', ''Mon'', ''Tue'', ''Wed'', ''Thu'', ''Fri'', ''Sat'']"

definition weekday_choices :: "int list" where
  "weekday_choices = [0, 1, 2, 3, 4, 5, 6]"

definition hour_choices :: "int list" where
  "hour_choices = map int [0..<24]"

definition retain_choices :: "int list" where
  "retain_choices = [3, 5, 7, 10, 14, 30]"

definition next_runs_markup :: "clock \<Rightarrow> schedule option \<Rightarrow> html list" where
  "next_runs_markup c d =
     (case d of
        None \<Rightarrow> []
      | Some s \<Rightarrow> (case sc_next_inc s of
          None \<Rightarrow> []
        | Some t \<Rightarrow> [El ''span'' [At ''class'' ''mono-xs dim'', At ''style'' ''margin-left:auto'']
      [Txt (''next inc: '' @ (locale_text c t) @ '' '' @ u_middot @ '' full: '' @ (date_text c (sc_next_full s)))]]))"

definition schedule_markup :: "clock \<Rightarrow> schedule option \<Rightarrow> int option \<Rightarrow> html list" where
  "schedule_markup c d retain =
     (let enabled = (case d of None \<Rightarrow> False | Some s \<Rightarrow> sc_enabled s);
          state_label = (if enabled then [El ''span'' [At ''class'' ''green''] [Txt ''enabled'']] else [El ''span'' [At ''class'' ''dim''] [Txt ''disabled'']]);
          intervals = map (number_option (map_option sc_interval d) (\<lambda>h. ''every '' @ str_of_int h @ ''h'')) interval_choices;
          days = map (number_option (map_option sc_weekday d) (\<lambda>i. weekday_names ! nat i)) weekday_choices;
          hours = map (number_option (map_option sc_hour d) (\<lambda>h. pad_start 2 CHR ''0'' (str_of_int h) @ '':00'')) hour_choices;
          counts = map (number_option retain (\<lambda>n. str_of_int n @ '' backups'')) retain_choices;
          next_runs = next_runs_markup c d
      in [El ''div'' [At ''class'' ''card-title'', At ''style'' ''margin-bottom:6px''] [Txt ''backup schedule & retention''],
     El ''div'' [At ''style'' ''display:flex;align-items:center;gap:12px;flex-wrap:wrap'']
      ([El ''label'' [At ''class'' ''mono-xs'', At ''style'' ''display:flex;align-items:center;gap:4px'']
        [El ''input'' ([At ''type'' ''checkbox'', At ''id'' ''sched-enabled''] @ (flag_if enabled ''checked'')) [],
        El ''span'' [] state_label],
       El ''span'' [At ''class'' ''mono-xs dim''] [Txt ''incremental''],
       El ''select'' [At ''id'' ''sched-incremental-interval'', At ''style'' ''background:var(--bg-0);border:1px solid var(--border);color:var(--text-1); padding:2px 6px;font-size:11px;font-family:var(--font)''] intervals,
       El ''span'' [At ''class'' ''dim mono-xs''] [Txt u_middot],
       El ''span'' [At ''class'' ''mono-xs dim''] [Txt ''full''],
       El ''select'' [At ''id'' ''sched-full-weekday'', At ''style'' ''background:var(--bg-0);border:1px solid var(--border);color:var(--text-1); padding:2px 6px;font-size:11px;font-family:var(--font)''] days,
       El ''select'' [At ''id'' ''sched-full-hour'', At ''style'' ''background:var(--bg-0);border:1px solid var(--border);color:var(--text-1); padding:2px 6px;font-size:11px;font-family:var(--font)''] hours,
       El ''span'' [At ''class'' ''dim mono-xs''] [Txt u_middot],
       El ''span'' [At ''class'' ''mono-xs dim''] [Txt ''keep''],
       El ''select'' [At ''id'' ''retain-count'', At ''style'' ''background:var(--bg-0);border:1px solid var(--border);color:var(--text-1); padding:2px 6px;font-size:11px;font-family:var(--font)''] counts,
       El ''button'' [At ''onclick'' ''Backup.saveSchedule()'', At ''class'' ''btn btn-sm'', At ''style'' ''font-size:9px''] [Txt ''save'']] @ next_runs)])"

definition retain_of :: "settings option \<Rightarrow> int option" where
  "retain_of cfg = (case cfg of None \<Rightarrow> None | Some s \<Rightarrow> map_option bk_retain (s_backup s))"

definition loadSchedule :: "backup_server \<Rightarrow> clock \<Rightarrow> browser \<Rightarrow> unit outcome \<times> browser" where
  "loadSchedule sv c b =
     (case both (api (sv_schedule sv) (get_rq ''/backups/schedule'')) (api (sv_settings sv) (get_rq ''/settings'')) b of
        (Resolved (d, cfg), b1) \<Rightarrow>
          (Resolved (), set_inner ''schedule-card'' (schedule_markup c d (retain_of cfg)) b1)
      | (Rejected e, b1) \<Rightarrow> (Resolved (), b1)
      | (Pending, b1) \<Rightarrow> (Pending, b1))"

text \<open>The settings document as it is sent back: what was read, with the backup section replaced.\<close>

definition profile_json :: "profile \<Rightarrow> json" where
  "profile_json p =
     JObj [(''name'', JStr (p_name p)), (''label'', JStr (p_label p)), (''type'', JStr (p_type p)),
           (''host'', JStr (p_host p)), (''port'', JInt (p_port p)), (''database'', JStr (p_database p)),
           (''sslMode'', JStr (p_ssl p)), (''description'', JStr (p_desc p)), (''enabled'', JBool (p_enabled p))]"

definition backup_json :: "backup_config \<Rightarrow> json" where
  "backup_json k =
     JObj [(''enabled'', JBool (bk_enabled k)), (''incrementalIntervalHours'', JInt (bk_interval k)),
           (''fullWeekday'', JInt (bk_weekday k)), (''fullHour'', JInt (bk_hour k)), (''retainCount'', JInt (bk_retain k))]"

definition settings_json :: "settings \<Rightarrow> json" where
  "settings_json s =
     JObj ([(''connections'', JObj [(''profiles'', JArr (map profile_json (s_profiles s))),
                                    (''featureRoutes'', JObj (map (\<lambda>(f, p). (f, JStr p)) (s_routes s)))])]
           @ (case s_backup s of None \<Rightarrow> [] | Some k \<Rightarrow> [(''backup'', backup_json k)]))"

text \<open>What the fields of the card say.\<close>

definition read_schedule :: "browser \<Rightarrow> backup_config" where
  "read_schedule b =
     \<lparr>bk_enabled = is_checked ''sched-enabled'' b,
      bk_interval = parse_int_or (value_of ''sched-incremental-interval'' b) 1,
      bk_weekday = parse_int_or (value_of ''sched-full-weekday'' b) 0,
      bk_hour = parse_int_or (value_of ''sched-full-hour'' b) 0,
      bk_retain = parse_int_or (value_of ''retain-count'' b) 7\<rparr>"

definition save_rq :: "settings \<Rightarrow> request" where
  "save_rq s = post_rq ''/settings'' (Some (settings_json s))"

definition saveSchedule :: "backup_server \<Rightarrow> clock \<Rightarrow> browser \<Rightarrow> unit outcome \<times> browser" where
  "saveSchedule sv c b =
     (case api (sv_settings sv) (get_rq ''/settings'') b of
        (Pending, b1) \<Rightarrow> (Pending, b1)
      | (Rejected e, b1) \<Rightarrow> (Resolved (), b1)
      | (Resolved None, b1) \<Rightarrow> (Resolved (), b1)
      | (Resolved (Some cfg), b1) \<Rightarrow>
          if s_backup cfg = None then (Resolved (), b1)
          else (case apiProtected (sv_save sv) (save_rq (cfg\<lparr>s_backup := Some (read_schedule b1)\<rparr>)) b1 of
              (Pending, b2) \<Rightarrow> (Pending, b2)
            | (Rejected e, b2) \<Rightarrow> (Resolved (), b2)
            | (Resolved _, b2) \<Rightarrow> loadSchedule sv c (showToast ''backup settings saved'' ''success'' b2)))"

section \<open>The list of backups\<close>

definition is_delta :: "backup_item \<Rightarrow> bool" where
  "is_delta k = str_includes ''_D_'' (bi_name k)"

definition backup_row :: "int \<Rightarrow> backup_item \<Rightarrow> html list" where
  "backup_row t k = [El ''tr'' []
      [El ''td'' [] [Txt (escHtml (bi_name k))],
      El ''td'' [] [Txt (formatBytes (bi_size k))],
      El ''td'' []
       [Txt (case bi_start k of None \<Rightarrow> ''-'' | Some s \<Rightarrow> timeAgo t s)],
      El ''td'' []
       [El ''span'' [At ''class'' (''badge '' @ (if is_delta k then ''badge-yellow'' else ''badge-blue''))] [Txt (if is_delta k then ''delta'' else ''full'')]],
      El ''td'' [At ''class'' ''mono-xs''] [Txt (or_str (escHtml (bi_wal k)) ''-'')],
      El ''td'' []
       [El ''div'' [At ''style'' ''display:flex;gap:4px'']
        [El ''button'' [At ''onclick'' (''Backup.verifyBackup('' @ sq @ (escHtml (bi_name k)) @ sq @ '')''), At ''class'' ''btn btn-sm'', At ''title'' ''verify backup fetch'', At ''style'' ''font-size:9px''] [Txt ''verify''],
        El ''button'' [At ''onclick'' (''Backup.restore('' @ sq @ (escHtml (bi_name k)) @ sq @ '')''), At ''class'' ''btn btn-sm btn-danger''] [Txt ''restore'']]]]]"

definition no_backups :: "html list" where
  "no_backups = [El ''tr'' []
      [El ''td'' [At ''colspan'' ''6'', At ''class'' ''text-center dim py-16''] [Txt ''no backups found'']]]"

definition backups_error :: "string \<Rightarrow> html list" where
  "backups_error e = [El ''tr'' []
      [El ''td'' [At ''colspan'' ''6'', At ''class'' ''dim text-center py-16''] [Txt (''error: '' @ (escHtml e))]]]"

definition backup_rows :: "int \<Rightarrow> backup_item list \<Rightarrow> html list" where
  "backup_rows t ks = (if ks = [] then no_backups else concat (map (backup_row t) (rev ks)))"

definition loadBackups :: "backup_server \<Rightarrow> clock \<Rightarrow> browser \<Rightarrow> unit outcome \<times> browser" where
  "loadBackups sv c b =
     (case api (sv_list sv) (get_rq ''/backups'') b of
        (Pending, b1) \<Rightarrow> (Pending, b1)
      | (r, b1) \<Rightarrow>
          if \<not> element ''backup-list'' b then (Rejected ''TypeError'', b1)
          else (Resolved (),
            set_inner ''backup-list'' (case r of Resolved ks \<Rightarrow> backup_rows (now c) ks | Rejected e \<Rightarrow> backups_error e | Pending \<Rightarrow> []) b1))"

section \<open>Jobs\<close>

definition status_error :: "string \<Rightarrow> html list" where
  "status_error e = [El ''div'' [At ''class'' ''card'']
      [El ''span'' [At ''class'' ''mono-xs red''] [Txt (escHtml e)]]]"

type_synonym backup_state = "backup_page \<times> browser"

text \<open>\<^verbatim>\<open>renderJobStatus\<close> up to its \<^verbatim>\<open>await\<close>, and what follows when the status is there.\<close>

definition Backup_renderJobStatus :: "backup_state \<Rightarrow> backup_state" where
  "Backup_renderJobStatus st =
     (let (m, b) = st in
      if \<not> element ''backup-job-status'' b then st
      else if bk_job m = [] then (m, set_inner ''backup-job-status'' [] b)
      else (m\<lparr>bk_asked := bk_asked m @ [bk_job m]\<rparr>, b))"

definition Backup_stop :: "backup_state \<Rightarrow> backup_state" where
  "Backup_stop st = ((fst st)\<lparr>bk_poller := None\<rparr>, clear_slot (bk_poller (fst st)) (snd st))"

definition Backup_onStatus :: "backup_server \<Rightarrow> clock \<Rightarrow> job \<Rightarrow> backup_state \<Rightarrow> backup_state" where
  "Backup_onStatus sv c j st =
     (let b1 = set_inner ''backup-job-status'' (renderJobSummary (now c) (Some j) (job_type j = ''backup_verify'')) (snd st);
          (m, b2) = (if job_status j \<noteq> ''running'' then Backup_stop (fst st, b1) else (fst st, b1))
      in (m, if job_status j = ''succeeded'' then snd (loadBackups sv c b2) else b2))"

definition Backup_reply :: "backup_server \<Rightarrow> clock \<Rightarrow> nat \<Rightarrow> backup_state \<Rightarrow> backup_state" where
  "Backup_reply sv c i st =
     (let (m, b) = st in
      if length (bk_asked m) \<le> i then st
      else (let m1 = m\<lparr>bk_asked := take i (bk_asked m) @ drop (Suc i) (bk_asked m)\<rparr> in
        case JobUI_get (sv_job sv) (bk_asked m ! i) b of
          (Resolved (Some j), b1) \<Rightarrow> Backup_onStatus sv c j (m1, b1)
        | (Resolved None, b1) \<Rightarrow> (m1, set_inner ''backup-job-status'' (status_error ''Cannot read properties of null'') b1)
        | (Rejected e, b1) \<Rightarrow> (m1, set_inner ''backup-job-status'' (status_error e) b1)
        | (Pending, b1) \<Rightarrow> (m1, b1)))"

definition Backup_trackJob :: "string \<Rightarrow> backup_state \<Rightarrow> backup_state" where
  "Backup_trackJob jobId st =
     (if jobId = [] then st
      else (let (m, b) = Backup_renderJobStatus ((fst st)\<lparr>bk_job := jobId\<rparr>, snd st);
                (i, b1) = set_interval 3000 BackupPoll (clear_slot (bk_poller m) b)
            in (m\<lparr>bk_poller := Some i\<rparr>, b1)))"

definition start_job :: "backup_server \<Rightarrow> request \<Rightarrow> string \<Rightarrow> string \<Rightarrow> (string \<Rightarrow> browser \<Rightarrow> browser) \<Rightarrow> backup_state \<Rightarrow> backup_state" where
  "start_job sv rq before after on_error st =
     (case apiProtected (sv_start sv) rq (showToast before ''info'' (snd st)) of
        (Resolved jobId, b1) \<Rightarrow>
          (let (m, b2) = Backup_trackJob jobId (fst st, b1) in (m, showToast after ''success'' b2))
      | (Rejected e, b1) \<Rightarrow> (fst st, on_error e b1)
      | (Pending, b1) \<Rightarrow> (fst st, b1))"

definition triggerBackup :: "backup_server \<Rightarrow> backup_state \<Rightarrow> backup_state" where
  "triggerBackup sv =
     start_job sv (post_rq ''/backups/trigger'' None) ''starting incremental backup...''
       ''incremental backup started'' (\<lambda>e b. b)"

definition verify_rq :: "string \<Rightarrow> request" where
  "verify_rq name = post_rq ''/backups/verify'' (Some (JObj [(''backupName'', JStr name)]))"

definition verifyBackup :: "backup_server \<Rightarrow> string \<Rightarrow> backup_state \<Rightarrow> backup_state" where
  "verifyBackup sv name =
     start_job sv (verify_rq name) ''starting backup verification...'' ''backup verification started'' (\<lambda>e b. b)"

definition restore_prompt :: "string \<Rightarrow> string" where
  "restore_prompt name =
     u_warn @ '' DANGER: Restore from '' @ dq @ name @ dq @ ''?'' @ [CHR 0x0A, CHR 0x0A] @ ''This will:'' @ [CHR 0x0A]
     @ ''1. Stop PostgreSQL'' @ [CHR 0x0A] @ ''2. Delete current data'' @ [CHR 0x0A]
     @ ''3. Restore from this backup'' @ [CHR 0x0A] @ ''4. Restart PostgreSQL'' @ [CHR 0x0A, CHR 0x0A]
     @ ''All current data will be LOST.''"

definition restore_rq :: "string \<Rightarrow> request" where
  "restore_rq name = post_rq ''/backups/restore'' (Some (JObj [(''backupName'', JStr name)]))"

definition restore :: "backup_server \<Rightarrow> string \<Rightarrow> backup_state \<Rightarrow> backup_state" where
  "restore sv name st =
     (case showConfirm ''restore backup'' (restore_prompt name) (danger_options ''restore'') (snd st) of
        (Resolved True, b) \<Rightarrow>
          start_job sv (restore_rq name) (''restore started '' @ u_dash @ '' PostgreSQL will restart...'') ''restore in progress''
            (\<lambda>e. showToast (''restore failed: '' @ e) ''error'') (fst st, b)
      | (_, b) \<Rightarrow> (fst st, b))"

section \<open>Point-in-time recovery\<close>

definition pitr_markup :: "html list" where
  "pitr_markup = [El ''div'' [At ''class'' ''modal-dialog'', At ''style'' ''width:460px'']
      [El ''div'' [At ''class'' ''modal-header'']
       [El ''span'' [At ''class'' ''modal-title''] [Txt ''point-in-time recovery (PITR)''],
       El ''button'' [At ''class'' ''modal-close'', At ''id'' ''pitr-close''] [Txt ''&times;'']],
      El ''div'' [At ''class'' ''modal-body'']
       [El ''div'' [At ''class'' ''mono-xs dim'', At ''style'' ''margin-bottom:12px;line-height:1.6'']
        [Txt ''Restore your database to any specific point in time.'',
        El ''br'' [] [],
        Txt ''The system will automatically select the best base backup and replay WAL logs.'',
        El ''br'' [] [],
        El ''span'' [At ''class'' ''red'']
         [Txt (u_warn @ '' This is a DESTRUCTIVE operation. All current data will be replaced.'')]],
       El ''div'' [At ''style'' ''margin-bottom:12px'']
        [El ''label'' [At ''class'' ''mono-xs dim'', At ''style'' ''display:block;margin-bottom:4px''] [Txt ''target date & time''],
        El ''input'' [At ''type'' ''datetime-local'', At ''id'' ''pitr-datetime'', At ''step'' ''1'', At ''style'' ''width:100%;background:var(--bg-0);border:1px solid var(--border); color:var(--text-1);padding:6px 8px;font-size:11px;font-family:var(--font)''] []],
       El ''div'' [At ''style'' ''margin-bottom:12px'']
        [El ''label'' [At ''class'' ''mono-xs dim'', At ''style'' ''display:block;margin-bottom:4px'']
         [Txt ''type '',
         El ''span'' [At ''class'' ''red''] [Txt ''PITR_CONFIRM''],
         Txt '' to proceed''],
        El ''input'' [At ''type'' ''text'', At ''id'' ''pitr-confirm-input'', At ''placeholder'' ''PITR_CONFIRM'', At ''autocomplete'' ''off'', At ''style'' ''width:100%;background:var(--bg-0);border:1px solid var(--border); color:var(--text-1);padding:6px 8px;font-size:11px;font-family:var(--font)''] []]],
      El ''div'' [At ''class'' ''modal-footer'']
       [El ''button'' [At ''class'' ''btn btn-sm'', At ''id'' ''pitr-cancel''] [Txt ''cancel''],
       El ''button'' [At ''class'' ''btn btn-sm btn-danger'', At ''id'' ''pitr-execute'']
        [El ''i'' [At ''data-lucide'' ''alert-triangle'', At ''class'' ''icon-sm''] [],
        Txt '' execute PITR'']]]]"

definition showPITRModal :: "clock \<Rightarrow> browser \<Rightarrow> browser" where
  "showPITRModal c b = set_val ''pitr-datetime'' (take 19 (local_iso c)) (add_overlay ''pitr-modal'' pitr_markup b)"

definition close_pitr :: "browser \<Rightarrow> browser" where
  "close_pitr b = remove_overlay ''pitr-modal'' b"

definition pitr_rq :: "string \<Rightarrow> request" where
  "pitr_rq target =
     post_rq ''/backups/restore'' (Some (JObj [(''backupName'', JStr ''LATEST''), (''targetTime'', JStr target)]))"

definition executePITR :: "backup_server \<Rightarrow> backup_state \<Rightarrow> backup_state" where
  "executePITR sv st =
     (let b = snd st;
          targetTime = value_of ''pitr-datetime'' b;
          confirmed = trim (value_of ''pitr-confirm-input'' b)
      in if targetTime = [] then (fst st, showToast ''select a target date & time'' ''error'' b)
         else if confirmed \<noteq> ''PITR_CONFIRM''
         then (fst st, set_style ''pitr-confirm-input'' ''borderColor'' ''var(--red)'' (showToast ''type PITR_CONFIRM to proceed'' ''error'' b))
         else (case apiProtected (sv_start sv) (pitr_rq (replace_first CHR ''T'' '' '' targetTime))
                      (showToast (''PITR restore initiated '' @ u_dash @ '' PostgreSQL will restart...'') ''info'' b) of
             (Resolved jobId, b1) \<Rightarrow>
               (let (m, b2) = Backup_trackJob jobId (fst st, b1)
                in (m, close_pitr (showToast ''PITR in progress'' ''success'' b2)))
           | (Rejected e, b1) \<Rightarrow> (fst st, showToast (''PITR failed: '' @ e) ''error'' b1)
           | (Pending, b1) \<Rightarrow> (fst st, b1)))"

section \<open>The page\<close>

definition backup_frame :: "html list" where
  "backup_frame = [El ''div'' [At ''class'' ''card mb-8'', At ''id'' ''schedule-card'']
      [El ''span'' [At ''class'' ''dim mono-xs''] [Txt ''loading schedule...'']],
     El ''div'' [At ''class'' ''mb-8'', At ''id'' ''backup-job-status''] [],
     El ''div'' [At ''class'' ''flex-between mb-8'']
      [El ''span'' [At ''class'' ''card-title'', At ''style'' ''margin:0''] [Txt ''wal-g backups''],
      El ''div'' [At ''style'' ''display:flex;gap:6px'']
       [El ''button'' [At ''class'' ''btn btn-sm'', At ''id'' ''btn-verify-latest'', At ''title'' ''Fetch latest backup into scratch storage and validate its core files'']
        [El ''i'' [At ''data-lucide'' ''shield-check'', At ''class'' ''icon-sm''] [],
        Txt '' verify latest''],
       El ''button'' [At ''class'' ''btn btn-sm'', At ''id'' ''btn-pitr'', At ''title'' ''Point-In-Time Recovery'']
        [El ''i'' [At ''data-lucide'' ''clock'', At ''class'' ''icon-sm''] [],
        Txt '' pitr''],
       El ''button'' [At ''class'' ''btn btn-primary'', At ''id'' ''btn-trigger-backup'']
        [El ''i'' [At ''data-lucide'' ''play'', At ''class'' ''icon-sm''] [],
        Txt '' trigger incremental'']]],
     El ''div'' [At ''class'' ''card'', At ''style'' ''padding:0'']
      [El ''div'' [At ''class'' ''overflow-auto'', At ''style'' ''height:calc(100vh - 192px); max-height: none;'']
       [El ''table'' [At ''class'' ''data-table'', At ''style'' ''table-layout:fixed;width:100%'']
        [El ''thead'' []
         [El ''tr'' []
          [El ''th'' [] [Txt ''name''],
          El ''th'' [At ''style'' ''width:117px''] [Txt ''size''],
          El ''th'' [At ''style'' ''width:90px''] [Txt ''modified''],
          El ''th'' [At ''style'' ''width:60px''] [Txt ''method''],
          El ''th'' [] [Txt ''wal''],
          El ''th'' [At ''style'' ''width:117px''] [Txt ''actions'']]],
        El ''tbody'' [At ''id'' ''backup-list'']
         [El ''tr'' []
          [El ''td'' [At ''colspan'' ''6'', At ''class'' ''text-center dim py-16''] [Txt ''loading...'']]]]]]]"

definition Backup_render :: "backup_server \<Rightarrow> clock \<Rightarrow> backup_state \<Rightarrow> backup_state" where
  "Backup_render sv c st =
     (case both (loadSchedule sv c) (loadBackups sv c) (set_inner ''page-content'' backup_frame (snd st)) of
        (Resolved _, b) \<Rightarrow> Backup_renderJobStatus (fst st, b)
      | (_, b) \<Rightarrow> (fst st, b))"

section \<open>The poller\<close>

lemma held_loadBackups [held_intros]:
  "own_callback a \<Longrightarrow> held a s b \<Longrightarrow> held a s (snd (loadBackups sv c b))"
  using held_snd(2) [of a s b "sv_list sv" "get_rq ''/backups''"]
  by (auto simp: loadBackups_def split: prod.splits outcome.splits intro!: held_intros)

lemma held_Backup_stop: "held BackupPoll (bk_poller m) b \<Longrightarrow> Backup_stop (m, b) = (m', b') \<Longrightarrow> held BackupPoll (bk_poller m') b'"
  by (auto simp: Backup_stop_def held_clear)

lemma held_Backup_onStatus:
  assumes "held BackupPoll (bk_poller m) b" "Backup_onStatus sv c j (m, b) = (m', b')"
  shows "held BackupPoll (bk_poller m') b'"
  using assms
  by (auto simp: Backup_onStatus_def Let_def Backup_stop_def intro!: held_intros held_clear split: if_splits)

lemma Backup_onStatus_keeps:
  "Backup_onStatus sv c j (m, b) = (m', b') \<Longrightarrow>
   bk_job m' = bk_job m \<and> bk_poller m' = (if job_status j = ''running'' then bk_poller m else None)"
  by (auto simp: Backup_onStatus_def Let_def Backup_stop_def split: if_splits)

lemma Backup_render_status_keeps:
  "Backup_renderJobStatus (m, b) = (m', b') \<Longrightarrow>
   bk_job m' = bk_job m \<and> bk_poller m' = bk_poller m \<and> (held a s b \<longrightarrow> held a s b')"
  by (auto simp: Backup_renderJobStatus_def split: if_splits intro: held_intros)

lemma Backup_trackJob_keeps:
  assumes "Backup_trackJob j (m, b) = (m', b')" "j \<noteq> []"
  shows "bk_job m' = j" "bk_poller m' \<noteq> None"
    and "held BackupPoll (bk_poller m) b \<Longrightarrow> held BackupPoll (bk_poller m') b'"
proof -
  obtain m1 b1 where r: "Backup_renderJobStatus (m\<lparr>bk_job := j\<rparr>, b) = (m1, b1)" by fastforce
  obtain i b2 where t: "set_interval 3000 BackupPoll (clear_slot (bk_poller m1) b1) = (i, b2)" by fastforce
  have eq: "m' = m1\<lparr>bk_poller := Some i\<rparr>" "b' = b2"
    using assms r t by (simp_all add: Backup_trackJob_def)
  note keep = Backup_render_status_keeps [OF r]
  from eq keep show "bk_job m' = j" "bk_poller m' \<noteq> None" by simp_all
  show "held BackupPoll (bk_poller m') b'" if "held BackupPoll (bk_poller m) b"
    using that keep eq held_restart [OF _ _ t] by simp
qed

lemma Backup_reply_keeps:
  assumes "Backup_reply sv c i (m, b) = (m', b')"
  shows "bk_job m' = bk_job m" "bk_poller m' = bk_poller m \<or> bk_poller m' = None"
    and "held BackupPoll (bk_poller m) b \<Longrightarrow> held BackupPoll (bk_poller m') b'"
proof -
  let ?m = "m\<lparr>bk_asked := take i (bk_asked m) @ drop (Suc i) (bk_asked m)\<rparr>"
  obtain r b1 where g: "JobUI_get (sv_job sv) (bk_asked m ! i) b = (r, b1)" by fastforce
  have h: "held BackupPoll s b \<Longrightarrow> held BackupPoll s b1" for s
    using g by (auto simp: JobUI_get_def intro: held_apiProtected)
  have "bk_job m' = bk_job m \<and> (bk_poller m' = bk_poller m \<or> bk_poller m' = None)
      \<and> (held BackupPoll (bk_poller m) b \<longrightarrow> held BackupPoll (bk_poller m') b')"
  proof (cases "length (bk_asked m) \<le> i")
    case False
    show ?thesis
    proof (cases "\<exists>j. r = Resolved (Some j)")
      case True
      then obtain j where "r = Resolved (Some j)" by blast
      with False assms g have "Backup_onStatus sv c j (?m, b1) = (m', b')" by (simp add: Backup_reply_def)
      note ended = this
      have "held BackupPoll (bk_poller m) b \<Longrightarrow> held BackupPoll (bk_poller m') b'"
        by (rule held_Backup_onStatus [OF _ ended]) (simp add: h)
      with Backup_onStatus_keeps [OF ended] show ?thesis by (simp split: if_splits)
    next
      case other: False
      with False assms g h show ?thesis
        by (cases r) (auto simp: Backup_reply_def Let_def split: option.splits intro!: held_intros)
    qed
  qed (use assms in \<open>simp add: Backup_reply_def\<close>)
  then show "bk_job m' = bk_job m" "bk_poller m' = bk_poller m \<or> bk_poller m' = None"
    and "held BackupPoll (bk_poller m) b \<Longrightarrow> held BackupPoll (bk_poller m') b'" by auto
qed

interpretation bkp: job_poller BackupPoll bk_poller bk_job Backup_trackJob Backup_renderJobStatus "Backup_reply sv c"
  for sv c
proof unfold_locales
  show "Backup_trackJob j (m, b) = (m', b') \<Longrightarrow> bk_job m' = (if j = [] then bk_job m else j)" for j m b m' b'
    by (cases "j = []") (simp add: Backup_trackJob_def, simp add: Backup_trackJob_keeps(1))
  show "held BackupPoll (bk_poller m) b \<Longrightarrow> Backup_trackJob j (m, b) = (m', b') \<Longrightarrow> held BackupPoll (bk_poller m') b'" for j m b m' b'
    by (cases "j = []") (simp add: Backup_trackJob_def, rule Backup_trackJob_keeps(3))
  show "j \<noteq> [] \<Longrightarrow> Backup_trackJob j (m, b) = (m', b') \<Longrightarrow> bk_poller m' \<noteq> None" for j m b m' b'
    by (rule Backup_trackJob_keeps(2))
  show "Backup_trackJob [] (m, b) = (m, b)" for m b
    by (simp add: Backup_trackJob_def)
  show "held BackupPoll (bk_poller m) b \<Longrightarrow> Backup_renderJobStatus (m, b) = (m', b') \<Longrightarrow> held BackupPoll (bk_poller m') b'" for m b m' b'
    using Backup_render_status_keeps [of m b m' b' BackupPoll "bk_poller m"] by simp
  show "Backup_renderJobStatus (m, b) = (m', b') \<Longrightarrow> bk_job m' = bk_job m \<and> bk_poller m' = bk_poller m" for m b m' b'
    using Backup_render_status_keeps [of m b m' b'] by simp
  show "held BackupPoll (bk_poller m) b \<Longrightarrow> Backup_reply sv c i (m, b) = (m', b') \<Longrightarrow> held BackupPoll (bk_poller m') b'" for i m b m' b'
    by (rule Backup_reply_keeps(3))
  show "Backup_reply sv c i (m, b) = (m', b') \<Longrightarrow> bk_job m' = bk_job m \<and> (bk_poller m' = bk_poller m \<or> bk_poller m' = None)" for i m b m' b'
    using Backup_reply_keeps(1,2) [of sv c i m b m' b'] by simp
qed

text \<open>
  A status reply that says the job is over stops the interval; one that says it runs keeps it. The
  reply does not say which job was meant: a late reply for an earlier job stops the interval of
  the current one.
\<close>

lemma Backup_reply_stops:
  assumes "i < length (bk_asked m)" "JobUI_get (sv_job sv) (bk_asked m ! i) b = (Resolved (Some j), b1)"
    and "held BackupPoll (bk_poller m) b" "Backup_reply sv c i (m, b) = (m', b')"
  shows "bk_poller m' = (if job_status j = ''running'' then bk_poller m else None)"
    and "job_status j \<noteq> ''running'' \<Longrightarrow> \<forall>t \<in> set (timers b'). action t \<noteq> BackupPoll"
proof -
  let ?m = "m\<lparr>bk_asked := take i (bk_asked m) @ drop (Suc i) (bk_asked m)\<rparr>"
  have "Backup_onStatus sv c j (?m, b1) = (m', b')"
    using assms by (simp add: Backup_reply_def)
  from Backup_onStatus_keeps [OF this]
  show p: "bk_poller m' = (if job_status j = ''running'' then bk_poller m else None)" by simp
  have "held BackupPoll (bk_poller m') b'" using Backup_reply_keeps(3) [OF assms(4,3)] .
  then show "job_status j \<noteq> ''running'' \<Longrightarrow> \<forall>t \<in> set (timers b'). action t \<noteq> BackupPoll"
    using p by (simp add: held_def slot_inv_None)
qed

section \<open>The schedule card\<close>

lemma node_parts [simp]:
  "val (mk_node ''select'' as hs) = select_value (concat (map options_of hs))"
  "checked (mk_node t as hs) = (attr_val ''checked'' as \<noteq> None)"
  by (simp_all add: mk_node_def)

lemma next_runs_nodes [simp]: "concat (map nodes_of (next_runs_markup c d)) = []"
proof (cases d)
  case (Some s)
  then show ?thesis by (cases "sc_next_inc s") (simp_all add: next_runs_markup_def)
qed (simp add: next_runs_markup_def)

lemma option_nodes [simp]: "nodes_of \<circ> number_option cur l = (\<lambda>_. [])"
  by (simp add: fun_eq_iff)

lemma concat_nils [simp]: "concat (map (\<lambda>_. []) xs) = []"
  by (induction xs) simp_all

definition number_value :: "int option \<Rightarrow> int list \<Rightarrow> string" where
  "number_value cur ns = select_value (concat (map options_of (map (number_option cur (\<lambda>_. [])) ns)))"

lemma number_value_options [simp]:
  "select_value (concat (map (options_of \<circ> number_option cur l) ns)) = number_value cur ns"
  using number_select_value [of cur l ns] number_select_value [of cur "\<lambda>_. []" ns]
  by (simp add: number_value_def)

lemma schedule_look:
  fixes c d retain
  defines "look \<equiv> map_of (nodes_of_list (schedule_markup c d retain))"
  shows "\<exists>n. look ''sched-enabled'' = Some n \<and> checked n = (case d of None \<Rightarrow> False | Some s \<Rightarrow> sc_enabled s)"
    and "\<exists>n. look ''sched-incremental-interval'' = Some n \<and> val n = number_value (map_option sc_interval d) interval_choices"
    and "\<exists>n. look ''sched-full-weekday'' = Some n \<and> val n = number_value (map_option sc_weekday d) weekday_choices"
    and "\<exists>n. look ''sched-full-hour'' = Some n \<and> val n = number_value (map_option sc_hour d) hour_choices"
    and "\<exists>n. look ''retain-count'' = Some n \<and> val n = number_value retain retain_choices"
  unfolding look_def schedule_markup_def Let_def nodes_of_list_def
  by (simp_all add: flag_if_def)

text \<open>What a select over numbers gives back when it is read: its number, or the first choice.\<close>

lemma read_number:
  "ns \<noteq> [] \<Longrightarrow> parse_int_or (number_value cur ns) d =
     or_int (case cur of Some n \<Rightarrow> if n \<in> set ns then n else hd ns | None \<Rightarrow> hd ns) d"
  unfolding number_value_def number_select_value by (cases ns) (auto split: option.splits)

lemma shown_value:
  "element i b \<Longrightarrow> \<exists>n. map_of (nodes_of_list hs) j = Some n \<and> val n = v \<Longrightarrow> value_of j (set_inner i hs b) = v"
  by (auto simp: value_of_def inner_lookup)

lemma shown_checked:
  "element i b \<Longrightarrow> \<exists>n. map_of (nodes_of_list hs) j = Some n \<and> checked n = v \<Longrightarrow> is_checked j (set_inner i hs b) = v"
  by (auto simp: is_checked_def inner_lookup)

definition as_shown :: "int option \<Rightarrow> int list \<Rightarrow> int" where
  "as_shown cur ns = (case cur of Some n \<Rightarrow> if n \<in> set ns then n else hd ns | None \<Rightarrow> hd ns)"

lemma choices_nonempty: "interval_choices \<noteq> []" "weekday_choices \<noteq> []" "hour_choices \<noteq> []" "retain_choices \<noteq> []"
  by (simp_all add: interval_choices_def weekday_choices_def hour_choices_def retain_choices_def)

lemma read_loaded_schedule:
  assumes "element ''schedule-card'' b"
  shows "read_schedule (set_inner ''schedule-card'' (schedule_markup c d retain) b) =
    \<lparr>bk_enabled = (case d of None \<Rightarrow> False | Some s \<Rightarrow> sc_enabled s),
     bk_interval = or_int (as_shown (map_option sc_interval d) interval_choices) 1,
     bk_weekday = or_int (as_shown (map_option sc_weekday d) weekday_choices) 0,
     bk_hour = or_int (as_shown (map_option sc_hour d) hour_choices) 0,
     bk_retain = or_int (as_shown retain retain_choices) 7\<rparr>"
  unfolding read_schedule_def as_shown_def
  by (simp add: shown_checked [OF assms schedule_look(1)] shown_value [OF assms schedule_look(2)]
      shown_value [OF assms schedule_look(3)] shown_value [OF assms schedule_look(4)]
      shown_value [OF assms schedule_look(5)] read_number choices_nonempty)

section \<open>Guards\<close>

lemma trackJob_sent: "sent (snd (Backup_trackJob j (m, b))) = sent b"
proof -
  obtain m1 b1 where r: "Backup_renderJobStatus (m\<lparr>bk_job := j\<rparr>, b) = (m1, b1)" by fastforce
  then have "sent b1 = sent b" by (auto simp: Backup_renderJobStatus_def split: if_splits)
  then show ?thesis by (simp add: Backup_trackJob_def r set_timer_def)
qed

text \<open>Whatever the server answers, starting a job is one call of its request: tracking the job asks nothing.\<close>

lemma start_job_one:
  assumes "rq_path rq \<noteq> ''/auth/login''" "\<And>e b. sent (err e b) = sent b"
  shows "\<exists>qs. sent (snd (start_job sv rq before after err (m, b))) = sent b @ qs \<and> one_call (sv_start sv) (sent b) rq qs
    \<and> (if get_item session_key b \<noteq> [] then qs \<noteq> [] \<and> hd qs = rq\<lparr>rq_session := get_item session_key b\<rparr> else True)"
proof -
  let ?b = "showToast before ''info'' b"
  obtain r b1 where call: "apiProtected (sv_start sv) rq ?b = (r, b1)" by fastforce
  have "sent (snd (start_job sv rq before after err (m, b))) = sent b1"
  proof (cases r)
    case (Resolved j)
    obtain m2 b2 where t: "Backup_trackJob j (m, b1) = (m2, b2)" by fastforce
    have "sent b2 = sent b1" using trackJob_sent [of j m b1] t by simp
    with Resolved call t show ?thesis by (simp add: start_job_def)
  qed (simp_all add: start_job_def call assms(2))
  moreover have "get_item session_key ?b = get_item session_key b" "sent ?b = sent b" by (simp_all add: get_item_def)
  ultimately show ?thesis using apiProtected_one [OF assms(1) call] by metis
qed

lemma restore_unconfirmed:
  assumes "confirm_inputs b = [] \<or> (\<exists>as. confirm_inputs b = False # as)"
  shows "fst (restore sv name (m, b)) = m \<and> sent (snd (restore sv name (m, b))) = sent b"
  using assms by (auto simp: restore_def showConfirm_def Let_def)

lemma pitr_refused:
  assumes "value_of ''pitr-datetime'' b = [] \<or> trim (value_of ''pitr-confirm-input'' b) \<noteq> ''PITR_CONFIRM''"
  shows "fst (executePITR sv (m, b)) = m \<and> sent (snd (executePITR sv (m, b))) = sent b"
  using assms by (auto simp: executePITR_def Let_def node_setters)

section \<open>Markup\<close>

lemma or_str_safe: "c \<notin> set s \<Longrightarrow> c \<notin> set t \<Longrightarrow> c \<notin> set (or_str s t)"
  by (simp add: or_str_def)

lemma backup_row_safe: "safe_list (backup_row t k)"
  by (simp add: backup_row_def markup_safe name_ok_eval or_str_safe split: option.splits)

lemma backup_rows_safe: "safe_list (backup_rows t ks)"
  by (simp add: backup_rows_def no_backups_def markup_safe name_ok_eval backup_row_safe)

section \<open>Properties\<close>

text \<open>
  C20: after the schedule card is loaded, its fields read back as the schedule and retention the server
  reported, except that a value the card has no option for reads back as the first option, and
  would be saved as such: a retention of 20 backups as 3.
\<close>

theorem schedule_roundtrip:
  assumes "element ''schedule-card'' b1"
    and "both (api (sv_schedule sv) (get_rq ''/backups/schedule'')) (api (sv_settings sv) (get_rq ''/settings'')) b =
      (Resolved (Some s, Some cfg), b1)"
    and "s_backup cfg = Some k"
  shows "read_schedule (snd (loadSchedule sv c b)) =
    \<lparr>bk_enabled = sc_enabled s,
     bk_interval = (if sc_interval s \<in> {1, 3, 6, 12, 24} then sc_interval s else 1),
     bk_weekday = (if 0 \<le> sc_weekday s \<and> sc_weekday s \<le> 6 then sc_weekday s else 0),
     bk_hour = (if 0 \<le> sc_hour s \<and> sc_hour s < 24 then sc_hour s else 0),
     bk_retain = (if bk_retain k \<in> {3, 5, 7, 10, 14, 30} then bk_retain k else 3)\<rparr>"
proof -
  have load: "snd (loadSchedule sv c b) = set_inner ''schedule-card'' (schedule_markup c (Some s) (Some (bk_retain k))) b1"
    using assms(2,3) by (simp add: loadSchedule_def retain_of_def)
  have wd: "n \<in> set weekday_choices \<longleftrightarrow> 0 \<le> n \<and> n \<le> 6" for n by (auto simp: weekday_choices_def)
  have hr: "n \<in> set hour_choices \<longleftrightarrow> 0 \<le> n \<and> n < 24" for n
  proof
    assume "0 \<le> n \<and> n < 24"
    then have "n = int (nat n)" "nat n \<in> set [0..<24]" by auto
    then show "n \<in> set hour_choices" unfolding hour_choices_def by (metis image_eqI list.set_map)
  qed (auto simp: hour_choices_def)
  have hd: "hd interval_choices = 1" "hd weekday_choices = 0" "hd hour_choices = 0" "hd retain_choices = 3"
    by (simp_all add: interval_choices_def weekday_choices_def hour_choices_def retain_choices_def upt_rec)
  have iv: "set interval_choices = {1, 3, 6, 12, 24}" and rt: "set retain_choices = {3, 5, 7, 10, 14, 30}"
    by (simp_all add: interval_choices_def retain_choices_def)
  have "or_int (if P then n else 0) 0 = (if P then n else 0)" for P n by (simp add: or_int_def)
  then show ?thesis
    unfolding load read_loaded_schedule [OF assms(1)] as_shown_def
    by (simp add: wd hr hd iv rt) (auto simp: or_int_def)
qed

definition sample_schedule :: schedule where
  "sample_schedule = \<lparr>sc_enabled = True, sc_interval = 6, sc_weekday = 0, sc_hour = 3, sc_next_inc = None, sc_next_full = None\<rparr>"

definition sample_backup :: backup_config where
  "sample_backup = \<lparr>bk_enabled = True, bk_interval = 6, bk_weekday = 0, bk_hour = 3, bk_retain = 20\<rparr>"

definition sample_clock :: clock where
  "sample_clock = \<lparr>now = 0, locale_text = (\<lambda>_. []), time_text = (\<lambda>_. []), local_iso = ''2024-05-01T10:00:00.000Z'', number_text = (\<lambda>_. ''0'')\<rparr>"

definition sample_server :: backup_server where
  "sample_server = \<lparr>sv_schedule = (\<lambda>h q. Ok (Some (Some sample_schedule))),
     sv_settings = (\<lambda>h q. Ok (Some (Some (sample_settings\<lparr>s_backup := Some sample_backup\<rparr>)))),
     sv_save = (\<lambda>h q. Ok (Some ())), sv_list = (\<lambda>h q. Ok (Some [])), sv_start = (\<lambda>h q. Ok (Some ''B'')),
     sv_job = (\<lambda>h q. Ok (Some (Some hostile_job)))\<rparr>"

definition backup_dom :: browser where
  "backup_dom = sample_browser\<lparr>dom := [''schedule-card'' \<mapsto> mk_node ''div'' [] [], ''backup-job-status'' \<mapsto> mk_node ''div'' [] []]\<rparr>"

lemma sample_call:
  assumes "get_item session_key b = ''old''" "\<And>h q. net h q = Ok (Some d)"
  shows "apiProtected net rq b = (Resolved d, b\<lparr>sent := sent b @ [rq\<lparr>rq_session := ''old''\<rparr>]\<rparr>)"
  using apiProtected_authorized(1) [of b net rq "Ok (Some d)" d] assms by simp

lemma sample_session: "get_item session_key (sample_browser\<lparr>dom := d, sent := q\<rparr>) = ''old''" "get_item session_key (backup_dom\<lparr>sent := q\<rparr>) = ''old''"
  "get_item session_key backup_dom = ''old''"
  by (simp_all add: sample_browser_def backup_dom_def get_item_def)

theorem schedule_roundtrip_witness:
  "read_schedule (snd (loadSchedule sample_server sample_clock backup_dom)) =
    \<lparr>bk_enabled = sc_enabled sample_schedule,
     bk_interval = (if sc_interval sample_schedule \<in> {1, 3, 6, 12, 24} then sc_interval sample_schedule else 1),
     bk_weekday = (if 0 \<le> sc_weekday sample_schedule \<and> sc_weekday sample_schedule \<le> 6 then sc_weekday sample_schedule else 0),
     bk_hour = (if 0 \<le> sc_hour sample_schedule \<and> sc_hour sample_schedule < 24 then sc_hour sample_schedule else 0),
     bk_retain = (if bk_retain sample_backup \<in> {3, 5, 7, 10, 14, 30} then bk_retain sample_backup else 3)\<rparr>"
proof -
  obtain b1 where b1: "both (api (sv_schedule sample_server) (get_rq ''/backups/schedule'')) (api (sv_settings sample_server) (get_rq ''/settings'')) backup_dom =
      (Resolved (Some sample_schedule, Some (sample_settings\<lparr>s_backup := Some sample_backup\<rparr>)), b1)" "dom b1 = dom backup_dom"
    by (simp add: both_def api_def sample_server_def sample_call sample_session)
  show ?thesis
    by (rule schedule_roundtrip [OF _ b1(1)]) (simp_all add: element_def b1(2) backup_dom_def)
qed

text \<open>
  C11: whatever the server answers and whatever the user does at the login dialogs, with or without a session,
  the restore button sends nothing unless the user confirms the danger dialog. After a confirmation it makes one call of the
  restore of the named backup: the requests it adds are that restore and logins, and all but the last of them are logins or were refused
  with status 401, so that an answered restore, a failed one too, is never sent again. With a session the first of
  them is the restore in that session.
\<close>

theorem restore_guarded:
  "\<exists>qs. sent (snd (restore sv name (m, b))) = sent b @ qs
    \<and> (if \<exists>as. confirm_inputs b = True # as
       then one_call (sv_start sv) (sent b) (restore_rq name) qs
         \<and> (if get_item session_key b \<noteq> [] then qs \<noteq> [] \<and> hd qs = (restore_rq name)\<lparr>rq_session := get_item session_key b\<rparr> else True)
       else qs = [])"
proof (cases "\<exists>as. confirm_inputs b = True # as")
  case True
  then obtain as where as: "confirm_inputs b = True # as" by blast
  obtain b0 where conf: "showConfirm ''restore backup'' (restore_prompt name) (danger_options ''restore'') b = (Resolved True, b0)"
    by (simp add: showConfirm_def as Let_def)
  have keep: "sent b0 = sent b" "get_item session_key b0 = get_item session_key b"
    using showConfirm_frame [OF conf, of session_key] by simp_all
  have path: "rq_path (restore_rq name) \<noteq> ''/auth/login''" by (simp add: restore_rq_def post_rq_def)
  let ?err = "\<lambda>e. showToast (''restore failed: '' @ e) ''error''"
  obtain bef aft where r: "restore sv name (m, b) = start_job sv (restore_rq name) bef aft ?err (m, b0)"
    by (simp add: restore_def conf)
  have one: "\<exists>qs. sent (snd (start_job sv (restore_rq name) bef aft ?err (m, b0))) = sent b0 @ qs \<and> one_call (sv_start sv) (sent b0) (restore_rq name) qs
      \<and> (if get_item session_key b0 \<noteq> [] then qs \<noteq> [] \<and> hd qs = (restore_rq name)\<lparr>rq_session := get_item session_key b0\<rparr> else True)"
    by (rule start_job_one [OF path]) simp
  then show ?thesis unfolding keep r if_P [OF True] .
next
  case False
  then have "confirm_inputs b = [] \<or> (\<exists>as. confirm_inputs b = False # as)"
    by (cases "confirm_inputs b") auto
  from restore_unconfirmed [OF this] False show ?thesis by simp
qed

text \<open>
  Point-in-time recovery is requested exactly when a target time is filled in and the confirmation field,
  blanks trimmed, reads \<^verbatim>\<open>PITR_CONFIRM\<close>; it is one call of the request that names that time, with a blank
  for the \<^verbatim>\<open>T\<close>.
\<close>

theorem pitr_guarded:
  "\<exists>qs. sent (snd (executePITR sv (m, b))) = sent b @ qs
    \<and> (if value_of ''pitr-datetime'' b \<noteq> [] \<and> trim (value_of ''pitr-confirm-input'' b) = ''PITR_CONFIRM''
       then one_call (sv_start sv) (sent b) (pitr_rq (replace_first CHR ''T'' '' '' (value_of ''pitr-datetime'' b))) qs
       else qs = [])"
proof (cases "value_of ''pitr-datetime'' b \<noteq> [] \<and> trim (value_of ''pitr-confirm-input'' b) = ''PITR_CONFIRM''")
  case True
  let ?rq = "pitr_rq (replace_first CHR ''T'' '' '' (value_of ''pitr-datetime'' b))"
  let ?b = "showToast (''PITR restore initiated '' @ u_dash @ '' PostgreSQL will restart...'') ''info'' b"
  obtain r b1 where call: "apiProtected (sv_start sv) ?rq ?b = (r, b1)" by fastforce
  have "sent (snd (executePITR sv (m, b))) = sent b1"
  proof (cases r)
    case (Resolved j)
    obtain m2 b2 where t: "Backup_trackJob j (m, b1) = (m2, b2)" by fastforce
    have "sent b2 = sent b1" using trackJob_sent [of j m b1] t by simp
    with Resolved True call t show ?thesis by (simp add: executePITR_def Let_def close_pitr_def)
  qed (use True call in \<open>simp_all add: executePITR_def Let_def close_pitr_def\<close>)
  moreover have "rq_path ?rq \<noteq> ''/auth/login''" by (simp add: pitr_rq_def post_rq_def)
  ultimately show ?thesis using apiProtected_one [OF _ call] True by auto
next
  case False
  then have "value_of ''pitr-datetime'' b = [] \<or> trim (value_of ''pitr-confirm-input'' b) \<noteq> ''PITR_CONFIRM''" by blast
  from pitr_refused [OF this] False show ?thesis by auto
qed

text \<open>
  C13: however jobs are tracked, the interval ticks and status replies come back in any order, the backup
  page never has two status intervals, an interval always has a job to ask for, and the job is the
  one that was tracked last.
\<close>

theorem backup_one_poller:
  assumes "timers b = []" "idle_timer b = None"
    and "poll_run Backup_trackJob Backup_renderJobStatus (Backup_reply sv c) es (new_backup_page, b) = (m', b')"
  shows "length (filter (\<lambda>t. action t = BackupPoll) (timers b')) \<le> 1
    \<and> (filter (\<lambda>t. action t = BackupPoll) (timers b') = [] \<or> 0 < length (bk_job m')) \<and> bk_job m' = last_tracked es []"
proof -
  have "held BackupPoll (bk_poller new_backup_page) b"
    using assms(1,2) by (simp add: held_def web_ok_def timers_ok_def slot_inv_None new_backup_page_def)
  moreover have "bk_poller new_backup_page \<noteq> None \<longrightarrow> bk_job new_backup_page \<noteq> []" by (simp add: new_backup_page_def)
  ultimately have "length (filter (\<lambda>t. action t = BackupPoll) (timers b')) \<le> 1
      \<and> ((\<exists>t \<in> set (timers b'). action t = BackupPoll) \<longrightarrow> bk_job m' \<noteq> [])"
    using bkp.one_poller assms(3) by blast
  moreover have "bk_job m' = last_tracked es []"
    using bkp.job_is_last [of sv c es "(new_backup_page, b)"] assms(3) by (simp add: new_backup_page_def)
  ultimately show ?thesis by (auto simp: filter_empty_conv)
qed

theorem backup_one_poller_witness:
  "\<exists>m' b'. poll_run Backup_trackJob Backup_renderJobStatus (Backup_reply sample_server sample_clock) [Track ''A'', Tick, Track ''B'', Answer 0] (new_backup_page, backup_dom) = (m', b')
    \<and> length (filter (\<lambda>t. action t = BackupPoll) (timers b')) \<le> 1
    \<and> (filter (\<lambda>t. action t = BackupPoll) (timers b') = [] \<or> 0 < length (bk_job m'))
    \<and> bk_job m' = last_tracked [Track ''A'', Tick, Track ''B'', Answer 0] []"
proof -
  obtain m' b' where run: "poll_run Backup_trackJob Backup_renderJobStatus (Backup_reply sample_server sample_clock) [Track ''A'', Tick, Track ''B'', Answer 0] (new_backup_page, backup_dom) = (m', b')"
    by (metis surj_pair)
  have "timers backup_dom = []" "idle_timer backup_dom = None" by (simp_all add: backup_dom_def sample_browser_def)
  from backup_one_poller [OF this run] run show ?thesis by blast
qed

text \<open>
  a status reply for an earlier job that is over stops the interval of the job tracked since: the page
  then shows a job it no longer asks about.
\<close>

theorem stale_status_stops_poller:
  assumes "held BackupPoll (bk_poller m) b" "bk_asked m = [A]" "B \<noteq> []"
    and "Backup_trackJob B (m, b) = (m1, b1)"
    and "JobUI_get (sv_job sv) A b1 = (Resolved (Some j), b2)" "job_status j \<noteq> ''running''"
    and "Backup_reply sv c 0 (m1, b1) = (m2, b3)"
  shows "bk_poller m1 \<noteq> None \<and> bk_job m2 = B \<and> bk_poller m2 = None \<and> filter (\<lambda>t. action t = BackupPoll) (timers b3) = []"
proof -
  note track = Backup_trackJob_keeps [OF assms(4,3)]
  obtain m0 b0 where r: "Backup_renderJobStatus (m\<lparr>bk_job := B\<rparr>, b) = (m0, b0)" by fastforce
  then have "bk_asked m0 = [A] \<or> bk_asked m0 = [A, B]"
    using assms(2,3) by (auto simp: Backup_renderJobStatus_def split: if_splits)
  then have asked: "0 < length (bk_asked m1)" "bk_asked m1 ! 0 = A"
    using assms(4) r assms(3) by (auto simp: Backup_trackJob_def Let_def set_timer_def)
  have h: "held BackupPoll (bk_poller m1) b1" using track(3) assms(1) .
  have get: "JobUI_get (sv_job sv) (bk_asked m1 ! 0) b1 = (Resolved (Some j), b2)" using asked assms(5) by simp
  show ?thesis
    using track Backup_reply_stops [OF asked(1) get h assms(7)] Backup_reply_keeps(1) [OF assms(7)] assms(6) by (simp add: filter_empty_conv)
qed

theorem stale_status_stops_poller_witness:
  "\<exists>m1 b1 m2 b3. Backup_trackJob ''B'' (new_backup_page\<lparr>bk_job := ''A'', bk_asked := [''A'']\<rparr>, backup_dom) = (m1, b1)
    \<and> Backup_reply sample_server sample_clock 0 (m1, b1) = (m2, b3)
    \<and> bk_poller m1 \<noteq> None \<and> bk_job m2 = ''B'' \<and> bk_poller m2 = None \<and> filter (\<lambda>t. action t = BackupPoll) (timers b3) = []"
proof -
  let ?m = "new_backup_page\<lparr>bk_job := ''A'', bk_asked := [''A'']\<rparr>"
  obtain m1 b1 where tr: "Backup_trackJob ''B'' (?m, backup_dom) = (m1, b1)" by fastforce
  obtain m2 b3 where re: "Backup_reply sample_server sample_clock 0 (m1, b1) = (m2, b3)" by fastforce
  have h: "held BackupPoll (bk_poller ?m) backup_dom"
    by (simp add: held_def web_ok_def timers_ok_def slot_inv_None new_backup_page_def backup_dom_def sample_browser_def)
  have s: "session b1 = session backup_dom"
    using tr by (simp add: Backup_trackJob_def Backup_renderJobStatus_def new_backup_page_def element_def backup_dom_def set_timer_def)
      (auto simp: clear_slot_def)
  then have "get_item session_key b1 = ''old''" using sample_session(3) by (simp add: get_item_def)
  then have get: "JobUI_get (sv_job sample_server) ''A'' b1 =
      (Resolved (Some hostile_job), b1\<lparr>sent := sent b1 @ [(jobs_get_rq ''A'')\<lparr>rq_session := ''old''\<rparr>]\<rparr>)"
    by (simp add: JobUI_get_def sample_server_def sample_call)
  have "bk_poller m1 \<noteq> None \<and> bk_job m2 = ''B'' \<and> bk_poller m2 = None \<and> filter (\<lambda>t. action t = BackupPoll) (timers b3) = []"
    by (rule stale_status_stops_poller [OF h _ _ tr get _ re]) (simp_all add: hostile_job_def)
  with tr re show ?thesis by blast
qed

end
