(* ===== verification/Levels.thy ===== *)
theory Levels
  imports Prelude
begin

text \<open>
  The three-colour scale of the pages: a number is red above one threshold, yellow above a lower
  one, and calm otherwise. Levels are linearly ordered, so that a page's colouring can be said to
  be monotone: a worse number never has a calmer colour.
\<close>

datatype level = Calm | Yellow | Red

fun level_rank :: "level \<Rightarrow> nat" where
  "level_rank Calm = 0"
| "level_rank Yellow = 1"
| "level_rank Red = 2"

lemma level_rank_inject: "level_rank x = level_rank y \<longleftrightarrow> x = y"
  by (cases x; cases y) simp_all

instantiation level :: linorder
begin

definition less_eq_level :: "level \<Rightarrow> level \<Rightarrow> bool" where
  "less_eq_level x y = (level_rank x \<le> level_rank y)"

definition less_level :: "level \<Rightarrow> level \<Rightarrow> bool" where
  "less_level x y = (level_rank x < level_rank y)"

instance
  by intro_classes (auto simp: less_eq_level_def less_level_def level_rank_inject)

end

text \<open>\<^verbatim>\<open>x > hi ? red : x > lo ? yellow : calm\<close>.\<close>

definition level_above :: "rat \<Rightarrow> rat \<Rightarrow> rat \<Rightarrow> level" where
  "level_above hi lo x = (if x > hi then Red else if x > lo then Yellow else Calm)"

lemma level_simps [simp]:
  "Calm \<le> l" "l \<le> Red" "Yellow \<le> Calm \<longleftrightarrow> False" "Red \<le> Yellow \<longleftrightarrow> False" "Red \<le> Calm \<longleftrightarrow> False"
  "Yellow \<le> Yellow"
  by (cases l; simp add: less_eq_level_def)+

lemma level_above_mono: "lo \<le> hi \<Longrightarrow> x \<le> y \<Longrightarrow> level_above hi lo x \<le> level_above hi lo y"
  by (auto simp: level_above_def)

lemma level_above_iff:
  "level_above hi lo x = Red \<longleftrightarrow> hi < x" "lo \<le> hi \<Longrightarrow> level_above hi lo x = Calm \<longleftrightarrow> x \<le> lo"
  by (auto simp: level_above_def)

text \<open>The class names, with the calm one of the page.\<close>

definition level_class :: "string \<Rightarrow> level \<Rightarrow> string" where
  "level_class calm l = (case l of Calm \<Rightarrow> calm | Yellow \<Rightarrow> ''yellow'' | Red \<Rightarrow> ''red'')"

lemma level_class_safe [simp]: "CHR 0x22 \<notin> set calm \<Longrightarrow> CHR 0x22 \<notin> set (level_class calm l)"
  by (simp add: level_class_def split: level.splits)

end
