(* ===== verification/Vacuum.thy ===== *)
theory Vacuum
  imports Polling Levels
begin

text \<open>
  The vacuum, bloat and pg_repack page, vacuum.js. Calls that a handler does not await are
  queued: the loads of a tab in \<^verbatim>\<open>vc_loading\<close>, the status requests in \<^verbatim>\<open>vc_asked\<close>. The
  page has two intervals, one for the job status and one that refreshes the repack tab.
\<close>

section \<open>State and server\<close>

datatype vac_tab = VacuumTab | BloatTab | RepackTab

record vacuum_page =
  vc_tab :: vac_tab
  vc_repack :: "nat option"
  vc_job :: string
  vc_poller :: "nat option"
  vc_asked :: "string list"
  vc_loading :: "vac_tab list"

definition new_vacuum_page :: vacuum_page where
  "new_vacuum_page = \<lparr>vc_tab = VacuumTab, vc_repack = None, vc_job = [], vc_poller = None,
     vc_asked = [], vc_loading = []\<rparr>"

record vacuum_stat =
  vs_schema :: string
  vs_table :: string
  vs_live :: int
  vs_dead :: int
  vs_deadPct :: rat
  vs_last :: "int option"
  vs_lastAuto :: "int option"
  vs_count :: int

record bloat_stat =
  bs_schema :: string
  bs_table :: string
  bs_size :: string
  bs_live :: int
  bs_dead :: int
  bs_bloatPct :: rat
  bs_last :: "int option"

record repack_status =
  rs_status :: string
  rs_table :: string
  rs_elapsed :: string

record vacuum_server =
  vv_stats :: "vacuum_stat list net"
  vv_bloat :: "bloat_stat list net"
  vv_repack :: "bloat_stat list net"
  vv_status :: "repack_status net"
  vv_start :: "string net"
  vv_cancel :: "unit net"
  vv_job :: "job option net"
  vv_dbs :: "string list option net"

type_synonym vacuum_state = "vacuum_page \<times> browser"

text \<open>\<^verbatim>\<open>schema === 'public' ? table : schema + '.' + table\<close>\<close>

definition full_name :: "string \<Rightarrow> string \<Rightarrow> string" where
  "full_name schema table = (if schema = ''public'' then table else schema @ ''.'' @ table)"

definition ago_or_dash :: "int \<Rightarrow> int option \<Rightarrow> string" where
  "ago_or_dash t d = (case d of None \<Rightarrow> ''-'' | Some s \<Rightarrow> timeAgo t s)"

section \<open>The three tabs\<close>

definition vacuum_row :: "clock \<Rightarrow> vacuum_stat \<Rightarrow> html list" where
  "vacuum_row c s =
     (let deadCls = level_class [] (level_above 20 5 (vs_deadPct s)) in [El ''tr'' []
      [El ''td'' [] [Txt (full_name (vs_schema s) (vs_table s))],
      El ''td'' [] [Txt (fmt_count (vs_live s))],
      El ''td'' [At ''class'' deadCls] [Txt (fmt_count (vs_dead s))],
      El ''td'' [At ''class'' deadCls] [Txt ((number_text c (vs_deadPct s)) @ ''%'')],
      El ''td'' [At ''class'' ''dim''] [Txt (ago_or_dash (now c) (vs_last s))],
      El ''td'' [At ''class'' ''dim''] [Txt (ago_or_dash (now c) (vs_lastAuto s))],
      El ''td'' [] [Txt (str_of_int (vs_count s))],
      El ''td'' []
       [El ''button'' [At ''onclick'' (''VacuumMonitor.triggerVacuum('' @ sq @ (escHtml (vs_schema s)) @ sq @ '','' @ sq @ (escHtml (vs_table s)) @ sq @ '',false)''), At ''class'' ''btn btn-sm'', At ''title'' ''VACUUM ANALYZE'', At ''style'' ''font-size:9px;padding:2px 4px''] [Txt ''vac''],
       El ''button'' [At ''onclick'' (''VacuumMonitor.triggerVacuum('' @ sq @ (escHtml (vs_schema s)) @ sq @ '','' @ sq @ (escHtml (vs_table s)) @ sq @ '',true)''), At ''class'' ''btn btn-sm btn-danger'', At ''title'' ''VACUUM FULL (locks table!)'', At ''style'' ''font-size:9px;padding:2px 4px''] [Txt ''full'']]]])"

definition vacuum_table :: "clock \<Rightarrow> vacuum_stat list \<Rightarrow> html list" where
  "vacuum_table c stats =
     (if stats = [] then [El ''div'' [At ''class'' ''card'']
      [El ''span'' [At ''class'' ''dim mono-xs''] [Txt ''no user tables'']]]
      else [El ''div'' [At ''class'' ''mono-xs dim mb-8''] [Txt ((str_of_nat (length stats)) @ '' tables'')],
     El ''div'' [At ''class'' ''card'', At ''style'' ''padding:0;overflow-x:auto;height:calc(100vh - 138px);overflow-y:auto'']
      [El ''table'' [At ''class'' ''data-table'', At ''style'' ''table-layout:fixed;width:100%'']
       [El ''thead'' []
        [El ''tr'' []
         [El ''th'' [] [Txt ''table''],
         El ''th'' [At ''style'' ''width:80px''] [Txt ''live''],
         El ''th'' [At ''style'' ''width:80px''] [Txt ''dead''],
         El ''th'' [At ''style'' ''width:70px''] [Txt ''dead %''],
         El ''th'' [At ''style'' ''width:100px''] [Txt ''last vacuum''],
         El ''th'' [At ''style'' ''width:100px''] [Txt ''last auto''],
         El ''th'' [At ''style'' ''width:70px''] [Txt ''v #''],
         El ''th'' [At ''style'' ''width:80px''] [Txt ''actions'']]],
       El ''tbody'' [] (concat (map (vacuum_row c) stats))]]])"

definition bloat_row :: "clock \<Rightarrow> bloat_stat \<Rightarrow> html list" where
  "bloat_row c s =
     (let cl = level_class [] (level_above 30 10 (bs_bloatPct s)) in [El ''tr'' []
      [El ''td'' [] [Txt (full_name (bs_schema s) (bs_table s))],
      El ''td'' [] [Txt (escHtml (bs_size s))],
      El ''td'' [] [Txt (fmt_count (bs_live s))],
      El ''td'' [At ''class'' cl] [Txt (fmt_count (bs_dead s))],
      El ''td'' [At ''class'' cl] [Txt ((number_text c (bs_bloatPct s)) @ ''%'')],
      El ''td'' []
       [El ''button'' [At ''onclick'' (''VacuumMonitor.triggerVacuum('' @ sq @ (escHtml (bs_schema s)) @ sq @ '','' @ sq @ (escHtml (bs_table s)) @ sq @ '',false)''), At ''class'' ''btn btn-sm'', At ''title'' ''VACUUM ANALYZE'', At ''style'' ''font-size:9px''] [Txt ''vacuum'']]]])"

definition bloat_table :: "clock \<Rightarrow> bloat_stat list \<Rightarrow> html list" where
  "bloat_table c stats =
     (if stats = [] then [El ''div'' [At ''class'' ''card'']
      [El ''span'' [At ''class'' ''dim mono-xs'']
       [Txt (''no bloated tables detected '' @ u_dash @ '' all clean!'')]]]
      else [El ''div'' [At ''class'' ''mono-xs dim mb-8'']
      [Txt ((str_of_nat (length stats)) @ '' tables with dead tuples'')],
     El ''div'' [At ''class'' ''card'', At ''style'' ''padding:0;overflow-x:auto;height:calc(100vh - 138px);overflow-y:auto'']
      [El ''table'' [At ''class'' ''data-table'', At ''style'' ''table-layout:fixed;width:100%'']
       [El ''thead'' []
        [El ''tr'' []
         [El ''th'' [] [Txt ''table''],
         El ''th'' [At ''style'' ''width:90px''] [Txt ''total size''],
         El ''th'' [At ''style'' ''width:80px''] [Txt ''live''],
         El ''th'' [At ''style'' ''width:80px''] [Txt ''dead''],
         El ''th'' [At ''style'' ''width:80px''] [Txt ''bloat %''],
         El ''th'' [At ''style'' ''width:80px''] [Txt ''actions'']]],
       El ''tbody'' [] (concat (map (bloat_row c) stats))]]])"

definition repack_running :: "repack_status \<Rightarrow> bool" where
  "repack_running st = (rs_status st = ''running'')"

definition repack_banner :: "repack_status \<Rightarrow> html list" where
  "repack_banner st =
     (if repack_running st then [El ''div'' [At ''class'' ''card mb-8'', At ''style'' ''border-left:3px solid var(--accent);padding:8px 12px'']
      [El ''div'' [At ''class'' ''flex-between'']
       [El ''div'' []
        [El ''span'' [At ''class'' ''mono-xs accent''] [Txt ''pg_repack running''],
        El ''span'' [At ''class'' ''mono-xs dim'', At ''style'' ''margin-left:8px'']
         [Txt ((escHtml (rs_table st)) @ '' '' @ u_dash @ '' '' @ (escHtml (rs_elapsed st)))]],
       El ''button'' [At ''onclick'' ''VacuumMonitor.cancelRepack()'', At ''class'' ''btn btn-sm btn-danger'', At ''style'' ''font-size:9px''] [Txt ''cancel'']]]] else [])"

definition repack_row :: "clock \<Rightarrow> bool \<Rightarrow> bloat_stat \<Rightarrow> html list" where
  "repack_row c running t =
     (let cl = level_class [] (level_above 30 10 (bs_bloatPct t));
          off = (if running then [Flag ''disabled'', At ''style'' ''opacity:0.3;font-size:9px;padding:2px 6px'']
                 else [At ''style'' ''font-size:9px;padding:2px 6px''])
      in [El ''tr'' []
      [El ''td'' [] [Txt (full_name (bs_schema t) (bs_table t))],
      El ''td'' [] [Txt (escHtml (bs_size t))],
      El ''td'' [] [Txt (fmt_count (bs_live t))],
      El ''td'' [At ''class'' cl] [Txt (fmt_count (bs_dead t))],
      El ''td'' [At ''class'' cl] [Txt ((number_text c (bs_bloatPct t)) @ ''%'')],
      El ''td'' [At ''class'' ''dim''] [Txt (ago_or_dash (now c) (bs_last t))],
      El ''td'' []
       [El ''button'' ([At ''onclick'' (''VacuumMonitor.triggerRepack('' @ sq @ (escHtml (bs_schema t)) @ sq @ '','' @ sq @ (escHtml (bs_table t)) @ sq @ '')''), At ''class'' ''btn btn-sm''] @ off) [Txt ''repack'']]]])"

definition repack_table :: "clock \<Rightarrow> bloat_stat list \<Rightarrow> repack_status \<Rightarrow> html list" where
  "repack_table c tables st =
     (if tables = [] then repack_banner st @ [El ''div'' [At ''class'' ''card'']
      [El ''span'' [At ''class'' ''dim mono-xs''] [Txt ''no user tables'']]]
      else ((repack_banner st) @ [El ''div'' [At ''class'' ''card mb-8'', At ''style'' ''padding:8px 12px;background:var(--bg-2);border:1px solid var(--border)'']
       [El ''span'' [At ''class'' ''mono-xs dim'']
        [Txt (u_warn @ '' pg_repack requires ~2x free disk space of the target table. Holds minimal locks but needs temporary space.'')]],
      El ''div'' [At ''class'' ''mono-xs dim mb-8''] [Txt ((str_of_nat (length tables)) @ '' tables'')],
      El ''div'' [At ''class'' ''card'', At ''style'' (''padding:0;overflow-x:auto;height:calc(100vh - '' @ (if repack_running st then ''220'' else ''180'') @ ''px);overflow-y:auto'')]
       [El ''table'' [At ''class'' ''data-table'', At ''style'' ''table-layout:fixed;width:100%'']
        [El ''thead'' []
         [El ''tr'' []
          [El ''th'' [] [Txt ''table''],
          El ''th'' [At ''style'' ''width:90px''] [Txt ''size''],
          El ''th'' [At ''style'' ''width:80px''] [Txt ''live''],
          El ''th'' [At ''style'' ''width:80px''] [Txt ''dead''],
          El ''th'' [At ''style'' ''width:70px''] [Txt ''bloat %''],
          El ''th'' [At ''style'' ''width:100px''] [Txt ''last vacuum''],
          El ''th'' [At ''style'' ''width:80px''] [Txt ''actions'']]],
        El ''tbody'' [] (concat (map (repack_row c (repack_running st)) tables))]]]))"

definition repack_error :: "html list" where
  "repack_error = [El ''div'' [At ''class'' ''card'']
      [El ''span'' [At ''class'' ''red mono-xs''] [Txt ''failed to load repack data'']]]"

section \<open>Loading\<close>

text \<open>\<^verbatim>\<open>load\<close> up to its first \<^verbatim>\<open>await\<close>: the repack tab needs its element then, the others later.\<close>

definition loadRepack :: "vacuum_state \<Rightarrow> vacuum_state" where
  "loadRepack st =
     (let (m, b) = st in
      if element ''vacuum-content'' b then (m\<lparr>vc_loading := vc_loading m @ [RepackTab]\<rparr>, b) else st)"

definition Vacuum_load :: "vacuum_state \<Rightarrow> vacuum_state" where
  "Vacuum_load st =
     (let (m, b) = st in
      if vc_tab m = RepackTab then loadRepack st
      else (m\<lparr>vc_loading := vc_loading m @ [vc_tab m]\<rparr>, b))"

definition vacuum_loaded :: "vacuum_server \<Rightarrow> clock \<Rightarrow> browser \<Rightarrow> unit outcome \<times> browser" where
  "vacuum_loaded sv c b =
     (case api (vv_stats sv) (get_rq (''/vacuum/stats'' @ db_getParam b)) b of
        (Resolved stats, b1) \<Rightarrow> (Resolved (), set_inner ''vacuum-content'' (vacuum_table c stats) b1)
      | (Rejected e, b1) \<Rightarrow> (Resolved (), b1)
      | (Pending, b1) \<Rightarrow> (Pending, b1))"

definition bloat_loaded :: "vacuum_server \<Rightarrow> clock \<Rightarrow> browser \<Rightarrow> unit outcome \<times> browser" where
  "bloat_loaded sv c b =
     (case api (vv_bloat sv) (get_rq (''/vacuum/bloat'' @ db_getParam b)) b of
        (Resolved stats, b1) \<Rightarrow> (Resolved (), set_inner ''vacuum-content'' (bloat_table c stats) b1)
      | (Rejected e, b1) \<Rightarrow> (Resolved (), b1)
      | (Pending, b1) \<Rightarrow> (Pending, b1))"

definition stop_repack :: "vacuum_state \<Rightarrow> vacuum_state" where
  "stop_repack st = ((fst st)\<lparr>vc_repack := None\<rparr>, clear_slot (vc_repack (fst st)) (snd st))"

definition watch_repack :: "vacuum_state \<Rightarrow> vacuum_state" where
  "watch_repack st =
     (let (m, b) = st in
      if vc_repack m \<noteq> None then st
      else (let (i, b1) = set_interval 5000 RepackRefresh b in (m\<lparr>vc_repack := Some i\<rparr>, b1)))"

definition repack_loaded :: "vacuum_server \<Rightarrow> clock \<Rightarrow> vacuum_state \<Rightarrow> unit outcome \<times> vacuum_state" where
  "repack_loaded sv c st =
     (let (m, b) = st in
      case both (api (vv_repack sv) (get_rq (''/repack/tables'' @ db_getParam b))) (api (vv_status sv) (get_rq ''/repack/status'')) b of
        (Resolved (tables, status), b1) \<Rightarrow>
          (let (m1, b2) = (if repack_running status then watch_repack (m, b1) else stop_repack (m, b1))
           in (Resolved (), m1, set_inner ''vacuum-content'' (repack_table c tables status) b2))
      | (Rejected e, b1) \<Rightarrow> (Resolved (), m, set_inner ''vacuum-content'' repack_error b1)
      | (Pending, b1) \<Rightarrow> (Pending, m, b1))"

definition drop_nth :: "nat \<Rightarrow> 'a list \<Rightarrow> 'a list" where
  "drop_nth i xs = take i xs @ drop (Suc i) xs"

definition load_done :: "vacuum_server \<Rightarrow> clock \<Rightarrow> nat \<Rightarrow> vacuum_state \<Rightarrow> unit outcome \<times> vacuum_state" where
  "load_done sv c i st =
     (let (m, b) = st in
      if length (vc_loading m) \<le> i then (Resolved (), st)
      else (let m1 = m\<lparr>vc_loading := drop_nth i (vc_loading m)\<rparr> in
        case vc_loading m ! i of
          VacuumTab \<Rightarrow> (let (r, b1) = vacuum_loaded sv c b in (r, m1, b1))
        | BloatTab \<Rightarrow> (let (r, b1) = bloat_loaded sv c b in (r, m1, b1))
        | RepackTab \<Rightarrow> repack_loaded sv c (m1, b)))"

definition switchTab :: "vac_tab \<Rightarrow> vacuum_state \<Rightarrow> vacuum_state" where
  "switchTab t st =
     (let shade = (\<lambda>x. if x = t then ''1'' else ''0.5'');
          b = set_style ''tab-repack'' ''opacity'' (shade RepackTab)
                (set_style ''tab-bloat'' ''opacity'' (shade BloatTab)
                  (set_style ''tab-vacuum'' ''opacity'' (shade VacuumTab) (snd st)))
      in Vacuum_load (stop_repack ((fst st)\<lparr>vc_tab := t\<rparr>, b)))"

section \<open>Jobs\<close>

definition Vacuum_renderJobStatus :: "vacuum_state \<Rightarrow> vacuum_state" where
  "Vacuum_renderJobStatus st =
     (let (m, b) = st in
      if \<not> element ''vacuum-job-status'' b then st
      else if vc_job m = [] then (m, set_inner ''vacuum-job-status'' [] b)
      else (m\<lparr>vc_asked := vc_asked m @ [vc_job m]\<rparr>, b))"

definition Vacuum_stop :: "vacuum_state \<Rightarrow> vacuum_state" where
  "Vacuum_stop st = ((fst st)\<lparr>vc_poller := None\<rparr>, clear_slot (vc_poller (fst st)) (snd st))"

definition vac_status_error :: "string \<Rightarrow> html list" where
  "vac_status_error e = [El ''div'' [At ''class'' ''card'']
      [El ''span'' [At ''class'' ''mono-xs red''] [Txt (escHtml e)]]]"

definition Vacuum_reply :: "vacuum_server \<Rightarrow> clock \<Rightarrow> nat \<Rightarrow> vacuum_state \<Rightarrow> vacuum_state" where
  "Vacuum_reply sv c i st =
     (let (m, b) = st in
      if length (vc_asked m) \<le> i then st
      else (let m1 = m\<lparr>vc_asked := drop_nth i (vc_asked m)\<rparr> in
        case JobUI_get (vv_job sv) (vc_asked m ! i) b of
          (Resolved (Some j), b1) \<Rightarrow>
            (let b2 = set_inner ''vacuum-job-status'' (renderJobSummary (now c) (Some j) False) b1
             in if job_status j \<noteq> ''running'' then Vacuum_stop (m1, b2) else (m1, b2))
        | (Resolved None, b1) \<Rightarrow> (m1, set_inner ''vacuum-job-status'' (vac_status_error ''Cannot read properties of null'') b1)
        | (Rejected e, b1) \<Rightarrow> (m1, set_inner ''vacuum-job-status'' (vac_status_error e) b1)
        | (Pending, b1) \<Rightarrow> (m1, b1)))"

definition Vacuum_trackJob :: "string \<Rightarrow> vacuum_state \<Rightarrow> vacuum_state" where
  "Vacuum_trackJob jobId st =
     (if jobId = [] then st
      else (let (m, b) = Vacuum_renderJobStatus ((fst st)\<lparr>vc_job := jobId\<rparr>, snd st);
                (i, b1) = set_interval 3000 VacuumPoll (clear_slot (vc_poller m) b)
            in (m\<lparr>vc_poller := Some i\<rparr>, b1)))"

definition repack_prompt :: "string \<Rightarrow> string" where
  "repack_prompt tableName =
     ''Run pg_repack on '' @ dq @ tableName @ dq @ ''?'' @ [CHR 0x0A, CHR 0x0A]
     @ ''This will compact the table online with minimal locks.'' @ [CHR 0x0A]
     @ ''Requires ~2x free disk space of the table.''"

definition repack_rq :: "string \<Rightarrow> string \<Rightarrow> string \<Rightarrow> request" where
  "repack_rq schema table db =
     post_rq ''/repack/run'' (Some (JObj [(''schema'', JStr schema), (''table'', JStr table), (''database'', JStr db)]))"

definition triggerRepack :: "vacuum_server \<Rightarrow> string \<Rightarrow> string \<Rightarrow> vacuum_state \<Rightarrow> vacuum_state" where
  "triggerRepack sv schema table st =
     (let tableName = full_name schema table in
      case showConfirm ''pg_repack'' (repack_prompt tableName) (default_options\<lparr>confirmText := ''run pg_repack''\<rparr>) (snd st) of
        (Resolved True, b) \<Rightarrow>
          (case apiProtected (vv_start sv) (repack_rq schema table (db_getSelected b)) b of
             (Resolved jobId, b1) \<Rightarrow>
               (let (m, b2) = Vacuum_trackJob jobId (fst st, b1)
                in (m, snd (set_timeout 1000 RepackLoadOnce (showToast (''pg_repack started on '' @ tableName) ''success'' b2))))
           | (Rejected e, b1) \<Rightarrow> (fst st, showToast (''repack failed: '' @ e) ''error'' b1)
           | (Pending, b1) \<Rightarrow> (fst st, b1))
      | (_, b) \<Rightarrow> (fst st, b))"

definition cancelRepack :: "vacuum_server \<Rightarrow> vacuum_state \<Rightarrow> vacuum_state" where
  "cancelRepack sv st =
     (case showConfirm ''cancel repack'' ''Cancel the running pg_repack operation?'' (danger_options ''cancel'') (snd st) of
        (Resolved True, b) \<Rightarrow>
          (case apiProtected (vv_cancel sv) (post_rq ''/repack/cancel'' None) b of
             (Resolved _, b1) \<Rightarrow>
               (let (m, b2) = Vacuum_renderJobStatus (stop_repack (fst st, showToast ''repack cancelled'' ''success'' b1))
                in (m, snd (set_timeout 500 RepackLoadOnce b2)))
           | (Rejected e, b1) \<Rightarrow> (fst st, showToast (''cancel failed: '' @ e) ''error'' b1)
           | (Pending, b1) \<Rightarrow> (fst st, b1))
      | (_, b) \<Rightarrow> (fst st, b))"

definition full_prompt :: "string \<Rightarrow> string" where
  "full_prompt tableName =
     u_warn @ '' VACUUM FULL on '' @ dq @ tableName @ dq @ '' will LOCK the table until complete.'' @ [CHR 0x0A, CHR 0x0A]
     @ ''This can take a long time for large tables. Use during low-traffic periods.''"

definition vacuum_rq :: "string \<Rightarrow> string \<Rightarrow> bool \<Rightarrow> string \<Rightarrow> request" where
  "vacuum_rq schema table full db =
     post_rq ''/vacuum/trigger''
       (Some (JObj [(''schema'', JStr schema), (''table'', JStr table), (''full'', JBool full), (''database'', JStr db)]))"

definition run_vacuum :: "vacuum_server \<Rightarrow> string \<Rightarrow> string \<Rightarrow> bool \<Rightarrow> vacuum_state \<Rightarrow> vacuum_state" where
  "run_vacuum sv schema table full st =
     (let cmd = (if full then ''VACUUM FULL ANALYZE'' else ''VACUUM ANALYZE'') in
      case apiProtected (vv_start sv) (vacuum_rq schema table full (db_getSelected (snd st))) (snd st) of
        (Resolved jobId, b1) \<Rightarrow>
          (let (m, b2) = Vacuum_trackJob jobId (fst st, b1)
           in (m, snd (set_timeout 3000 VacuumLoadOnce (showToast (cmd @ '' started on '' @ full_name schema table) ''success'' b2))))
      | (Rejected e, b1) \<Rightarrow> (fst st, showToast (''vacuum failed: '' @ e) ''error'' b1)
      | (Pending, b1) \<Rightarrow> (fst st, b1))"

definition triggerVacuum :: "vacuum_server \<Rightarrow> string \<Rightarrow> string \<Rightarrow> bool \<Rightarrow> vacuum_state \<Rightarrow> vacuum_state" where
  "triggerVacuum sv schema table full st =
     (if full
      then (case showConfirm ''vacuum full'' (full_prompt (full_name schema table)) (danger_options ''run vacuum full'') (snd st) of
              (Resolved True, b) \<Rightarrow> run_vacuum sv schema table full (fst st, b)
            | (_, b) \<Rightarrow> (fst st, b))
      else run_vacuum sv schema table full st)"

section \<open>The page\<close>

definition vacuum_frame :: "html list" where
  "vacuum_frame = [El ''div'' [At ''class'' ''flex-between mb-8'']
      [El ''div'' [At ''style'' ''display:flex;gap:8px;align-items:center'']
       [El ''span'' [At ''class'' ''card-title'', At ''style'' ''margin:0''] [Txt ''vacuum & bloat''],
       El ''div'' [At ''id'' ''vacuum-db-sel'', At ''class'' ''db-bar'', At ''style'' ''display:inline-flex;margin:0''] [],
       El ''div'' [At ''style'' ''display:flex;gap:2px'']
        [El ''button'' [At ''onclick'' (''VacuumMonitor.switchTab('' @ sq @ ''vacuum'' @ sq @ '')''), At ''class'' ''btn btn-sm'', At ''id'' ''tab-vacuum'', At ''style'' ''font-size:9px''] [Txt ''vacuum stats''],
        El ''button'' [At ''onclick'' (''VacuumMonitor.switchTab('' @ sq @ ''bloat'' @ sq @ '')''), At ''class'' ''btn btn-sm'', At ''id'' ''tab-bloat'', At ''style'' ''font-size:9px''] [Txt ''bloat analysis''],
        El ''button'' [At ''onclick'' (''VacuumMonitor.switchTab('' @ sq @ ''repack'' @ sq @ '')''), At ''class'' ''btn btn-sm'', At ''id'' ''tab-repack'', At ''style'' ''font-size:9px''] [Txt ''pg_repack'']]],
      El ''button'' [At ''onclick'' ''VacuumMonitor.load()'', At ''class'' ''btn btn-sm'']
       [El ''i'' [At ''data-lucide'' ''refresh-cw'', At ''class'' ''icon-sm''] [],
       Txt '' refresh'']],
     El ''div'' [At ''class'' ''mb-8'', At ''id'' ''vacuum-job-status''] [],
     El ''div'' [At ''id'' ''vacuum-content'']
      [El ''div'' [At ''class'' ''card'']
       [El ''span'' [At ''class'' ''dim mono-xs''] [Txt ''loading...'']]]]"

definition Vacuum_render ::
    "vacuum_server \<Rightarrow> clock \<Rightarrow> string list option \<Rightarrow> vacuum_state \<Rightarrow> string list option \<times> vacuum_state" where
  "Vacuum_render sv c cache st =
     (case db_renderInto (vv_dbs sv) ''vacuum-db-sel'' cache (set_inner ''page-content'' vacuum_frame (snd st)) of
        (Resolved _, cache1, b) \<Rightarrow>
          (case load_done sv c (length (vc_loading (fst st))) (Vacuum_load (fst st, b)) of
             (Resolved _, st1) \<Rightarrow> (cache1, Vacuum_renderJobStatus st1)
           | (_, st1) \<Rightarrow> (cache1, st1))
      | (_, cache1, b) \<Rightarrow> (cache1, (fst st, b)))"

text \<open>The events of the page: the buttons, the timers, and the replies to queued calls.\<close>

datatype vac_event =
    Refresh
  | SwitchTab vac_tab
  | RunVacuum string string bool
  | RunRepack string string
  | StopRepack
  | LoadReply nat
  | StatusReply nat
  | PollFires
  | RepackFires
  | OnceFires nat

fun vac_step :: "vacuum_server \<Rightarrow> clock \<Rightarrow> vac_event \<Rightarrow> vacuum_state \<Rightarrow> vacuum_state" where
  "vac_step sv c Refresh st = Vacuum_load st"
| "vac_step sv c (SwitchTab t) st = switchTab t st"
| "vac_step sv c (RunVacuum s t full) st = triggerVacuum sv s t full st"
| "vac_step sv c (RunRepack s t) st = triggerRepack sv s t st"
| "vac_step sv c StopRepack st = cancelRepack sv st"
| "vac_step sv c (LoadReply i) st = snd (load_done sv c i st)"
| "vac_step sv c (StatusReply i) st = Vacuum_reply sv c i st"
| "vac_step sv c PollFires st =
     (if \<exists>t \<in> set (timers (snd st)). action t = VacuumPoll then Vacuum_renderJobStatus st else st)"
| "vac_step sv c RepackFires st =
     (if \<exists>t \<in> set (timers (snd st)). action t = RepackRefresh then loadRepack st else st)"
| "vac_step sv c (OnceFires k) st =
     (case find (\<lambda>t. tid t = k) (timers (snd st)) of
        None \<Rightarrow> st
      | Some t \<Rightarrow>
          if action t = RepackLoadOnce then loadRepack (fst st, clear_timer k (snd st))
          else if action t = VacuumLoadOnce then Vacuum_load (fst st, clear_timer k (snd st))
          else st)"

definition vac_run :: "vacuum_server \<Rightarrow> clock \<Rightarrow> vac_event list \<Rightarrow> vacuum_state \<Rightarrow> vacuum_state" where
  "vac_run sv c es st = fold (vac_step sv c) es st"

section \<open>The two intervals\<close>

definition vac_ok :: "vacuum_state \<Rightarrow> bool" where
  "vac_ok st = (held VacuumPoll (vc_poller (fst st)) (snd st) \<and> held RepackRefresh (vc_repack (fst st)) (snd st))"

lemma vac_okI:
  "held VacuumPoll (vc_poller m) b \<Longrightarrow> held RepackRefresh (vc_repack m) b \<Longrightarrow> vac_ok (m, b)"
  by (simp add: vac_ok_def)

lemma vac_okD:
  "vac_ok (m, b) \<Longrightarrow> held VacuumPoll (vc_poller m) b" "vac_ok (m, b) \<Longrightarrow> held RepackRefresh (vc_repack m) b"
  by (simp_all add: vac_ok_def)

lemma vac_ok_web:
  assumes "vac_ok (m, b)" "\<And>a s. own_callback a \<Longrightarrow> held a s b \<Longrightarrow> held a s b'"
  shows "vac_ok (m, b')"
  using assms by (auto simp: vac_ok_def)

lemma vac_ok_fields:
  "vac_ok (m, b) \<Longrightarrow> vac_ok (m\<lparr>vc_loading := l\<rparr>, b)" "vac_ok (m, b) \<Longrightarrow> vac_ok (m\<lparr>vc_asked := q\<rparr>, b)"
  "vac_ok (m, b) \<Longrightarrow> vac_ok (m\<lparr>vc_job := j\<rparr>, b)" "vac_ok (m, b) \<Longrightarrow> vac_ok (m\<lparr>vc_tab := t\<rparr>, b)"
  by (simp_all add: vac_ok_def)

lemma vac_ok_load: "vac_ok st \<Longrightarrow> vac_ok (loadRepack st)" "vac_ok st \<Longrightarrow> vac_ok (Vacuum_load st)"
  by (cases st; auto simp: loadRepack_def Vacuum_load_def intro: vac_ok_fields)+

lemma vac_ok_stop_repack: "vac_ok st \<Longrightarrow> vac_ok (stop_repack st)"
  by (cases st) (auto simp: stop_repack_def vac_ok_def intro: held_clear held_clear_other)

lemma vac_ok_stop: "vac_ok st \<Longrightarrow> vac_ok (Vacuum_stop st)"
  by (cases st) (auto simp: Vacuum_stop_def vac_ok_def intro: held_clear held_clear_other)

lemma vac_ok_watch: "vac_ok st \<Longrightarrow> vac_ok (watch_repack st)"
proof (cases st)
  case (Pair m b)
  assume ok: "vac_ok st"
  obtain i b1 where t: "set_interval 5000 RepackRefresh b = (i, b1)" by fastforce
  show ?thesis
  proof (cases "vc_repack m")
    case None
    have "held RepackRefresh (Some i) b1"
      using held_start [of RepackRefresh b True 5000] ok Pair None t by (simp add: vac_ok_def)
    moreover have "held VacuumPoll (vc_poller m) b1"
      using held_other [of VacuumPoll _ b RepackRefresh True 5000] ok Pair t by (simp add: vac_ok_def)
    ultimately show ?thesis using Pair None t by (simp add: watch_repack_def vac_ok_def)
  qed (use ok Pair in \<open>simp add: watch_repack_def\<close>)
qed

lemma vac_ok_render_status: "vac_ok st \<Longrightarrow> vac_ok (Vacuum_renderJobStatus st)"
  by (cases st) (auto simp: Vacuum_renderJobStatus_def vac_ok_def intro: held_intros)

lemma vac_ok_track:
  assumes "vac_ok st" shows "vac_ok (Vacuum_trackJob j st)"
proof (cases "j = []")
  case False
  obtain m b where r: "Vacuum_renderJobStatus ((fst st)\<lparr>vc_job := j\<rparr>, snd st) = (m, b)" by fastforce
  have ok: "vac_ok (m, b)"
    using vac_ok_render_status [OF vac_ok_fields(3) [of "fst st" "snd st" j]] assms r by simp
  obtain i b1 where t: "set_interval 3000 VacuumPoll (clear_slot (vc_poller m) b) = (i, b1)" by fastforce
  have "held VacuumPoll (Some i) b1"
    by (rule held_restart [OF vac_okD(1) [OF ok] _ t]) simp
  moreover have "held RepackRefresh (vc_repack m) b1"
    using held_other [OF held_clear_other [OF vac_okD(2) [OF ok] vac_okD(1) [OF ok]], of VacuumPoll True 3000] t
    by simp
  ultimately show ?thesis using False r t by (simp add: Vacuum_trackJob_def vac_ok_def)
qed (use assms in \<open>simp add: Vacuum_trackJob_def\<close>)

lemma vac_ok_call:
  assumes "vac_ok (m, b)" "apiProtected net rq b = (r, b')"
  shows "vac_ok (m, b')"
  using assms by (auto elim!: vac_ok_web intro: held_apiProtected)

lemma vac_ok_confirm: "vac_ok (m, b) \<Longrightarrow> showConfirm t x opts b = (r, b') \<Longrightarrow> vac_ok (m, b')"
  by (auto elim!: vac_ok_web intro: held_showConfirm)

lemma vac_ok_toast: "vac_ok (m, b) \<Longrightarrow> vac_ok (m, showToast x k b)"
  by (auto elim!: vac_ok_web intro: held_intros)

lemma vac_ok_inner: "vac_ok (m, b) \<Longrightarrow> vac_ok (m, set_inner i hs b)"
  by (auto elim!: vac_ok_web intro: held_intros)

lemma vac_ok_once:
  "vac_ok (m, b) \<Longrightarrow> vac_ok (m, snd (set_timeout d RepackLoadOnce b))"
  "vac_ok (m, b) \<Longrightarrow> vac_ok (m, snd (set_timeout d VacuumLoadOnce b))"
  by (auto simp: vac_ok_def intro: held_other)

lemmas vac_ok_intros =
  vac_ok_load vac_ok_stop_repack vac_ok_stop vac_ok_watch vac_ok_render_status vac_ok_track vac_ok_toast
  vac_ok_inner vac_ok_once vac_ok_fields

lemma vac_ok_loaded: "vac_ok (m, b) \<Longrightarrow> vac_ok (m, snd (vacuum_loaded sv c b))" "vac_ok (m, b) \<Longrightarrow> vac_ok (m, snd (bloat_loaded sv c b))"
  by (auto simp: vacuum_loaded_def bloat_loaded_def api_def split: prod.splits outcome.splits
      dest: vac_ok_call intro!: vac_ok_inner)

lemma vac_ok_both:
  assumes "vac_ok (m, b)" "both (api n1 r1) (api n2 r2) b = (r, b')"
  shows "vac_ok (m, b')"
  using assms by (auto elim!: vac_ok_web intro: held_both held_api)

lemma vac_ok_repack_loaded: "vac_ok (m, b) \<Longrightarrow> vac_ok (snd (repack_loaded sv c (m, b)))"
proof -
  assume ok: "vac_ok (m, b)"
  let ?call = "both (api (vv_repack sv) (get_rq (''/repack/tables'' @ db_getParam b))) (api (vv_status sv) (get_rq ''/repack/status''))"
  obtain r b1 where call: "?call b = (r, b1)" by fastforce
  have ok1: "vac_ok (m, b1)" by (rule vac_ok_both [OF ok call])
  show ?thesis
  proof (cases r)
    case (Resolved p)
    obtain tables status where p: "p = (tables, status)" by fastforce
    obtain m2 b2 where w: "(if repack_running status then watch_repack (m, b1) else stop_repack (m, b1)) = (m2, b2)"
      by (metis surj_pair)
    have "vac_ok (if repack_running status then watch_repack (m, b1) else stop_repack (m, b1))"
      using ok1 by (simp add: vac_ok_watch vac_ok_stop_repack)
    then have "vac_ok (m2, b2)" unfolding w .
    then show ?thesis using call Resolved p w by (simp add: repack_loaded_def vac_ok_inner)
  qed (use ok1 call in \<open>simp_all add: repack_loaded_def vac_ok_inner\<close>)
qed

lemma vac_ok_load_done: "vac_ok st \<Longrightarrow> vac_ok (snd (load_done sv c i st))"
proof (cases st)
  case (Pair m b)
  assume ok: "vac_ok st"
  let ?m = "m\<lparr>vc_loading := drop_nth i (vc_loading m)\<rparr>"
  have ok1: "vac_ok (?m, b)" using ok Pair by (simp add: vac_ok_fields)
  show ?thesis
  proof (cases "length (vc_loading m) \<le> i")
    case False
    then show ?thesis
      using vac_ok_loaded [OF ok1, of sv c] vac_ok_repack_loaded [OF ok1, of sv c] Pair
      by (cases "vc_loading m ! i") (simp_all add: load_done_def Let_def case_prod_beta')
  qed (use ok Pair in \<open>simp add: load_done_def\<close>)
qed

lemma vac_ok_reply: "vac_ok st \<Longrightarrow> vac_ok (Vacuum_reply sv c i st)"
proof (cases st)
  case (Pair m b)
  assume ok: "vac_ok st"
  let ?m = "m\<lparr>vc_asked := drop_nth i (vc_asked m)\<rparr>"
  obtain r b1 where call: "JobUI_get (vv_job sv) (vc_asked m ! i) b = (r, b1)" by fastforce
  have "vac_ok (?m, b1)"
    using ok Pair call by (auto simp: JobUI_get_def intro: vac_ok_call vac_ok_fields)
  then show ?thesis
    using ok Pair call
    by (cases r) (auto simp: Vacuum_reply_def Let_def split: option.splits intro!: vac_ok_inner vac_ok_stop)
qed

lemma vac_ok_switch: "vac_ok st \<Longrightarrow> vac_ok (switchTab t st)"
  unfolding switchTab_def Let_def
  by (cases st) (auto intro!: vac_ok_load vac_ok_stop_repack vac_ok_fields elim!: vac_ok_web intro: held_setters)

lemma vac_ok_started:
  assumes "vac_ok (m, b)" "Vacuum_trackJob j (m, b) = (m', b')" "a = RepackLoadOnce \<or> a = VacuumLoadOnce"
  shows "vac_ok (m', snd (set_timeout d a (showToast x k b')))"
  using vac_ok_track [OF assms(1), of j] assms(2,3) by (auto intro: vac_ok_once vac_ok_toast)

lemma vac_ok_run_vacuum: "vac_ok (m, b) \<Longrightarrow> vac_ok (run_vacuum sv s t full (m, b))"
proof -
  assume ok: "vac_ok (m, b)"
  obtain r b1 where call: "apiProtected (vv_start sv) (vacuum_rq s t full (db_getSelected b)) b = (r, b1)" by fastforce
  have ok1: "vac_ok (m, b1)" by (rule vac_ok_call [OF ok call])
  show ?thesis
  proof (cases r)
    case (Resolved j)
    obtain m2 b2 where tr: "Vacuum_trackJob j (m, b1) = (m2, b2)" by fastforce
    show ?thesis
      using call Resolved tr by (simp add: run_vacuum_def vac_ok_started [OF ok1 tr])
  qed (use ok1 call in \<open>simp_all add: run_vacuum_def vac_ok_toast\<close>)
qed

lemma vac_ok_trigger_repack: "vac_ok (m, b) \<Longrightarrow> vac_ok (triggerRepack sv s t (m, b))"
proof -
  assume ok: "vac_ok (m, b)"
  obtain a b0 where conf: "showConfirm ''pg_repack'' (repack_prompt (full_name s t)) (default_options\<lparr>confirmText := ''run pg_repack''\<rparr>) b = (a, b0)"
    by fastforce
  have ok0: "vac_ok (m, b0)" by (rule vac_ok_confirm [OF ok conf])
  obtain r b1 where call: "apiProtected (vv_start sv) (repack_rq s t (db_getSelected b0)) b0 = (r, b1)" by fastforce
  have ok1: "vac_ok (m, b1)" by (rule vac_ok_call [OF ok0 call])
  show ?thesis
  proof (cases "a = Resolved True")
    case True
    show ?thesis
    proof (cases r)
      case (Resolved j)
      obtain m2 b2 where tr: "Vacuum_trackJob j (m, b1) = (m2, b2)" by fastforce
      show ?thesis
        using conf True call Resolved tr by (simp add: triggerRepack_def vac_ok_started [OF ok1 tr])
    qed (use True conf ok1 call in \<open>simp_all add: triggerRepack_def vac_ok_toast\<close>)
  qed (use conf ok0 in \<open>auto simp: triggerRepack_def split: outcome.splits bool.splits\<close>)
qed

lemma vac_ok_cancel: "vac_ok (m, b) \<Longrightarrow> vac_ok (cancelRepack sv (m, b))"
proof -
  assume ok: "vac_ok (m, b)"
  obtain a b0 where conf: "showConfirm ''cancel repack'' ''Cancel the running pg_repack operation?'' (danger_options ''cancel'') b = (a, b0)"
    by fastforce
  have ok0: "vac_ok (m, b0)" by (rule vac_ok_confirm [OF ok conf])
  obtain r b1 where call: "apiProtected (vv_cancel sv) (post_rq ''/repack/cancel'' None) b0 = (r, b1)" by fastforce
  have ok1: "vac_ok (m, b1)" by (rule vac_ok_call [OF ok0 call])
  show ?thesis
  proof (cases "a = Resolved True")
    case True
    show ?thesis
    proof (cases r)
      case (Resolved j)
      let ?st = "stop_repack (m, showToast ''repack cancelled'' ''success'' b1)"
      obtain m2 b2 where rs: "Vacuum_renderJobStatus ?st = (m2, b2)" by fastforce
      have "vac_ok (m2, b2)"
        using vac_ok_render_status [OF vac_ok_stop_repack [OF vac_ok_toast [OF ok1]]] rs by metis
      then show ?thesis
        using conf True call Resolved rs by (simp add: cancelRepack_def vac_ok_once)
    qed (use True conf ok1 call in \<open>simp_all add: cancelRepack_def vac_ok_toast\<close>)
  qed (use conf ok0 in \<open>auto simp: cancelRepack_def split: outcome.splits bool.splits\<close>)
qed

lemma vac_ok_trigger_vacuum: "vac_ok (m, b) \<Longrightarrow> vac_ok (triggerVacuum sv s t full (m, b))"
  by (auto simp: triggerVacuum_def vac_ok_run_vacuum split: prod.splits outcome.splits bool.splits
      dest: vac_ok_confirm intro: vac_ok_run_vacuum)

lemma vac_ok_step: "vac_ok st \<Longrightarrow> vac_ok (vac_step sv c e st)"
proof (cases st)
  case (Pair m b)
  assume ok: "vac_ok st"
  show ?thesis
  proof (cases e)
    case (OnceFires k)
    have "vac_ok (m, clear_timer (tid t) b)" if "t \<in> set (timers b)" "action t = RepackLoadOnce \<or> action t = VacuumLoadOnce" for t
      using ok Pair that by (auto simp: vac_ok_def intro: held_clear_fired)
    then show ?thesis
      using ok Pair OnceFires by (auto simp: find_Some_iff split: option.splits intro!: vac_ok_load)
  qed (use ok Pair in \<open>auto simp: vac_ok_load vac_ok_switch vac_ok_trigger_vacuum vac_ok_trigger_repack
      vac_ok_cancel vac_ok_load_done vac_ok_reply vac_ok_render_status\<close>)
qed

lemma vac_ok_run: "vac_ok st \<Longrightarrow> vac_ok (vac_run sv c es st)"
  unfolding vac_run_def by (induction es arbitrary: st) (auto simp: vac_ok_step)

section \<open>The job poller\<close>

lemma Vacuum_render_status_keeps:
  "Vacuum_renderJobStatus (m, b) = (m', b') \<Longrightarrow>
   vc_job m' = vc_job m \<and> vc_poller m' = vc_poller m \<and> (held a s b \<longrightarrow> held a s b')"
  by (auto simp: Vacuum_renderJobStatus_def split: if_splits intro: held_intros)

lemma Vacuum_trackJob_keeps:
  assumes "Vacuum_trackJob j (m, b) = (m', b')" "j \<noteq> []"
  shows "vc_job m' = j" "vc_poller m' \<noteq> None"
    and "held VacuumPoll (vc_poller m) b \<Longrightarrow> held VacuumPoll (vc_poller m') b'"
proof -
  obtain m1 b1 where r: "Vacuum_renderJobStatus (m\<lparr>vc_job := j\<rparr>, b) = (m1, b1)" by fastforce
  obtain i b2 where t: "set_interval 3000 VacuumPoll (clear_slot (vc_poller m1) b1) = (i, b2)" by fastforce
  have eq: "m' = m1\<lparr>vc_poller := Some i\<rparr>" "b' = b2"
    using assms r t by (simp_all add: Vacuum_trackJob_def)
  note keep = Vacuum_render_status_keeps [OF r]
  from eq keep show "vc_job m' = j" "vc_poller m' \<noteq> None" by simp_all
  show "held VacuumPoll (vc_poller m') b'" if "held VacuumPoll (vc_poller m) b"
    using that keep eq held_restart [OF _ _ t] by simp
qed

lemma Vacuum_reply_keeps:
  assumes "Vacuum_reply sv c i (m, b) = (m', b')"
  shows "vc_job m' = vc_job m \<and> (vc_poller m' = vc_poller m \<or> vc_poller m' = None)
    \<and> (held VacuumPoll (vc_poller m) b \<longrightarrow> held VacuumPoll (vc_poller m') b')"
proof (cases "length (vc_asked m) \<le> i")
  case False
  obtain r b1 where g: "JobUI_get (vv_job sv) (vc_asked m ! i) b = (r, b1)" by fastforce
  have "held VacuumPoll s b \<Longrightarrow> held VacuumPoll s b1" for s
    using g by (auto simp: JobUI_get_def intro: held_apiProtected)
  with False assms g show ?thesis
    by (cases r)
      (auto simp: Vacuum_reply_def Let_def Vacuum_stop_def split: option.splits if_splits intro!: held_intros held_clear)
qed (use assms in \<open>simp add: Vacuum_reply_def\<close>)

interpretation vcp: job_poller VacuumPoll vc_poller vc_job Vacuum_trackJob Vacuum_renderJobStatus "Vacuum_reply sv c"
  for sv c
proof unfold_locales
  show "Vacuum_trackJob j (m, b) = (m', b') \<Longrightarrow> vc_job m' = (if j = [] then vc_job m else j)" for j m b m' b'
    by (cases "j = []") (simp add: Vacuum_trackJob_def, simp add: Vacuum_trackJob_keeps(1))
  show "held VacuumPoll (vc_poller m) b \<Longrightarrow> Vacuum_trackJob j (m, b) = (m', b') \<Longrightarrow> held VacuumPoll (vc_poller m') b'" for j m b m' b'
    by (cases "j = []") (simp add: Vacuum_trackJob_def, rule Vacuum_trackJob_keeps(3))
  show "j \<noteq> [] \<Longrightarrow> Vacuum_trackJob j (m, b) = (m', b') \<Longrightarrow> vc_poller m' \<noteq> None" for j m b m' b'
    by (rule Vacuum_trackJob_keeps(2))
  show "Vacuum_trackJob [] (m, b) = (m, b)" for m b
    by (simp add: Vacuum_trackJob_def)
  show "held VacuumPoll (vc_poller m) b \<Longrightarrow> Vacuum_renderJobStatus (m, b) = (m', b') \<Longrightarrow> held VacuumPoll (vc_poller m') b'" for m b m' b'
    using Vacuum_render_status_keeps [of m b m' b' VacuumPoll "vc_poller m"] by simp
  show "Vacuum_renderJobStatus (m, b) = (m', b') \<Longrightarrow> vc_job m' = vc_job m \<and> vc_poller m' = vc_poller m" for m b m' b'
    using Vacuum_render_status_keeps [of m b m' b'] by simp
  show "held VacuumPoll (vc_poller m) b \<Longrightarrow> Vacuum_reply sv c i (m, b) = (m', b') \<Longrightarrow> held VacuumPoll (vc_poller m') b'" for i m b m' b'
    using Vacuum_reply_keeps [of sv c i m b m' b'] by simp
  show "Vacuum_reply sv c i (m, b) = (m', b') \<Longrightarrow> vc_job m' = vc_job m \<and> (vc_poller m' = vc_poller m \<or> vc_poller m' = None)" for i m b m' b'
    using Vacuum_reply_keeps [of sv c i m b m' b'] by simp
qed

section \<open>Guards and markup\<close>

lemma full_unconfirmed:
  assumes "confirm_inputs b = [] \<or> (\<exists>as. confirm_inputs b = False # as)"
  shows "fst (triggerVacuum sv s t True (m, b)) = m \<and> sent (snd (triggerVacuum sv s t True (m, b))) = sent b"
  using assms by (auto simp: triggerVacuum_def showConfirm_def Let_def)

text \<open>Table names are written into the rows unescaped; without a tag opener in them the rows are safe.\<close>

definition tame :: "clock \<Rightarrow> bool" where
  "tame c = (\<forall>x. CHR ''<'' \<notin> set (number_text c x) \<and> CHR 0x22 \<notin> set (number_text c x))"

lemma full_name_safe: "x \<notin> set s \<Longrightarrow> x \<notin> set t \<Longrightarrow> x \<noteq> CHR ''.'' \<Longrightarrow> x \<notin> set (full_name s t)"
  by (simp add: full_name_def)

lemma ago_or_dash_safe [simp]: "CHR ''<'' \<notin> set (ago_or_dash t d)" "CHR 0x22 \<notin> set (ago_or_dash t d)"
  by (simp_all add: ago_or_dash_def split: option.splits)

lemma vacuum_row_safe:
  "tame c \<Longrightarrow> CHR ''<'' \<notin> set (vs_schema s) \<Longrightarrow> CHR ''<'' \<notin> set (vs_table s) \<Longrightarrow> safe_list (vacuum_row c s)"
  by (simp add: vacuum_row_def Let_def markup_safe name_ok_eval full_name_safe tame_def)

lemma bloat_row_safe:
  "tame c \<Longrightarrow> CHR ''<'' \<notin> set (bs_schema s) \<Longrightarrow> CHR ''<'' \<notin> set (bs_table s) \<Longrightarrow> safe_list (bloat_row c s)"
  by (simp add: bloat_row_def Let_def markup_safe name_ok_eval full_name_safe tame_def)

lemma repack_row_safe:
  "tame c \<Longrightarrow> CHR ''<'' \<notin> set (bs_schema s) \<Longrightarrow> CHR ''<'' \<notin> set (bs_table s) \<Longrightarrow> safe_list (repack_row c run s)"
  by (simp add: repack_row_def Let_def markup_safe name_ok_eval full_name_safe tame_def)

section \<open>Properties\<close>

text \<open>
  C12: whatever the user presses and in whatever order replies and timers come, the vacuum page has at
  most one status interval and at most one repack refresh, and each is alive exactly when the page's
  field for it is set.
\<close>

theorem vacuum_intervals:
  assumes "timers b = []" "idle_timer b = None"
    and "vac_run sv c es (new_vacuum_page, b) = (m', b')"
  shows "length (filter (\<lambda>t. action t = VacuumPoll) (timers b')) = (if vc_poller m' = None then 0 else 1)
    \<and> length (filter (\<lambda>t. action t = RepackRefresh) (timers b')) = (if vc_repack m' = None then 0 else 1)"
proof -
  have "vac_ok (new_vacuum_page, b)"
    using assms(1,2) by (simp add: vac_ok_def held_def web_ok_def timers_ok_def slot_inv_None new_vacuum_page_def)
  from vac_ok_run [OF this, of sv c es] have ok: "vac_ok (m', b')" using assms(3) by simp
  have count: "length (filter (\<lambda>t. action t = a) (timers b')) = (if s = None then 0 else 1)" if "held a s b'" for a s
  proof -
    have "length (map tid (filter (\<lambda>t. action t = a) (timers b'))) = (if s = None then 0 else 1)"
      using that by (auto simp: held_def slot_inv_def split: option.splits)
    then show ?thesis by simp
  qed
  show ?thesis using vac_okD [OF ok] count by blast
qed

definition vacuum_sample_server :: vacuum_server where
  "vacuum_sample_server = \<lparr>vv_stats = (\<lambda>h q. Ok (Some [])), vv_bloat = (\<lambda>h q. Ok (Some [])), vv_repack = (\<lambda>h q. Ok (Some [])),
     vv_status = (\<lambda>h q. Ok (Some \<lparr>rs_status = ''running'', rs_table = ''t'', rs_elapsed = ''1s''\<rparr>)),
     vv_start = (\<lambda>h q. Ok (Some ''7'')), vv_cancel = (\<lambda>h q. Ok (Some ())), vv_job = (\<lambda>h q. NetworkError ''down''),
     vv_dbs = (\<lambda>h q. Ok (Some None))\<rparr>"

definition vacuum_clock :: clock where
  "vacuum_clock = \<lparr>now = 0, locale_text = (\<lambda>_. []), time_text = (\<lambda>_. []), local_iso = [], number_text = (\<lambda>_. ''0'')\<rparr>"

definition vacuum_dom :: browser where
  "vacuum_dom = sample_browser\<lparr>dom := [''vacuum-content'' \<mapsto> mk_node ''div'' [] []]\<rparr>"

theorem vacuum_intervals_witness:
  "\<exists>m' b'. vac_run vacuum_sample_server vacuum_clock [SwitchTab RepackTab, LoadReply 0, RunVacuum ''public'' ''t'' False, SwitchTab VacuumTab] (new_vacuum_page, vacuum_dom) = (m', b')
    \<and> length (filter (\<lambda>t. action t = VacuumPoll) (timers b')) = (if vc_poller m' = None then 0 else 1)
    \<and> length (filter (\<lambda>t. action t = RepackRefresh) (timers b')) = (if vc_repack m' = None then 0 else 1)"
proof -
  obtain m' b' where run: "vac_run vacuum_sample_server vacuum_clock [SwitchTab RepackTab, LoadReply 0, RunVacuum ''public'' ''t'' False, SwitchTab VacuumTab] (new_vacuum_page, vacuum_dom) = (m', b')"
    by (metis surj_pair)
  have "timers vacuum_dom = []" "idle_timer vacuum_dom = None" by (simp_all add: vacuum_dom_def sample_browser_def)
  from vacuum_intervals [OF this run] run show ?thesis by blast
qed

lemma vacuum_row_shape:
  assumes "tame c" "CHR 0x22 \<notin> set (number_text c (vs_deadPct s))"
  shows "\<exists>rest. vacuum_row c s = [El ''tr'' [] (El ''td'' [] [Txt (full_name (vs_schema s) (vs_table s))] # rest)] \<and> safe_list rest"
  using assms by (simp add: vacuum_row_def Let_def markup_safe name_ok_eval tame_def)

text \<open>
  the table name is written into the row unescaped: when a table of the public schema is named with
  the text of any markup, the browser reads that markup as elements of the row.
\<close>

theorem vacuum_row_injects:
  assumes "tame c" "safe_list payload" "vs_schema s = ''public''" "vs_table s = ser_list payload"
  shows "\<exists>before after. lex_html (ser_list (vacuum_row c s)) = (Data, before @ toks_list payload @ after)"
proof -
  obtain rest where "vacuum_row c s = [El ''tr'' [] (El ''td'' [] [Txt (full_name (vs_schema s) (vs_table s))] # rest)]" and safe: "safe_list rest"
    using vacuum_row_shape [OF assms(1), of s] assms(1) by (auto simp: tame_def)
  then have row: "vacuum_row c s = [El ''tr'' [] (El ''td'' [] [Txt (ser_list payload)] # rest)]" "safe_list rest"
    by (simp_all add: full_name_def assms(3,4))
  let ?row = "[El ''tr'' [] (El ''td'' [] payload # rest)]"
  have "ser_list (vacuum_row c s) = ser_list ?row"
    unfolding row(1) by (simp add: ser_list_def void_tags_def)
  moreover have "safe_list ?row" using row(2) assms(2) by (simp add: name_ok_eval markup_safe void_tags_def)
  ultimately have lex: "lex_html (ser_list (vacuum_row c s)) = (Data, toks_list ?row)" by (simp add: lex_ser_list)
  have "toks_list ?row = [Open ''tr'' [], Open ''td'' []] @ toks_list payload @ (Close ''td'' # toks_list rest @ [Close ''tr''])"
    by (simp add: toks_list_def void_tags_def)
  with lex show ?thesis by metis
qed

definition evil_stat :: vacuum_stat where
  "evil_stat = \<lparr>vs_schema = ''public'', vs_table = ser_list [El ''img'' [At ''src'' ''x'', At ''onerror'' ''alert(1)''] []],
     vs_live = 0, vs_dead = 0, vs_deadPct = 0, vs_last = None, vs_lastAuto = None, vs_count = 0\<rparr>"

theorem vacuum_row_injects_witness:
  "\<exists>before after. lex_html (ser_list (vacuum_row vacuum_clock evil_stat)) =
    (Data, before @ toks_list [El ''img'' [At ''src'' ''x'', At ''onerror'' ''alert(1)''] []] @ after)"
  by (rule vacuum_row_injects) (simp_all add: evil_stat_def vacuum_clock_def tame_def name_ok_eval markup_safe void_tags_def)

lemma run_vacuum_sent:
  assumes "get_item session_key b \<noteq> []" "\<And>h q. vv_start sv h q = Ok (Some j)"
  shows "sent (snd (run_vacuum sv s t full (m, b))) =
    sent b @ [(vacuum_rq s t full (db_getSelected b))\<lparr>rq_session := get_item session_key b\<rparr>]"
proof -
  let ?rq = "vacuum_rq s t full (db_getSelected b)"
  let ?c = "b\<lparr>sent := sent b @ [?rq\<lparr>rq_session := get_item session_key b\<rparr>]\<rparr>"
  have call: "apiProtected (vv_start sv) ?rq b = (Resolved j, ?c)"
    using apiProtected_authorized(1) [of b "vv_start sv" ?rq "Ok (Some j)" j] assms by simp
  obtain m1 b1 where t: "Vacuum_trackJob j (m, ?c) = (m1, b1)" by fastforce
  obtain m0 b0 where r: "Vacuum_renderJobStatus (m\<lparr>vc_job := j\<rparr>, ?c) = (m0, b0)" by fastforce
  then have "sent b0 = sent ?c" by (auto simp: Vacuum_renderJobStatus_def split: if_splits)
  then have "sent b1 = sent ?c" using t r by (auto simp: Vacuum_trackJob_def Let_def set_timer_def split: if_splits)
  with call t show ?thesis by (simp add: run_vacuum_def)
qed

text \<open>
  a \<^verbatim>\<open>VACUUM FULL\<close> is requested exactly when the user confirms the danger dialog, for the table and
  database shown; a plain vacuum is requested at once.
\<close>

theorem vacuum_full_guarded:
  assumes "get_item session_key b \<noteq> []" "\<And>h q. vv_start sv h q = Ok (Some j)"
  shows "sent (snd (triggerVacuum sv s t full (m, b))) = sent b @
    (if full \<and> \<not> (\<exists>as. confirm_inputs b = True # as) then []
     else [(vacuum_rq s t full (db_getSelected b))\<lparr>rq_session := get_item session_key b\<rparr>])"
proof (cases "full \<and> (\<exists>as. confirm_inputs b = True # as)")
  case True
  then obtain as where as: "confirm_inputs b = True # as" "full" by blast
  obtain b0 where conf: "showConfirm ''vacuum full'' (full_prompt (full_name s t)) (danger_options ''run vacuum full'') b = (Resolved True, b0)"
    by (simp add: showConfirm_def as Let_def)
  have keep: "sent b0 = sent b" "get_item k b0 = get_item k b" for k
    using showConfirm_frame [OF conf, of k] by simp_all
  then show ?thesis
    using True conf as run_vacuum_sent [of b0 sv j s t full m] assms by (simp add: triggerVacuum_def db_getSelected_def)
next
  case False
  show ?thesis
  proof (cases full)
    case True
    with False have "confirm_inputs b = [] \<or> (\<exists>as. confirm_inputs b = False # as)"
      by (cases "confirm_inputs b") auto
    from full_unconfirmed [OF this] True False show ?thesis by simp
  qed (use run_vacuum_sent [OF assms] in \<open>simp add: triggerVacuum_def\<close>)
qed

theorem vacuum_full_guarded_witness:
  "sent (snd (triggerVacuum vacuum_sample_server ''public'' ''t'' True (new_vacuum_page, vacuum_dom))) = sent vacuum_dom @
    (if True \<and> \<not> (\<exists>as. confirm_inputs vacuum_dom = True # as) then []
     else [(vacuum_rq ''public'' ''t'' True (db_getSelected vacuum_dom))\<lparr>rq_session := get_item session_key vacuum_dom\<rparr>])"
  by (rule vacuum_full_guarded) (simp_all add: vacuum_sample_server_def vacuum_dom_def sample_browser_def get_item_def)

lemma api_ok: "get_item session_key b = sid \<Longrightarrow> sid \<noteq> [] \<Longrightarrow> (\<And>h q. net h q = Ok (Some d)) \<Longrightarrow>
  api net rq b = (Resolved d, b\<lparr>sent := sent b @ [rq\<lparr>rq_session := sid\<rparr>]\<rparr>)"
  using apiProtected_authorized(1) [of b net rq "Ok (Some d)" d] by (simp add: api_def)

text \<open>
  when the user goes to the bloat tab and back before its data is there, and its reply comes last,
  the page shows the bloat table under the vacuum tab.
\<close>

theorem late_tab_overwrites:
  assumes "get_item session_key b \<noteq> []" "element ''vacuum-content'' b" "vc_loading m = []"
    and "\<And>h q. vv_stats sv h q = Ok (Some stats)" "\<And>h q. vv_bloat sv h q = Ok (Some bloat)"
    and "vac_run sv c [SwitchTab BloatTab, SwitchTab VacuumTab, LoadReply 1, LoadReply 0] (m, b) = (m', b')"
    and "''vacuum-content'' \<notin> fst ` set (nodes_of_list (vacuum_table c stats))"
    and "''vacuum-content'' \<notin> fst ` set (nodes_of_list (bloat_table c bloat))"
  shows "vc_tab m' = VacuumTab \<and> inner ''vacuum-content'' b' = bloat_table c bloat"
proof -
  obtain m2 b2 where two: "switchTab VacuumTab (switchTab BloatTab (m, b)) = (m2, b2)" by fastforce
  have el_style: "element i (set_style j p v x) = element i x" for i j p v x
    by (simp add: element_def set_style_def upd_node_def)
  have el_slot: "element i (clear_slot s x) = element i x" for i s x by (simp add: element_def)
  have ss: "get_item k (set_style j p v x) = get_item k x" for k j p v x by (simp add: node_setters)
  from two assms(3) have m2: "vc_tab m2 = VacuumTab" "vc_loading m2 = [BloatTab, VacuumTab]"
    and b2: "element ''vacuum-content'' b2" "get_item session_key b2 = get_item session_key b"
    using assms(2) by (auto simp: switchTab_def Vacuum_load_def stop_repack_def Let_def el_style el_slot ss)
  let ?q1 = "get_rq (''/vacuum/stats'' @ db_getParam b2)"
  let ?b3 = "set_inner ''vacuum-content'' (vacuum_table c stats) (b2\<lparr>sent := sent b2 @ [?q1\<lparr>rq_session := get_item session_key b\<rparr>]\<rparr>)"
  have v: "vacuum_loaded sv c b2 = (Resolved (), ?b3)"
    unfolding vacuum_loaded_def using api_ok [OF b2(2) assms(1,4)] by simp
  have el3: "element ''vacuum-content'' ?b3"
    using b2(1) assms(7) by (intro set_inner_content [THEN conjunct1]) (simp_all add: element_def)
  have s3: "get_item session_key ?b3 = get_item session_key b" using b2(2) by (simp add: get_item_def)
  let ?q2 = "get_rq (''/vacuum/bloat'' @ db_getParam ?b3)"
  let ?b4 = "set_inner ''vacuum-content'' (bloat_table c bloat) (?b3\<lparr>sent := sent ?b3 @ [?q2\<lparr>rq_session := get_item session_key b\<rparr>]\<rparr>)"
  have w: "bloat_loaded sv c ?b3 = (Resolved (), ?b4)"
    unfolding bloat_loaded_def using api_ok [OF s3 assms(1,5)] by simp
  have "m' = m2\<lparr>vc_loading := []\<rparr>" "b' = ?b4"
    using assms(6) two m2 v w by (simp_all add: vac_run_def load_done_def Let_def drop_nth_def)
  moreover have "inner ''vacuum-content'' ?b4 = bloat_table c bloat"
    using el3 assms(8) by (intro set_inner_content [THEN conjunct2]) (simp_all add: element_def)
  ultimately show ?thesis using m2(1) by simp
qed

theorem late_tab_overwrites_witness:
  "\<exists>m' b'. vac_run vacuum_sample_server vacuum_clock [SwitchTab BloatTab, SwitchTab VacuumTab, LoadReply 1, LoadReply 0] (new_vacuum_page, vacuum_dom) = (m', b')
    \<and> vc_tab m' = VacuumTab \<and> inner ''vacuum-content'' b' = bloat_table vacuum_clock []"
proof -
  obtain m' b' where run: "vac_run vacuum_sample_server vacuum_clock [SwitchTab BloatTab, SwitchTab VacuumTab, LoadReply 1, LoadReply 0] (new_vacuum_page, vacuum_dom) = (m', b')"
    by (metis surj_pair)
  have "vc_tab m' = VacuumTab \<and> inner ''vacuum-content'' b' = bloat_table vacuum_clock []"
    by (rule late_tab_overwrites [where stats = "[]" and bloat = "[]", OF _ _ _ _ _ run])
      (simp_all add: vacuum_sample_server_def vacuum_dom_def sample_browser_def get_item_def element_def new_vacuum_page_def
        vacuum_table_def bloat_table_def nodes_of_list_def)
  with run show ?thesis by blast
qed

end
