(* ===== verification/Database.thy ===== *)
theory Database
  imports Polling
begin

text \<open>
  Database export and import, database.js. Both talk to the server with \<^verbatim>\<open>fetch\<close> directly and
  restart themselves from the callback of the login dialog after a 401. The page follows two jobs
  with one interval, whose callback awaits the status of both; a callback in flight is an
  entry of \<^verbatim>\<open>io_ticks\<close>. The multipart body of an upload is written as an object of its fields.
\<close>

section \<open>State and server\<close>

record dbio_page =
  io_export :: string
  io_import :: string
  io_poller :: "nat option"
  io_asked :: "string list list"
  io_ticks :: nat

definition new_dbio_page :: dbio_page where
  "new_dbio_page = \<lparr>io_export = [], io_import = [], io_poller = None, io_asked = [], io_ticks = 0\<rparr>"

record dbio_server =
  io_list :: "string list net"
  io_start_export :: "string net"
  io_start_import :: "(string \<times> string) net"
  io_job :: "job option net"

record upload_file =
  f_name :: string
  f_size :: rat

type_synonym dbio_state = "dbio_page \<times> browser"

definition active_ids :: "dbio_page \<Rightarrow> string list" where
  "active_ids m = filter (\<lambda>i. i \<noteq> []) [io_export m, io_import m]"

section \<open>Job status\<close>

definition io_status_error :: "string \<Rightarrow> html list" where
  "io_status_error e = [El ''div'' [At ''class'' ''card'']
      [El ''span'' [At ''class'' ''mono-xs red''] [Txt (escHtml e)]]]"

fun status_parts :: "dbio_server \<Rightarrow> clock \<Rightarrow> string list \<Rightarrow> browser \<Rightarrow> html list outcome \<times> browser" where
  "status_parts sv c [] b = (Resolved [], b)"
| "status_parts sv c (i # is) b =
     (case JobUI_get (io_job sv) i b of
        (Pending, b1) \<Rightarrow> (Pending, b1)
      | (r, b1) \<Rightarrow>
          (let part = (case r of
                Resolved (Some j) \<Rightarrow> renderJobSummary (now c) (Some j) (job_type j = ''export'')
              | Resolved None \<Rightarrow> io_status_error ''Cannot read properties of null''
              | Rejected e \<Rightarrow> io_status_error e
              | Pending \<Rightarrow> [])
           in case status_parts sv c is b1 of
                (Resolved hs, b2) \<Rightarrow> (Resolved (part @ hs), b2)
              | (x, b2) \<Rightarrow> (x, b2)))"

text \<open>\<^verbatim>\<open>renderJobStatus\<close> up to its first \<^verbatim>\<open>await\<close>, and the rest for the ids it read.\<close>

definition Dbio_renderJobStatus :: "dbio_state \<Rightarrow> dbio_state" where
  "Dbio_renderJobStatus st =
     (let (m, b) = st in
      if \<not> element ''dbio-job-status'' b then st
      else if active_ids m = [] then (m, set_inner ''dbio-job-status'' [] b)
      else (m\<lparr>io_asked := io_asked m @ [active_ids m]\<rparr>, b))"

definition show_status :: "dbio_server \<Rightarrow> clock \<Rightarrow> string list \<Rightarrow> browser \<Rightarrow> unit outcome \<times> browser" where
  "show_status sv c ids b =
     (case status_parts sv c ids b of
        (Resolved hs, b1) \<Rightarrow> (Resolved (), set_inner ''dbio-job-status'' hs b1)
      | (Rejected e, b1) \<Rightarrow> (Rejected e, b1)
      | (Pending, b1) \<Rightarrow> (Pending, b1))"

definition Dbio_reply :: "dbio_server \<Rightarrow> clock \<Rightarrow> nat \<Rightarrow> dbio_state \<Rightarrow> dbio_state" where
  "Dbio_reply sv c i st =
     (let (m, b) = st in
      if length (io_asked m) \<le> i then st
      else (m\<lparr>io_asked := take i (io_asked m) @ drop (Suc i) (io_asked m)\<rparr>, snd (show_status sv c (io_asked m ! i) b)))"

definition trackJobs :: "dbio_state \<Rightarrow> dbio_state" where
  "trackJobs st =
     (let (m, b) = Dbio_renderJobStatus st;
          (i, b1) = set_interval 3000 DbioPoll (clear_slot (io_poller m) b)
      in (m\<lparr>io_poller := Some i\<rparr>, b1))"

definition Dbio_stop :: "dbio_state \<Rightarrow> dbio_state" where
  "Dbio_stop st = ((fst st)\<lparr>io_poller := None\<rparr>, clear_slot (io_poller (fst st)) (snd st))"

text \<open>\<^verbatim>\<open>Promise.all(activeIds.map(id => JobUI.get(id).catch(() => null)))\<close>: a failed call counts as no job.\<close>

fun job_states :: "dbio_server \<Rightarrow> string list \<Rightarrow> browser \<Rightarrow> job option list outcome \<times> browser" where
  "job_states sv [] b = (Resolved [], b)"
| "job_states sv (i # is) b =
     (case JobUI_get (io_job sv) i b of
        (Pending, b1) \<Rightarrow> (Pending, snd (job_states sv is b1))
      | (r, b1) \<Rightarrow>
          (let j = (case r of Resolved x \<Rightarrow> x | _ \<Rightarrow> None)
           in case job_states sv is b1 of
                (Resolved js, b2) \<Rightarrow> (Resolved (j # js), b2)
              | (x, b2) \<Rightarrow> (x, b2)))"

definition over :: "job option \<Rightarrow> bool" where
  "over j = (case j of None \<Rightarrow> True | Some x \<Rightarrow> job_status x \<noteq> ''running'')"

definition tick_fires :: "dbio_state \<Rightarrow> dbio_state" where
  "tick_fires st =
     (if \<exists>t \<in> set (timers (snd st)). action t = DbioPoll
      then ((fst st)\<lparr>io_ticks := Suc (io_ticks (fst st))\<rparr>, snd st) else st)"

definition tick_done :: "dbio_server \<Rightarrow> clock \<Rightarrow> dbio_state \<Rightarrow> dbio_state" where
  "tick_done sv c st =
     (let (m, b) = st in
      if io_ticks m = 0 then st
      else (let m1 = m\<lparr>io_ticks := io_ticks m - 1\<rparr>;
                (r, b1) = (if \<not> element ''dbio-job-status'' b then (Resolved (), b)
                           else if active_ids m = [] then (Resolved (), set_inner ''dbio-job-status'' [] b)
                           else show_status sv c (active_ids m) b)
            in case r of
                 Resolved _ \<Rightarrow>
                   if active_ids m = [] then Dbio_stop (m1, b1)
                   else (case job_states sv (active_ids m) b1 of
                      (Resolved js, b2) \<Rightarrow> if list_all over js then Dbio_stop (m1, b2) else (m1, b2)
                    | (_, b2) \<Rightarrow> (m1, b2))
               | _ \<Rightarrow> (m1, b1)))"

section \<open>The frame\<close>

definition dbio_frame :: "html list" where
  "dbio_frame = [El ''div'' [At ''class'' ''flex-between mb-8'']
      [El ''span'' [At ''class'' ''card-title'', At ''style'' ''margin:0''] [Txt ''database export / import'']],
     El ''div'' [At ''class'' ''mb-8'', At ''id'' ''dbio-job-status''] [],
     El ''div'' [At ''class'' ''card mb-8'']
      [El ''div'' [At ''class'' ''card-title'', At ''style'' ''margin-bottom:8px'']
       [El ''i'' [At ''data-lucide'' ''download'', At ''class'' ''icon-sm''] [],
       Txt '' export (pg_dump)''],
      El ''div'' [At ''style'' ''display:flex;gap:12px;align-items:flex-end;flex-wrap:wrap'']
       [El ''div'' []
        [El ''label'' [At ''class'' ''mono-xs dim'', At ''style'' ''display:block;margin-bottom:4px''] [Txt ''database''],
        El ''select'' [At ''id'' ''export-db'', At ''style'' ''background:var(--bg-0);border:1px solid var(--border);color:var(--text-1); padding:4px 8px;font-size:11px;font-family:var(--font);min-width:150px'']
         [El ''option'' [] [Txt ''loading...'']]],
       El ''div'' []
        [El ''label'' [At ''class'' ''mono-xs dim'', At ''style'' ''display:block;margin-bottom:4px''] [Txt ''format''],
        El ''select'' [At ''id'' ''export-format'', At ''style'' ''background:var(--bg-0);border:1px solid var(--border);color:var(--text-1); padding:4px 8px;font-size:11px;font-family:var(--font)'']
         [El ''option'' [At ''value'' ''custom''] [Txt (''custom (.dump) '' @ u_dash @ '' recommended'')],
         El ''option'' [At ''value'' ''sql''] [Txt ''plain SQL (.sql)'']]],
       El ''button'' [At ''onclick'' ''DatabaseIO.exportDB()'', At ''class'' ''btn btn-primary'']
        [El ''i'' [At ''data-lucide'' ''download'', At ''class'' ''icon-sm''] [],
        Txt '' download dump'']],
      El ''div'' [At ''style'' ''margin-top:8px;display:flex;align-items:center;gap:6px'']
       [El ''label'' [At ''class'' ''mono-xs'', At ''style'' ''display:flex;align-items:center;gap:4px;cursor:pointer'']
        [El ''input'' [At ''type'' ''checkbox'', At ''id'' ''export-data-only''] [],
        El ''span'' [] [Txt ''data only'']],
       El ''span'' [At ''class'' ''mono-xs dim'']
        [Txt (u_dash @ '' skip schema (CREATE TABLE, etc.), export only INSERT/COPY data. use when your app manages schema via migrations.'')]],
      El ''div'' [At ''class'' ''mono-xs dim'', At ''style'' ''margin-top:6px;line-height:1.5'']
       [Txt ''custom format is compressed and supports parallel restore. plain SQL is human-readable but larger.'']],
     El ''div'' [At ''class'' ''card'']
      [El ''div'' [At ''class'' ''card-title'', At ''style'' ''margin-bottom:8px'']
       [El ''i'' [At ''data-lucide'' ''upload'', At ''class'' ''icon-sm''] [],
       Txt '' import (pg_restore / psql)''],
      El ''div'' [At ''style'' ''display:flex;gap:12px;align-items:flex-end;flex-wrap:wrap;margin-bottom:12px'']
       [El ''div'' []
        [El ''label'' [At ''class'' ''mono-xs dim'', At ''style'' ''display:block;margin-bottom:4px''] [Txt ''target database''],
        El ''select'' [At ''id'' ''import-db'', At ''style'' ''background:var(--bg-0);border:1px solid var(--border);color:var(--text-1); padding:4px 8px;font-size:11px;font-family:var(--font);min-width:150px'']
         [El ''option'' [] [Txt ''loading...'']]]],
      El ''div'' [At ''class'' ''mono-xs dim'', At ''style'' ''margin-top:8px;line-height:1.5'']
       [Txt (''just drop a file below '' @ u_dash @ '' sensible defaults are pre-selected so a restore works with a single click. expand advanced options only if you need them.'')],
      El ''details'' [At ''style'' ''margin-top:8px'']
       [El ''summary'' [At ''class'' ''mono-xs dim'', At ''style'' ''cursor:pointer;user-select:none''] [Txt ''advanced options''],
       El ''div'' [At ''style'' ''margin-top:8px;display:flex;flex-direction:column;gap:4px'']
        [El ''label'' [At ''class'' ''mono-xs'', At ''style'' ''display:flex;align-items:center;gap:4px;cursor:pointer'']
         [El ''input'' [At ''type'' ''checkbox'', At ''id'' ''import-clean'', Flag ''checked''] [],
         El ''span'' [] [Txt ''clean (overwrite)''],
         El ''span'' [At ''class'' ''dim'']
          [Txt (u_dash @ '' ''),
          El ''span'' [At ''class'' ''red''] [Txt ''drop &amp; recreate existing objects''],
          Txt '' so the restore matches the dump exactly'']],
        El ''label'' [At ''class'' ''mono-xs'', At ''style'' ''display:flex;align-items:center;gap:4px;cursor:pointer'']
         [El ''input'' [At ''type'' ''checkbox'', At ''id'' ''import-disable-triggers'', Flag ''checked''] [],
         El ''span'' [] [Txt ''disable triggers''],
         El ''span'' [At ''class'' ''dim'']
          [Txt (u_dash @ '' avoid FK constraint errors (applies to data-only restores)'')]],
        El ''label'' [At ''class'' ''mono-xs'', At ''style'' ''display:flex;align-items:center;gap:4px;cursor:pointer'']
         [El ''input'' [At ''type'' ''checkbox'', At ''id'' ''import-no-tablespaces'', Flag ''checked''] [],
         El ''span'' [] [Txt ''no tablespaces''],
         El ''span'' [At ''class'' ''dim'']
          [Txt (u_dash @ '' skip tablespace assignments (Docker safe)'')]],
        El ''label'' [At ''class'' ''mono-xs'', At ''style'' ''display:flex;align-items:center;gap:4px;cursor:pointer'']
         [El ''input'' [At ''type'' ''checkbox'', At ''id'' ''import-data-only''] [],
         El ''span'' [] [Txt ''data only''],
         El ''span'' [At ''class'' ''dim''] [Txt (u_dash @ '' skip schema, only insert data rows'')]],
        El ''label'' [At ''class'' ''mono-xs'', At ''style'' ''display:flex;align-items:center;gap:4px;cursor:pointer'']
         [El ''input'' [At ''type'' ''checkbox'', At ''id'' ''import-single-tx''] [],
         El ''span'' [] [Txt ''single transaction''],
         El ''span'' [At ''class'' ''dim''] [Txt (u_dash @ '' atomic: rollback all on any error'')]]]],
      El ''div'' [At ''id'' ''import-dropzone'', At ''style'' ''margin-top: 8px;border:2px dashed var(--border);border-radius:6px;padding:32px; text-align:center;cursor:pointer;transition:all 0.2s'']
       [El ''i'' [At ''data-lucide'' ''upload-cloud'', At ''style'' ''width:32px;height:32px;margin:0 auto 8px;display:block;opacity:0.4''] [],
       El ''div'' [At ''class'' ''mono-xs dim''] [Txt ''drag & drop a .sql or .dump file here''],
       El ''div'' [At ''class'' ''mono-xs dim'', At ''style'' ''margin-top:4px''] [Txt ''or click to browse (max 512MB)''],
       El ''input'' [At ''type'' ''file'', At ''id'' ''import-file'', At ''accept'' ''.sql,.dump,.backup'', At ''style'' ''display:none''] []],
      El ''div'' [At ''id'' ''import-status'', At ''style'' ''margin-top:8px''] []]]"

definition db_name_option :: "string \<Rightarrow> html" where
  "db_name_option d = hd [El ''option'' [At ''value'' (escHtml d)] [Txt (escHtml d)]]"

definition loadDatabases :: "dbio_server \<Rightarrow> browser \<Rightarrow> unit outcome \<times> browser" where
  "loadDatabases sv b =
     (case api (io_list sv) (get_rq ''/database/list'') b of
        (Resolved ds, b1) \<Rightarrow>
          (let os = map db_name_option ds
           in (Resolved (), set_options ''import-db'' os (set_options ''export-db'' os b1)))
      | (Rejected e, b1) \<Rightarrow> (Resolved (), b1)
      | (Pending, b1) \<Rightarrow> (Pending, b1))"

definition Dbio_render :: "dbio_server \<Rightarrow> dbio_state \<Rightarrow> dbio_state" where
  "Dbio_render sv st =
     (case loadDatabases sv (set_inner ''page-content'' dbio_frame (snd st)) of
        (Resolved _, b) \<Rightarrow> Dbio_renderJobStatus (fst st, b)
      | (_, b) \<Rightarrow> (fst st, b))"

section \<open>Export\<close>

definition export_rq :: "string \<Rightarrow> string \<Rightarrow> bool \<Rightarrow> string \<Rightarrow> request" where
  "export_rq db fmt dataOnly sid =
     (get_rq (''/database/export?database='' @ encode_uri db @ ''&format='' @ fmt @ ''&dataOnly=''
        @ (if dataOnly then ''true'' else ''false'')))\<lparr>rq_session := sid\<rparr>"

definition export_failed :: "string \<Rightarrow> browser \<Rightarrow> browser" where
  "export_failed e b = showToast (''export failed: '' @ e) ''error'' b"

function doExport :: "dbio_server \<Rightarrow> (string \<Rightarrow> request) \<Rightarrow> string \<Rightarrow> dbio_state \<Rightarrow> dbio_state" where
  "doExport sv mk sid st =
     (let b = showToast ''starting export...'' ''info'' (snd st);
          q = mk sid;
          b1 = b\<lparr>sent := sent b @ [q]\<rparr>
      in case io_start_export sv (sent b) q of
           Unauthorized \<Rightarrow>
             (case showLoginModal (remove_item session_key b1) of
                (LoggedIn newSid, b2) \<Rightarrow> doExport sv mk newSid (fst st, b2)
              | (_, b2) \<Rightarrow> (fst st, b2))
         | HttpError e stxt \<Rightarrow> (fst st, export_failed (''export failed: '' @ stxt) b1)
         | NetworkError e \<Rightarrow> (fst st, export_failed e b1)
         | BadJson e \<Rightarrow> (fst st, export_failed e b1)
         | Ok None \<Rightarrow> (fst st, export_failed ''Cannot read properties of null'' b1)
         | Ok (Some jobId) \<Rightarrow>
             (let (m, b2) = trackJobs ((fst st)\<lparr>io_export := jobId\<rparr>, b1)
              in (m, showToast ''export started'' ''success'' b2)))"
  by pat_completeness auto
termination
  by (relation "measure (\<lambda>(sv, mk, sid, st). length (login_inputs (snd st)))")
    (auto dest!: showLoginModal_inputs [OF sym])

declare doExport.simps [simp del]

definition exportDB :: "dbio_server \<Rightarrow> dbio_state \<Rightarrow> dbio_state" where
  "exportDB sv st =
     (let b = snd st;
          db = value_of ''export-db'' b;
          fmt = or_str (value_of ''export-format'' b) ''custom'';
          dataOnly = is_checked ''export-data-only'' b
      in if db = [] then (fst st, showToast ''select a database'' ''error'' b)
         else (let sid = get_item session_key b in
           if sid \<noteq> [] then doExport sv (export_rq db fmt dataOnly) sid st
           else (case showLoginModal b of
                   (LoggedIn newSid, b1) \<Rightarrow> doExport sv (export_rq db fmt dataOnly) newSid (fst st, b1)
                 | (_, b1) \<Rightarrow> (fst st, b1))))"

section \<open>Import\<close>

definition file_ext :: "string \<Rightarrow> string" where
  "file_ext name = to_lower (last (split_on CHR ''.'' name))"

definition import_prompt :: "upload_file \<Rightarrow> string \<Rightarrow> bool \<Rightarrow> string" where
  "import_prompt f db clean =
     ''Import '' @ dq @ f_name f @ dq @ '' ('' @ formatBytes (f_size f) @ '') into database '' @ dq @ db @ dq @ ''?''
     @ (if clean
        then [CHR 0x0A, CHR 0x0A] @ u_warn @ u_vs16 @ '' '' @ dq @ ''clean (overwrite)'' @ dq
          @ '' is on: existing objects will be dropped and recreated from the dump. Current data in those objects will be lost.''
        else [CHR 0x0A, CHR 0x0A] @ ''Existing data may be overwritten.'')"

definition check_opt :: "browser \<Rightarrow> string \<Rightarrow> string \<Rightarrow> (string \<times> json) list" where
  "check_opt b i key = (if is_checked i b then [(key, JStr ''true'')] else [])"

definition import_fields :: "upload_file \<Rightarrow> string \<Rightarrow> browser \<Rightarrow> (string \<times> json) list" where
  "import_fields f db b =
     [(''file'', JStr (f_name f)), (''database'', JStr db)]
     @ check_opt b ''import-data-only'' ''dataOnly''
     @ check_opt b ''import-disable-triggers'' ''disableTriggers''
     @ check_opt b ''import-single-tx'' ''singleTransaction''
     @ check_opt b ''import-clean'' ''clean''
     @ check_opt b ''import-no-tablespaces'' ''noTablespaces''"

definition import_rq :: "upload_file \<Rightarrow> string \<Rightarrow> browser \<Rightarrow> string \<Rightarrow> request" where
  "import_rq f db b sid = (post_rq ''/database/import'' (Some (JObj (import_fields f db b))))\<lparr>rq_session := sid\<rparr>"

definition import_ok_markup :: "string \<Rightarrow> html list" where
  "import_ok_markup msg = [El ''span'' [At ''class'' ''mono-xs green''] [Txt (u_check @ '' '' @ (escHtml msg))]]"

definition import_error_markup :: "string \<Rightarrow> html list" where
  "import_error_markup e = [El ''span'' [At ''class'' ''mono-xs red''] [Txt (u_cross @ '' '' @ (escHtml e))]]"

definition uploading_markup :: "html list" where
  "uploading_markup = [El ''span'' [At ''class'' ''mono-xs yellow''] [Txt ''uploading...'']]"

definition import_failed :: "string \<Rightarrow> browser \<Rightarrow> browser" where
  "import_failed e b =
     showToast (''import failed: '' @ e) ''error'' (set_inner ''import-status'' (import_error_markup e) b)"

function doImport :: "dbio_server \<Rightarrow> upload_file \<Rightarrow> string \<Rightarrow> string \<Rightarrow> dbio_state \<Rightarrow> dbio_state" where
  "doImport sv f db sid st =
     (let b = snd st;
          q = import_rq f db b sid;
          b1 = b\<lparr>sent := sent b @ [q]\<rparr>
      in case io_start_import sv (sent b) q of
           Unauthorized \<Rightarrow>
             (case showLoginModal (remove_item session_key b1) of
                (LoggedIn newSid, b2) \<Rightarrow> doImport sv f db newSid (fst st, b2)
              | (_, b2) \<Rightarrow> (fst st, b2))
         | HttpError e stxt \<Rightarrow> (fst st, import_failed (or_str e stxt) b1)
         | NetworkError e \<Rightarrow> (fst st, import_failed e b1)
         | BadJson e \<Rightarrow> (fst st, import_failed e b1)
         | Ok None \<Rightarrow> (fst st, import_failed ''Cannot read properties of null'' b1)
         | Ok (Some (jobId, msg)) \<Rightarrow>
             (let (m, b2) = trackJobs ((fst st)\<lparr>io_import := jobId\<rparr>, b1)
              in (m, showToast ''import started'' ''success''
                   (set_inner ''import-status'' (import_ok_markup (or_str msg ''import started'')) b2))))"
  by pat_completeness auto
termination
  by (relation "measure (\<lambda>(sv, f, db, sid, st). length (login_inputs (snd st)))")
    (auto dest!: showLoginModal_inputs [OF sym])

declare doImport.simps [simp del]

definition accepted_exts :: "string list" where
  "accepted_exts = [''sql'', ''dump'', ''backup'']"

definition uploadFile :: "dbio_server \<Rightarrow> upload_file \<Rightarrow> dbio_state \<Rightarrow> dbio_state" where
  "uploadFile sv f st =
     (let b = snd st; db = value_of ''import-db'' b in
      if db = [] then (fst st, showToast ''select a target database'' ''error'' b)
      else if file_ext (f_name f) \<notin> set accepted_exts
      then (fst st, showToast ''only .sql, .dump, or .backup files supported'' ''error'' b)
      else (case showConfirm ''import database'' (import_prompt f db (is_checked ''import-clean'' b)) (danger_options ''import'') b of
          (Resolved True, b0) \<Rightarrow>
            if \<not> element ''import-status'' b0 then (fst st, b0)
            else (let b1 = set_inner ''import-status'' uploading_markup b0; sid = get_item session_key b1 in
              if sid \<noteq> [] then doImport sv f db sid (fst st, b1)
              else (case showLoginModal b1 of
                      (LoggedIn newSid, b2) \<Rightarrow> doImport sv f db newSid (fst st, b2)
                    | (ClosedByUser, b2) \<Rightarrow> (fst st, set_inner ''import-status'' [] b2)
                    | (StillOpen _, b2) \<Rightarrow> (fst st, b2)))
        | (_, b0) \<Rightarrow> (fst st, b0)))"

text \<open>The drop zone: the style while a file hovers, and the first file of a drop or of the picker.\<close>

definition zone_style :: "string \<Rightarrow> string \<Rightarrow> browser \<Rightarrow> browser" where
  "zone_style border bg b = set_style ''import-dropzone'' ''background'' bg (set_style ''import-dropzone'' ''borderColor'' border b)"

datatype zone_event = DragOver | DragLeave | DropFiles "upload_file list" | PickFiles "upload_file list"

fun zone_step :: "dbio_server \<Rightarrow> zone_event \<Rightarrow> dbio_state \<Rightarrow> dbio_state" where
  "zone_step sv DragOver st = (fst st, zone_style ''var(--accent)'' ''rgba(255,255,255,0.02)'' (snd st))"
| "zone_step sv DragLeave st = (fst st, zone_style ''var(--border)'' [] (snd st))"
| "zone_step sv (DropFiles fs) st =
     (let st1 = (fst st, zone_style ''var(--border)'' [] (snd st))
      in case fs of [] \<Rightarrow> st1 | f # _ \<Rightarrow> uploadFile sv f st1)"
| "zone_step sv (PickFiles fs) st = (case fs of [] \<Rightarrow> st | f # _ \<Rightarrow> uploadFile sv f st)"

section \<open>The interval\<close>

lemma held_get: "own_callback a \<Longrightarrow> held a s b \<Longrightarrow> JobUI_get net i b = (r, b') \<Longrightarrow> held a s b'"
  unfolding JobUI_get_def by (rule held_apiProtected)

lemma held_status_parts:
  "own_callback a \<Longrightarrow> held a s b \<Longrightarrow> status_parts sv c is b = (r, b') \<Longrightarrow> held a s b'"
proof (induction "is" arbitrary: b r b')
  case (Cons i "is")
  obtain x b1 where g: "JobUI_get (io_job sv) i b = (x, b1)" by fastforce
  have h: "held a s b1" by (rule held_get [OF Cons.prems(1,2) g])
  obtain y b2 where rest: "status_parts sv c is b1 = (y, b2)" by fastforce
  have "held a s b2" by (rule Cons.IH [OF Cons.prems(1) h rest])
  with h Cons.prems(3) g rest show ?case by (cases x; cases y) auto
qed simp

lemma held_job_states:
  "own_callback a \<Longrightarrow> held a s b \<Longrightarrow> job_states sv is b = (r, b') \<Longrightarrow> held a s b'"
proof (induction "is" arbitrary: b r b')
  case (Cons i "is")
  obtain x b1 where g: "JobUI_get (io_job sv) i b = (x, b1)" by fastforce
  have h: "held a s b1" by (rule held_get [OF Cons.prems(1,2) g])
  obtain y b2 where rest: "job_states sv is b1 = (y, b2)" by fastforce
  have "held a s b2" by (rule Cons.IH [OF Cons.prems(1) h rest])
  with Cons.prems(3) g rest show ?case by (cases x; cases y) auto
qed simp

lemma held_show_status: "own_callback a \<Longrightarrow> held a s b \<Longrightarrow> show_status sv c is b = (r, b') \<Longrightarrow> held a s b'"
  by (auto simp: show_status_def split: prod.splits outcome.splits intro!: held_intros dest: held_status_parts)

definition dbio_ok :: "dbio_state \<Rightarrow> bool" where
  "dbio_ok st = held DbioPoll (io_poller (fst st)) (snd st)"

lemma dbio_render_status: "dbio_ok st \<Longrightarrow> dbio_ok (Dbio_renderJobStatus st)"
  by (cases st) (auto simp: Dbio_renderJobStatus_def dbio_ok_def intro: held_intros)

lemma dbio_trackJobs: "dbio_ok st \<Longrightarrow> dbio_ok (trackJobs st)"
proof -
  assume ok: "dbio_ok st"
  obtain m b where r: "Dbio_renderJobStatus st = (m, b)" by fastforce
  obtain i b1 where t: "set_interval 3000 DbioPoll (clear_slot (io_poller m) b) = (i, b1)" by fastforce
  have "held DbioPoll (io_poller m) b" using dbio_render_status [OF ok] r by (simp add: dbio_ok_def)
  from held_restart [OF this _ t] show ?thesis using r t by (simp add: trackJobs_def dbio_ok_def)
qed

lemma dbio_stop: "dbio_ok st \<Longrightarrow> dbio_ok (Dbio_stop st)"
  by (simp add: Dbio_stop_def dbio_ok_def held_clear)

lemma dbio_reply: "dbio_ok st \<Longrightarrow> dbio_ok (Dbio_reply sv c i st)"
proof (cases st)
  case (Pair m b)
  assume ok: "dbio_ok st"
  obtain r b1 where sh: "show_status sv c (io_asked m ! i) b = (r, b1)" by fastforce
  have "held DbioPoll (io_poller m) b1"
    using ok Pair by (intro held_show_status [OF _ _ sh]) (simp_all add: dbio_ok_def)
  with ok Pair sh show ?thesis by (simp add: Dbio_reply_def dbio_ok_def)
qed

lemma dbio_tick: "dbio_ok st \<Longrightarrow> dbio_ok (tick_fires st)" "dbio_ok st \<Longrightarrow> dbio_ok (tick_done sv c st)"
proof -
  show "dbio_ok st \<Longrightarrow> dbio_ok (tick_fires st)" by (simp add: tick_fires_def dbio_ok_def)
  assume ok: "dbio_ok st"
  obtain m b where st: "st = (m, b)" by fastforce
  let ?m = "m\<lparr>io_ticks := io_ticks m - 1\<rparr>"
  obtain r b1 where sh: "(if \<not> element ''dbio-job-status'' b then (Resolved (), b)
      else if active_ids m = [] then (Resolved (), set_inner ''dbio-job-status'' [] b)
      else show_status sv c (active_ids m) b) = (r, b1)" by (metis surj_pair)
  have h1: "held DbioPoll (io_poller m) b1"
    using sh ok st by (auto simp: dbio_ok_def split: if_splits intro: held_intros held_show_status)
  obtain x b2 where js: "job_states sv (active_ids m) b1 = (x, b2)" by fastforce
  have h2: "held DbioPoll (io_poller m) b2"
    by (rule held_job_states [OF _ h1 js]) simp
  show "dbio_ok (tick_done sv c st)"
    using ok st sh js h1 h2 dbio_stop [of "(?m, b1)"] dbio_stop [of "(?m, b2)"]
    by (cases r; cases x) (simp_all add: tick_done_def Let_def dbio_ok_def)
qed

lemma dbio_web: "dbio_ok (m, b) \<Longrightarrow> (\<And>s. held DbioPoll s b \<Longrightarrow> held DbioPoll s b') \<Longrightarrow> dbio_ok (m, b')"
  by (simp add: dbio_ok_def)

lemma dbio_fields: "dbio_ok (m, b) \<Longrightarrow> dbio_ok (m\<lparr>io_export := j\<rparr>, b)" "dbio_ok (m, b) \<Longrightarrow> dbio_ok (m\<lparr>io_import := j\<rparr>, b)"
  by (simp_all add: dbio_ok_def)

lemma dbio_toast: "dbio_ok (m, b) \<Longrightarrow> dbio_ok (m, showToast x k b)"
  by (simp add: dbio_ok_def held_showToast)

lemma dbio_inner: "dbio_ok (m, b) \<Longrightarrow> dbio_ok (m, set_inner i hs b)"
  by (simp add: dbio_ok_def held_frames)

lemma dbio_sent: "dbio_ok (m, b) \<Longrightarrow> dbio_ok (m, b\<lparr>sent := q\<rparr>)"
  by (simp add: dbio_ok_def held_frames)

lemma dbio_login: "dbio_ok (m, b) \<Longrightarrow> showLoginModal b = (r, b') \<Longrightarrow> dbio_ok (m, b')"
  "dbio_ok (m, b) \<Longrightarrow> dbio_ok (m, remove_item k b)"
  by (auto simp: dbio_ok_def intro: held_showLoginModal held_intros)

lemma dbio_started:
  "dbio_ok (m, b) \<Longrightarrow> trackJobs (m, b) = (m', b') \<Longrightarrow> dbio_ok (m', b')"
  using dbio_trackJobs [of "(m, b)"] by simp

lemma dbio_doExport: "dbio_ok st \<Longrightarrow> dbio_ok (doExport sv mk sid st)"
proof (induction sv mk sid st rule: doExport.induct)
  case (1 sv mk sid st)
  let ?b = "showToast ''starting export...'' ''info'' (snd st)"
  let ?b1 = "?b\<lparr>sent := sent ?b @ [mk sid]\<rparr>"
  have ok1: "dbio_ok (fst st, ?b1)" using dbio_sent [OF dbio_toast, of "fst st" "snd st"] "1.prems" by simp
  obtain lr b2 where lg: "showLoginModal (remove_item session_key ?b1) = (lr, b2)" by fastforce
  have ok2: "dbio_ok (fst st, b2)" by (rule dbio_login(1) [OF dbio_login(2) [OF ok1] lg])
  show ?case
  proof (cases "io_start_export sv (sent ?b) (mk sid)")
    case (Ok d)
    show ?thesis
    proof (cases d)
      case (Some j)
      obtain m3 b3 where tr: "trackJobs ((fst st)\<lparr>io_export := j\<rparr>, ?b1) = (m3, b3)" by fastforce
      have "dbio_ok (m3, b3)" by (rule dbio_started [OF dbio_fields(1) [OF ok1] tr])
      then show ?thesis using Ok Some tr by (simp add: doExport.simps [of sv mk sid st] dbio_toast)
    qed (use Ok ok1 in \<open>simp add: doExport.simps [of sv mk sid st] Let_def export_failed_def dbio_toast\<close>)
  next
    case Unauthorized
    show ?thesis
    proof (cases lr)
      case (LoggedIn s)
      have "dbio_ok (doExport sv mk s (fst st, b2))"
        using "1.IH" [OF refl refl refl Unauthorized lg [unfolded LoggedIn, symmetric] refl] ok2 by simp
      then show ?thesis using Unauthorized lg LoggedIn by (simp add: doExport.simps [of sv mk sid st])
    qed (use Unauthorized lg ok2 in \<open>simp_all add: doExport.simps [of sv mk sid st]\<close>)
  qed (use ok1 in \<open>simp_all add: doExport.simps [of sv mk sid st] Let_def export_failed_def dbio_toast\<close>)
qed

lemma dbio_doImport: "dbio_ok st \<Longrightarrow> dbio_ok (doImport sv f db sid st)"
proof (induction sv f db sid st rule: doImport.induct)
  case (1 sv f db sid st)
  let ?q = "import_rq f db (snd st) sid"
  let ?b1 = "(snd st)\<lparr>sent := sent (snd st) @ [?q]\<rparr>"
  have ok1: "dbio_ok (fst st, ?b1)" using dbio_sent [of "fst st" "snd st"] "1.prems" by simp
  obtain lr b2 where lg: "showLoginModal (remove_item session_key ?b1) = (lr, b2)" by fastforce
  have ok2: "dbio_ok (fst st, b2)" by (rule dbio_login(1) [OF dbio_login(2) [OF ok1] lg])
  show ?case
  proof (cases "io_start_import sv (sent (snd st)) ?q")
    case (Ok d)
    show ?thesis
    proof (cases d)
      case (Some p)
      obtain j msg where p: "p = (j, msg)" by fastforce
      obtain m3 b3 where tr: "trackJobs ((fst st)\<lparr>io_import := j\<rparr>, ?b1) = (m3, b3)" by fastforce
      have "dbio_ok (m3, b3)" by (rule dbio_started [OF dbio_fields(2) [OF ok1] tr])
      then show ?thesis using Ok Some p tr by (simp add: doImport.simps [of sv f db sid st] dbio_toast dbio_inner)
    qed (use Ok ok1 in \<open>simp add: doImport.simps [of sv f db sid st] Let_def import_failed_def dbio_toast dbio_inner\<close>)
  next
    case Unauthorized
    show ?thesis
    proof (cases lr)
      case (LoggedIn s)
      have "dbio_ok (doImport sv f db s (fst st, b2))"
        using "1.IH" [OF refl refl refl Unauthorized lg [unfolded LoggedIn, symmetric] refl] ok2 by simp
      then show ?thesis using Unauthorized lg LoggedIn by (simp add: doImport.simps [of sv f db sid st])
    qed (use Unauthorized lg ok2 in \<open>simp_all add: doImport.simps [of sv f db sid st]\<close>)
  qed (use ok1 in \<open>simp_all add: doImport.simps [of sv f db sid st] Let_def import_failed_def dbio_toast dbio_inner\<close>)
qed

lemma dbio_exportDB: "dbio_ok st \<Longrightarrow> dbio_ok (exportDB sv st)"
  by (cases st)
    (auto simp: exportDB_def Let_def split: prod.splits login_result.splits
      intro!: dbio_toast dbio_doExport dest: dbio_login(1))

lemma dbio_uploadFile:
  assumes "dbio_ok st" shows "dbio_ok (uploadFile sv f st)"
proof -
  obtain m b where st: "st = (m, b)" by fastforce
  let ?db = "value_of ''import-db'' b"
  obtain r b0 where conf: "showConfirm ''import database'' (import_prompt f ?db (is_checked ''import-clean'' b)) (danger_options ''import'') b = (r, b0)"
    by fastforce
  have ok0: "dbio_ok (m, b0)"
    using assms st held_showConfirm [OF _ conf] by (simp add: dbio_ok_def)
  let ?b1 = "set_inner ''import-status'' uploading_markup b0"
  obtain lr b2 where lg: "showLoginModal ?b1 = (lr, b2)" by fastforce
  have ok2: "dbio_ok (m, b2)" by (rule dbio_login(1) [OF dbio_inner [OF ok0] lg])
  define G where "G = (if \<not> element ''import-status'' b0 then (m, b0)
      else if get_item session_key ?b1 \<noteq> [] then doImport sv f ?db (get_item session_key ?b1) (m, ?b1)
      else (case showLoginModal ?b1 of
              (LoggedIn newSid, b2) \<Rightarrow> doImport sv f ?db newSid (m, b2)
            | (ClosedByUser, b2) \<Rightarrow> (m, set_inner ''import-status'' [] b2)
            | (StillOpen _, b2) \<Rightarrow> (m, b2)))"
  have go: "dbio_ok G"
    unfolding G_def using ok0 ok2 lg by (cases lr) (simp_all add: dbio_doImport dbio_inner)
  have "uploadFile sv f st =
      (if ?db = [] then (m, showToast ''select a target database'' ''error'' b)
       else if file_ext (f_name f) \<notin> set accepted_exts
       then (m, showToast ''only .sql, .dump, or .backup files supported'' ''error'' b)
       else if r = Resolved True then G else (m, b0))"
    by (cases lr; cases r) (auto simp: uploadFile_def Let_def G_def st conf lg split: bool.splits)
  then show ?thesis using go ok0 assms st by (simp add: dbio_toast)
qed

lemma dbio_zone: "dbio_ok st \<Longrightarrow> dbio_ok (zone_step sv e st)"
proof -
  assume ok: "dbio_ok st"
  have "dbio_ok (fst st, zone_style x y (snd st))" for x y
    using ok by (simp add: dbio_ok_def zone_style_def held_setters)
  with ok show ?thesis
    by (cases e) (auto simp: Let_def dbio_uploadFile split: list.splits)
qed

text \<open>The operations of the page, in any order.\<close>

datatype dbio_event = Export | Zone zone_event | Status nat | TickFires | TickDone

fun dbio_step :: "dbio_server \<Rightarrow> clock \<Rightarrow> dbio_event \<Rightarrow> dbio_state \<Rightarrow> dbio_state" where
  "dbio_step sv c Export st = exportDB sv st"
| "dbio_step sv c (Zone e) st = zone_step sv e st"
| "dbio_step sv c (Status i) st = Dbio_reply sv c i st"
| "dbio_step sv c TickFires st = tick_fires st"
| "dbio_step sv c TickDone st = tick_done sv c st"

definition dbio_run :: "dbio_server \<Rightarrow> clock \<Rightarrow> dbio_event list \<Rightarrow> dbio_state \<Rightarrow> dbio_state" where
  "dbio_run sv c es st = fold (dbio_step sv c) es st"

lemma dbio_ok_run: "dbio_ok st \<Longrightarrow> dbio_ok (dbio_run sv c es st)"
  unfolding dbio_run_def
proof (induction es arbitrary: st)
  case (Cons e es)
  then show ?case
    by (cases e) (simp_all add: dbio_exportDB dbio_zone dbio_reply dbio_tick)
qed simp

section \<open>Uploads\<close>

lemma upload_refused:
  assumes "file_ext (f_name f) \<notin> set accepted_exts \<or> value_of ''import-db'' b = []
    \<or> confirm_inputs b = [] \<or> (\<exists>as. confirm_inputs b = False # as)"
  shows "fst (uploadFile sv f (m, b)) = m \<and> sent (snd (uploadFile sv f (m, b))) = sent b"
  using assms by (auto simp: uploadFile_def Let_def showConfirm_def)

section \<open>Properties\<close>

text \<open>
  C14: in every run of the export and import page, exports, uploads, status replies and interval
  callbacks in any order, at most one interval follows the jobs, and the page's field names it.
\<close>

theorem dbio_one_interval:
  assumes "timers b = []" "idle_timer b = None" "dbio_run sv c es (new_dbio_page, b) = (m', b')"
  shows "map tid (filter (\<lambda>t. action t = DbioPoll) (timers b')) = (case io_poller m' of None \<Rightarrow> [] | Some i \<Rightarrow> [i])"
proof -
  have "dbio_ok (new_dbio_page, b)"
    using assms(1,2) by (simp add: dbio_ok_def held_def web_ok_def timers_ok_def slot_inv_None new_dbio_page_def)
  from dbio_ok_run [OF this, of sv c es] show ?thesis using assms(3) by (simp add: dbio_ok_def held_def slot_inv_def)
qed

definition dbio_sample_server :: dbio_server where
  "dbio_sample_server = \<lparr>io_list = (\<lambda>h q. Ok (Some [''app''])), io_start_export = (\<lambda>h q. Ok (Some ''7'')),
     io_start_import = (\<lambda>h q. Ok (Some (''8'', []))), io_job = (\<lambda>h q. Ok (Some (Some hostile_job)))\<rparr>"

definition dbio_clock :: clock where
  "dbio_clock = \<lparr>now = 0, locale_text = (\<lambda>_. []), time_text = (\<lambda>_. []), local_iso = [], number_text = (\<lambda>_. ''0'')\<rparr>"

definition dbio_dom :: browser where
  "dbio_dom = sample_browser\<lparr>dom := [''export-db'' \<mapsto> mk_node ''input'' [At ''value'' ''app''] [],
     ''import-db'' \<mapsto> mk_node ''input'' [At ''value'' ''app''] [], ''import-status'' \<mapsto> mk_node ''div'' [] []], confirm_inputs := [True]\<rparr>"

theorem dbio_one_interval_witness:
  "\<exists>m' b'. dbio_run dbio_sample_server dbio_clock [Export, TickFires, Export, TickDone] (new_dbio_page, dbio_dom) = (m', b')
    \<and> map tid (filter (\<lambda>t. action t = DbioPoll) (timers b')) = (case io_poller m' of None \<Rightarrow> [] | Some i \<Rightarrow> [i])"
proof -
  obtain m' b' where run: "dbio_run dbio_sample_server dbio_clock [Export, TickFires, Export, TickDone] (new_dbio_page, dbio_dom) = (m', b')"
    by (metis surj_pair)
  have "timers dbio_dom = []" "idle_timer dbio_dom = None" by (simp_all add: dbio_dom_def sample_browser_def)
  from dbio_one_interval [OF this run] run show ?thesis by blast
qed

text \<open>
  a file leaves the browser only if a target database is chosen, its extension is one of sql, dump
  and backup in any case, and the user has confirmed the dialog that names file, size and database.
\<close>

theorem upload_guarded:
  assumes "sent (snd (uploadFile sv f (m, b))) \<noteq> sent b"
  shows "value_of ''import-db'' b \<noteq> [] \<and> file_ext (f_name f) \<in> {''sql'', ''dump'', ''backup''}
    \<and> (\<exists>as. confirm_inputs b = True # as)"
proof -
  have "\<not> (file_ext (f_name f) \<notin> set accepted_exts \<or> value_of ''import-db'' b = []
      \<or> confirm_inputs b = [] \<or> (\<exists>as. confirm_inputs b = False # as))"
    using upload_refused [of f b sv m] assms by blast
  then show ?thesis by (cases "confirm_inputs b") (auto simp: accepted_exts_def)
qed

lemma trackJobs_sent: "sent (snd (trackJobs (m, b))) = sent b"
proof -
  obtain m1 b1 where r: "Dbio_renderJobStatus (m, b) = (m1, b1)" by fastforce
  then have "sent b1 = sent b" by (auto simp: Dbio_renderJobStatus_def split: if_splits)
  then show ?thesis by (simp add: trackJobs_def r set_timer_def)
qed

lemma doImport_sent:
  assumes "io_start_import sv (sent b) (import_rq f db b sid) = Ok (Some (j, msg))"
  shows "sent (snd (doImport sv f db sid (m, b))) = sent b @ [import_rq f db b sid]"
proof -
  let ?b = "b\<lparr>sent := sent b @ [import_rq f db b sid]\<rparr>"
  obtain m1 b1 where t: "trackJobs (m\<lparr>io_import := j\<rparr>, ?b) = (m1, b1)" by fastforce
  have "sent b1 = sent ?b" using trackJobs_sent [of "m\<lparr>io_import := j\<rparr>" ?b] t by simp
  then show ?thesis using assms t by (simp add: doImport.simps)
qed

theorem upload_guarded_witness:
  "value_of ''import-db'' dbio_dom \<noteq> [] \<and> file_ext (f_name \<lparr>f_name = ''prod.v2.DUMP'', f_size = 10\<rparr>) \<in> {''sql'', ''dump'', ''backup''}
    \<and> (\<exists>as. confirm_inputs dbio_dom = True # as)"
proof (rule upload_guarded)
  let ?f = "\<lparr>f_name = ''prod.v2.DUMP'', f_size = 10\<rparr> :: upload_file"
  have ext: "file_ext (f_name ?f) \<in> set accepted_exts"
    by (simp add: file_ext_def accepted_exts_def) code_simp
  have db: "value_of ''import-db'' dbio_dom = ''app''"
    by (simp add: dbio_dom_def value_of_def mk_node_def one_line_def)
  obtain b0 where conf: "showConfirm ''import database'' (import_prompt ?f ''app'' (is_checked ''import-clean'' dbio_dom)) (danger_options ''import'') dbio_dom = (Resolved True, b0)"
    by (simp add: showConfirm_def dbio_dom_def sample_browser_def Let_def)
  have b0: "dom b0 = dom dbio_dom" "sent b0 = []" "get_item session_key b0 = ''old''"
    using showConfirm_frame [OF conf, of session_key] by (simp_all add: dbio_dom_def sample_browser_def get_item_def)
  then have el: "element ''import-status'' b0" by (simp add: element_def dbio_dom_def)
  let ?b1 = "set_inner ''import-status'' uploading_markup b0"
  have "io_start_import dbio_sample_server h q = Ok (Some (''8'', []))" for h q by (simp add: dbio_sample_server_def)
  then have "sent (snd (doImport dbio_sample_server ?f ''app'' ''old'' (new_dbio_page, ?b1))) = sent ?b1 @ [import_rq ?f ''app'' ?b1 ''old'']"
    by (rule doImport_sent)
  then show "sent (snd (uploadFile dbio_sample_server ?f (new_dbio_page, dbio_dom))) \<noteq> sent dbio_dom"
    using ext db conf b0 el by (simp add: uploadFile_def) (simp add: dbio_dom_def sample_browser_def)
qed

end
