(* ===== verification/Site.thy ===== *)
theory Site
  imports Polling
begin

text \<open>
  What the smaller pages share: the state of the page together with the caches of the two selectors,
  sequential composition of awaited calls and \<^verbatim>\<open>try\<close>/\<^verbatim>\<open>catch\<close>, the serialisation of
  \<^verbatim>\<open>URLSearchParams\<close>, and how a browser reads the JavaScript of an \<^verbatim>\<open>onclick\<close> attribute that
  calls a method with string literals.
\<close>

section \<open>Awaiting\<close>

definition await :: "'a outcome \<times> 's \<Rightarrow> ('a \<Rightarrow> 's \<Rightarrow> 'b outcome \<times> 's) \<Rightarrow> 'b outcome \<times> 's" where
  "await r k =
     (case r of
        (Resolved x, s) \<Rightarrow> k x s
      | (Rejected e, s) \<Rightarrow> (Rejected e, s)
      | (Pending, s) \<Rightarrow> (Pending, s))"

definition catch :: "'a outcome \<times> 's \<Rightarrow> (string \<Rightarrow> 's \<Rightarrow> 'a outcome \<times> 's) \<Rightarrow> 'a outcome \<times> 's" where
  "catch r h =
     (case r of
        (Rejected e, s) \<Rightarrow> h e s
      | (Resolved x, s) \<Rightarrow> (Resolved x, s)
      | (Pending, s) \<Rightarrow> (Pending, s))"

text \<open>\<^verbatim>\<open>catch (e) {}\<close>\<close>

definition ignore :: "string \<Rightarrow> 's \<Rightarrow> unit outcome \<times> 's" where
  "ignore e s = (Resolved (), s)"

lemma await_simps [simp]:
  "await (Resolved x, s) k = k x s" "await (Rejected e, s) k = (Rejected e, s)" "await (Pending, s) k = (Pending, s)"
  by (simp_all add: await_def)

lemma catch_simps [simp]:
  "catch (Rejected e, s) h = h e s" "catch (Resolved x, s) h = (Resolved x, s)" "catch (Pending, s) h = (Pending, s)"
  by (simp_all add: catch_def)

lemma ignore_simp [simp]: "ignore e s = (Resolved (), s)"
  by (simp add: ignore_def)

lemma await_Resolved:
  "await r k = (Resolved y, s') \<longleftrightarrow> (\<exists>x s. r = (Resolved x, s) \<and> k x s = (Resolved y, s'))"
  by (cases r; cases "fst r") auto

lemma catch_ignore_not_rejected: "catch r ignore \<noteq> (Rejected e, s)"
  by (cases r; cases "fst r") auto

section \<open>The site\<close>

record site =
  cfg_cache :: "settings option"
  dbs_cache :: "string list option"
  page :: browser

definition upd_page :: "(browser \<Rightarrow> browser) \<Rightarrow> ('z site_scheme \<Rightarrow> 'z site_scheme)" where
  "upd_page f s = s\<lparr>page := f (page s)\<rparr>"

text \<open>Running an operation of the browser on the page of a site.\<close>

definition on_page :: "(browser \<Rightarrow> 'a \<times> browser) \<Rightarrow> 'z site_scheme \<Rightarrow> 'a \<times> 'z site_scheme" where
  "on_page f s = (case f (page s) of (x, b) \<Rightarrow> (x, s\<lparr>page := b\<rparr>))"

definition toast :: "string \<Rightarrow> string \<Rightarrow> 'z site_scheme \<Rightarrow> 'z site_scheme" where
  "toast m k = upd_page (showToast m k)"

definition put_markup :: "string \<Rightarrow> html list \<Rightarrow> 'z site_scheme \<Rightarrow> 'z site_scheme" where
  "put_markup i hs = upd_page (set_inner i hs)"

definition after :: "nat \<Rightarrow> callback \<Rightarrow> 'z site_scheme \<Rightarrow> 'z site_scheme" where
  "after d a = upd_page (\<lambda>b. snd (set_timeout d a b))"

definition ensure :: "settings_net \<Rightarrow> string \<Rightarrow> 'z site_scheme \<Rightarrow> string outcome \<times> 'z site_scheme" where
  "ensure net feature s =
     (case ensureSelected net feature (cfg_cache s) (page s) of (r, c, b) \<Rightarrow> (r, s\<lparr>cfg_cache := c, page := b\<rparr>))"

definition profiles_into :: "settings_net \<Rightarrow> string \<Rightarrow> string \<Rightarrow> 'z site_scheme \<Rightarrow> unit outcome \<times> 'z site_scheme" where
  "profiles_into net i feature s =
     (case profile_renderInto net i feature (cfg_cache s) (page s) of (r, c, b) \<Rightarrow> (r, s\<lparr>cfg_cache := c, page := b\<rparr>))"

definition databases :: "string list option net \<Rightarrow> 'z site_scheme \<Rightarrow> string list outcome \<times> 'z site_scheme" where
  "databases net s = (case db_load net (dbs_cache s) (page s) of (r, c, b) \<Rightarrow> (r, s\<lparr>dbs_cache := c, page := b\<rparr>))"

definition databases_into :: "string list option net \<Rightarrow> string \<Rightarrow> 'z site_scheme \<Rightarrow> unit outcome \<times> 'z site_scheme" where
  "databases_into net i s =
     (case db_renderInto net i (dbs_cache s) (page s) of (r, c, b) \<Rightarrow> (r, s\<lparr>dbs_cache := c, page := b\<rparr>))"

abbreviation requests :: "'z site_scheme \<Rightarrow> request list" where
  "requests s \<equiv> sent (page s)"

lemma upd_page_sel [simp]: "page (upd_page f s) = f (page s)"
  by (simp add: upd_page_def)

lemma on_page_eq: "on_page f s = (r, s') \<longleftrightarrow> (\<exists>b. f (page s) = (r, b) \<and> s' = s\<lparr>page := b\<rparr>)"
  by (auto simp: on_page_def split: prod.splits)

lemma site_frames [simp]:
  "requests (toast m k s) = requests s" "requests (put_markup i hs s) = requests s" "requests (after d a s) = requests s"
  "Browser.dom (page (toast m k s)) = Browser.dom (page s)" "Browser.dom (page (after d a s)) = Browser.dom (page s)"
  by (simp_all add: toast_def put_markup_def after_def)

text \<open>Calls keep the document.\<close>

lemma ensure_dom: "ensure net f s = (r, s') \<Longrightarrow> Browser.dom (page s') = Browser.dom (page s)"
  by (auto simp: ensure_def split: prod.splits dest: ensureSelected_dom)

lemma call_dom:
  "on_page (api net rq) s = (r, s') \<Longrightarrow> Browser.dom (page s') = Browser.dom (page s)"
  "on_page (apiProtected net' rq) s = (r', s') \<Longrightarrow> Browser.dom (page s') = Browser.dom (page s)"
  by (auto simp: on_page_eq dest: api_dom api_dom [unfolded api_def])

text \<open>A guarded action: when the dialog is not confirmed, nothing is sent and nothing else changes.\<close>

definition confirmed :: "string \<Rightarrow> string \<Rightarrow> confirm_options \<Rightarrow> ('z site_scheme \<Rightarrow> unit outcome \<times> 'z site_scheme) \<Rightarrow>
    'z site_scheme \<Rightarrow> unit outcome \<times> 'z site_scheme" where
  "confirmed t m opts act s =
     await (on_page (showConfirm t m opts) s) (\<lambda>ok s1. if ok then act s1 else (Resolved (), s1))"

lemma confirmed_refused:
  assumes "fst (showConfirm t m opts (page s)) \<noteq> Resolved True"
  shows "requests (snd (confirmed t m opts act s)) = requests s"
proof -
  obtain r b where c: "showConfirm t m opts (page s) = (r, b)" by fastforce
  then have "sent b = sent (page s)" by (auto dest: showConfirm_frame)
  with c assms show ?thesis by (cases r) (auto simp: confirmed_def on_page_def)
qed

text \<open>\<^verbatim>\<open>el.appendChild\<close> of elements without an id.\<close>

definition append_children :: "string \<Rightarrow> html list \<Rightarrow> browser \<Rightarrow> browser" where
  "append_children i hs = upd_node i (\<lambda>n. n\<lparr>content := Markup ((case content n of Markup gs \<Rightarrow> gs | Plain t \<Rightarrow> if t = [] then [] else [Txt (escHtml t)]) @ hs)\<rparr>)"

text \<open>\<^verbatim>\<open>select.value = v\<close>: an option with that value, or none and the empty value.\<close>

definition pick :: "string \<Rightarrow> string \<Rightarrow> browser \<Rightarrow> browser" where
  "pick i v =
     upd_node i (\<lambda>n. n\<lparr>val := (case content n of
        Markup hs \<Rightarrow> if v \<in> fst ` set (concat (map options_of hs)) then v else []
      | Plain t \<Rightarrow> [])\<rparr>)"

section \<open>Escaping three characters\<close>

definition escape3 :: "string \<Rightarrow> string" where
  "escape3 s = replace_all CHR ''>'' ''&gt;'' (replace_all CHR ''<'' ''&lt;'' (replace_all CHR ''&'' ''&amp;'' s))"

lemma escape3_no_lt [markup_safe]: "CHR ''<'' \<notin> set (escape3 s)"
  by (auto simp: escape3_def replace_all_def split: if_splits)

section \<open>Elements without elements inside\<close>

lemma no_nodes_map: "(\<And>x. nodes_of (f x) = []) \<Longrightarrow> concat (map nodes_of (map f xs)) = []"
  by (induction xs) simp_all

lemma no_nodes_concat: "(\<And>x. concat (map nodes_of (f x)) = []) \<Longrightarrow> concat (map nodes_of (concat (map f xs))) = []"
  by (induction xs) simp_all

text \<open>An element without named elements inside: writing it touches no other.\<close>

definition leaf :: "string \<Rightarrow> browser \<Rightarrow> bool" where
  "leaf i b = (\<exists>n. Browser.dom b i = Some n \<and> (case content n of Markup hs \<Rightarrow> nodes_of_list hs = [] | Plain t \<Rightarrow> True))"

lemma leaf_node:
  assumes "leaf i b"
  obtains n where "Browser.dom b i = Some n" "drop_ids (content n) (Browser.dom b) = Browser.dom b"
proof -
  obtain n where n: "Browser.dom b i = Some n" "case content n of Markup hs \<Rightarrow> nodes_of_list hs = [] | Plain t \<Rightarrow> True"
    using assms unfolding leaf_def by blast
  from n(2) have "drop_ids (content n) (Browser.dom b) = Browser.dom b" by (cases "content n") (simp_all add: drop_ids_def)
  with n(1) show thesis by (rule that)
qed

lemma set_inner_leaf:
  assumes "leaf i b" "nodes_of_list hs = []"
  shows "set_inner i hs b = upd_node i (\<lambda>n. n\<lparr>content := Markup hs\<rparr>) b"
  by (rule leaf_node [OF assms(1)]) (simp add: set_inner_def upd_node_def assms(2))

lemma set_text_leaf:
  assumes "leaf i b"
  shows "set_text i t b = upd_node i (\<lambda>n. n\<lparr>content := Plain t\<rparr>) b"
  by (rule leaf_node [OF assms]) (simp add: set_text_def upd_node_def)

lemma leaf_upd_node: "leaf i b \<Longrightarrow> (\<And>n. content (f n) = content n) \<Longrightarrow> leaf i (upd_node j f b)"
  by (auto simp: leaf_def upd_node_def)

lemma leaf_write:
  "leaf i b \<Longrightarrow> leaf j b \<Longrightarrow> nodes_of_list hs = [] \<Longrightarrow> leaf i (set_inner j hs b)"
  "leaf i b \<Longrightarrow> leaf j b \<Longrightarrow> leaf i (set_text j t b)"
  by (auto simp: set_inner_leaf set_text_leaf) (auto simp: leaf_def upd_node_def)

lemma leaf_other: "leaf i b \<Longrightarrow> nodes_of_list hs = [] \<Longrightarrow> j \<noteq> i \<Longrightarrow> Browser.dom (set_inner i hs b) j = Browser.dom b j"
  by (simp add: set_inner_leaf upd_node_def)

lemma leaf_inner:
  "leaf i b \<Longrightarrow> nodes_of_list hs = [] \<Longrightarrow> inner i (set_inner i hs b) = hs"
  "leaf i b \<Longrightarrow> nodes_of_list hs = [] \<Longrightarrow> j \<noteq> i \<Longrightarrow> inner j (set_inner i hs b) = inner j b"
  by (auto simp: inner_def leaf_other) (auto simp: set_inner_leaf upd_node_def leaf_def)

lemma leaf_dom: "Browser.dom b' = Browser.dom b \<Longrightarrow> leaf i b' = leaf i b"
  by (simp add: leaf_def)

definition off :: "string \<Rightarrow> browser \<Rightarrow> bool option" where
  "off i b = map_option disabled (Browser.dom b i)"

lemma off_write:
  "leaf j b \<Longrightarrow> nodes_of_list hs = [] \<Longrightarrow> off i (set_inner j hs b) = off i b"
  "leaf j b \<Longrightarrow> off i (set_text j t b) = off i b"
  "off i (set_class j c b) = off i b" "off i (set_style j p v b) = off i b"
  "off i (set_disabled j d b) = (if i = j then map_option (\<lambda>_. d) (off i b) else off i b)"
  by (auto simp: set_inner_leaf set_text_leaf) (auto simp: off_def upd_node_def node_setters option.map_comp comp_def)

lemma leaf_style: "leaf i b \<Longrightarrow> leaf i (set_class j c b)" "leaf i b \<Longrightarrow> leaf i (set_style j p v b)"
  "leaf i b \<Longrightarrow> leaf i (set_disabled j d b)"
  by (simp_all add: node_setters leaf_upd_node)

lemma off_dom: "Browser.dom b' = Browser.dom b \<Longrightarrow> off i b' = off i b"
  by (simp add: off_def)

lemma leaf_element: "leaf i b \<Longrightarrow> element i b \<and> off i b \<noteq> None"
  by (auto simp: leaf_def element_def off_def)

section \<open>URLSearchParams\<close>

definition form_safe :: "char \<Rightarrow> bool" where
  "form_safe c = (is_digit c \<or> is_alpha c \<or> c \<in> set [CHR ''*'', CHR ''-'', CHR ''.'', CHR ''_''])"

definition form_char :: "char \<Rightarrow> string" where
  "form_char c =
     (if form_safe c then [c]
      else if c = CHR '' '' then ''+''
      else [CHR ''%'', hex_digit (of_char c div 16), hex_digit (of_char c mod 16)])"

definition form_encode :: "string \<Rightarrow> string" where
  "form_encode s = concat (map form_char s)"

definition params_string :: "(string \<times> string) list \<Rightarrow> string" where
  "params_string ps = join_with ''&'' (map (\<lambda>(k, v). form_encode k @ ''='' @ form_encode v) ps)"

definition selection_params :: "string \<Rightarrow> string \<Rightarrow> string" where
  "selection_params db prof =
     params_string ((if db \<noteq> [] then [(''database'', db)] else []) @ (if prof \<noteq> [] then [(''profile'', prof)] else []))"

text \<open>The parameters most pages put behind their path.\<close>

definition selection :: "settings_net \<Rightarrow> string \<Rightarrow> 'z site_scheme \<Rightarrow> string outcome \<times> 'z site_scheme" where
  "selection net feature s =
     (let db = db_getSelected (page s) in
      await (ensure net feature s) (\<lambda>prof s1. (Resolved (selection_params db prof), s1)))"

text \<open>What the server reads back from one value.\<close>

fun form_decode :: "string \<Rightarrow> string option" where
  "form_decode [] = Some []"
| "form_decode (c # cs) =
     (if c = CHR ''+'' then map_option ((#) (CHR '' '')) (form_decode cs)
      else if c = CHR ''%'' then
        (case cs of
           a # b # rest \<Rightarrow>
             (case (hex_val a, hex_val b) of
                (Some x, Some y) \<Rightarrow> map_option ((#) (char_of (16 * x + y))) (form_decode rest)
              | _ \<Rightarrow> None)
         | _ \<Rightarrow> None)
      else map_option ((#) c) (form_decode cs))"

lemma form_safe_not:
  "form_safe c \<Longrightarrow> c \<noteq> CHR ''+'' \<and> c \<noteq> CHR ''%'' \<and> c \<noteq> CHR ''&'' \<and> c \<noteq> CHR ''='' \<and> c \<noteq> CHR ''#''"
  by (auto simp: form_safe_def is_alpha_def is_digit_def)

lemma of_char_div_16: "(of_char c :: nat) div 16 < 16"
  using of_char_less_256 [of c] by (simp add: less_mult_imp_div_less)

lemma form_decode_char: "form_decode (form_char c @ s) = map_option ((#) c) (form_decode s)"
proof (cases "form_safe c \<or> c = CHR '' ''")
  case True
  then show ?thesis using form_safe_not [of c] by (auto simp: form_char_def)
next
  case False
  have "16 * ((of_char c :: nat) div 16) + of_char c mod 16 = of_char c" by simp
  then show ?thesis
    using False of_char_div_16 [of c] by (simp add: form_char_def)
qed

lemma form_decode_encode: "form_decode (form_encode s) = Some s"
  by (induction s) (simp_all add: form_encode_def form_decode_char)

lemma form_safe_hex: "n < 16 \<Longrightarrow> form_safe (hex_digit n)"
  by (auto simp: form_safe_def is_alpha_def is_digit_def hex_digit_def)

lemma form_char_chars: "x \<in> set (form_char c) \<Longrightarrow> form_safe x \<or> x = CHR ''+'' \<or> x = CHR ''%''"
  using form_safe_hex [OF of_char_div_16 [of c]] form_safe_hex [of "of_char c mod 16"]
  by (auto simp: form_char_def split: if_splits)

lemma form_encode_chars: "x \<in> set (form_encode s) \<Longrightarrow> x \<noteq> CHR ''&'' \<and> x \<noteq> CHR ''='' \<and> x \<noteq> CHR ''#''"
  using form_char_chars form_safe_not by (fastforce simp: form_encode_def)

section \<open>Literals in onclick attributes\<close>

text \<open>
  A single-quoted JavaScript string from behind its opening quote: its value and the rest of the
  script, or \<^verbatim>\<open>None\<close> when it does not end on its line (or uses a numeric escape, which no
  caller needs).
\<close>

definition js_escape :: "char \<Rightarrow> string option" where
  "js_escape c =
     (if c = CHR ''n'' then Some [CHR 0x0A] else if c = CHR ''t'' then Some [CHR 0x09]
      else if c = CHR ''r'' then Some [CHR 0x0D] else if c = CHR ''b'' then Some [CHR 0x08]
      else if c = CHR ''f'' then Some [CHR 0x0C] else if c = CHR ''v'' then Some [CHR 0x0B]
      else if c = CHR ''x'' \<or> c = CHR ''u'' \<or> is_digit c then None
      else Some [c])"

fun js_literal :: "string \<Rightarrow> (string \<times> string) option" where
  "js_literal [] = None"
| "js_literal (c # cs) =
     (if c = CHR 0x27 then Some ([], cs)
      else if c = CHR 0x0A \<or> c = CHR 0x0D then None
      else if c = CHR 0x5C then
        (case cs of
           [] \<Rightarrow> None
         | e # rest \<Rightarrow>
             (case (js_escape e, js_literal rest) of
                (Some x, Some (v, r)) \<Rightarrow> Some (x @ v, r)
              | _ \<Rightarrow> None))
      else (case js_literal cs of Some (v, r) \<Rightarrow> Some (c # v, r) | None \<Rightarrow> None))"

definition js_plain :: "string \<Rightarrow> bool" where
  "js_plain s = list_all (\<lambda>c. c \<noteq> CHR 0x27 \<and> c \<noteq> CHR 0x5C \<and> c \<noteq> CHR 0x0A \<and> c \<noteq> CHR 0x0D) s"

lemma js_plain_simps [simp]:
  "js_plain []" "js_plain (c # s) = (c \<noteq> CHR 0x27 \<and> c \<noteq> CHR 0x5C \<and> c \<noteq> CHR 0x0A \<and> c \<noteq> CHR 0x0D \<and> js_plain s)"
  "js_plain (s @ t) = (js_plain s \<and> js_plain t)"
  by (auto simp: js_plain_def)

lemma js_plain_line: "js_plain s \<Longrightarrow> one_line s = s"
  by (rule one_line_id) (auto simp: js_plain_def list_all_iff)

lemma js_literal_plain: "js_plain s \<Longrightarrow> js_literal (s @ CHR 0x27 # rest) = Some (s, rest)"
  by (induction s) simp_all

lemma js_literal_shorter: "js_literal s = Some (v, r) \<Longrightarrow> length r < length s"
  by (induction s arbitrary: v r rule: js_literal.induct) (fastforce split: if_splits option.splits list.splits)+

text \<open>
  A call \<^verbatim>\<open>f('a','b')\<close>: the arguments, and what follows the closing parenthesis.
\<close>

function js_args :: "string \<Rightarrow> (string list \<times> string) option" where
  "js_args s =
     (case s of
        [] \<Rightarrow> None
      | c # cs \<Rightarrow>
          if c \<noteq> CHR 0x27 then None
          else (case js_literal cs of
              None \<Rightarrow> None
            | Some (v, r) \<Rightarrow>
                (case r of
                   [] \<Rightarrow> None
                 | d # ds \<Rightarrow>
                     if d = CHR '')'' then Some ([v], ds)
                     else if d = CHR '',''
                     then (case js_args ds of Some (vs, t) \<Rightarrow> Some (v # vs, t) | None \<Rightarrow> None)
                     else None)))"
  by pat_completeness auto
termination by (relation "measure length") (auto dest: js_literal_shorter)

declare js_args.simps [simp del]

lemma js_args_last: "js_plain v \<Longrightarrow> js_args (CHR 0x27 # v @ CHR 0x27 # CHR '')'' # t) = Some ([v], t)"
  by (subst js_args.simps) (simp add: js_literal_plain)

lemma js_args_more:
  "js_plain v \<Longrightarrow> js_args (CHR 0x27 # v @ CHR 0x27 # CHR '','' # s) =
     (case js_args s of Some (vs, t) \<Rightarrow> Some (v # vs, t) | None \<Rightarrow> None)"
  by (subst js_args.simps) (simp add: js_literal_plain)

text \<open>The call of a named method, as the handler of the decoded attribute value.\<close>

fun strip_prefix :: "string \<Rightarrow> string \<Rightarrow> string option" where
  "strip_prefix [] s = Some s"
| "strip_prefix (p # ps) [] = None"
| "strip_prefix (p # ps) (c # cs) = (if p = c then strip_prefix ps cs else None)"

definition handler_args :: "string \<Rightarrow> string \<Rightarrow> (string list \<times> string) option" where
  "handler_args f attr =
     (case strip_prefix (f @ ''('') (html_decode attr) of None \<Rightarrow> None | Some s \<Rightarrow> js_args s)"

lemma strip_prefix_append [simp]: "strip_prefix p (p @ s) = Some s"
  by (induction p) simp_all

lemma hex_digit_quote: "n < 16 \<Longrightarrow> hex_digit n \<noteq> CHR 0x27"
  by (auto simp: hex_digit_def char_of_eq_iff take_bit_eq_mod)

lemma encode_char_quote: "CHR 0x27 \<in> set (encode_char c) \<longleftrightarrow> c = CHR 0x27"
  using hex_digit_unreserved [OF of_char_div_16 [of c]] hex_digit_unreserved [of "of_char c mod 16"] hex_digit_quote [OF of_char_div_16 [of c]]
    hex_digit_quote [of "of_char c mod 16"]
  by (auto simp: encode_char_def is_unreserved_def)

lemma encode_uri_plain: "js_plain (encode_uri q) \<longleftrightarrow> CHR 0x27 \<notin> set q"
proof -
  have "js_plain (encode_uri q) \<longleftrightarrow> CHR 0x27 \<notin> set (encode_uri q)"
  proof -
    have "\<not> is_unreserved (CHR 0x5C)" "\<not> is_unreserved (CHR 0x0A)" "\<not> is_unreserved (CHR 0x0D)"
      by (simp_all add: is_unreserved_def is_digit_def)
    then have "x \<noteq> CHR 0x5C \<and> x \<noteq> CHR 0x0A \<and> x \<noteq> CHR 0x0D" if "x \<in> set (encode_uri q)" for x
      using encode_uri_chars [OF that] by auto
    then show ?thesis unfolding js_plain_def list_all_iff by blast
  qed
  also have "\<dots> \<longleftrightarrow> CHR 0x27 \<notin> set q" by (auto simp: encode_uri_def encode_char_quote)
  finally show ?thesis .
qed

lemma html_decode_plain: "CHR ''&'' \<notin> set s \<Longrightarrow> html_decode s = s"
  by (induction s rule: html_decode.induct) auto

lemma decode_plain_append: "CHR ''&'' \<notin> set p \<Longrightarrow> html_decode (p @ t) = p @ html_decode t"
  by (induction p) auto

lemma decode_esc5_append: "html_decode (esc5 s @ t) = s @ html_decode t"
  unfolding esc5_concat by (induction s) (simp_all add: decode_esc5_char)

lemma js_args_broken:
  "js_plain p \<Longrightarrow> c \<noteq> CHR '')'' \<Longrightarrow> c \<noteq> CHR '','' \<Longrightarrow> js_args (CHR 0x27 # p @ CHR 0x27 # c # q) = None"
  by (subst js_args.simps) (simp add: js_literal_plain)

text \<open>
  What the pages rely on when they write a text between single quotes into an \<^verbatim>\<open>onclick\<close> attribute: the browser
  undoes the escaping of the attribute, and what it \<^verbatim>\<open>got\<close> is read as JavaScript. Whatever the encoding, a plain
  text is passed on as it was got, a quote ends the literal, and a text that closes the call goes on as script.
\<close>

locale literal_encoder =
  fixes enc got :: "string \<Rightarrow> string"
  assumes decode_enc: "html_decode (enc s @ t) = got s @ html_decode t"
begin

lemma handler_one:
  assumes "CHR ''&'' \<notin> set f"
  shows "handler_args f (f @ ''('' @ sq @ enc a @ sq @ '')'' @ rest) = js_args (sq @ got a @ sq @ '')'' @ html_decode rest)"
  using decode_plain_append [of "f @ ''('' @ sq"] strip_prefix_append [of "f @ ''(''"] assms
  by (simp add: handler_args_def decode_enc)

lemma handler_three:
  assumes "CHR ''&'' \<notin> set f"
  shows "handler_args f (f @ ''('' @ sq @ enc a @ sq @ '','' @ sq @ enc b @ sq @ '','' @ sq @ enc c @ sq @ '')'')
    = js_args (sq @ got a @ sq @ '','' @ sq @ got b @ sq @ '','' @ sq @ got c @ sq @ '')'')"
  using decode_plain_append [of "f @ ''('' @ sq"] strip_prefix_append [of "f @ ''(''"] assms
  by (simp add: handler_args_def decode_enc)

lemma passed_on:
  assumes "CHR ''&'' \<notin> set f" "js_plain (got a)"
  shows "handler_args f (f @ ''('' @ sq @ enc a @ sq @ '')'' @ rest) = Some ([got a], html_decode rest)"
  using handler_one [OF assms(1)] js_args_last [OF assms(2)] by simp

lemma three_passed_on:
  assumes "CHR ''&'' \<notin> set f" "js_plain (got a)" "js_plain (got b)" "js_plain (got c)"
  shows "handler_args f (f @ ''('' @ sq @ enc a @ sq @ '','' @ sq @ enc b @ sq @ '','' @ sq @ enc c @ sq @ '')'')
    = Some ([got a, got b, got c], [])"
  using handler_three [OF assms(1)] js_args_last [OF assms(4), of "[]"] by (simp add: js_args_more assms(2,3))

lemma quote_ends:
  assumes "CHR ''&'' \<notin> set f" "got a = p @ CHR 0x27 # c # q" "js_plain p" "c \<noteq> CHR '')''" "c \<noteq> CHR '',''"
  shows "handler_args f (f @ ''('' @ sq @ enc a @ sq @ '')'' @ rest) = None"
  using handler_one [OF assms(1)] js_args_broken [OF assms(3-5)] by (simp add: assms(2))

lemma call_closed:
  assumes "CHR ''&'' \<notin> set f" "got a = p @ sq @ '')'' @ code" "js_plain p"
  shows "handler_args f (f @ ''('' @ sq @ enc a @ sq @ '')'' @ rest) = Some ([p], code @ sq @ '')'' @ html_decode rest)"
  using handler_one [OF assms(1)] js_args_last [OF assms(3)] by (simp add: assms(2))

end

lemma decode_escHtml_append: "html_decode (escHtml s @ t) = s @ html_decode t"
  unfolding escHtml_concat by (induction s) (simp_all add: decode_esc_char)

lemma decode_encode_uri_append: "html_decode (encode_uri s @ t) = encode_uri s @ html_decode t"
  by (rule decode_plain_append) (simp add: encode_uri_separators)

interpretation lit5: literal_encoder esc5 "\<lambda>s. s"
  by unfold_locales (rule decode_esc5_append)

interpretation lith: literal_encoder escHtml "\<lambda>s. s"
  by unfold_locales (rule decode_escHtml_append)

interpretation litu: literal_encoder encode_uri encode_uri
  by unfold_locales (rule decode_encode_uri_append)

section \<open>Tables as the user reads them\<close>

text \<open>The rows of the tables in a fragment, each as the list of its data cells, without the rows of headings; and their texts.\<close>

fun is_td :: "html \<Rightarrow> bool" where
  "is_td (Txt s) = False"
| "is_td (El t as hs) = (t = ''td'')"

fun rows_in :: "html \<Rightarrow> html list list" where
  "rows_in (Txt s) = []"
| "rows_in (El t as hs) = (if t = ''tr'' then [filter is_td hs] else concat (map rows_in hs))"

definition table_rows :: "html list \<Rightarrow> html list list" where
  "table_rows hs = filter (\<lambda>r. r \<noteq> []) (concat (map rows_in hs))"

definition table_texts :: "html list \<Rightarrow> string list list" where
  "table_texts hs = map (map text_of) (table_rows hs)"

definition full_text :: "html list \<Rightarrow> string" where
  "full_text hs = concat (map text_of hs)"

lemma table_rows_append: "table_rows (hs @ gs) = table_rows hs @ table_rows gs"
  by (simp add: table_rows_def)

lemma table_rows_concat:
  "(\<And>x. x \<in> set xs \<Longrightarrow> table_rows (row x) = [cells x]) \<Longrightarrow> table_rows (concat (map row xs)) = map cells xs"
  by (induction xs) (simp_all add: table_rows_append, simp add: table_rows_def)

lemma text_escHtml [simp]: "html_decode (escHtml s) = s"
  using decode_escHtml_append [of s "[]"] by simp

lemma decode_join_escHtml: "html_decode (join_with '', '' (map escHtml xs)) = join_with '', '' xs"
proof (induction xs)
  case (Cons x xs)
  then show ?case by (cases xs) (simp_all add: decode_escHtml_append)
qed simp

end
