(* ===== verification/Charts.thy ===== *)
theory Charts
  imports Site
begin

text \<open>
  The line charts of the dashboard, \<^verbatim>\<open>_renderLineChart\<close> of dashboard.js. The plotting library d3
  is third-party code: its scales, ticks, path generators and maximum, and the size the browser gives
  an element, are the fields of \<^verbatim>\<open>plotter\<close>; what the chart relies on is \<^verbatim>\<open>d3_documented\<close>. A chart is
  the record of what its groups contain; its \<^verbatim>\<open>svg\<close> element stands in the document without them,
  with the view box of the size at which it was created.
\<close>

section \<open>Points, series, library\<close>

text \<open>\<^verbatim>\<open>None\<close> is NaN.\<close>

record point =
  p_time :: string
  p_commits :: "int option"
  p_rollbacks :: "int option"
  p_active :: int
  p_idle :: int
  p_waiting :: int

record series =
  s_label :: string
  s_color :: string
  s_value :: "point \<Rightarrow> int option"

record plotter =
  d3_linear :: "rat \<times> rat \<Rightarrow> rat \<times> rat \<Rightarrow> rat \<Rightarrow> rat"
  d3_ticks :: "rat \<times> rat \<Rightarrow> nat \<Rightarrow> rat list"
  d3_max :: "int option list \<Rightarrow> int option"
  d3_line :: "(rat \<times> rat option) list \<Rightarrow> string"
  d3_area :: "rat \<Rightarrow> (rat \<times> rat option) list \<Rightarrow> string"
  client_size :: "string \<Rightarrow> int \<times> int"

definition d3_documented :: "plotter \<Rightarrow> bool" where
  "d3_documented d =
     ((\<forall>a b c e x. a < b \<longrightarrow> d3_linear d (a, b) (c, e) x = c + (x - a) / (b - a) * (e - c))
      \<and> (\<forall>a b n. \<forall>t \<in> set (d3_ticks d (a, b) n). a \<le> t \<and> t \<le> b)
      \<and> (\<forall>vs v. Some v \<in> set vs \<longrightarrow> (\<exists>m. d3_max d vs = Some m \<and> v \<le> m)))"

record chart =
  ch_viewbox :: "int \<times> int"
  ch_legend :: "(int \<times> string \<times> string) list"
  ch_grid :: "(rat \<times> rat) list"
  ch_ylabels :: "(rat \<times> rat) list"
  ch_xlabels :: "(nat \<times> rat \<times> rat \<times> string) list"
  ch_paths :: "(string \<times> string) list"

type_synonym charts = "string \<rightharpoonup> chart"

section \<open>Drawing\<close>

text \<open>The inner width and height: the margins are 20 above and below, 30 left and 8 right.\<close>

definition inner_size :: "int \<times> int \<Rightarrow> rat \<times> rat" where
  "inner_size sz = (case sz of (w, h) \<Rightarrow> (of_int (w - 30 - 8), of_int (h - 20 - 20)))"

definition svg_markup :: "int \<times> int \<Rightarrow> html list" where
  "svg_markup sz =
     [El ''svg'' [At ''viewBox'' (''0 0 '' @ str_of_int (fst sz) @ '' '' @ str_of_int (snd sz)),
                  At ''preserveAspectRatio'' ''none''] []]"

definition svg_created :: "int \<times> int \<Rightarrow> series list \<Rightarrow> chart" where
  "svg_created sz ss =
     \<lparr>ch_viewbox = sz,
      ch_legend = map (\<lambda>i. (int i * 60, s_color (ss ! i), s_label (ss ! i))) [0..<length ss],
      ch_grid = [], ch_ylabels = [], ch_xlabels = [], ch_paths = map (\<lambda>s. ([], [])) ss\<rparr>"

fun has_svg :: "html list \<Rightarrow> bool" where
  "has_svg [] = False"
| "has_svg (Txt s # hs) = has_svg hs"
| "has_svg (El t as gs # hs) = (t = ''svg'' \<or> has_svg gs \<or> has_svg hs)"

definition x_pos :: "plotter \<Rightarrow> rat \<Rightarrow> nat \<Rightarrow> nat \<Rightarrow> rat" where
  "x_pos d iw n i = d3_linear d (0, of_nat (n - 1)) (0, iw) (of_nat i)"

definition y_max :: "plotter \<Rightarrow> series list \<Rightarrow> point list \<Rightarrow> int" where
  "y_max d ss ps = max (or_int (or_none (d3_max d (concat (map (\<lambda>s. map (s_value s) ps) ss))) 0) 1) 1"

definition y_pos :: "plotter \<Rightarrow> rat \<Rightarrow> int \<Rightarrow> rat \<Rightarrow> rat" where
  "y_pos d ih hi v = d3_linear d (0, of_int hi) (ih, 0) v"

text \<open>The points of a series; a NaN has no height.\<close>

definition plotted :: "plotter \<Rightarrow> rat \<times> rat \<Rightarrow> int \<Rightarrow> point list \<Rightarrow> series \<Rightarrow> (rat \<times> rat option) list" where
  "plotted d sz hi ps s =
     map (\<lambda>i. (x_pos d (fst sz) (length ps) i, map_option (\<lambda>v. y_pos d (snd sz) hi (of_int v)) (s_value s (ps ! i))))
       [0..<length ps]"

text \<open>The joined grid lines: a line that stays keeps the length it was created with.\<close>

definition join_grid :: "rat \<Rightarrow> (rat \<Rightarrow> rat) \<Rightarrow> rat list \<Rightarrow> (rat \<times> rat) list \<Rightarrow> (rat \<times> rat) list" where
  "join_grid iw y ticks old =
     map (\<lambda>i. (if i < length old then fst (old ! i) else iw, y (ticks ! i))) [0..<length ticks]"

definition label_indices :: "nat \<Rightarrow> nat list" where
  "label_indices n = filter (\<lambda>i. i mod 8 = 0 \<or> i = n - 1) [0..<n]"

text \<open>The joined time labels: keyed by index, one that stays keeps its height.\<close>

definition join_xlabels ::
    "rat \<Rightarrow> (nat \<Rightarrow> rat) \<Rightarrow> point list \<Rightarrow> (nat \<times> rat \<times> rat \<times> string) list \<Rightarrow> (nat \<times> rat \<times> rat \<times> string) list" where
  "join_xlabels ih x ps old =
     map (\<lambda>i. (i, x i, (case find (\<lambda>l. fst l = i) old of Some l \<Rightarrow> fst (snd (snd l)) | None \<Rightarrow> ih + 14), p_time (ps ! i)))
       (label_indices (length ps))"

definition chart_updated :: "plotter \<Rightarrow> int \<times> int \<Rightarrow> point list \<Rightarrow> series list \<Rightarrow> chart \<Rightarrow> chart" where
  "chart_updated d area ps ss ch =
     (let sz = inner_size area;
          hi = y_max d ss ps;
          y = y_pos d (snd sz) hi;
          ticks = d3_ticks d (0, of_int hi) 4
      in ch\<lparr>ch_grid := join_grid (fst sz) y ticks (ch_grid ch),
            ch_ylabels := map (\<lambda>t. (y t, t)) ticks,
            ch_xlabels := join_xlabels (snd sz) (x_pos d (fst sz) (length ps)) ps (ch_xlabels ch),
            ch_paths := map (\<lambda>s. (d3_area d (snd sz) (plotted d sz hi ps s), d3_line d (plotted d sz hi ps s))) ss\<rparr>)"

text \<open>\<^verbatim>\<open>i\<close> is the id in the selector.\<close>

definition renderLineChart ::
    "plotter \<Rightarrow> string \<Rightarrow> point list \<Rightarrow> series list \<Rightarrow> charts \<times> browser \<Rightarrow> charts \<times> browser" where
  "renderLineChart d i ps ss st =
     (let (cs, b) = st in
      if \<not> element i b \<or> length ps < 2 then st
      else (let area = client_size d i;
                (ch, b1) = (case cs i of
                    Some c \<Rightarrow> if has_svg (inner i b) then (c, b) else (svg_created area ss, set_inner i (svg_markup area) b)
                  | None \<Rightarrow> (svg_created area ss, set_inner i (svg_markup area) b))
            in (cs(i \<mapsto> chart_updated d area ps ss ch), b1)))"

section \<open>Where the points lie\<close>

lemma d3_documentedD:
  assumes "d3_documented d"
  shows "a < b \<Longrightarrow> d3_linear d (a, b) (c, e) x = c + (x - a) / (b - a) * (e - c)"
    and "t \<in> set (d3_ticks d (a, b) n) \<Longrightarrow> a \<le> t \<and> t \<le> b"
    and "Some v \<in> set vs \<Longrightarrow> \<exists>m. d3_max d vs = Some m \<and> v \<le> m"
  using assms unfolding d3_documented_def by blast+

lemma y_max_pos: "1 \<le> y_max d ss ps"
  by (simp add: y_max_def)

lemma y_max_ge:
  assumes "d3_documented d" "s \<in> set ss" "p \<in> set ps" "s_value s p = Some v"
  shows "v \<le> y_max d ss ps"
proof -
  have "Some v \<in> set (concat (map (\<lambda>s. map (s_value s) ps) ss))"
    using assms(2,3,4) by (auto intro!: bexI [of _ s] image_eqI [of _ _ p])
  then obtain m where "d3_max d (concat (map (\<lambda>s. map (s_value s) ps) ss)) = Some m" "v \<le> m"
    using d3_documentedD(3) [OF assms(1)] by blast
  then show ?thesis by (auto simp: y_max_def or_int_def)
qed

lemma frac_bounds: "0 \<le> x \<Longrightarrow> x \<le> a \<Longrightarrow> 0 < a \<Longrightarrow> 0 \<le> w \<Longrightarrow> 0 \<le> x / a * w \<and> x / a * w \<le> (w :: rat)"
  by (simp add: pos_divide_le_eq mult.commute [of w] mult_right_mono)

lemma x_pos_bounds:
  assumes "d3_documented d" "2 \<le> n" "i < n" "0 \<le> iw"
  shows "0 \<le> x_pos d iw n i" "x_pos d iw n i \<le> iw"
proof -
  have n: "(0::rat) < of_nat (n - 1)" using assms(2) by simp
  have "x_pos d iw n i = of_nat i / of_nat (n - 1) * iw"
    using d3_documentedD(1) [OF assms(1) n, of 0 iw "of_nat i"] by (simp add: x_pos_def)
  moreover have "(of_nat i :: rat) \<le> of_nat (n - 1)" using assms(3) by (simp only: of_nat_le_iff)
  ultimately show "0 \<le> x_pos d iw n i" "x_pos d iw n i \<le> iw"
    using frac_bounds [of "of_nat i" "of_nat (n - 1)" iw] n assms(4) by simp_all
qed

lemma y_pos_bounds:
  assumes "d3_documented d" "1 \<le> hi" "0 \<le> v" "v \<le> of_int hi" "0 \<le> ih"
  shows "0 \<le> y_pos d ih hi v" "y_pos d ih hi v \<le> ih"
proof -
  have t: "(0::rat) < of_int hi" using assms(2) by simp
  have "y_pos d ih hi v = ih - v / of_int hi * ih"
    using d3_documentedD(1) [OF assms(1) t, of ih 0 v] by (simp add: y_pos_def)
  with frac_bounds [of v "of_int hi" ih] assms t show "0 \<le> y_pos d ih hi v" "y_pos d ih hi v \<le> ih" by simp_all
qed

text \<open>
  The inner frame of the picture is that of its view box. A chart fits when every grid line, its length and its height, and every label
  of the axes lies inside it, a time label up to 14 below it, where the margin is 20; it shows its points when the paths are those
  of the series and each of their points lies inside, and the value labels stand at the grid lines, with values between 0 and the maximum.
\<close>

definition box :: "chart \<Rightarrow> rat \<times> rat" where
  "box ch = (case ch_viewbox ch of (w, h) \<Rightarrow> (of_int w - 30 - 8, of_int h - 20 - 20))"

lemma box_inner: "box ch = inner_size (ch_viewbox ch)"
  by (simp add: box_def inner_size_def split: prod.split)

definition fits :: "chart \<Rightarrow> bool" where
  "fits ch =
     (list_all (\<lambda>(x2, y). 0 \<le> x2 \<and> x2 \<le> fst (box ch) \<and> 0 \<le> y \<and> y \<le> snd (box ch)) (ch_grid ch)
      \<and> list_all (\<lambda>(y, t). 0 \<le> y \<and> y \<le> snd (box ch)) (ch_ylabels ch)
      \<and> list_all (\<lambda>(k, x, y, t). 0 \<le> x \<and> x \<le> fst (box ch) \<and> 0 \<le> y \<and> y \<le> snd (box ch) + 14) (ch_xlabels ch))"

definition frame_ok :: "plotter \<Rightarrow> string \<Rightarrow> point list \<Rightarrow> series list \<Rightarrow> chart \<Rightarrow> bool" where
  "frame_ok d i ps ss ch =
     (let sz = inner_size (client_size d i); hi = y_max d ss ps; pl = plotted d sz hi ps in
      fits ch
      \<and> ch_paths ch = map (\<lambda>s. (d3_area d (snd sz) (pl s), d3_line d (pl s))) ss \<and> snd sz \<le> snd (box ch)
      \<and> list_all (\<lambda>s. list_all (\<lambda>(x, y). 0 \<le> x \<and> x \<le> fst (box ch)
            \<and> (case y of None \<Rightarrow> True | Some v \<Rightarrow> 0 \<le> v \<and> v \<le> snd (box ch))) (pl s)) ss
      \<and> map fst (ch_ylabels ch) = map snd (ch_grid ch)
      \<and> list_all (\<lambda>(y, t). 0 \<le> t \<and> t \<le> of_int hi) (ch_ylabels ch))"

definition no_larger :: "int \<times> int \<Rightarrow> int \<times> int \<Rightarrow> bool" where
  "no_larger a b = (fst a \<le> fst b \<and> snd a \<le> snd b)"

text \<open>The sizes at which a chart is drawn at all: its margins fit into its element.\<close>

definition drawable :: "int \<times> int \<Rightarrow> bool" where
  "drawable a = no_larger (38, 40) a"

lemma inner_size_le:
  assumes "drawable a" "no_larger a b"
  shows "0 \<le> fst (inner_size a)" "0 \<le> snd (inner_size a)" "fst (inner_size a) \<le> fst (inner_size b)" "snd (inner_size a) \<le> snd (inner_size b)"
proof -
  have "0 \<le> fst a - 30 - 8" "0 \<le> snd a - 20 - 20" "fst a - 30 - 8 \<le> fst b - 30 - 8" "snd a - 20 - 20 \<le> snd b - 20 - 20"
    using assms by (simp_all add: drawable_def no_larger_def)
  then show "0 \<le> fst (inner_size a)" "0 \<le> snd (inner_size a)" "fst (inner_size a) \<le> fst (inner_size b)" "snd (inner_size a) \<le> snd (inner_size b)"
    unfolding inner_size_def by (simp_all only: case_prod_beta fst_conv snd_conv of_int_0_le_iff of_int_le_iff)
qed

lemma chart_updated_viewbox [simp]: "ch_viewbox (chart_updated d sz ps ss ch) = ch_viewbox ch"
  by (simp add: chart_updated_def Let_def)

lemma svg_created_viewbox [simp]: "ch_viewbox (svg_created sz ss) = sz"
  by (simp add: svg_created_def)

lemma svg_created_fits: "fits (svg_created sz ss)"
  by (simp add: svg_created_def fits_def)

lemma grid_fits:
  assumes "fits ch" "0 \<le> w" "w \<le> fst (box ch)" "\<And>t. t \<in> set ts \<Longrightarrow> 0 \<le> y t \<and> y t \<le> snd (box ch)"
  shows "list_all (\<lambda>(x2, y). 0 \<le> x2 \<and> x2 \<le> fst (box ch) \<and> 0 \<le> y \<and> y \<le> snd (box ch)) (join_grid w y ts (ch_grid ch))"
proof -
  have "0 \<le> fst (ch_grid ch ! k) \<and> fst (ch_grid ch ! k) \<le> fst (box ch)" if "k < length (ch_grid ch)" for k
    using assms(1) nth_mem [OF that] by (fastforce simp: fits_def list_all_iff)
  then show ?thesis using assms(2,3,4) by (auto simp: list_all_iff join_grid_def)
qed

lemma xlabels_fit:
  assumes "fits ch" "0 \<le> h" "h \<le> snd (box ch)" "\<And>k. k < length ps \<Longrightarrow> 0 \<le> x k \<and> x k \<le> fst (box ch)"
  shows "list_all (\<lambda>(k, x, y, t). 0 \<le> x \<and> x \<le> fst (box ch) \<and> 0 \<le> y \<and> y \<le> snd (box ch) + 14) (join_xlabels h x ps (ch_xlabels ch))"
proof -
  have "0 \<le> fst (snd (snd l)) \<and> fst (snd (snd l)) \<le> snd (box ch) + 14" if "find (\<lambda>l. fst l = k) (ch_xlabels ch) = Some l" for k l
  proof -
    from that have "l \<in> set (ch_xlabels ch)" by (auto simp: find_Some_iff)
    with assms(1) show ?thesis by (fastforce simp: fits_def list_all_iff)
  qed
  then show ?thesis using assms(2,3,4) by (auto simp: list_all_iff join_xlabels_def label_indices_def split: option.split)
qed

lemma chart_updated_frame:
  assumes "d3_documented d" "2 \<le> length ps" "drawable (client_size d i)" "no_larger (client_size d i) (ch_viewbox ch)" "fits ch"
    and "\<And>s p v. s \<in> set ss \<Longrightarrow> p \<in> set ps \<Longrightarrow> s_value s p = Some v \<Longrightarrow> 0 \<le> v"
  shows "frame_ok d i ps ss (chart_updated d (client_size d i) ps ss ch)"
proof -
  let ?sz = "inner_size (client_size d i)" and ?m = "y_max d ss ps"
  let ?ch = "chart_updated d (client_size d i) ps ss ch"
  note sz = inner_size_le [OF assms(3,4), folded box_inner]
  have b: "box ?ch = box ch" by (simp add: box_inner)
  have y: "0 \<le> y_pos d (snd ?sz) ?m (of_int v) \<and> y_pos d (snd ?sz) ?m (of_int v) \<le> snd (box ch)"
    if "s \<in> set ss" "p \<in> set ps" "s_value s p = Some v" for s p v
  proof -
    have "(0::rat) \<le> of_int v" "(of_int v :: rat) \<le> of_int ?m"
      using y_max_ge [OF assms(1) that] assms(6) [OF that] by simp_all
    then show ?thesis using y_pos_bounds [OF assms(1) y_max_pos _ _ sz(2)] order_trans [OF _ sz(4)] by blast
  qed
  have t: "0 \<le> y_pos d (snd ?sz) ?m t \<and> y_pos d (snd ?sz) ?m t \<le> snd (box ch) \<and> 0 \<le> t \<and> t \<le> of_int ?m"
    if "t \<in> set (d3_ticks d (0, of_int ?m) 4)" for t
    using d3_documentedD(2) [OF assms(1) that] y_pos_bounds [OF assms(1) y_max_pos _ _ sz(2)] order_trans [OF _ sz(4)] by blast
  have x: "0 \<le> x_pos d (fst ?sz) (length ps) j \<and> x_pos d (fst ?sz) (length ps) j \<le> fst (box ch)" if "j < length ps" for j
    using x_pos_bounds [OF assms(1,2) that sz(1)] order_trans [OF _ sz(3)] by blast
  let ?ok = "\<lambda>(x, y). 0 \<le> x \<and> x \<le> fst (box ch) \<and> (case y of None \<Rightarrow> True | Some v \<Rightarrow> 0 \<le> v \<and> v \<le> snd (box ch))"
  have "list_all ?ok (plotted d ?sz ?m ps s)" if "s \<in> set ss" for s
    using x y [OF that nth_mem] by (auto simp: list_all_iff plotted_def split: option.splits)
  then have lines: "list_all (\<lambda>s. list_all ?ok (plotted d ?sz ?m ps s)) ss"
    unfolding list_all_iff [of _ ss] by blast
  have grid: "list_all (\<lambda>(x2, y). 0 \<le> x2 \<and> x2 \<le> fst (box ch) \<and> 0 \<le> y \<and> y \<le> snd (box ch))
      (join_grid (fst ?sz) (y_pos d (snd ?sz) ?m) (d3_ticks d (0, of_int ?m) 4) (ch_grid ch))"
    by (rule grid_fits [OF assms(5) sz(1,3)]) (use t in blast)
  have labels: "list_all (\<lambda>(k, x, y, t). 0 \<le> x \<and> x \<le> fst (box ch) \<and> 0 \<le> y \<and> y \<le> snd (box ch) + 14)
      (join_xlabels (snd ?sz) (x_pos d (fst ?sz) (length ps)) ps (ch_xlabels ch))"
    by (rule xlabels_fit [OF assms(5) sz(2,4)]) (rule x)
  have parts: "ch_grid ?ch = join_grid (fst ?sz) (y_pos d (snd ?sz) ?m) (d3_ticks d (0, of_int ?m) 4) (ch_grid ch)"
    "ch_ylabels ?ch = map (\<lambda>t. (y_pos d (snd ?sz) ?m t, t)) (d3_ticks d (0, of_int ?m) 4)"
    "ch_xlabels ?ch = join_xlabels (snd ?sz) (x_pos d (fst ?sz) (length ps)) ps (ch_xlabels ch)"
    "ch_paths ?ch = map (\<lambda>s. (d3_area d (snd ?sz) (plotted d ?sz ?m ps s), d3_line d (plotted d ?sz ?m ps s))) ss"
    by (simp_all add: chart_updated_def Let_def)
  have yl: "list_all (\<lambda>(y, t). 0 \<le> y \<and> y \<le> snd (box ch)) (ch_ylabels ?ch)" "list_all (\<lambda>(y, t). 0 \<le> t \<and> t \<le> of_int ?m) (ch_ylabels ?ch)"
    unfolding parts(2) using t by (auto simp: list_all_iff)
  have "map fst (ch_ylabels ?ch) = map snd (ch_grid ?ch)"
    unfolding parts by (rule nth_equalityI) (simp_all add: join_grid_def)
  moreover have "fits ?ch" unfolding fits_def b using grid labels yl(1) unfolding parts(1,3) by blast
  ultimately show ?thesis
    unfolding frame_ok_def Let_def b using lines sz(4) yl(2) parts(4) by blast
qed

text \<open>One drawing of a chart: its chart has been updated, or created and updated, and the picture of the other is left alone.\<close>

lemma svg_markup_facts: "has_svg (svg_markup a)" "nodes_of_list (svg_markup a) = []"
  by (simp_all add: svg_markup_def nodes_of_list_def)

lemma renderLineChart_drawn:
  assumes "leaf i b" "2 \<le> length ps" "renderLineChart d i ps ss (cs, b) = (cs', b')"
  shows "leaf j b \<Longrightarrow> leaf j b'" "j \<noteq> i \<Longrightarrow> inner j b' = inner j b \<and> cs' j = cs j"
    "has_svg (inner i b) \<Longrightarrow> cs i = Some c \<Longrightarrow> has_svg (inner i b') \<and> cs' i = Some (chart_updated d (client_size d i) ps ss c)"
    "\<not> has_svg (inner i b) \<Longrightarrow> has_svg (inner i b') \<and> cs' i = Some (chart_updated d (client_size d i) ps ss (svg_created (client_size d i) ss))"
proof -
  let ?a = "client_size d i" and ?b = "set_inner i (svg_markup (client_size d i)) b"
  have el: "element i b" using leaf_element [OF assms(1)] by simp
  have w: "leaf k b \<Longrightarrow> leaf k ?b" "inner i ?b = svg_markup ?a" "k \<noteq> i \<Longrightarrow> inner k ?b = inner k b" for k
    using leaf_write(1) [OF _ assms(1) svg_markup_facts(2)] leaf_inner [OF assms(1) svg_markup_facts(2)] by simp_all
  have r: "(cs', b') = (if cs i \<noteq> None \<and> has_svg (inner i b) then (cs(i \<mapsto> chart_updated d ?a ps ss (the (cs i))), b)
      else (cs(i \<mapsto> chart_updated d ?a ps ss (svg_created ?a ss)), ?b))"
    using assms(2,3) el by (auto simp: renderLineChart_def Let_def split: option.splits if_splits)
  show "leaf j b \<Longrightarrow> leaf j b'" "j \<noteq> i \<Longrightarrow> inner j b' = inner j b \<and> cs' j = cs j"
    using r w(1,3) by (simp_all split: if_splits)
  show "has_svg (inner i b) \<Longrightarrow> cs i = Some c \<Longrightarrow> has_svg (inner i b') \<and> cs' i = Some (chart_updated d ?a ps ss c)"
    using r by simp
  show "\<not> has_svg (inner i b) \<Longrightarrow> has_svg (inner i b') \<and> cs' i = Some (chart_updated d ?a ps ss (svg_created ?a ss))"
    using r w(2) svg_markup_facts(1) by simp
qed

lemma renderLineChart_skipped: "length ps < 2 \<Longrightarrow> renderLineChart d i ps ss st = st"
  by (auto simp: renderLineChart_def split: prod.splits)

text \<open>
  A chart is kept when it has no picture yet, or one that fits and whose view box has room for the size \<open>a\<close>. Drawing at a size
  within \<open>a\<close> keeps it, at that size.
\<close>

definition kept :: "int \<times> int \<Rightarrow> string \<Rightarrow> charts \<times> browser \<Rightarrow> bool" where
  "kept a i st =
     (leaf i (snd st) \<and> (if has_svg (inner i (snd st)) then \<exists>c. fst st i = Some c \<and> fits c \<and> no_larger a (ch_viewbox c) else True))"

lemma no_larger_trans: "no_larger a b \<Longrightarrow> no_larger b c \<Longrightarrow> no_larger a c"
  by (simp add: no_larger_def)

lemma kept_drawn:
  assumes "d3_documented d" "kept a i st" "no_larger (client_size d i) a" "drawable (client_size d i)"
    and "\<And>s p v. s \<in> set ss \<Longrightarrow> p \<in> set ps \<Longrightarrow> s_value s p = Some v \<Longrightarrow> 0 \<le> v"
  shows "kept (client_size d i) i (renderLineChart d i ps ss st)"
    and "2 \<le> length ps \<Longrightarrow> \<exists>c. fst (renderLineChart d i ps ss st) i = Some c \<and> frame_ok d i ps ss c"
proof -
  obtain cs b where st: "st = (cs, b)" by fastforce
  obtain cs' b' where r: "renderLineChart d i ps ss (cs, b) = (cs', b')" by fastforce
  have leaf: "leaf i b" using assms(2) by (simp add: kept_def st)
  have "\<exists>c. cs' i = Some c \<and> frame_ok d i ps ss c \<and> no_larger (client_size d i) (ch_viewbox c) \<and> has_svg (inner i b') \<and> leaf i b'"
    if len: "2 \<le> length ps"
  proof (cases "has_svg (inner i b)")
    case True
    then obtain c where c: "cs i = Some c" "fits c" "no_larger a (ch_viewbox c)" using assms(2) by (auto simp: kept_def st)
    have "frame_ok d i ps ss (chart_updated d (client_size d i) ps ss c)"
      by (rule chart_updated_frame [OF assms(1) len assms(4) no_larger_trans [OF assms(3) c(3)] c(2) assms(5)])
    with renderLineChart_drawn [OF leaf len r] True c no_larger_trans [OF assms(3) c(3)] leaf show ?thesis by simp
  next
    case False
    have "no_larger (client_size d i) (ch_viewbox (svg_created (client_size d i) ss))" by (simp add: no_larger_def)
    from chart_updated_frame [OF assms(1) len assms(4) this svg_created_fits assms(5)] renderLineChart_drawn [OF leaf len r] False leaf
    show ?thesis by (simp add: no_larger_def)
  qed
  note drawn = this
  show "2 \<le> length ps \<Longrightarrow> \<exists>c. fst (renderLineChart d i ps ss st) i = Some c \<and> frame_ok d i ps ss c"
    using drawn by (auto simp: st r)
  show "kept (client_size d i) i (renderLineChart d i ps ss st)"
  proof (cases "2 \<le> length ps")
    case True
    from drawn [OF this] show ?thesis by (auto simp: st r kept_def frame_ok_def Let_def)
  next
    case False
    then have "renderLineChart d i ps ss st = st" using renderLineChart_skipped by simp
    moreover have "no_larger (client_size d i) (ch_viewbox c)" if "no_larger a (ch_viewbox c)" for c
      by (rule no_larger_trans [OF assms(3) that])
    ultimately show ?thesis using assms(2) by (auto simp: kept_def)
  qed
qed

lemma kept_other:
  assumes "kept a j st" "leaf i (snd st)" "j \<noteq> i"
  shows "kept a j (renderLineChart d i ps ss st)" "fst (renderLineChart d i ps ss st) j = fst st j"
proof -
  obtain cs b where st: "st = (cs, b)" by fastforce
  obtain cs' b' where r: "renderLineChart d i ps ss (cs, b) = (cs', b')" by fastforce
  have "kept a j (cs', b') \<and> cs' j = cs j"
  proof (cases "2 \<le> length ps")
    case True
    with renderLineChart_drawn(1,2) [OF _ True r, of j] assms show ?thesis by (auto simp: kept_def st)
  next
    case False
    then show ?thesis using renderLineChart_skipped [of ps d i ss "(cs, b)"] r assms(1) by (simp add: st)
  qed
  then show "kept a j (renderLineChart d i ps ss st)" "fst (renderLineChart d i ps ss st) j = fst st j" by (simp_all add: st r)
qed

lemma renderLineChart_result:
  "element i b \<Longrightarrow> 2 \<le> length ps \<Longrightarrow>
   \<exists>ch. fst (renderLineChart d i ps ss (cs, b)) i = Some (chart_updated d (client_size d i) ps ss ch)
     \<and> ch_viewbox ch = (case cs i of Some c \<Rightarrow> if has_svg (inner i b) then ch_viewbox c else client_size d i | None \<Rightarrow> client_size d i)"
  by (auto simp: renderLineChart_def Let_def svg_created_def split: option.splits if_splits)

section \<open>Properties\<close>

text \<open>
  a chart is not drawn again when its element grows: the points follow the new width while the
  view box keeps the old one, so the last point of every series falls outside the picture.
\<close>

theorem resize_overflows:
  assumes "d3_documented d" "element i b" "2 \<le> length ps"
    and "cs i = Some ch" "has_svg (inner i b)" "ch_viewbox ch = (w0, h0)"
    and "client_size d i = (w, h)" "w0 + 8 < w"
  shows "\<exists>ch'. fst (renderLineChart d i ps ss (cs, b)) i = Some ch' \<and> ch_viewbox ch' = (w0, h0)
    \<and> of_int w0 < 30 + x_pos d (fst (inner_size (w, h))) (length ps) (length ps - 1)"
proof -
  obtain c where "fst (renderLineChart d i ps ss (cs, b)) i = Some (chart_updated d (client_size d i) ps ss c)" "ch_viewbox c = (w0, h0)"
    using renderLineChart_result [OF assms(2,3), of d ss cs] assms(4,5,6) by auto
  moreover have "x_pos d (of_int (w - 38)) (length ps) (length ps - 1) = of_int (w - 38)"
    using d3_documentedD(1) [OF assms(1), of 0 "of_nat (length ps - 1)" 0 "of_int (w - 38)"] assms(3) by (simp add: x_pos_def)
  moreover have "(of_int w0 :: rat) < 30 + of_int (w - 38)"
  proof -
    have "(of_int (w0 + 8) :: rat) < of_int w" using assms(8) by (simp only: of_int_less_iff)
    then show ?thesis by simp
  qed
  ultimately show ?thesis by (simp add: inner_size_def)
qed

definition sample_plotter :: plotter where
  "sample_plotter =
     \<lparr>d3_linear = \<lambda>(a, b) (c, e) x. c + (x - a) / (b - a) * (e - c), d3_ticks = \<lambda>(a, b) n. [],
      d3_max = (\<lambda>vs. case concat (map (\<lambda>v. case v of None \<Rightarrow> [] | Some n \<Rightarrow> [n]) vs) of [] \<Rightarrow> None | n # ns \<Rightarrow> Some (fold max ns n)),
      d3_line = \<lambda>ps. [], d3_area = \<lambda>h ps. [], client_size = \<lambda>i. (1000, 200)\<rparr>"

lemma fold_max_ge: "(v::int) \<in> set (n # ns) \<Longrightarrow> v \<le> fold max ns n"
proof (induction ns arbitrary: n v)
  case (Cons a ns)
  consider "v = n" | "v = a" | "v \<in> set ns" using Cons.prems by auto
  then show ?case
  proof cases
    case 3
    then show ?thesis using Cons.IH [of v "max a n"] by simp
  qed (use Cons.IH [of "max a n" "max a n"] in simp_all)
qed simp

lemma sample_plotter_documented: "d3_documented sample_plotter"
proof -
  have "\<exists>m. d3_max sample_plotter vs = Some m \<and> v \<le> m" if "Some v \<in> set vs" for vs v
  proof -
    let ?ns = "concat (map (\<lambda>v. case v of None \<Rightarrow> [] | Some n \<Rightarrow> [n]) vs)"
    have "v \<in> set ?ns" using that by (auto intro!: bexI [of _ "Some v"])
    then show ?thesis using fold_max_ge [of v "hd ?ns" "tl ?ns"]
      by (cases ?ns) (auto simp: sample_plotter_def)
  qed
  then show ?thesis by (simp add: d3_documented_def) (simp add: sample_plotter_def)
qed

definition sample_point :: "int \<Rightarrow> point" where
  "sample_point n = \<lparr>p_time = ''12:00'', p_commits = Some n, p_rollbacks = Some 0, p_active = n, p_idle = 2, p_waiting = 0\<rparr>"

definition narrow_chart :: chart where
  "narrow_chart = svg_created (600, 200) []"

definition chart_browser :: browser where
  "chart_browser = sample_browser\<lparr>dom := [''c'' \<mapsto> mk_node ''div'' [] (svg_markup (600, 200))]\<rparr>"

theorem resize_overflows_witness:
  "\<exists>ch'. fst (renderLineChart sample_plotter ''c'' [sample_point 1, sample_point 2] [] ([''c'' \<mapsto> narrow_chart], chart_browser)) ''c'' = Some ch'
    \<and> ch_viewbox ch' = (600, 200)
    \<and> of_int 600 < 30 + x_pos sample_plotter (fst (inner_size (1000, 200))) (length [sample_point 1, sample_point 2]) (length [sample_point 1, sample_point 2] - 1)"
  by (rule resize_overflows [where ch = narrow_chart])
    (simp_all add: sample_plotter_documented chart_browser_def element_def inner_def mk_node_def svg_markup_def narrow_chart_def
      svg_created_def, simp add: sample_plotter_def)

end
