(* ===== verification/Dashboard.thy ===== *)
theory Dashboard
  imports Charts Levels Router
begin

text \<open>
  The real-time dashboard, dashboard.js. A frame of the socket is a \<^verbatim>\<open>stats\<close> record; its absent
  numbers are 0 and its absent objects are records of zeros, as the sources read them with \<^verbatim>\<open>||\<close>.
  \<^verbatim>\<open>updateDashboard\<close> first takes a sample, which computes the differences to the counters of the
  sample before, and then renders every panel. The tables of earlier counters are plain objects: a
  database named like a property of \<^verbatim>\<open>Object.prototype\<close> is found in them before it was stored.
\<close>

section \<open>Data\<close>

record db_stat =
  db_name :: string
  db_size :: string
  db_sizeBytes :: int
  db_backends :: int
  db_txCommit :: int
  db_txRollback :: int
  db_deadlocks :: int
  db_conflicts :: int
  db_blksRead :: int
  db_blksHit :: int
  db_tupReturned :: int
  db_tupFetched :: int
  db_tupInserted :: int
  db_tupUpdated :: int
  db_tupDeleted :: int
  db_tempFiles :: int
  db_tempBytes :: int
  db_cacheHit :: rat
  db_readTime :: rat
  db_writeTime :: rat

record conn_stats =
  cn_used :: int
  cn_max :: int
  cn_available :: int
  cn_reserved :: int

record wait_event =
  we_type :: string
  we_event :: string
  we_count :: int

record query_stat =
  q_pid :: int
  q_user :: string
  q_database :: string
  q_wait :: string
  q_duration :: rat
  q_query :: string

record activity =
  ac_active :: int
  ac_idle :: int
  ac_waiting :: int
  ac_idleXact :: int
  ac_long :: int
  ac_oldestMs :: rat
  ac_oldestIdleMs :: rat
  ac_waits :: "wait_event list"
  ac_queries :: "query_stat list"

record wal_stats =
  wal_rate :: rat
  wal_segments :: rat
  wal_lsn :: string

record bg_stats =
  bg_backend :: int
  bg_clean :: int
  bg_checkpoint :: int
  bg_requested :: int
  bg_writeMs :: rat
  bg_syncMs :: rat

record system_stats =
  sy_cpu :: rat
  sy_mem :: rat
  sy_disk :: rat
  sy_memUsed :: rat
  sy_memTotal :: rat
  sy_diskUsed :: rat
  sy_diskTotal :: rat
  sy_load1 :: rat
  sy_load5 :: rat
  sy_load15 :: rat
  sy_uptime :: string

record stats =
  st_time :: "int option"
  st_dbs :: "db_stat list"
  st_conn :: conn_stats
  st_act :: activity
  st_wal :: wal_stats
  st_bg :: bg_stats
  st_sys :: "system_stats option"
  st_errors :: "(string \<times> string) list"

section \<open>State\<close>

record counters =
  ct_temp :: int
  ct_files :: int
  ct_reads :: int

record dash =
  da_points :: "point list"
  da_commits :: "string \<rightharpoonup> int"
  da_rollbacks :: "string \<rightharpoonup> int"
  da_temp :: int
  da_files :: int
  da_at :: "int option"
  da_counters :: "string \<rightharpoonup> counters"

definition max_points :: nat where
  "max_points = 40"

definition fresh_dash :: dash where
  "fresh_dash = \<lparr>da_points = [], da_commits = Map.empty, da_rollbacks = Map.empty, da_temp = 0, da_files = 0,
     da_at = None, da_counters = Map.empty\<rparr>"

section \<open>Taking a sample\<close>

text \<open>
  What \<^verbatim>\<open>prev[name]\<close> is: undefined, a number, or something inherited that is no number. A
  number written to \<^verbatim>\<open>__proto__\<close> is dropped.
\<close>

datatype prior = Unseen | Count int | NotANumber

definition prior :: "(string \<rightharpoonup> int) \<Rightarrow> string \<Rightarrow> prior" where
  "prior m k =
     (if k = ''__proto__'' then NotANumber
      else case m k of
             Some n \<Rightarrow> Count n
           | None \<Rightarrow> if k \<in> set prototype_names then NotANumber else Unseen)"

definition keep_count :: "string \<Rightarrow> int \<Rightarrow> (string \<rightharpoonup> int) \<Rightarrow> (string \<rightharpoonup> int)" where
  "keep_count k v m = (if k = ''__proto__'' then m else m(k \<mapsto> v))"

text \<open>\<^verbatim>\<open>total += Math.max(0, current - (previous || 0))\<close>; \<^verbatim>\<open>None\<close> is NaN.\<close>

definition add_growth :: "int option \<Rightarrow> prior \<Rightarrow> int \<Rightarrow> int option" where
  "add_growth acc p cur =
     (case (acc, p) of
        (Some t, Unseen) \<Rightarrow> Some (t + max 0 cur)
      | (Some t, Count n) \<Rightarrow> Some (t + max 0 (cur - n))
      | _ \<Rightarrow> None)"

record tx =
  tx_commits :: "int option"
  tx_rollbacks :: "int option"
  tx_prevC :: "string \<rightharpoonup> int"
  tx_prevR :: "string \<rightharpoonup> int"

definition tx_one :: "db_stat \<Rightarrow> tx \<Rightarrow> tx" where
  "tx_one d t =
     (let seen = prior (tx_prevC t) (db_name d);
          c = (if seen = Unseen then tx_commits t else add_growth (tx_commits t) seen (db_txCommit d));
          r = (if seen = Unseen then tx_rollbacks t
               else add_growth (tx_rollbacks t) (prior (tx_prevR t) (db_name d)) (db_txRollback d))
      in \<lparr>tx_commits = c, tx_rollbacks = r,
          tx_prevC = keep_count (db_name d) (db_txCommit d) (tx_prevC t),
          tx_prevR = keep_count (db_name d) (db_txRollback d) (tx_prevR t)\<rparr>)"

definition tx_totals :: "db_stat list \<Rightarrow> (string \<rightharpoonup> int) \<Rightarrow> (string \<rightharpoonup> int) \<Rightarrow> tx" where
  "tx_totals ds pc pr = fold tx_one ds \<lparr>tx_commits = Some 0, tx_rollbacks = Some 0, tx_prevC = pc, tx_prevR = pr\<rparr>"

definition total_of :: "(db_stat \<Rightarrow> int) \<Rightarrow> db_stat list \<Rightarrow> int" where
  "total_of f ds = sum_list (map f ds)"

definition per_second :: "rat \<Rightarrow> int \<Rightarrow> int \<Rightarrow> rat" where
  "per_second seconds cur prev = of_int (max 0 (cur - prev)) / seconds"

record db_rate =
  ra_name :: string
  ra_temp :: rat
  ra_files :: rat
  ra_reads :: rat

definition zero_counters :: counters where
  "zero_counters = \<lparr>ct_temp = 0, ct_files = 0, ct_reads = 0\<rparr>"

definition counters_of :: "db_stat \<Rightarrow> counters" where
  "counters_of d = \<lparr>ct_temp = db_tempBytes d, ct_files = db_tempFiles d, ct_reads = db_blksRead d\<rparr>"

definition db_rates :: "rat \<Rightarrow> (string \<rightharpoonup> counters) \<Rightarrow> db_stat list \<Rightarrow> db_rate list" where
  "db_rates seconds prev ds =
     map (\<lambda>d. let p = or_none (prev (db_name d)) zero_counters in
            \<lparr>ra_name = db_name d,
             ra_temp = per_second seconds (db_tempBytes d) (ct_temp p),
             ra_files = per_second seconds (db_tempFiles d) (ct_files p),
             ra_reads = per_second seconds (db_blksRead d) (ct_reads p)\<rparr>) ds"

record signals =
  sg_tempRate :: rat
  sg_filesRate :: rat
  sg_temp :: int
  sg_files :: int
  sg_rates :: "db_rate list"

definition signals_of :: "dash \<Rightarrow> int \<Rightarrow> db_stat list \<Rightarrow> signals" where
  "signals_of m ts ds =
     (let temp = total_of db_tempBytes ds; files = total_of db_tempFiles ds in
      case da_at m of
        Some t \<Rightarrow>
          if t \<noteq> 0 \<and> t < ts
          then (let seconds = of_int (ts - t) / 1000 in
                \<lparr>sg_tempRate = per_second seconds temp (da_temp m), sg_filesRate = per_second seconds files (da_files m),
                 sg_temp = temp, sg_files = files, sg_rates = db_rates seconds (da_counters m) ds\<rparr>)
          else \<lparr>sg_tempRate = 0, sg_filesRate = 0, sg_temp = temp, sg_files = files, sg_rates = []\<rparr>
      | None \<Rightarrow> \<lparr>sg_tempRate = 0, sg_filesRate = 0, sg_temp = temp, sg_files = files, sg_rates = []\<rparr>)"

definition keep_counters :: "db_stat list \<Rightarrow> (string \<rightharpoonup> counters) \<Rightarrow> (string \<rightharpoonup> counters)" where
  "keep_counters ds m = fold (\<lambda>d m. m(db_name d \<mapsto> counters_of d)) ds m"

text \<open>\<^verbatim>\<open>push\<close>, then \<^verbatim>\<open>shift\<close> when there are too many.\<close>

definition push_point :: "point \<Rightarrow> point list \<Rightarrow> point list" where
  "push_point p ps = (let qs = ps @ [p] in if max_points < length qs then tl qs else qs)"

definition sample_at :: "clock \<Rightarrow> stats \<Rightarrow> int" where
  "sample_at c d = or_none (st_time d) (now c)"

definition take_sample :: "clock \<Rightarrow> stats \<Rightarrow> dash \<Rightarrow> signals \<times> dash" where
  "take_sample c d m =
     (let ds = st_dbs d;
          act = st_act d;
          t = tx_totals ds (da_commits m) (da_rollbacks m);
          sg = signals_of m (sample_at c d) ds;
          p = \<lparr>p_time = time_text c (now c), p_commits = tx_commits t, p_rollbacks = tx_rollbacks t,
               p_active = ac_active act, p_idle = ac_idle act, p_waiting = ac_waiting act\<rparr>
      in (sg, m\<lparr>da_points := push_point p (da_points m), da_commits := tx_prevC t, da_rollbacks := tx_prevR t,
               da_temp := sg_temp sg, da_files := sg_files sg, da_at := Some (sample_at c d),
               da_counters := keep_counters ds (da_counters m)\<rparr>))"

section \<open>Panels\<close>

definition dash_frame :: "html list" where
  "dash_frame = [El ''div'' [At ''id'' ''dashboard-warnings'', At ''class'' ''mb-12''] [],
     El ''div'' [At ''class'' ''grid grid-4 mb-12'', At ''id'' ''stats-grid''] [],
     El ''div'' [At ''id'' ''dba-signals'', At ''class'' ''mb-12''] [],
     El ''div'' [At ''class'' ''grid grid-2 mb-12'']
      [El ''div'' [At ''class'' ''card'']
       [El ''div'' [At ''class'' ''card-title''] [Txt ''transactions / interval''],
       El ''div'' [At ''class'' ''chart-wrap'', At ''id'' ''chart-tps''] []],
      El ''div'' [At ''class'' ''card'']
       [El ''div'' [At ''class'' ''card-title''] [Txt ''connections''],
       El ''div'' [At ''class'' ''chart-wrap'', At ''id'' ''chart-conn''] []]],
     El ''div'' [At ''class'' ''card mb-12'']
      [El ''div'' [At ''class'' ''card-title''] [Txt ''system''],
      El ''div'' [At ''id'' ''sys-resources''] []],
     El ''div'' [At ''class'' ''card mb-12'']
      [El ''div'' [At ''class'' ''card-title''] [Txt ''databases''],
      El ''div'' [At ''id'' ''db-overview''] []],
     El ''div'' [At ''class'' ''card'']
      [El ''div'' [At ''class'' ''flex-between mb-8'']
       [El ''span'' [At ''class'' ''card-title'', At ''style'' ''margin:0''] [Txt ''active queries''],
       El ''span'' [At ''id'' ''query-count'', At ''class'' ''badge badge-blue''] [Txt ''0'']],
      El ''div'' [At ''class'' ''overflow-auto'']
       [El ''table'' []
        [El ''thead'' []
         [El ''tr'' []
          [El ''th'' [] [Txt ''pid''],
          El ''th'' [] [Txt ''user''],
          El ''th'' [] [Txt ''db''],
          El ''th'' [] [Txt ''wait''],
          El ''th'' [] [Txt ''dur''],
          El ''th'' [] [Txt ''query''],
          El ''th'' [] []]],
        El ''tbody'' [At ''id'' ''queries-body'']
         [El ''tr'' []
          [El ''td'' [At ''colspan'' ''7'', At ''class'' ''text-center dim py-16''] [Txt ''waiting...'']]]]]]]"

text \<open>The share of block reads that the cache answered, in per cent.\<close>

definition hit_percent :: "int \<Rightarrow> int \<Rightarrow> rat" where
  "hit_percent hit rd = (if 0 < hit + rd then of_int hit / of_int (hit + rd) * 100 else 0)"

definition ratio_class :: "string \<Rightarrow> string \<Rightarrow> string \<Rightarrow> rat \<Rightarrow> string" where
  "ratio_class good fair bad r = (if 99 \<le> r then good else if 95 \<le> r then fair else bad)"

definition plural_s :: "nat \<Rightarrow> string" where
  "plural_s n = (if n \<noteq> 1 then ''s'' else [])"

definition stats_markup :: "stats \<Rightarrow> html list" where
  "stats_markup d =
     (let ds = st_dbs d; conn = st_conn d; act = st_act d;
          chr = hit_percent (total_of db_blksHit ds) (total_of db_blksRead ds)
      in [El ''div'' [At ''class'' ''card'']
      [El ''div'' [At ''class'' ''mono-xs dim''] [Txt ''cache hit''],
      El ''div'' [At ''class'' (''stat-val '' @ (ratio_class ''green'' ''yellow'' ''red'' chr))] [Txt ((to_fixed 1 chr) @ ''%'')],
      El ''div'' [At ''class'' ''stat-label'']
       [Txt ((str_of_nat (length ds)) @ '' database'' @ (plural_s (length ds)) @ '' '' @ u_middot @ '' '' @ (formatBytes (of_int (total_of db_sizeBytes ds))))]],
     El ''div'' [At ''class'' ''card'']
      [El ''div'' [At ''class'' ''mono-xs dim''] [Txt ''connections''],
      El ''div'' [At ''class'' ''stat-val'']
       [Txt (str_of_int (cn_used conn)),
       El ''span'' [At ''class'' ''dim'', At ''style'' ''font-size:12px''] [Txt (''/'' @ (str_of_int (cn_max conn)))]],
      El ''div'' [At ''class'' ''stat-label'']
       [Txt ((str_of_int (cn_available conn)) @ '' app slots '' @ u_middot @ '' '' @ (str_of_int (cn_reserved conn)) @ '' reserved'')]],
     El ''div'' [At ''class'' ''card'']
      [El ''div'' [At ''class'' ''mono-xs dim''] [Txt ''active queries''],
      El ''div'' [At ''class'' ''stat-val accent''] [Txt (str_of_int (ac_active act))],
      El ''div'' [At ''class'' ''stat-label'']
       [Txt ((str_of_int (ac_waiting act)) @ '' waiting '' @ u_middot @ '' '' @ (str_of_int (ac_idleXact act)) @ '' idle in xact'')]],
     El ''div'' [At ''class'' ''card'']
      [El ''div'' [At ''class'' ''mono-xs dim''] [Txt ''deadlocks''],
      El ''div'' [At ''class'' ''stat-val''] [Txt (str_of_int (total_of db_deadlocks ds))],
      El ''div'' [At ''class'' ''stat-label'']
       [Txt ((str_of_int (total_of db_conflicts ds)) @ '' conflicts '' @ u_middot @ '' '' @ (str_of_int (total_of db_backends ds)) @ '' backends'')]]])"

definition renderStats :: "stats \<Rightarrow> browser \<Rightarrow> browser" where
  "renderStats d b = set_inner ''stats-grid'' (stats_markup d) b"

definition wait_row :: "wait_event \<Rightarrow> html list" where
  "wait_row w = [El ''tr'' []
      [El ''td'' [At ''class'' ''mono-xs dim''] [Txt (escHtml (or_str (we_type w) ''-''))],
      El ''td'' [At ''class'' ''mono-xs''] [Txt (escHtml (or_str (we_event w) ''-''))],
      El ''td'' [] [Txt (str_of_int (we_count w))]]]"

definition wait_table :: "wait_event list \<Rightarrow> html list" where
  "wait_table waits =
     (if waits = [] then [El ''div'' [At ''class'' ''mono-xs green''] [Txt ''no wait events on active backends'']]
      else [El ''table'' [At ''class'' ''data-table'', At ''style'' ''table-layout:fixed;width:100%'']
      [El ''thead'' []
       [El ''tr'' []
        [El ''th'' [] [Txt ''type''],
        El ''th'' [] [Txt ''event''],
        El ''th'' [At ''style'' ''width:60px''] [Txt ''count'']]],
      El ''tbody'' [] (concat (map wait_row waits))]])"

text \<open>
  The four databases with the highest load: \<^verbatim>\<open>sort\<close> with the comparator \<^verbatim>\<open>b - a\<close> is a stable
  sort by descending load.
\<close>

definition spill_load :: "db_rate \<Rightarrow> rat" where
  "spill_load r = ra_temp r + ra_reads r * 8192"

definition spill_hotspots :: "db_rate list \<Rightarrow> db_rate list" where
  "spill_hotspots rs = take 4 (sort_key (\<lambda>r. - spill_load r) (filter (\<lambda>r. 0 < ra_temp r \<or> 0 < ra_reads r) rs))"

definition spill_limit :: rat where
  "spill_limit = 10 * 1024 * 1024"

definition hotspot_row :: "clock \<Rightarrow> db_rate \<Rightarrow> html list" where
  "hotspot_row c r = [El ''tr'' []
      [El ''td'' [] [Txt (escHtml (ra_name r))],
      El ''td'' [At ''class'' (''mono-xs '' @ (if spill_limit < ra_temp r then ''yellow'' else ''dim''))] [Txt ((formatBytes (ra_temp r)) @ ''/s'')],
      El ''td'' [At ''class'' ''mono-xs dim'']
       [Txt ((fmtNum (number_text c) (Some (ra_reads r))) @ ''/s'')]]]"

definition hotspot_table :: "clock \<Rightarrow> db_rate list \<Rightarrow> html list" where
  "hotspot_table c rs =
     (if rs = [] then [El ''div'' [At ''class'' ''mono-xs green''] [Txt ''no spill or read hotspots yet'']]
      else [El ''table'' [At ''class'' ''data-table'', At ''style'' ''table-layout:fixed;width:100%'']
      [El ''thead'' []
       [El ''tr'' []
        [El ''th'' [] [Txt ''db''],
        El ''th'' [] [Txt ''temp/s''],
        El ''th'' [] [Txt ''reads/s'']]],
      El ''tbody'' [] (concat (map (hotspot_row c) rs))]])"

definition checkpoint_pressure :: "bg_stats \<Rightarrow> rat" where
  "checkpoint_pressure g =
     (if 0 < bg_backend g
      then of_int (bg_backend g) / of_int (max (bg_backend g + bg_clean g + bg_checkpoint g) 1) * 100 else 0)"

definition signals_markup :: "clock \<Rightarrow> stats \<Rightarrow> signals \<Rightarrow> html list" where
  "signals_markup c d sg =
     (let act = st_act d; wal = st_wal d; bg = st_bg d; pressure = checkpoint_pressure bg in [El ''div'' [At ''class'' ''grid grid-4'', At ''style'' ''gap:12px'']
      [El ''div'' [At ''class'' ''card'']
       [El ''div'' [At ''class'' ''card-title''] [Txt ''long-running active''],
       El ''div'' [At ''class'' (''stat-val '' @ (if 0 < ac_long act then ''yellow'' else ''green''))] [Txt (str_of_int (ac_long act))],
       El ''div'' [At ''class'' ''stat-label'']
        [Txt (''oldest '' @ (formatDuration (ac_oldestMs act)) @ '' '' @ u_middot @ '' '' @ (str_of_int (ac_waiting act)) @ '' waiting'')]],
      El ''div'' [At ''class'' ''card'']
       [El ''div'' [At ''class'' ''card-title''] [Txt ''idle in xact''],
       El ''div'' [At ''class'' (''stat-val '' @ (if 0 < ac_idleXact act then ''yellow'' else ''green''))] [Txt (str_of_int (ac_idleXact act))],
       El ''div'' [At ''class'' ''stat-label''] [Txt (''oldest '' @ (formatDuration (ac_oldestIdleMs act)))]],
      El ''div'' [At ''class'' ''card'']
       [El ''div'' [At ''class'' ''card-title''] [Txt ''temp spill rate''],
       El ''div'' [At ''class'' (''stat-val '' @ (if spill_limit < sg_tempRate sg then ''yellow'' else ''accent''))] [Txt ((formatBytes (sg_tempRate sg)) @ ''/s'')],
       El ''div'' [At ''class'' ''stat-label'']
        [Txt ((to_fixed 2 (sg_filesRate sg)) @ '' files/s '' @ u_middot @ '' '' @ (formatBytes (of_int (sg_temp sg))) @ '' total'')]],
      El ''div'' [At ''class'' ''card'']
       [El ''div'' [At ''class'' ''card-title''] [Txt ''wal rate''],
       El ''div'' [At ''class'' (''stat-val '' @ (if 16 * 1024 * 1024 < wal_rate wal then ''yellow'' else ''accent''))] [Txt ((formatBytes (wal_rate wal)) @ ''/s'')],
       El ''div'' [At ''class'' ''stat-label'']
        [Txt ((to_fixed 2 (wal_segments wal)) @ '' seg/h '' @ u_middot @ '' '' @ (escHtml (or_str (wal_lsn wal) ''-'')))]]],
     El ''div'' [At ''class'' ''grid grid-3'', At ''style'' ''gap:12px;margin-top:12px'']
      [El ''div'' [At ''class'' ''card'']
       [El ''div'' [At ''class'' ''card-title''] [Txt ''top wait events''],
       El ''div'' [At ''class'' ''overflow-auto'', At ''style'' ''max-height:150px''] (wait_table (ac_waits act))],
      El ''div'' [At ''class'' ''card'']
       [El ''div'' [At ''class'' ''card-title''] [Txt ''checkpoint pressure''],
       El ''div'' [At ''class'' (''stat-val '' @ (if 25 < pressure then ''yellow'' else ''green''))] [Txt ((to_fixed 1 pressure) @ ''%'')],
       El ''div'' [At ''class'' ''stat-label'']
        [Txt ((str_of_int (bg_requested bg)) @ '' req '' @ u_middot @ '' '' @ (to_fixed 0 (bg_writeMs bg)) @ '' ms write '' @ u_middot @ '' '' @ (to_fixed 0 (bg_syncMs bg)) @ '' ms sync'')],
       El ''div'' [At ''class'' ''mono-xs dim'', At ''style'' ''margin-top:8px'']
        [Txt (''backend writes '' @ (fmt_count (bg_backend bg)) @ '' '' @ u_middot @ '' checkpoint '' @ (fmt_count (bg_checkpoint bg)) @ '' '' @ u_middot @ '' bgwriter '' @ (fmt_count (bg_clean bg)))]],
      El ''div'' [At ''class'' ''card'']
       [El ''div'' [At ''class'' ''card-title''] [Txt ''db hotspots''],
       El ''div'' [At ''class'' ''overflow-auto'', At ''style'' ''max-height:150px''] (hotspot_table c (spill_hotspots (sg_rates sg)))]]])"

definition renderDBASignals :: "clock \<Rightarrow> stats \<Rightarrow> signals \<Rightarrow> browser \<Rightarrow> browser" where
  "renderDBASignals c d sg b = set_inner ''dba-signals'' (signals_markup c d sg) b"

definition warning_row :: "string \<times> string \<Rightarrow> html list" where
  "warning_row e = [El ''div'' [At ''class'' ''mono-xs'']
      [El ''span'' [At ''class'' ''yellow''] [Txt (escHtml (fst e))],
      El ''span'' [At ''class'' ''dim''] [Txt (u_middot @ '' '' @ (escHtml (snd e)))]]]"

definition renderWarnings :: "(string \<times> string) list \<Rightarrow> browser \<Rightarrow> browser" where
  "renderWarnings es b =
     set_inner ''dashboard-warnings''
       (if es = [] then []
        else [El ''div'' [At ''class'' ''card'', At ''style'' ''border-color:var(--yellow);background:rgba(234,163,40,0.06)'']
      [El ''div'' [At ''class'' ''card-title'', At ''style'' ''color:var(--yellow)''] [Txt ''partial collector failures''],
      El ''div'' [At ''class'' ''mono-xs dim'', At ''style'' ''margin-top:6px''] [Txt ''Some dashboard sections are stale or incomplete:''],
      El ''div'' [At ''style'' ''margin-top:8px;display:grid;gap:6px''] (concat (map warning_row es))]]) b"

definition tps_series :: "series list" where
  "tps_series =
     [\<lparr>s_label = ''commit'', s_color = ''#4c6'', s_value = p_commits\<rparr>,
      \<lparr>s_label = ''rollback'', s_color = ''#e55'', s_value = p_rollbacks\<rparr>]"

definition conn_series :: "series list" where
  "conn_series =
     [\<lparr>s_label = ''active'', s_color = ''#4af'', s_value = \<lambda>p. Some (p_active p)\<rparr>,
      \<lparr>s_label = ''idle'', s_color = ''#a7f'', s_value = \<lambda>p. Some (p_idle p)\<rparr>,
      \<lparr>s_label = ''waiting'', s_color = ''#ea3'', s_value = \<lambda>p. Some (p_waiting p)\<rparr>]"

definition renderTpsChart :: "plotter \<Rightarrow> dash \<Rightarrow> charts \<times> browser \<Rightarrow> charts \<times> browser" where
  "renderTpsChart d3 m st =
     renderLineChart d3 ''chart-tps'' (da_points m) tps_series st"

definition renderConnChart :: "plotter \<Rightarrow> dash \<Rightarrow> charts \<times> browser \<Rightarrow> charts \<times> browser" where
  "renderConnChart d3 m st =
     renderLineChart d3 ''chart-conn'' (da_points m) conn_series st"

text \<open>A resource bar: red above one mark, orange above another.\<close>

definition bar_color :: "rat \<Rightarrow> rat \<Rightarrow> string \<Rightarrow> rat \<Rightarrow> string" where
  "bar_color hi lo calm v = (case level_above hi lo v of Red \<Rightarrow> ''#e55'' | Yellow \<Rightarrow> ''#ea3'' | Calm \<Rightarrow> calm)"

definition usage_detail :: "rat \<Rightarrow> rat \<Rightarrow> rat \<Rightarrow> string" where
  "usage_detail used all pct = formatBytes used @ '' / '' @ formatBytes all @ '' ('' @ to_fixed 1 pct @ ''%)''"

definition resource_bar :: "clock \<Rightarrow> string \<times> rat \<times> string \<times> string \<Rightarrow> html list" where
  "resource_bar c r = (case r of (label, v, color, detail) \<Rightarrow> [El ''div'' []
      [El ''div'' [At ''class'' ''flex-between'', At ''style'' ''margin-bottom:2px'']
       [El ''span'' [At ''class'' ''mono-xs dim''] [Txt label],
       El ''span'' [At ''class'' ''mono-xs''] [Txt detail]],
      El ''div'' [At ''class'' ''bar-track'']
       [El ''div'' [At ''class'' ''bar-fill'', At ''style'' (''width:'' @ (number_text c (min v 100)) @ ''%;background:'' @ color)] []]]])"

definition resource_bars :: "system_stats \<Rightarrow> (string \<times> rat \<times> string \<times> string) list" where
  "resource_bars s =
     [(''cpu'', sy_cpu s, bar_color 80 50 ''#4c6'' (sy_cpu s), to_fixed 1 (sy_cpu s) @ ''%''),
      (''mem'', sy_mem s, bar_color 85 60 ''#4af'' (sy_mem s), usage_detail (sy_memUsed s) (sy_memTotal s) (sy_mem s)),
      (''disk'', sy_disk s, bar_color 90 70 ''#a7f'' (sy_disk s), usage_detail (sy_diskUsed s) (sy_diskTotal s) (sy_disk s))]"

definition resources_markup :: "clock \<Rightarrow> system_stats \<Rightarrow> html list" where
  "resources_markup c s = [El ''div'' [At ''class'' ''grid grid-3'', At ''style'' ''gap:12px;margin-bottom:8px''] (concat (map (resource_bar c) (resource_bars s))),
     El ''div'' [At ''class'' ''flex-between mono-xs dim'']
      [El ''span'' []
       [Txt (''load avg: '' @ (to_fixed 2 (sy_load1 s)) @ '' / '' @ (to_fixed 2 (sy_load5 s)) @ '' / '' @ (to_fixed 2 (sy_load15 s)))],
      El ''span'' [] [Txt (''uptime: '' @ (or_str (sy_uptime s) ''-''))]]]"

definition renderSystem :: "clock \<Rightarrow> system_stats option \<Rightarrow> browser \<Rightarrow> browser" where
  "renderSystem c sys b = (case sys of None \<Rightarrow> b | Some s \<Rightarrow> set_inner ''sys-resources'' (resources_markup c s) b)"

definition db_figures :: "db_stat \<Rightarrow> (string \<times> string \<times> string) list" where
  "db_figures d =
     [(''size'', or_str (db_size d) ''-'', ''#a7f''),
      (''backends'', str_of_int (db_backends d), ''#4af''),
      (''cache hit'', to_fixed 1 (db_cacheHit d) @ ''%'', ratio_class ''#4c6'' ''#ea3'' ''#e55'' (db_cacheHit d)),
      (''commits'', fmt_count (db_txCommit d), ''#4c6''),
      (''rollbacks'', fmt_count (db_txRollback d), ''#e55''),
      (''deadlocks'', str_of_int (db_deadlocks d), if 0 < db_deadlocks d then ''#e55'' else ''#666''),
      (''blks read'', fmt_count (db_blksRead d), ''#f93''),
      (''blks hit'', fmt_count (db_blksHit d), ''#4af''),
      (''returned'', fmt_count (db_tupReturned d), ''#4af''),
      (''fetched'', fmt_count (db_tupFetched d), ''#a7f''),
      (''inserted'', fmt_count (db_tupInserted d), ''#a7f''),
      (''updated'', fmt_count (db_tupUpdated d), ''#ea3''),
      (''deleted'', fmt_count (db_tupDeleted d), ''#f93''),
      (''conflicts'', str_of_int (db_conflicts d), if 0 < db_conflicts d then ''#ea3'' else ''#666''),
      (''tmp files'', fmt_count (db_tempFiles d), ''#666''),
      (''tmp bytes'', formatBytes (of_int (db_tempBytes d)), ''#666''),
      (''blk read ms'', to_fixed 1 (db_readTime d), ''#f93''),
      (''blk write ms'', to_fixed 1 (db_writeTime d), ''#ea3'')]"

definition figure_markup :: "string \<times> string \<times> string \<Rightarrow> html list" where
  "figure_markup f = (case f of (l, v, c) \<Rightarrow> [El ''div'' [At ''class'' ''mini-stat'']
      [El ''div'' [At ''class'' ''mini-stat-label''] [Txt l],
      El ''div'' [At ''class'' ''mini-stat-val'', At ''style'' (''color:'' @ c)] [Txt v]]])"

definition db_card :: "db_stat \<Rightarrow> html list" where
  "db_card d = [El ''div'' [At ''style'' ''background:var(--bg-2);border:1px solid var(--border);border-radius:var(--radius);padding:8px'']
      [El ''div'' [At ''class'' ''flex-between'', At ''style'' ''margin-bottom:6px'']
       [El ''span'' [At ''style'' ''font-weight:600;font-size:11px''] [Txt (escHtml (db_name d))],
       El ''span'' [At ''class'' ''mono-xs dim''] [Txt (or_str (db_size d) ''-'')]],
      El ''div'' [At ''style'' ''display:grid;grid-template-columns:repeat(6,1fr);gap:4px''] (concat (map figure_markup (db_figures d)))]]"

definition renderDbOverview :: "db_stat list \<Rightarrow> browser \<Rightarrow> browser" where
  "renderDbOverview ds b =
     set_inner ''db-overview''
       (if ds = [] then [El ''div'' [At ''class'' ''dim mono-xs''] [Txt ''no databases'']]
        else [El ''div'' [At ''style'' (''display:grid;grid-template-columns:'' @ (if length ds = 1 then ''1fr'' else ''repeat(2, 1fr)'') @ '';gap:8px'')] (concat (map db_card ds))]) b"

definition query_row :: "query_stat \<Rightarrow> html list" where
  "query_row q = [El ''tr'' []
      [El ''td'' [] [Txt (str_of_int (q_pid q))],
      El ''td'' [] [Txt (q_user q)],
      El ''td'' [] [Txt (q_database q)],
      El ''td'' []
       [El ''span'' [At ''class'' (''mono-xs '' @ (if q_wait q \<noteq> [] then ''yellow'' else ''dim''))] [Txt (escHtml (or_str (q_wait q) ''-''))]],
      El ''td'' [] [Txt (formatDuration (q_duration q))],
      El ''td'' [At ''class'' ''truncate'', At ''title'' (escHtml (q_query q))] [Txt (escHtml (q_query q))],
      El ''td'' []
       [El ''div'' [At ''class'' ''flex gap-4'']
        [El ''button'' [At ''onclick'' (''Dashboard.cancelQuery('' @ (str_of_int (q_pid q)) @ '')''), At ''class'' ''btn btn-sm btn-ghost'', At ''title'' ''cancel''] [Txt u_x],
        El ''button'' [At ''onclick'' (''Dashboard.terminateQuery('' @ (str_of_int (q_pid q)) @ '')''), At ''class'' ''btn btn-sm btn-danger'', At ''title'' ''kill''] [Txt u_bolt]]]]]"

definition renderQueries :: "activity \<Rightarrow> browser \<Rightarrow> unit outcome \<times> browser" where
  "renderQueries act b =
     (let qs = ac_queries act in
      if \<not> element ''queries-body'' b then (Resolved (), b)
      else if \<not> element ''query-count'' b then (Rejected ''TypeError: count is null'', b)
      else (Resolved (), set_inner ''queries-body''
             (if qs = [] then [El ''tr'' []
      [El ''td'' [At ''colspan'' ''7'', At ''class'' ''text-center dim py-16''] [Txt ''no active queries'']]]
              else concat (map query_row qs))
             (set_text ''query-count'' (str_of_nat (length qs)) b)))"

section \<open>The page\<close>

type_synonym dash_state = "dash \<times> charts \<times> browser"

definition updateDashboard :: "plotter \<Rightarrow> clock \<Rightarrow> stats \<Rightarrow> dash_state \<Rightarrow> unit outcome \<times> dash_state" where
  "updateDashboard d3 c d st =
     (let (m, cs, b) = st;
          (sg, m1) = take_sample c d m;
          b1 = renderDBASignals c d sg (renderWarnings (st_errors d) (renderStats d b));
          (cs1, b2) = renderConnChart d3 m1 (renderTpsChart d3 m1 (cs, b1));
          (r, b3) = renderQueries (st_act d) (renderDbOverview (st_dbs d) (renderSystem c (st_sys d) b2))
      in (r, m1, cs1, b3))"

definition loadInitialData :: "plotter \<Rightarrow> clock \<Rightarrow> stats option net \<Rightarrow> dash_state \<Rightarrow> dash_state" where
  "loadInitialData d3 c net st =
     (let (m, cs, b) = st in
      case api net (get_rq ''/dashboard/stats'') b of
        (Resolved (Some d), b1) \<Rightarrow> snd (updateDashboard d3 c d (m, cs, b1))
      | (_, b1) \<Rightarrow> (m, cs, b1))"

definition Dashboard_render :: "plotter \<Rightarrow> clock \<Rightarrow> stats option net \<Rightarrow> dash_state \<Rightarrow> dash_state" where
  "Dashboard_render d3 c net st =
     (let (m, cs, b) = st in
      loadInitialData d3 c net (fresh_dash, cs, set_inner ''page-content'' dash_frame b))"

definition cancel_rq :: "int \<Rightarrow> request" where
  "cancel_rq pid = post_rq (''/dashboard/cancel/'' @ str_of_int pid) None"

definition terminate_rq :: "int \<Rightarrow> request" where
  "terminate_rq pid = post_rq (''/dashboard/terminate/'' @ str_of_int pid) None"

definition cancelQuery :: "unit net \<Rightarrow> int \<Rightarrow> browser \<Rightarrow> browser" where
  "cancelQuery net pid b =
     (case apiProtected net (cancel_rq pid) b of
        (Resolved _, b1) \<Rightarrow> showToast (''query '' @ str_of_int pid @ '' cancelled'') ''success'' b1
      | (_, b1) \<Rightarrow> b1)"

definition terminate_prompt :: "int \<Rightarrow> string" where
  "terminate_prompt pid = ''Terminate PID '' @ str_of_int pid @ ''?''"

definition terminateQuery :: "unit net \<Rightarrow> int \<Rightarrow> browser \<Rightarrow> browser" where
  "terminateQuery net pid b =
     (case showConfirm ''terminate process'' (terminate_prompt pid) (danger_options ''terminate'') b of
        (Resolved True, b1) \<Rightarrow>
          (case apiProtected net (terminate_rq pid) b1 of
             (Resolved _, b2) \<Rightarrow> showToast (''backend '' @ str_of_int pid @ '' terminated'') ''success'' b2
           | (_, b2) \<Rightarrow> b2)
      | (_, b1) \<Rightarrow> b1)"

section \<open>Samples against the history\<close>

text \<open>
  The specification keeps the whole history: every sample so far, in order. A point counts, for the
  databases of its sample that were seen before, the growth since they were last seen.
\<close>

type_synonym history = "(clock \<times> stats) list"

definition seen_dbs :: "history \<Rightarrow> db_stat list" where
  "seen_dbs h = concat (map (\<lambda>s. st_dbs (snd s)) h)"

definition last_seen :: "(db_stat \<Rightarrow> int) \<Rightarrow> history \<Rightarrow> string \<Rightarrow> int option" where
  "last_seen f h k = map_option f (find (\<lambda>d. db_name d = k) (rev (seen_dbs h)))"

definition growth :: "(db_stat \<Rightarrow> int) \<Rightarrow> history \<Rightarrow> db_stat \<Rightarrow> int" where
  "growth f h d = (case last_seen f h (db_name d) of None \<Rightarrow> 0 | Some n \<Rightarrow> max 0 (f d - n))"

definition point_spec :: "history \<Rightarrow> clock \<times> stats \<Rightarrow> point" where
  "point_spec h s =
     (let (c, d) = s in
      \<lparr>p_time = time_text c (now c),
       p_commits = Some (\<Sum>x\<leftarrow>st_dbs d. growth db_txCommit h x),
       p_rollbacks = Some (\<Sum>x\<leftarrow>st_dbs d. growth db_txRollback h x),
       p_active = ac_active (st_act d), p_idle = ac_idle (st_act d), p_waiting = ac_waiting (st_act d)\<rparr>)"

fun points_spec :: "history \<Rightarrow> history \<Rightarrow> point list" where
  "points_spec h [] = []"
| "points_spec h (s # ss) = point_spec h s # points_spec (h @ [s]) ss"

definition recent :: "nat \<Rightarrow> 'a list \<Rightarrow> 'a list" where
  "recent n xs = drop (length xs - n) xs"

definition run_samples :: "history \<Rightarrow> dash \<Rightarrow> dash" where
  "run_samples ss m = fold (\<lambda>(c, d) m. snd (take_sample c d m)) ss m"

definition plain_names :: "db_stat list \<Rightarrow> bool" where
  "plain_names ds = (distinct (map db_name ds) \<and> list_all (\<lambda>d. db_name d \<notin> set prototype_names) ds)"

lemma proto_inherited: "''__proto__'' \<in> set prototype_names"
  by (simp add: prototype_names_def)

lemma prior_plain: "k \<notin> set prototype_names \<Longrightarrow> prior m k = (case m k of None \<Rightarrow> Unseen | Some n \<Rightarrow> Count n)"
  using proto_inherited by (auto simp: prior_def split: option.splits)

lemma keep_count_plain: "k \<notin> set prototype_names \<Longrightarrow> keep_count k v m = m(k \<mapsto> v)"
  using proto_inherited by (auto simp: keep_count_def)

definition growth_in :: "(string \<rightharpoonup> int) \<Rightarrow> (db_stat \<Rightarrow> int) \<Rightarrow> db_stat \<Rightarrow> int" where
  "growth_in m f d = (case m (db_name d) of None \<Rightarrow> 0 | Some n \<Rightarrow> max 0 (f d - n))"

definition upd_names :: "(db_stat \<Rightarrow> 'v) \<Rightarrow> db_stat list \<Rightarrow> (string \<rightharpoonup> 'v) \<Rightarrow> (string \<rightharpoonup> 'v)" where
  "upd_names f ds m = fold (\<lambda>d m. m(db_name d \<mapsto> f d)) ds m"

lemma upd_names_simps [simp]: "upd_names f [] m = m" "upd_names f (d # ds) m = upd_names f ds (m(db_name d \<mapsto> f d))"
  by (simp_all add: upd_names_def)

lemma growth_other: "db_name d \<notin> db_name ` set ds \<Longrightarrow>
  (\<Sum>x\<leftarrow>ds. growth_in (m(db_name d \<mapsto> v)) f x) = (\<Sum>x\<leftarrow>ds. growth_in m f x)"
  by (induction ds) (auto simp: growth_in_def)

lemma tx_fold_plain:
  assumes "plain_names ds" "Map.dom pc = Map.dom pr"
  shows "fold tx_one ds \<lparr>tx_commits = Some a, tx_rollbacks = Some b, tx_prevC = pc, tx_prevR = pr\<rparr> =
    \<lparr>tx_commits = Some (a + (\<Sum>d\<leftarrow>ds. growth_in pc db_txCommit d)),
     tx_rollbacks = Some (b + (\<Sum>d\<leftarrow>ds. growth_in pr db_txRollback d)),
     tx_prevC = upd_names db_txCommit ds pc, tx_prevR = upd_names db_txRollback ds pr\<rparr>"
  using assms
proof (induction ds arbitrary: a b pc pr)
  case (Cons d ds)
  let ?k = "db_name d"
  let ?pc = "pc(?k \<mapsto> db_txCommit d)" and ?pr = "pr(?k \<mapsto> db_txRollback d)"
  have k: "?k \<notin> set prototype_names" "?k \<notin> db_name ` set ds" and ds: "plain_names ds"
    using Cons.prems(1) by (auto simp: plain_names_def)
  have same: "pr ?k = None \<longleftrightarrow> pc ?k = None" using Cons.prems(2) by (auto simp: dom_def)
  have one: "tx_one d \<lparr>tx_commits = Some a, tx_rollbacks = Some b, tx_prevC = pc, tx_prevR = pr\<rparr> =
      \<lparr>tx_commits = Some (a + growth_in pc db_txCommit d), tx_rollbacks = Some (b + growth_in pr db_txRollback d),
       tx_prevC = ?pc, tx_prevR = ?pr\<rparr>"
    using same by (auto simp: tx_one_def prior_plain [OF k(1)] keep_count_plain [OF k(1)] growth_in_def add_growth_def
        split: option.splits)
  have "Map.dom ?pc = Map.dom ?pr" using Cons.prems(2) by simp
  note IH = Cons.IH [OF ds this, of "a + growth_in pc db_txCommit d" "b + growth_in pr db_txRollback d"]
  show ?case
    by (simp only: fold_simps one IH upd_names_simps growth_other [OF k(2)] list.map sum_list.Cons add.assoc)
qed simp

lemma tx_totals_plain:
  assumes "plain_names ds" "Map.dom pc = Map.dom pr"
  shows "tx_totals ds pc pr =
    \<lparr>tx_commits = Some (\<Sum>d\<leftarrow>ds. growth_in pc db_txCommit d), tx_rollbacks = Some (\<Sum>d\<leftarrow>ds. growth_in pr db_txRollback d),
     tx_prevC = upd_names db_txCommit ds pc, tx_prevR = upd_names db_txRollback ds pr\<rparr>"
  by (simp add: tx_totals_def tx_fold_plain [OF assms])

lemma dom_upd_names: "Map.dom (upd_names f ds m) = Map.dom m \<union> db_name ` set ds"
  by (induction ds arbitrary: m) auto

lemma upd_names_last:
  "upd_names f ds m k = (case find (\<lambda>d. db_name d = k) (rev ds) of None \<Rightarrow> m k | Some d \<Rightarrow> Some (f d))"
proof (induction ds rule: rev_induct)
  case (snoc d ds)
  have "upd_names f (ds @ [d]) m = (upd_names f ds m)(db_name d \<mapsto> f d)" by (simp add: upd_names_def)
  with snoc show ?case by simp
qed simp

lemma find_append: "find P (xs @ ys) = (case find P xs of None \<Rightarrow> find P ys | Some x \<Rightarrow> Some x)"
  by (induction xs) simp_all

lemma last_seen_snoc: "last_seen f (h @ [(c, d)]) = upd_names f (st_dbs d) (last_seen f h)"
  by (rule ext) (auto simp: last_seen_def seen_dbs_def upd_names_last find_append split: option.splits)

lemma growth_last_seen: "growth f h d = growth_in (last_seen f h) f d"
  by (simp add: growth_def growth_in_def)

lemma recent_push: "recent 40 (xs @ [x]) = push_point x (recent 40 xs)"
proof (cases "length xs < 40")
  case True
  then show ?thesis by (simp add: recent_def push_point_def max_points_def Let_def)
next
  case False
  then have "length (recent 40 xs) = 40" "recent 40 xs \<noteq> []" by (auto simp: recent_def)
  then have "push_point x (recent 40 xs) = tl (recent 40 xs) @ [x]"
    by (simp add: push_point_def max_points_def Let_def)
  moreover have "Suc (length xs) - 40 = Suc (length xs - 40)" using False by simp
  ultimately show ?thesis using False by (simp add: recent_def drop_Suc [of "length xs - 40"] tl_drop)
qed

definition dash_abs :: "history \<Rightarrow> dash \<Rightarrow> bool" where
  "dash_abs h m =
     (da_points m = recent 40 (points_spec [] h)
      \<and> da_commits m = last_seen db_txCommit h \<and> da_rollbacks m = last_seen db_txRollback h)"

lemma points_spec_snoc: "points_spec h (ss @ [s]) = points_spec h ss @ [point_spec (h @ ss) s]"
  by (induction ss arbitrary: h) simp_all

lemma dash_abs_init: "dash_abs [] fresh_dash"
  by (simp add: dash_abs_def fresh_dash_def recent_def last_seen_def seen_dbs_def fun_eq_iff)

lemma dom_last_seen: "Map.dom (last_seen f h) = Map.dom (last_seen g h)"
  by (auto simp: last_seen_def dom_def)

lemma dash_abs_step:
  assumes "dash_abs h m" "plain_names (st_dbs d)"
  shows "dash_abs (h @ [(c, d)]) (snd (take_sample c d m))"
proof -
  have t: "tx_totals (st_dbs d) (da_commits m) (da_rollbacks m) =
      \<lparr>tx_commits = Some (\<Sum>x\<leftarrow>st_dbs d. growth db_txCommit h x), tx_rollbacks = Some (\<Sum>x\<leftarrow>st_dbs d. growth db_txRollback h x),
       tx_prevC = last_seen db_txCommit (h @ [(c, d)]), tx_prevR = last_seen db_txRollback (h @ [(c, d)])\<rparr>"
    using assms(1) tx_totals_plain [OF assms(2) dom_last_seen, of db_txCommit h db_txRollback]
    by (simp add: dash_abs_def growth_last_seen last_seen_snoc)
  show ?thesis
    using assms(1) t recent_push [of "points_spec [] h"]
    by (simp add: dash_abs_def take_sample_def Let_def points_spec_snoc point_spec_def)
qed

lemma dash_abs_run: "list_all (\<lambda>s. plain_names (st_dbs (snd s))) ss \<Longrightarrow> dash_abs h m \<Longrightarrow> dash_abs (h @ ss) (run_samples ss m)"
proof (induction ss arbitrary: h m)
  case (Cons s ss)
  obtain c d where s: "s = (c, d)" by fastforce
  from Cons.prems s have "dash_abs (h @ [s]) (snd (take_sample c d m))" by (simp add: dash_abs_step)
  from Cons.IH [OF _ this] Cons.prems(1) s show ?case by (simp add: run_samples_def)
qed (simp add: run_samples_def)

section \<open>The other lemmas of the page\<close>

lemma total_nonneg: "list_all (\<lambda>d. 0 \<le> f d) ds \<Longrightarrow> 0 \<le> total_of f ds"
  by (induction ds) (auto simp: total_of_def)

lemma hit_percent_bounds: "0 \<le> h \<Longrightarrow> 0 \<le> r \<Longrightarrow> 0 \<le> hit_percent h r \<and> hit_percent h r \<le> 100"
proof (cases "0 < h + r")
  case True
  assume "0 \<le> h" "0 \<le> r"
  with True frac_bounds [of "of_int h" "of_int (h + r)" 100] show ?thesis by (simp add: hit_percent_def)
qed (simp add: hit_percent_def)

lemma spill_hotspots_set: "set (spill_hotspots rs) \<subseteq> set rs"
  by (auto simp: spill_hotspots_def dest: in_set_takeD)

lemma sorted_take_drop: "sorted (map f xs) \<Longrightarrow> a \<in> set (take n xs) \<Longrightarrow> b \<in> set (drop n xs) \<Longrightarrow> f a \<le> f b"
  using sorted_append [of "map f (take n xs)" "map f (drop n xs)"]
  by (simp flip: map_append)

lemma spill_top:
  assumes "r \<in> set (spill_hotspots rs)" "q \<in> set rs" "0 < ra_temp q \<or> 0 < ra_reads q" "q \<notin> set (spill_hotspots rs)"
  shows "spill_load q \<le> spill_load r"
proof -
  let ?xs = "sort_key (\<lambda>r. - spill_load r) (filter (\<lambda>r. 0 < ra_temp r \<or> 0 < ra_reads r) rs)"
  have "q \<in> set ?xs" using assms(2,3) by simp
  moreover have "set ?xs = set (take 4 ?xs) \<union> set (drop 4 ?xs)"
    by (metis append_take_drop_id set_append)
  ultimately have "q \<in> set (drop 4 ?xs)" using assms(4) by (auto simp: spill_hotspots_def)
  then have "- spill_load r \<le> - spill_load q"
    using sorted_take_drop [of "\<lambda>r. - spill_load r" ?xs r 4 q] assms(1) by (simp add: spill_hotspots_def)
  then show ?thesis by simp
qed

lemma spill_sorted: "sorted_wrt (\<lambda>a b. spill_load b \<le> spill_load a) (spill_hotspots rs)"
proof -
  have "sorted (map (\<lambda>r. - spill_load r) (spill_hotspots rs))"
    unfolding spill_hotspots_def by (metis sorted_sort_key sorted_wrt_take take_map)
  then show ?thesis by (simp add: sorted_map)
qed

definition point_nonneg :: "point \<Rightarrow> bool" where
  "point_nonneg p =
     (list_all (\<lambda>v. case v of None \<Rightarrow> True | Some n \<Rightarrow> 0 \<le> n) [p_commits p, p_rollbacks p]
      \<and> 0 \<le> p_active p \<and> 0 \<le> p_idle p \<and> 0 \<le> p_waiting p)"

lemma add_growth_nonneg: "add_growth a p n = Some v \<Longrightarrow> (\<And>w. a = Some w \<Longrightarrow> 0 \<le> w) \<Longrightarrow> 0 \<le> v"
  by (auto simp: add_growth_def split: option.splits prior.splits)

lemma tx_fold_nonneg:
  assumes "\<And>v. tx_commits t = Some v \<Longrightarrow> 0 \<le> v" "\<And>v. tx_rollbacks t = Some v \<Longrightarrow> 0 \<le> v"
  shows "(tx_commits (fold tx_one ds t) = Some v \<longrightarrow> 0 \<le> v) \<and> (tx_rollbacks (fold tx_one ds t) = Some w \<longrightarrow> 0 \<le> w)"
  using assms
proof (induction ds arbitrary: t)
  case (Cons d ds)
  have "tx_commits (tx_one d t) = Some x \<Longrightarrow> 0 \<le> x" "tx_rollbacks (tx_one d t) = Some x \<Longrightarrow> 0 \<le> x" for x
    using Cons.prems add_growth_nonneg [of _ _ _ x] by (auto simp: tx_one_def Let_def split: if_splits)
  from Cons.IH [OF this] show ?case by simp
qed auto

lemma take_sample_nonneg:
  assumes "list_all point_nonneg (da_points m)" "0 \<le> ac_active (st_act d)" "0 \<le> ac_idle (st_act d)" "0 \<le> ac_waiting (st_act d)"
  shows "list_all point_nonneg (da_points (snd (take_sample c d m)))"
proof -
  let ?t = "tx_totals (st_dbs d) (da_commits m) (da_rollbacks m)"
  have "(tx_commits ?t = Some v \<longrightarrow> 0 \<le> v) \<and> (tx_rollbacks ?t = Some w \<longrightarrow> 0 \<le> w)" for v w
    unfolding tx_totals_def by (rule tx_fold_nonneg) simp_all
  then have p: "point_nonneg \<lparr>p_time = time_text c (now c), p_commits = tx_commits ?t, p_rollbacks = tx_rollbacks ?t,
      p_active = ac_active (st_act d), p_idle = ac_idle (st_act d), p_waiting = ac_waiting (st_act d)\<rparr>"
    using assms(2,3,4) by (auto simp: point_nonneg_def split: option.splits)
  have push: "list_all point_nonneg ps \<Longrightarrow> point_nonneg q \<Longrightarrow> list_all point_nonneg (push_point q ps)" for q ps
    by (cases ps) (auto simp: push_point_def Let_def)
  show ?thesis using push [OF assms(1) p] by (simp add: take_sample_def Let_def)
qed

definition counts_nonneg :: "stats \<Rightarrow> bool" where
  "counts_nonneg d = (0 \<le> ac_active (st_act d) \<and> 0 \<le> ac_idle (st_act d) \<and> 0 \<le> ac_waiting (st_act d))"

lemma run_samples_nonneg:
  "list_all point_nonneg (da_points m) \<Longrightarrow> list_all (\<lambda>s. counts_nonneg (snd s)) ss \<Longrightarrow>
   list_all point_nonneg (da_points (run_samples ss m))"
proof (induction ss arbitrary: m)
  case (Cons s ss)
  obtain c d where s: "s = (c, d)" by fastforce
  from Cons.prems s have "list_all point_nonneg (da_points (snd (take_sample c d m)))"
    by (intro take_sample_nonneg) (simp_all add: counts_nonneg_def)
  from Cons.IH [OF this] Cons.prems(2) s show ?case by (simp add: run_samples_def)
qed (simp add: run_samples_def)

lemma dash_series_nonneg: "point_nonneg p \<Longrightarrow> s \<in> set (tps_series @ conn_series) \<Longrightarrow> s_value s p = Some v \<Longrightarrow> 0 \<le> v"
  by (auto simp: tps_series_def conn_series_def point_nonneg_def)

section \<open>Properties\<close>

text \<open>
  C6: the dashboard refines the history of its samples: in every run whose samples name their databases
  distinctly and not like a property of \<^verbatim>\<open>Object.prototype\<close>, the plotted points are the last forty of the points that the whole history defines, each
  with the growth of the commit and rollback counters since the databases were last seen, a counter
  that was reset counting nothing.
\<close>

theorem samples_refine:
  assumes "list_all (\<lambda>s. plain_names (st_dbs (snd s))) ss"
  shows "da_points (run_samples ss fresh_dash) = recent 40 (points_spec [] ss)"
  using dash_abs_run [OF assms dash_abs_init] by (simp add: dash_abs_def)

definition sample_clock :: clock where
  "sample_clock = \<lparr>now = 1000, locale_text = (\<lambda>t. ''today''), time_text = (\<lambda>t. ''12:00''), local_iso = [], number_text = int_str\<rparr>"

definition sample_db :: "string \<Rightarrow> int \<Rightarrow> int \<Rightarrow> db_stat" where
  "sample_db k c t =
     \<lparr>db_name = k, db_size = ''1 MB'', db_sizeBytes = 0, db_backends = 1, db_txCommit = c, db_txRollback = 0, db_deadlocks = 0,
      db_conflicts = 0, db_blksRead = 0, db_blksHit = 0, db_tupReturned = 0, db_tupFetched = 0, db_tupInserted = 0,
      db_tupUpdated = 0, db_tupDeleted = 0, db_tempFiles = 0, db_tempBytes = t, db_cacheHit = 99, db_readTime = 0, db_writeTime = 0\<rparr>"

definition sample_stats :: "int \<Rightarrow> db_stat list \<Rightarrow> stats" where
  "sample_stats t ds =
     \<lparr>st_time = Some t, st_dbs = ds, st_conn = \<lparr>cn_used = 1, cn_max = 100, cn_available = 90, cn_reserved = 3\<rparr>,
      st_act = \<lparr>ac_active = 1, ac_idle = 0, ac_waiting = 0, ac_idleXact = 0, ac_long = 0, ac_oldestMs = 0, ac_oldestIdleMs = 0,
                ac_waits = [], ac_queries = []\<rparr>,
      st_wal = \<lparr>wal_rate = 0, wal_segments = 0, wal_lsn = []\<rparr>,
      st_bg = \<lparr>bg_backend = 0, bg_clean = 0, bg_checkpoint = 0, bg_requested = 0, bg_writeMs = 0, bg_syncMs = 0\<rparr>,
      st_sys = None, st_errors = []\<rparr>"

definition sample_run :: history where
  "sample_run = [(sample_clock, sample_stats 1000 [sample_db ''app'' 100 0]), (sample_clock, sample_stats 2000 [sample_db ''app'' 130 0]),
     (sample_clock, sample_stats 3000 [sample_db ''app'' 5 0])]"

theorem samples_refine_witness:
  "da_points (run_samples sample_run fresh_dash) = recent 40 (points_spec [] sample_run)
    \<and> map p_commits (points_spec [] sample_run) = [Some 0, Some 30, Some 0]"
proof
  show "da_points (run_samples sample_run fresh_dash) = recent 40 (points_spec [] sample_run)"
    by (rule samples_refine) (simp add: sample_run_def sample_stats_def sample_db_def plain_names_def prototype_names_def)
  show "map p_commits (points_spec [] sample_run) = [Some 0, Some 30, Some 0]"
    by (simp add: sample_run_def sample_stats_def sample_db_def point_spec_def growth_def last_seen_def seen_dbs_def)
qed

text \<open>What one update does to the charts, at the sizes its elements have then; and the sizes of a run that never grow.\<close>

type_synonym frame = "clock \<times> stats \<times> (string \<Rightarrow> int \<times> int)"

fun chart_frame :: "plotter \<Rightarrow> frame \<Rightarrow> dash_state \<Rightarrow> dash_state" where
  "chart_frame d3 (c, d, sz) (m, cs, b) =
     (let m1 = snd (take_sample c d m); d3' = d3\<lparr>client_size := sz\<rparr>
      in (m1, renderConnChart d3' m1 (renderTpsChart d3' m1 (cs, b))))"

definition size_at :: "string \<Rightarrow> frame \<Rightarrow> int \<times> int" where
  "size_at i f = snd (snd f) i"

definition shrinking :: "string \<Rightarrow> frame list \<Rightarrow> bool" where
  "shrinking i fs = (list_all (\<lambda>f. drawable (size_at i f)) fs \<and> sorted_wrt (\<lambda>f g. no_larger (size_at i g) (size_at i f)) fs)"

lemma kept_smaller: "kept a i st \<Longrightarrow> no_larger b a \<Longrightarrow> kept b i st"
  by (auto simp: kept_def no_larger_def split: if_splits)

lemma documented_size [simp]: "d3_documented (d3\<lparr>client_size := sz\<rparr>) = d3_documented d3"
  by (simp add: d3_documented_def)

lemma chart_frame_kept:
  assumes "d3_documented d3" "counts_nonneg d" "list_all point_nonneg (da_points m)"
    and "kept a ''chart-tps'' (cs, b)" "no_larger (sz ''chart-tps'') a" "drawable (sz ''chart-tps'')"
    and "kept a' ''chart-conn'' (cs, b)" "no_larger (sz ''chart-conn'') a'" "drawable (sz ''chart-conn'')"
    and "chart_frame d3 (c, d, sz) (m, cs, b) = (m1, cs1, b1)"
  shows "list_all point_nonneg (da_points m1)" "kept (sz ''chart-tps'') ''chart-tps'' (cs1, b1)" "kept (sz ''chart-conn'') ''chart-conn'' (cs1, b1)"
    and "2 \<le> length (da_points m1) \<Longrightarrow>
      \<exists>c1 c2. cs1 ''chart-tps'' = Some c1 \<and> frame_ok (d3\<lparr>client_size := sz\<rparr>) ''chart-tps'' (da_points m1) tps_series c1
        \<and> cs1 ''chart-conn'' = Some c2 \<and> frame_ok (d3\<lparr>client_size := sz\<rparr>) ''chart-conn'' (da_points m1) conn_series c2"
proof -
  let ?d = "d3\<lparr>client_size := sz\<rparr>"
  have m1: "m1 = snd (take_sample c d m)" using assms(10) by (simp add: Let_def)
  show nn: "list_all point_nonneg (da_points m1)"
    unfolding m1 using assms(2) by (intro take_sample_nonneg [OF assms(3)]) (simp_all add: counts_nonneg_def)
  have pos: "0 \<le> v" if "s \<in> set (tps_series @ conn_series)" "p \<in> set (da_points m1)" "s_value s p = Some v" for s p v
    using dash_series_nonneg [OF _ that(1,3)] nn that(2) by (simp add: list_all_iff)
  let ?t = "renderLineChart ?d ''chart-tps'' (da_points m1) tps_series (cs, b)"
  have st: "(cs1, b1) = renderLineChart ?d ''chart-conn'' (da_points m1) conn_series ?t"
    using assms(10) by (simp add: Let_def m1 renderTpsChart_def renderConnChart_def)
  have sz: "client_size ?d = sz" "d3_documented ?d" using assms(1) by simp_all
  have pt: "\<And>s p v. s \<in> set tps_series \<Longrightarrow> p \<in> set (da_points m1) \<Longrightarrow> s_value s p = Some v \<Longrightarrow> 0 \<le> v"
    and pc: "\<And>s p v. s \<in> set conn_series \<Longrightarrow> p \<in> set (da_points m1) \<Longrightarrow> s_value s p = Some v \<Longrightarrow> 0 \<le> v"
    using pos by (metis UnCI set_append)+
  have tps: "kept (sz ''chart-tps'') ''chart-tps'' ?t"
    by (rule kept_drawn(1) [where d = ?d, unfolded sz(1), OF sz(2) assms(4,5,6) pt])
  have tps_ok: "\<exists>c1. fst ?t ''chart-tps'' = Some c1 \<and> frame_ok ?d ''chart-tps'' (da_points m1) tps_series c1" if "2 \<le> length (da_points m1)"
    by (rule kept_drawn(2) [where d = ?d, unfolded sz(1), OF sz(2) assms(4,5,6) pt that])
  have "leaf ''chart-tps'' (snd (cs, b))" using assms(4) by (simp add: kept_def)
  from kept_other [OF assms(7) this] have conn0: "kept a' ''chart-conn'' ?t" by simp
  have conn: "kept (sz ''chart-conn'') ''chart-conn'' (cs1, b1)"
    unfolding st by (rule kept_drawn(1) [where d = ?d, unfolded sz(1), OF sz(2) conn0 assms(8,9) pc])
  have "\<exists>c2. fst (renderLineChart ?d ''chart-conn'' (da_points m1) conn_series ?t) ''chart-conn'' = Some c2
      \<and> frame_ok ?d ''chart-conn'' (da_points m1) conn_series c2" if "2 \<le> length (da_points m1)"
    by (rule kept_drawn(2) [where d = ?d, unfolded sz(1), OF sz(2) conn0 assms(8,9) pc that])
  note conn_ok = this [folded st, unfolded fst_conv]
  have leaf: "leaf ''chart-conn'' (snd ?t)" using conn0 by (simp add: kept_def)
  have other: "kept (sz ''chart-tps'') ''chart-tps'' (cs1, b1)" "cs1 ''chart-tps'' = fst ?t ''chart-tps''"
    using kept_other [where d = ?d and ps = "da_points m1" and ss = conn_series, OF tps leaf, folded st] by simp_all
  show "kept (sz ''chart-tps'') ''chart-tps'' (cs1, b1)" by (rule other(1))
  show "kept (sz ''chart-conn'') ''chart-conn'' (cs1, b1)" by (rule conn)
  show "2 \<le> length (da_points m1) \<Longrightarrow>
      \<exists>c1 c2. cs1 ''chart-tps'' = Some c1 \<and> frame_ok ?d ''chart-tps'' (da_points m1) tps_series c1
        \<and> cs1 ''chart-conn'' = Some c2 \<and> frame_ok ?d ''chart-conn'' (da_points m1) conn_series c2"
    unfolding other(2) using tps_ok conn_ok by blast
qed

lemma chart_frame_points:
  "fold (chart_frame d3) fs (m, st) = (m1, st1) \<Longrightarrow> length (da_points m) + length fs \<le> 40 \<Longrightarrow> length (da_points m1) = length (da_points m) + length fs"
proof (induction fs arbitrary: m st)
  case (Cons f fs)
  obtain m2 st2 where r: "chart_frame d3 f (m, st) = (m2, st2)" by (cases "chart_frame d3 f (m, st)") auto
  obtain c d sz where f: "f = (c, d, sz)" by (cases f) auto
  have "m2 = snd (take_sample c d m)" using r by (cases st) (simp add: f Let_def)
  then have "length (da_points m2) = Suc (length (da_points m))"
    using Cons.prems(2) by (cases "da_points m") (auto simp: take_sample_def Let_def push_point_def max_points_def)
  with Cons.IH [of m2 st2] Cons.prems r show ?case by simp
qed simp

lemma chart_run_kept:
  assumes "d3_documented d3" "list_all point_nonneg (da_points m)" "leaf ''chart-tps'' b" "leaf ''chart-conn'' b"
    and "\<not> has_svg (inner ''chart-tps'' b)" "\<not> has_svg (inner ''chart-conn'' b)"
  shows "list_all (\<lambda>(c, d, sz). counts_nonneg d) fs \<Longrightarrow> shrinking ''chart-tps'' fs \<Longrightarrow> shrinking ''chart-conn'' fs \<Longrightarrow>
    fold (chart_frame d3) fs (m, cs, b) = (m1, cs1, b1) \<Longrightarrow>
    list_all point_nonneg (da_points m1)
    \<and> (list_all (\<lambda>f. no_larger a (size_at ''chart-tps'' f)) fs \<longrightarrow> kept a ''chart-tps'' (cs1, b1))
    \<and> (list_all (\<lambda>f. no_larger a' (size_at ''chart-conn'' f)) fs \<longrightarrow> kept a' ''chart-conn'' (cs1, b1))"
proof (induction fs arbitrary: a a' m1 cs1 b1 rule: rev_induct)
  case Nil
  then show ?case using assms by (simp add: kept_def)
next
  case (snoc f fs)
  obtain c d sz where f: "f = (c, d, sz)" by (cases f) auto
  obtain m0 cs0 b0 where r: "fold (chart_frame d3) fs (m, cs, b) = (m0, cs0, b0)" by (cases "fold (chart_frame d3) fs (m, cs, b)") auto
  have sh: "shrinking i fs" "drawable (sz i)" "list_all (\<lambda>g. no_larger (sz i) (size_at i g)) fs" if "shrinking i (fs @ [f])" for i
    using that by (auto simp: shrinking_def sorted_wrt_append f size_at_def list_all_iff)
  from snoc.IH [OF _ sh(1) [OF snoc.prems(2)] sh(1) [OF snoc.prems(3)] r, of "sz ''chart-tps''" "sz ''chart-conn''"] snoc.prems(1)
    sh(3) [OF snoc.prems(2)] sh(3) [OF snoc.prems(3)]
  have k: "list_all point_nonneg (da_points m0)" "kept (sz ''chart-tps'') ''chart-tps'' (cs0, b0)" "kept (sz ''chart-conn'') ''chart-conn'' (cs0, b0)"
    by simp_all
  have "no_larger x x" for x by (simp add: no_larger_def)
  note step = chart_frame_kept [OF assms(1) _ k(1,2) this sh(2) [OF snoc.prems(2)] k(3) this sh(2) [OF snoc.prems(3)]]
  have eq: "chart_frame d3 (c, d, sz) (m0, cs0, b0) = (m1, cs1, b1)" using snoc.prems(4) r f by simp
  have cn: "counts_nonneg d" using snoc.prems(1) f by simp
  show ?case
    using step(1-3) [OF cn eq] kept_smaller by (auto simp: f size_at_def)
qed

text \<open>
  C30: on a page entered anew, after any run of updates whose counts of connections are not negative and at whose sizes, at least 38 by 40,
  neither chart element ever grew: once there are two points, both charts draw the points of their series, the grid lines and the labels of the value axis
  inside the inner frame of the view box the picture was created with, the time labels at most 14 below it, and the labels of the value
  axis stand at the grid lines. When an element grows this fails (theorem \<^verbatim>\<open>resize_overflows\<close>).
\<close>

theorem charts_in_frame:
  assumes "d3_documented d3" "list_all (\<lambda>(c, d, sz). counts_nonneg d) (fs @ [(c, d, sz)])"
    and "shrinking ''chart-tps'' (fs @ [(c, d, sz)])" "shrinking ''chart-conn'' (fs @ [(c, d, sz)])"
    and "list_all point_nonneg (da_points m)" "leaf ''chart-tps'' b" "leaf ''chart-conn'' b"
    and "\<not> has_svg (inner ''chart-tps'' b)" "\<not> has_svg (inner ''chart-conn'' b)"
    and "fold (chart_frame d3) (fs @ [(c, d, sz)]) (m, cs, b) = (m1, cs1, b1)" "2 \<le> length (da_points m1)"
  shows "\<exists>c1 c2. cs1 ''chart-tps'' = Some c1 \<and> frame_ok (d3\<lparr>client_size := sz\<rparr>) ''chart-tps'' (da_points m1) tps_series c1
    \<and> cs1 ''chart-conn'' = Some c2 \<and> frame_ok (d3\<lparr>client_size := sz\<rparr>) ''chart-conn'' (da_points m1) conn_series c2"
proof -
  obtain m0 cs0 b0 where r: "fold (chart_frame d3) fs (m, cs, b) = (m0, cs0, b0)" by (cases "fold (chart_frame d3) fs (m, cs, b)") auto
  have sh: "shrinking i fs" "drawable (sz i)" "list_all (\<lambda>g. no_larger (sz i) (size_at i g)) fs" if "shrinking i (fs @ [(c, d, sz)])" for i
    using that by (auto simp: shrinking_def sorted_wrt_append size_at_def list_all_iff)
  have k: "list_all point_nonneg (da_points m0)" "kept (sz ''chart-tps'') ''chart-tps'' (cs0, b0)" "kept (sz ''chart-conn'') ''chart-conn'' (cs0, b0)"
    using chart_run_kept [OF assms(1,5-9) _ sh(1) [OF assms(3)] sh(1) [OF assms(4)] r, of "sz ''chart-tps''" "sz ''chart-conn''"] assms(2)
      sh(3) [OF assms(3)] sh(3) [OF assms(4)] by simp_all
  have refl: "no_larger x x" for x by (simp add: no_larger_def)
  have eq: "chart_frame d3 (c, d, sz) (m0, cs0, b0) = (m1, cs1, b1)" using assms(10) r by simp
  have cn: "counts_nonneg d" using assms(2) by simp
  show ?thesis
    by (rule chart_frame_kept(4) [OF assms(1) cn k(1,2) refl sh(2) [OF assms(3)] k(3) refl sh(2) [OF assms(4)] eq assms(11)])
qed

definition chart_page :: browser where
  "chart_page = sample_browser\<lparr>dom := [''chart-tps'' \<mapsto> mk_node ''div'' [] [], ''chart-conn'' \<mapsto> mk_node ''div'' [] []]\<rparr>"

definition sample_frames :: "frame list" where
  "sample_frames = [(sample_clock, sample_stats 1000 [sample_db ''app'' 100 0], \<lambda>i. (1000, 200)),
     (sample_clock, sample_stats 2000 [sample_db ''app'' 130 0], \<lambda>i. (900, 200))]"

theorem charts_in_frame_witness:
  "\<exists>m1 cs1 b1 c1 c2. fold (chart_frame sample_plotter) (sample_frames @ [(sample_clock, sample_stats 3000 [], \<lambda>i. (800, 150))]) (fresh_dash, Map.empty, chart_page) = (m1, cs1, b1)
    \<and> cs1 ''chart-tps'' = Some c1 \<and> frame_ok (sample_plotter\<lparr>client_size := \<lambda>i. (800, 150)\<rparr>) ''chart-tps'' (da_points m1) tps_series c1
    \<and> cs1 ''chart-conn'' = Some c2 \<and> frame_ok (sample_plotter\<lparr>client_size := \<lambda>i. (800, 150)\<rparr>) ''chart-conn'' (da_points m1) conn_series c2"
proof -
  let ?fs = "sample_frames @ [(sample_clock, sample_stats 3000 [], \<lambda>i. (800, 150))]"
  obtain m1 cs1 b1 where r: "fold (chart_frame sample_plotter) ?fs (fresh_dash, Map.empty, chart_page) = (m1, cs1, b1)"
    by (cases "fold (chart_frame sample_plotter) ?fs (fresh_dash, Map.empty, chart_page)") auto
  have "length (da_points m1) = 3" using chart_frame_points [OF r] by (simp add: sample_frames_def fresh_dash_def)
  then have "2 \<le> length (da_points m1)" by simp
  moreover have "list_all (\<lambda>(c, d, sz). counts_nonneg d) ?fs" by (simp add: sample_frames_def sample_stats_def counts_nonneg_def)
  moreover have "shrinking i ?fs" for i by (simp add: shrinking_def sample_frames_def size_at_def drawable_def no_larger_def)
  moreover have "leaf ''chart-tps'' chart_page" "leaf ''chart-conn'' chart_page" "\<not> has_svg (inner ''chart-tps'' chart_page)" "\<not> has_svg (inner ''chart-conn'' chart_page)"
    by (simp_all add: chart_page_def leaf_def mk_node_def nodes_of_list_def inner_def)
  moreover have "list_all point_nonneg (da_points fresh_dash)" by (simp add: fresh_dash_def)
  ultimately obtain c1 c2 where "cs1 ''chart-tps'' = Some c1 \<and> frame_ok (sample_plotter\<lparr>client_size := \<lambda>i. (800, 150)\<rparr>) ''chart-tps'' (da_points m1) tps_series c1
    \<and> cs1 ''chart-conn'' = Some c2 \<and> frame_ok (sample_plotter\<lparr>client_size := \<lambda>i. (800, 150)\<rparr>) ''chart-conn'' (da_points m1) conn_series c2"
    using charts_in_frame [OF sample_plotter_documented _ _ _ _ _ _ _ _ r] by blast
  with r show ?thesis by blast
qed

text \<open>
  C38: a sample without databases, as a failed collector sends it, resets the totals: the next sample shows
  every temporary byte ever written as the spill rate of the interval, and shows it as a warning once it
  passes ten mebibytes per second.
\<close>

theorem outage_spikes:
  fixes m :: dash and c1 c2 :: clock
  assumes "st_dbs d1 = []" "st_time d1 = Some t1" "st_time d2 = Some t2" "0 < t1" "t1 < t2" "0 \<le> total_of db_tempBytes (st_dbs d2)"
  defines "m1 \<equiv> snd (take_sample c1 d1 m)"
  shows "sg_tempRate (fst (take_sample c2 d2 m1)) = of_int (total_of db_tempBytes (st_dbs d2)) / (of_int (t2 - t1) / 1000)"
proof -
  have "da_temp m1 = 0"
    using assms(1) by (simp add: m1_def take_sample_def Let_def signals_of_def total_of_def split: option.splits)
  moreover have "da_at m1 = Some t1"
    using assms(2) by (simp add: m1_def take_sample_def Let_def sample_at_def)
  ultimately show ?thesis
    using assms(3-6) by (simp add: take_sample_def Let_def signals_of_def sample_at_def per_second_def)
qed

theorem outage_spikes_witness:
  "sg_tempRate (fst (take_sample sample_clock (sample_stats 2000 [sample_db ''app'' 1 20000000])
      (snd (take_sample sample_clock (sample_stats 1000 []) fresh_dash)))) =
     of_int (total_of db_tempBytes (st_dbs (sample_stats 2000 [sample_db ''app'' 1 20000000]))) / (of_int (2000 - 1000) / 1000)"
  by (rule outage_spikes) (simp_all add: sample_stats_def sample_db_def total_of_def)

lemma add_growth_None [simp]: "add_growth None p n = None"
  by (simp add: add_growth_def)

lemma tx_fold_None:
  "tx_commits t = None \<Longrightarrow> tx_rollbacks t = None \<Longrightarrow> tx_commits (fold tx_one ds t) = None \<and> tx_rollbacks (fold tx_one ds t) = None"
  by (induction ds arbitrary: t) (simp_all add: tx_one_def Let_def)

lemma tx_fold_unseen:
  "db_name d \<in> set prototype_names \<Longrightarrow> d \<in> set ds \<Longrightarrow> prior (tx_prevC t) (db_name d) = NotANumber \<Longrightarrow> prior (tx_prevR t) (db_name d) = NotANumber \<Longrightarrow>
   tx_commits (fold tx_one ds t) = None \<and> tx_rollbacks (fold tx_one ds t) = None"
proof (induction ds arbitrary: t)
  case (Cons x ds)
  show ?case
  proof (cases "db_name x = db_name d")
    case True
    with Cons.prems have "tx_commits (tx_one x t) = None" "tx_rollbacks (tx_one x t) = None"
      by (simp_all add: tx_one_def Let_def add_growth_def split: option.splits)
    then show ?thesis by (simp add: tx_fold_None)
  next
    case False
    then have "prior (keep_count (db_name x) v m) (db_name d) = prior m (db_name d)" for v m
      by (simp add: prior_def keep_count_def)
    then show ?thesis using False Cons by (auto simp: tx_one_def Let_def)
  qed
qed simp

text \<open>
  a database named like a property of \<^verbatim>\<open>Object.prototype\<close> has a previous counter that is no number
  when it is first seen: both transaction values of that point are NaN, whatever the other databases did.
\<close>

theorem inherited_name_nan:
  assumes "d \<in> set (st_dbs s)" "db_name d \<in> set prototype_names" "da_commits m (db_name d) = None" "da_rollbacks m (db_name d) = None"
  shows "\<exists>ps p. da_points (snd (take_sample c s m)) = ps @ [p] \<and> p_commits p = None \<and> p_rollbacks p = None"
proof -
  have "tx_commits (tx_totals (st_dbs s) (da_commits m) (da_rollbacks m)) = None \<and> tx_rollbacks (tx_totals (st_dbs s) (da_commits m) (da_rollbacks m)) = None"
    unfolding tx_totals_def using assms by (intro tx_fold_unseen [of d]) (simp_all add: prior_def)
  moreover have "\<exists>ps. push_point p qs = ps @ [p]" for p qs
    by (cases qs) (auto simp: push_point_def max_points_def Let_def)
  ultimately show ?thesis
    by (auto simp: take_sample_def Let_def) (metis point.select_convs(2,3))
qed

theorem inherited_name_nan_witness:
  "\<exists>ps p. da_points (snd (take_sample sample_clock (sample_stats 1000 [sample_db ''app'' 7 0, sample_db ''constructor'' 1 0]) fresh_dash)) = ps @ [p]
    \<and> p_commits p = None \<and> p_rollbacks p = None"
  by (rule inherited_name_nan [of "sample_db ''constructor'' 1 0"])
    (simp_all add: sample_stats_def sample_db_def prototype_names_def fresh_dash_def)

text \<open>
  the hot spots are at most four databases of the sample with some load, in descending order, and no
  database with load that was left out has a higher one.
\<close>

theorem hotspots_top:
  "length (spill_hotspots rs) \<le> 4 \<and> set (spill_hotspots rs) \<subseteq> set (filter (\<lambda>r. 0 < ra_temp r \<or> 0 < ra_reads r) rs)
    \<and> sorted_wrt (\<lambda>a b. spill_load b \<le> spill_load a) (spill_hotspots rs)
    \<and> filter (\<lambda>q. (0 < ra_temp q \<or> 0 < ra_reads q) \<and> q \<notin> set (spill_hotspots rs)
        \<and> \<not> list_all (\<lambda>r. spill_load q \<le> spill_load r) (spill_hotspots rs)) rs = []"
  using spill_top [of _ rs] spill_sorted [of rs]
  by (auto simp: filter_empty_conv list_all_iff) (auto simp: spill_hotspots_def dest: in_set_takeD)

text \<open>
  user and database names of the running queries are written into the table without escaping: a
  database whose name contains a tag becomes an element of the page.
\<close>

definition tag_query :: query_stat where
  "tag_query = \<lparr>q_pid = 7, q_user = ''u'', q_database = ''<b>'', q_wait = [], q_duration = 0, q_query = ''select 1''\<rparr>"

theorem query_row_injects:
  "Open ''b'' [] \<in> set (snd (lex_html (ser_list (query_row tag_query)))) \<and> Open ''b'' [] \<notin> set (toks_list (query_row (tag_query\<lparr>q_database := ''b''\<rparr>)))"
  by code_simp

end
