(* ===== verification/Sql.thy ===== *)
theory Sql
  imports Site
begin

text \<open>
  The SQL editor, sql.js. The vendored CodeMirror bundle is a parameter: whether its import and
  the construction of an editor succeed; of an editor only its document and the schema it
  completes from are kept (theme, key bindings and highlighting are constants passed to it). Without
  the bundle a textarea takes its place. \<^verbatim>\<open>loadHistory\<close> after an execution is not
  awaited and is queued. The elements of the page's frame stand and fall together: the run button
  and the status line are looked up for all of them.
\<close>

section \<open>State and server\<close>

record schema_info =
  sc_tables :: "string list"
  sc_columns :: "(string \<times> string) list"

record snippet =
  sn_name :: string
  sn_category :: string
  sn_query :: string

record history_entry =
  hi_query :: string
  hi_time :: int
  hi_duration :: rat
  hi_rows :: int
  hi_error :: string

text \<open>A reply to an execution; a cell is null or its printed value, and an absent one prints as undefined.\<close>

record sql_result =
  re_success :: bool
  re_error :: string
  re_rowCount :: int
  re_columns :: "string list"
  re_rows :: "(string \<times> string option) list list"

datatype cm_bundle = NoBundle | NoEditor | Bundle

type_synonym completions = "(string \<times> string list) list option"

record sql_page = site +
  sq_snippets :: "snippet list"
  sq_showHistory :: bool
  sq_editor :: "string option"
  sq_cm :: bool
  sq_cache :: "schema_info option"
  sq_completes :: completions
  sq_loading :: nat

record sql_server =
  qs_settings :: settings_net
  qs_dbs :: "string list option net"
  qs_schema :: "schema_info option net"
  qs_snippets :: "snippet list net"
  qs_history :: "history_entry list net"
  qs_clear :: "unit net"
  qs_execute :: "sql_result net"

abbreviation draft_key :: string where "draft_key \<equiv> ''pgaio_sql_draft''"

section \<open>Text of the editor\<close>

definition getQuery :: "sql_page \<Rightarrow> string" where
  "getQuery s = (case sq_editor s of Some doc \<Rightarrow> trim doc | None \<Rightarrow> trim (value_of ''sql-input'' (page s)))"

definition setQuery :: "string \<Rightarrow> sql_page \<Rightarrow> sql_page" where
  "setQuery txt s =
     (case sq_editor s of
        Some doc \<Rightarrow> s\<lparr>sq_editor := Some txt\<rparr>
      | None \<Rightarrow> upd_page (set_val ''sql-input'' txt) s)"

text \<open>Choosing a snippet; nothing happens without an editor. The select goes back to its first option.\<close>

definition snippet_chosen :: "string \<Rightarrow> sql_page \<Rightarrow> sql_page" where
  "snippet_chosen v s =
     (if v \<noteq> [] \<and> sq_editor s \<noteq> None
      then upd_page (set_val ''sql-snippets'' []) (s\<lparr>sq_editor := Some v\<rparr>) else s)"

section \<open>Schema for completion\<close>

definition fetchSchema :: "sql_server \<Rightarrow> sql_page \<Rightarrow> schema_info option outcome \<times> sql_page" where
  "fetchSchema sv s =
     (case sq_cache s of
        Some c \<Rightarrow> (Resolved (Some c), s)
      | None \<Rightarrow>
          (let db = db_getSelected (page s) in
           catch
             (await (ensure (qs_settings sv) ''sql'' s) (\<lambda>prof s1.
              await (on_page (api (qs_schema sv) (get_rq (''/sql/schema?'' @ selection_params db prof))) s1) (\<lambda>r s2.
                case r of
                  Some d \<Rightarrow> (Resolved (Some d), s2\<lparr>sq_cache := Some d\<rparr>)
                | None \<Rightarrow> (Resolved None, s2))))
             (\<lambda>e s1. (Resolved None, s1))))"

text \<open>An object filled table by table: a name that comes again keeps its place.\<close>

fun put_key :: "string \<Rightarrow> 'v \<Rightarrow> (string \<times> 'v) list \<Rightarrow> (string \<times> 'v) list" where
  "put_key k v [] = [(k, v)]"
| "put_key k v ((k', w) # kvs) = (if k' = k then (k, v) # kvs else (k', w) # put_key k v kvs)"

text \<open>Assigning to \<^verbatim>\<open>__proto__\<close> replaces the prototype of the object and adds no key.\<close>

definition set_key :: "string \<Rightarrow> 'v \<Rightarrow> (string \<times> 'v) list \<Rightarrow> (string \<times> 'v) list" where
  "set_key k v kvs = (if k = ''__proto__'' then kvs else put_key k v kvs)"

definition buildSqlConfig :: "schema_info option \<Rightarrow> completions" where
  "buildSqlConfig sc =
     (case sc of
        None \<Rightarrow> None
      | Some i \<Rightarrow>
          Some (fold (\<lambda>t. set_key t (map snd (filter (\<lambda>c. fst c = t) (sc_columns i)))) (sc_tables i) []))"

definition reloadSchema :: "sql_server \<Rightarrow> sql_page \<Rightarrow> unit outcome \<times> sql_page" where
  "reloadSchema sv s =
     (let s0 = s\<lparr>sq_cache := None\<rparr> in
      if sq_editor s0 = None \<or> \<not> sq_cm s0 then (Resolved (), s0)
      else await (fetchSchema sv s0) (\<lambda>sc s1. (Resolved (), s1\<lparr>sq_completes := buildSqlConfig sc\<rparr>)))"

definition fallback_markup :: "html list" where
  "fallback_markup = [El ''textarea'' [At ''id'' ''sql-input'', At ''spellcheck'' ''false'', At ''style'' '' width:100%;min-height:120px;max-height:300px;resize:vertical; background:var(--bg-1);color:var(--text-1);border:none; padding:10px;font-size:12px;line-height:1.5; font-family:var(--font);outline:none;box-sizing:border-box; '', At ''placeholder'' ''SELECT * FROM pg_stat_activity LIMIT 10;''] []]"

definition initFallback :: "sql_page \<Rightarrow> sql_page" where
  "initFallback s = put_markup ''sql-cm-editor'' fallback_markup s"

text \<open>
  The tab key in the textarea replaces the selection by two blanks; the cursor follows. The
  other key it reacts to is control or meta with Enter, which executes.
\<close>

definition tab_pressed :: "nat \<Rightarrow> nat \<Rightarrow> sql_page \<Rightarrow> nat \<times> sql_page" where
  "tab_pressed start stop s =
     (let v = value_of ''sql-input'' (page s)
      in (start + 2, upd_page (set_val ''sql-input'' (take start v @ ''  '' @ drop stop v)) s))"

definition initCodeMirror :: "cm_bundle \<Rightarrow> sql_server \<Rightarrow> sql_page \<Rightarrow> unit outcome \<times> sql_page" where
  "initCodeMirror cm sv s =
     (if \<not> element ''sql-cm-editor'' (page s) then (Resolved (), s)
      else if cm = NoBundle then (Resolved (), initFallback s)
      else await (fetchSchema sv (s\<lparr>sq_cm := True\<rparr>)) (\<lambda>sc s1.
             let s2 = s1\<lparr>sq_completes := buildSqlConfig sc\<rparr>
             in (Resolved (), if cm = NoEditor then initFallback s1 else s2\<lparr>sq_editor := Some []\<rparr>)))"

section \<open>History\<close>

definition history_status :: "history_entry \<Rightarrow> html list" where
  "history_status h =
     (if hi_error h \<noteq> [] then [El ''span'' [At ''class'' ''red''] [Txt ''error'']] else [El ''span'' [At ''class'' ''green''] [Txt ''ok'']])"

definition history_row :: "clock \<Rightarrow> history_entry \<Rightarrow> html list" where
  "history_row c h = [El ''tr'' [At ''style'' ''cursor:pointer'', At ''onclick'' ''SQLEditor.useHistory(this)'', At ''data-query'' (esc5 (hi_query h))]
      [El ''td'' [At ''style'' ''overflow:hidden;text-overflow:ellipsis;white-space:nowrap'', At ''title'' (esc5 (hi_query h))] [Txt (esc5 (hi_query h))],
      El ''td'' [At ''class'' ''dim''] [Txt (timeAgo (now c) (hi_time h))],
      El ''td'' [At ''class'' ''dim''] [Txt ((to_fixed 1 (hi_duration h)) @ ''ms'')],
      El ''td'' [] [Txt (str_of_int (hi_rows h))],
      El ''td'' [] (history_status h)]]"

definition history_markup :: "clock \<Rightarrow> history_entry list \<Rightarrow> html list" where
  "history_markup c hs =
     (if hs = [] then [El ''span'' [At ''class'' ''dim mono-xs'', At ''style'' ''padding:8px;display:block''] [Txt ''no history'']]
      else [El ''table'' [At ''class'' ''data-table'', At ''style'' ''table-layout:fixed;width:100%'']
      [El ''thead'' []
       [El ''tr'' []
        [El ''th'' [] [Txt ''query''],
        El ''th'' [At ''style'' ''width:100px''] [Txt ''time''],
        El ''th'' [At ''style'' ''width:80px''] [Txt ''duration''],
        El ''th'' [At ''style'' ''width:60px''] [Txt ''rows''],
        El ''th'' [At ''style'' ''width:60px''] [Txt ''status'']]],
      El ''tbody'' [] (concat (map (history_row c) (rev hs)))]])"

definition loadHistory :: "sql_server \<Rightarrow> clock \<Rightarrow> sql_page \<Rightarrow> unit outcome \<times> sql_page" where
  "loadHistory sv c s =
     catch (await (on_page (api (qs_history sv) (get_rq ''/sql/history'')) s) (\<lambda>hs s1.
              (Resolved (), put_markup ''history-list'' (history_markup c hs) s1)))
       ignore"

definition toggleHistory :: "sql_server \<Rightarrow> clock \<Rightarrow> sql_page \<Rightarrow> unit outcome \<times> sql_page" where
  "toggleHistory sv c s =
     (let s1 = s\<lparr>sq_showHistory := \<not> sq_showHistory s\<rparr> in
      if \<not> element ''sql-history-panel'' (page s1) then (Resolved (), s1)
      else (let s2 = upd_page (set_style ''sql-history-panel'' ''display'' (if sq_showHistory s1 then ''block'' else ''none'')) s1
            in if sq_showHistory s2 then loadHistory sv c s2 else (Resolved (), s2)))"

text \<open>\<^verbatim>\<open>s.replace(/p/g, r)\<close> for a longer literal pattern.\<close>

function replace_str :: "string \<Rightarrow> string \<Rightarrow> string \<Rightarrow> string" where
  "replace_str p r [] = []"
| "replace_str p r (c # cs) =
     (if p \<noteq> [] \<and> starts_with p (c # cs) then r @ replace_str p r (drop (length p) (c # cs))
      else c # replace_str p r cs)"
  by pat_completeness auto
termination by (relation "measure (\<lambda>(p, r, s). length s)") auto

definition unescape_again :: "string \<Rightarrow> string" where
  "unescape_again q =
     replace_str ''&quot;'' dq (replace_str ''&#39;'' sq (replace_str ''&gt;'' ''>''
       (replace_str ''&lt;'' ''<'' (replace_str ''&amp;'' ''&'' q))))"

text \<open>\<^verbatim>\<open>row\<close> is the clicked row: the element of the history table, with the attributes of the markup.\<close>

definition useHistory :: "html \<Rightarrow> sql_page \<Rightarrow> sql_page" where
  "useHistory row s =
     (case row of
        El t as hs \<Rightarrow>
          (case attr_val ''data-query'' as of
             Some q \<Rightarrow> if q \<noteq> [] then setQuery (unescape_again q) s else s
           | None \<Rightarrow> s)
      | Txt x \<Rightarrow> s)"

definition clearHistory :: "sql_server \<Rightarrow> clock \<Rightarrow> sql_page \<Rightarrow> unit outcome \<times> sql_page" where
  "clearHistory sv c s =
     catch (await (on_page (apiProtected (qs_clear sv) (delete_rq ''/sql/history'')) s) (\<lambda>_ s1.
              loadHistory sv c (toast ''history cleared'' ''success'' s1)))
       ignore"

section \<open>Snippets\<close>

text \<open>
  The groups are built with \<^verbatim>\<open>createElement\<close>, whose properties take any text: as markup, the
  text is escaped.
\<close>

definition snippet_group :: "string \<times> snippet list \<Rightarrow> html" where
  "snippet_group g =
     El ''optgroup'' [At ''label'' (escHtml (fst g))]
       (map (\<lambda>s. El ''option'' [At ''value'' (escHtml (sn_query s))] [Txt (escHtml (sn_name s))]) (snd g))"

definition loadSnippets :: "sql_server \<Rightarrow> sql_page \<Rightarrow> unit outcome \<times> sql_page" where
  "loadSnippets sv s =
     catch (await (on_page (api (qs_snippets sv) (get_rq ''/sql/snippets'')) s) (\<lambda>sn s1.
              (Resolved (), upd_page (append_children ''sql-snippets'' (map snippet_group (group_by sn_category sn)))
                 (s1\<lparr>sq_snippets := sn\<rparr>))))
       ignore"

section \<open>Executing\<close>

definition execute_rq :: "string \<Rightarrow> string \<Rightarrow> string \<Rightarrow> request" where
  "execute_rq q db prof =
     post_rq ''/sql/execute'' (Some (JObj [(''query'', JStr q), (''database'', JStr db), (''profile'', JStr prof)]))"

definition running_button :: "html list" where
  "running_button = [El ''i'' [At ''data-lucide'' ''loader'', At ''class'' ''icon-sm''] [],
     Txt '' running...'']"

definition run_button :: "html list" where
  "run_button = [El ''i'' [At ''data-lucide'' ''play'', At ''class'' ''icon-sm''] [],
     Txt '' run'']"

definition status_line :: "string \<Rightarrow> string \<Rightarrow> sql_page \<Rightarrow> sql_page" where
  "status_line txt cl s = upd_page (\<lambda>b. set_class ''sql-status'' cl (set_text ''sql-status'' txt b)) s"

definition cell_text :: "(string \<times> string option) list \<Rightarrow> string \<Rightarrow> html list" where
  "cell_text row col =
     (case map_of row col of
        Some None \<Rightarrow> [El ''span'' [At ''class'' ''dim''] [Txt ''NULL'']]
      | Some (Some v) \<Rightarrow> [Txt (esc5 v)]
      | None \<Rightarrow> [Txt ''undefined''])"

definition result_row :: "string list \<Rightarrow> (string \<times> string option) list \<Rightarrow> html list" where
  "result_row cols row =
     [El ''tr'' []
      (map (\<lambda>c. El ''td'' [] (cell_text row c)) cols)]"

definition result_table :: "sql_result \<Rightarrow> html list" where
  "result_table d = [El ''div'' [At ''class'' ''card'', At ''style'' ''padding:0;overflow-x:auto'']
      [El ''table'' [At ''class'' ''data-table'']
       [El ''thead'' []
        [El ''tr'' []
         (map (\<lambda>c. El ''th'' [] [Txt (esc5 c)]) (re_columns d))],
       El ''tbody'' [] (concat (map (result_row (re_columns d)) (re_rows d)))]]]"

definition result_error :: "string \<Rightarrow> html list" where
  "result_error e = [El ''div'' [At ''class'' ''card'']
      [El ''pre'' [At ''class'' ''red mono-xs'', At ''style'' ''margin:0;white-space:pre-wrap''] [Txt (esc5 e)]]]"

definition call_error :: "string \<Rightarrow> html list" where
  "call_error e = [El ''div'' [At ''class'' ''card'']
      [El ''span'' [At ''class'' ''red mono-xs''] [Txt (esc5 e)]]]"

definition refresh_history :: "sql_page \<Rightarrow> sql_page" where
  "refresh_history s = (if sq_showHistory s then s\<lparr>sq_loading := Suc (sq_loading s)\<rparr> else s)"

definition show_result :: "string \<Rightarrow> sql_result \<Rightarrow> sql_page \<Rightarrow> sql_page" where
  "show_result elapsed d s =
     refresh_history
       (if \<not> re_success d
        then put_markup ''sql-result'' (result_error (re_error d))
               (status_line (''error ('' @ elapsed @ ''s)'') ''mono-xs red mb-8'' s)
        else put_markup ''sql-result''
               (if re_columns d = [] \<or> re_rowCount d = 0
                then [El ''div'' [At ''class'' ''card'']
      [El ''span'' [At ''class'' ''dim mono-xs''] [Txt ''no results'']]] else result_table d)
               (status_line (str_of_int (re_rowCount d) @ '' rows '' @ u_middot @ '' '' @ elapsed @ ''s'') ''mono-xs accent mb-8'' s))"

text \<open>\<^verbatim>\<open>ms\<close> is the time that passed on the clock of the page until the reply or the error.\<close>

definition execute :: "sql_server \<Rightarrow> rat \<Rightarrow> sql_page \<Rightarrow> unit outcome \<times> sql_page" where
  "execute sv ms s =
     (let q = getQuery s; elapsed = to_fixed 3 (ms / 1000) in
      if q = [] then (Resolved (), s)
      else if \<not> element ''sql-run-btn'' (page s) \<or> \<not> element ''sql-status'' (page s) then (Rejected ''TypeError'', s)
      else
        (let s1 = status_line ''executing...'' ''mono-xs dim mb-8''
               (upd_page (\<lambda>b. set_style ''sql-status'' ''display'' ''block''
                  (set_inner ''sql-run-btn'' running_button (set_disabled ''sql-run-btn'' True b))) s);
             r = catch
               (await (ensure (qs_settings sv) ''sql'' s1) (\<lambda>prof s2.
                await (on_page (apiProtected (qs_execute sv) (execute_rq q (db_getSelected (page s2)) prof)) s2) (\<lambda>d s3.
                  (Resolved (), show_result elapsed d s3))))
               (\<lambda>e s2. (Resolved (), put_markup ''sql-result'' (call_error e)
                  (status_line (''error ('' @ elapsed @ ''s)'') ''mono-xs red mb-8'' s2)))
         in await r (\<lambda>_ s4. (Resolved (), upd_page (\<lambda>b. set_inner ''sql-run-btn'' run_button (set_disabled ''sql-run-btn'' False b)) s4))))"

text \<open>A queued history load runs.\<close>

definition history_loaded :: "sql_server \<Rightarrow> clock \<Rightarrow> sql_page \<Rightarrow> sql_page" where
  "history_loaded sv c s = (if sq_loading s = 0 then s else snd (loadHistory sv c (s\<lparr>sq_loading := sq_loading s - 1\<rparr>)))"

section \<open>Rendering\<close>

definition sql_frame :: "html list" where
  "sql_frame = [El ''div'' [At ''class'' ''flex-between mb-8'']
      [El ''div'' [At ''style'' ''display:flex;gap:8px;align-items:center'']
       [El ''span'' [At ''class'' ''card-title'', At ''style'' ''margin:0''] [Txt ''sql editor''],
       El ''div'' [At ''id'' ''sql-db-sel'', At ''class'' ''db-bar'', At ''style'' ''display:inline-flex;margin:0''] [],
       El ''div'' [At ''id'' ''sql-profile-sel'', At ''class'' ''db-bar'', At ''style'' ''display:inline-flex;margin:0''] []],
      El ''div'' [At ''class'' ''flex gap-4'']
       [El ''button'' [At ''onclick'' ''SQLEditor.toggleHistory()'', At ''class'' ''btn btn-sm'', At ''id'' ''btn-history'']
        [El ''i'' [At ''data-lucide'' ''history'', At ''class'' ''icon-sm''] [],
        Txt '' history''],
       El ''select'' [At ''id'' ''sql-snippets'', At ''style'' ''background:var(--bg-2);border:1px solid var(--border);color:var(--text-1); padding:4px 8px;font-size:11px;font-family:var(--font);width:200px'']
        [El ''option'' [At ''value'' ''''] [Txt ''-- snippets --'']],
       El ''button'' [At ''onclick'' ''SQLEditor.execute()'', At ''class'' ''btn btn-sm'', At ''id'' ''sql-run-btn'']
        [El ''i'' [At ''data-lucide'' ''play'', At ''class'' ''icon-sm''] [],
        Txt '' run''],
       El ''span'' [At ''class'' ''mono-xs dim'', At ''style'' ''align-self:center''] [Txt ''ctrl+enter'']]],
     El ''div'' [At ''id'' ''sql-history-panel'', At ''style'' ''display:none;margin-bottom:8px'']
      [El ''div'' [At ''class'' ''card'', At ''style'' ''padding:0;max-height:200px;overflow-y:auto'']
       [El ''div'' [At ''class'' ''flex-between'', At ''style'' ''padding:6px 10px;background:var(--bg-2);border-bottom:1px solid var(--border)'']
        [El ''span'' [At ''class'' ''mono-xs accent''] [Txt ''query history''],
        El ''button'' [At ''onclick'' ''SQLEditor.clearHistory()'', At ''class'' ''btn btn-sm'', At ''style'' ''font-size:9px''] [Txt ''clear'']],
       El ''div'' [At ''id'' ''history-list'']
        [El ''span'' [At ''class'' ''dim mono-xs'', At ''style'' ''padding:8px;display:block''] [Txt ''loading...'']]]],
     El ''div'' [At ''class'' ''card mb-8'', At ''style'' ''padding:0;overflow:hidden'']
      [El ''div'' [At ''id'' ''sql-cm-editor''] []],
     El ''div'' [At ''id'' ''sql-status'', At ''class'' ''mono-xs dim mb-8'', At ''style'' ''display:none''] [],
     El ''div'' [At ''id'' ''sql-result''] []]"

definition take_draft :: "sql_page \<Rightarrow> sql_page" where
  "take_draft s =
     (let draft = get_item draft_key (page s) in
      if draft \<noteq> [] then upd_page (remove_item draft_key) (setQuery draft s) else s)"

definition Sql_render :: "cm_bundle \<Rightarrow> sql_server \<Rightarrow> sql_page \<Rightarrow> unit outcome \<times> sql_page" where
  "Sql_render cm sv s =
     await (databases_into (qs_dbs sv) ''sql-db-sel'' (put_markup ''page-content'' sql_frame s)) (\<lambda>_ s1.
     await (profiles_into (qs_settings sv) ''sql-profile-sel'' ''sql'' s1) (\<lambda>_ s2.
     await (loadSnippets sv s2) (\<lambda>_ s3.
     await (initCodeMirror cm sv s3) (\<lambda>_ s4. (Resolved (), take_draft s4)))))"

text \<open>
  The five steps of a render after its frame is written, each ending at an await. The container of the first is looked up before the
  first await: when the page was written again since, it is no longer shown, and what is written into it is lost.
\<close>

definition render_step :: "cm_bundle \<Rightarrow> sql_server \<Rightarrow> bool \<Rightarrow> nat \<Rightarrow> sql_page \<Rightarrow> unit outcome \<times> sql_page" where
  "render_step cm sv shown n s =
     (if n = 0 then
        (if shown then databases_into (qs_dbs sv) ''sql-db-sel'' s else await (databases (qs_dbs sv) s) (\<lambda>_ s1. (Resolved (), s1)))
      else if n = 1 then profiles_into (qs_settings sv) ''sql-profile-sel'' ''sql'' s
      else if n = 2 then loadSnippets sv s
      else if n = 3 then initCodeMirror cm sv s
      else (Resolved (), take_draft s))"

lemma Sql_render_steps:
  "Sql_render cm sv s =
     await (render_step cm sv True 0 (put_markup ''page-content'' sql_frame s)) (\<lambda>_ s1.
     await (render_step cm sv True 1 s1) (\<lambda>_ s2.
     await (render_step cm sv True 2 s2) (\<lambda>_ s3.
     await (render_step cm sv True 3 s3) (\<lambda>_ s4. render_step cm sv True 4 s4))))"
  by (simp add: Sql_render_def render_step_def)

section \<open>Text comes back\<close>

lemma replace_str_absent: "c \<notin> set s \<Longrightarrow> replace_str (c # p) r s = s"
proof (induction s)
  case (Cons x xs)
  then have "x \<noteq> c" "c \<notin> set xs" by auto
  with Cons show ?case by simp
qed simp

lemma unescape_again_plain: "CHR ''&'' \<notin> set q \<Longrightarrow> unescape_again q = q"
  unfolding unescape_again_def by (simp only: replace_str_absent simp_thms)

lemma useHistory_row:
  assumes "hi_query h \<noteq> []"
  shows "\<exists>row. history_row c h = [row] \<and> useHistory row s = setQuery (unescape_again (hi_query h)) s"
  using assms by (simp add: history_row_def useHistory_def e5.decode_esc)

lemma setQuery_getQuery: "sq_editor s \<noteq> None \<or> element ''sql-input'' (page s) \<Longrightarrow> getQuery (setQuery q s) = trim q"
  by (auto simp: getQuery_def setQuery_def upd_page_def value_of_def set_val_def upd_node_def element_def split: option.splits)

lemma put_key_keys: "map fst (put_key k v kvs) = (if k \<in> fst ` set kvs then map fst kvs else map fst kvs @ [k])"
  by (induction k v kvs rule: put_key.induct) (auto simp: rev_image_eqI)

lemma put_key_map_of: "map_of (put_key k v kvs) = (map_of kvs)(k \<mapsto> v)"
  by (induction k v kvs rule: put_key.induct) (auto simp: fun_eq_iff)

lemma put_key_fold:
  "map_of (fold (\<lambda>t. set_key t (f t)) ts kvs) = (\<lambda>t. if t \<in> set ts \<and> t \<noteq> ''__proto__'' then Some (f t) else map_of kvs t)"
  by (induction ts arbitrary: kvs) (auto simp: set_key_def put_key_map_of fun_eq_iff)

lemma put_key_fold_distinct:
  "distinct (map fst kvs) \<Longrightarrow> distinct (map fst (fold (\<lambda>t. set_key t (f t)) ts kvs))"
  by (induction ts arbitrary: kvs) (auto simp: set_key_def put_key_keys)

section \<open>Markup and buttons\<close>

lemma cell_text_safe [markup_safe]: "safe_list (cell_text row c)"
  by (auto simp: cell_text_def markup_safe name_ok_eval split: option.splits)

lemma result_table_safe: "safe_list (result_table d)"
  by (auto simp: result_table_def result_row_def markup_safe name_ok_eval)

lemma cell_text_nodes: "concat (map nodes_of (cell_text row c)) = []"
  by (auto simp: cell_text_def split: option.splits)

lemma result_row_nodes: "concat (map nodes_of (result_row cols row)) = []"
  using no_nodes_map [of "\<lambda>c. El ''td'' [] (cell_text row c)" cols] by (simp add: result_row_def cell_text_nodes)

lemma result_nodes: "nodes_of_list (result_table d) = []" "nodes_of_list (result_error e) = []" "nodes_of_list (call_error e) = []"
  using no_nodes_concat [of "result_row (re_columns d)" "re_rows d"] no_nodes_map [of "\<lambda>c. El ''th'' [] [Txt (esc5 c)]" "re_columns d"]
  by (simp_all add: nodes_of_list_def result_table_def result_error_def call_error_def result_row_nodes)

lemma button_nodes: "nodes_of_list running_button = []" "nodes_of_list run_button = []"
  by (simp_all add: running_button_def run_button_def nodes_of_list_def)

definition sql_ready :: "browser \<Rightarrow> bool" where
  "sql_ready b = (leaf ''sql-run-btn'' b \<and> leaf ''sql-status'' b \<and> leaf ''sql-result'' b)"

lemma sql_ready_ops:
  "sql_ready b \<Longrightarrow> sql_ready (set_disabled j d b)" "sql_ready b \<Longrightarrow> sql_ready (set_style j p v b)" "sql_ready b \<Longrightarrow> sql_ready (set_class j c b)"
  "sql_ready b \<Longrightarrow> sql_ready (set_text ''sql-status'' t b)"
  "sql_ready b \<Longrightarrow> nodes_of_list hs = [] \<Longrightarrow> sql_ready (set_inner ''sql-result'' hs b)"
  "sql_ready b \<Longrightarrow> nodes_of_list hs = [] \<Longrightarrow> sql_ready (set_inner ''sql-run-btn'' hs b)"
  by (simp_all add: sql_ready_def leaf_style leaf_write)

lemma sql_ready_off:
  "sql_ready b \<Longrightarrow> off i (set_text ''sql-status'' t b) = off i b"
  "sql_ready b \<Longrightarrow> nodes_of_list hs = [] \<Longrightarrow> off i (set_inner ''sql-result'' hs b) = off i b"
  "sql_ready b \<Longrightarrow> nodes_of_list hs = [] \<Longrightarrow> off i (set_inner ''sql-run-btn'' hs b) = off i b"
  by (simp_all add: sql_ready_def off_write)

lemma show_result_keeps:
  "sql_ready (page s) \<Longrightarrow> sql_ready (page (show_result el d s)) \<and> off i (page (show_result el d s)) = off i (page s)"
  by (simp add: show_result_def refresh_history_def status_line_def put_markup_def sql_ready_ops sql_ready_off off_write result_nodes
      nodes_of_list_def [of "[El ''div'' [At ''class'' ''card''] [El ''span'' [At ''class'' ''dim mono-xs''] [Txt ''no results'']]]"])

lemma sql_ready_dom: "Browser.dom b' = Browser.dom b \<Longrightarrow> sql_ready b' = sql_ready b"
  by (simp add: sql_ready_def leaf_def)

lemma execute_settles:
  assumes "sql_ready (page s)" "getQuery s \<noteq> []" "execute sv ms s = (r, s')"
  shows "(r = Pending \<or> r = Resolved ()) \<and> off ''sql-run-btn'' (page s') = Some (r = Pending)"
proof -
  let ?el = "to_fixed 3 (ms / 1000)"
  let ?b1 = "set_class ''sql-status'' ''mono-xs dim mb-8'' (set_text ''sql-status'' ''executing...''
      (set_style ''sql-status'' ''display'' ''block'' (set_inner ''sql-run-btn'' running_button (set_disabled ''sql-run-btn'' True (page s)))))"
  let ?s1 = "s\<lparr>page := ?b1\<rparr>"
  have el: "element ''sql-run-btn'' (page s)" "element ''sql-status'' (page s)" "off ''sql-run-btn'' (page s) \<noteq> None"
    using assms(1) leaf_element unfolding sql_ready_def by blast+
  have b1: "sql_ready ?b1" "off ''sql-run-btn'' ?b1 = Some True"
    using assms(1) el(3) by (auto simp: sql_ready_ops sql_ready_off off_write button_nodes)
  let ?done = "\<lambda>s4. upd_page (\<lambda>b. set_inner ''sql-run-btn'' run_button (set_disabled ''sql-run-btn'' False b)) s4"
  have on: "off ''sql-run-btn'' (page (?done s4)) = Some False" if "sql_ready (page s4)" for s4 :: sql_page
  proof -
    have "off ''sql-run-btn'' (page s4) \<noteq> None" using that leaf_element by (auto simp: sql_ready_def)
    then show ?thesis
      using sql_ready_off(3) [OF sql_ready_ops(1) [OF that] button_nodes(2)] by (auto simp: off_write)
  qed
  let ?fail = "\<lambda>e s2. put_markup ''sql-result'' (call_error e) (status_line (''error ('' @ ?el @ ''s)'') ''mono-xs red mb-8'' s2)"
  have fail: "sql_ready (page (?fail e s2))" if "sql_ready (page s2)" for e and s2 :: sql_page
    using that by (simp add: put_markup_def status_line_def sql_ready_ops result_nodes)
  obtain p s2 where en: "ensure (qs_settings sv) ''sql'' ?s1 = (p, s2)" by fastforce
  then have d2: "Browser.dom (page s2) = Browser.dom ?b1" using ensure_dom [OF en] by simp
  have ready: "sql_ready (page s3) \<and> off ''sql-run-btn'' (page s3) = Some True" if "Browser.dom (page s3) = Browser.dom ?b1" for s3 :: sql_page
    using b1 sql_ready_dom [OF that] off_dom [OF that] by simp
  obtain x s3 where call: "on_page (apiProtected (qs_execute sv)
      (execute_rq (getQuery s) (db_getSelected (page s2)) (case p of Resolved q \<Rightarrow> q | _ \<Rightarrow> []))) s2 = (x, s3)" by fastforce
  have d3: "Browser.dom (page s3) = Browser.dom ?b1" using call_dom(2) [OF call] d2 by simp
  have res: "execute sv ms s = await (catch (await (p, s2) (\<lambda>prof s2.
      await (on_page (apiProtected (qs_execute sv) (execute_rq (getQuery s) (db_getSelected (page s2)) prof)) s2)
        (\<lambda>d s3. (Resolved (), show_result ?el d s3))))
      (\<lambda>e s2. (Resolved (), ?fail e s2))) (\<lambda>_ s4. (Resolved (), ?done s4))"
    using assms(2) el en by (simp add: execute_def Let_def status_line_def upd_page_def)
  show ?thesis
  proof (cases p)
    case (Resolved q)
    with call have call: "on_page (apiProtected (qs_execute sv) (execute_rq (getQuery s) (db_getSelected (page s2)) q)) s2 = (x, s3)" by simp
    have "sql_ready (page (show_result ?el d s3))" for d using show_result_keeps ready [OF d3] by blast
    then show ?thesis
      using assms(3) res Resolved call on on [OF fail] ready [OF d3] by (cases x) auto
  qed (use assms(3) res on [OF fail] ready [OF d2] in auto)
qed

section \<open>Properties\<close>

text \<open>
  C28: whatever the server does with a query, the run button is enabled again when the execution ends, after an
  error as after a result; it stays disabled exactly when the call never settles.
\<close>

theorem execute_settles_button:
  assumes "sql_ready (page s)" "getQuery s \<noteq> []" "execute sv ms s = (r, s')"
  shows "(r = Pending \<or> r = Resolved ()) \<and> off ''sql-run-btn'' (page s') = Some (r = Pending)"
  by (rule execute_settles [OF assms])

definition sample_sql_page :: sql_page where
  "sample_sql_page = \<lparr>cfg_cache = Some empty_settings, dbs_cache = Some [],
     page = sample_browser\<lparr>dom := [''sql-run-btn'' \<mapsto> mk_node ''button'' [] [], ''sql-status'' \<mapsto> mk_node ''div'' [] [],
       ''sql-result'' \<mapsto> mk_node ''div'' [] []]\<rparr>,
     sq_snippets = [], sq_showHistory = True, sq_editor = Some ''select 1'', sq_cm = True, sq_cache = None, sq_completes = None, sq_loading = 0\<rparr>"

definition failing_server :: sql_server where
  "failing_server = \<lparr>qs_settings = (\<lambda>h q. Ok None), qs_dbs = (\<lambda>h q. Ok (Some (Some []))), qs_schema = (\<lambda>h q. Ok (Some (Some \<lparr>sc_tables = [''t''], sc_columns = []\<rparr>))),
     qs_snippets = (\<lambda>h q. Ok (Some [])), qs_history = (\<lambda>h q. Ok (Some [])), qs_clear = (\<lambda>h q. Ok (Some ())),
     qs_execute = (\<lambda>h q. HttpError ''syntax error'' ''500'')\<rparr>"

theorem execute_settles_button_witness:
  "(fst (execute failing_server 5 sample_sql_page) = Pending \<or> fst (execute failing_server 5 sample_sql_page) = Resolved ())
    \<and> off ''sql-run-btn'' (page (snd (execute failing_server 5 sample_sql_page))) = Some (fst (execute failing_server 5 sample_sql_page) = Pending)"
  by (rule execute_settles_button [of sample_sql_page])
    (simp_all add: sample_sql_page_def sql_ready_def leaf_def mk_node_def nodes_of_list_def getQuery_def trim_def is_space_def)

text \<open>
  a query of the history without an ampersand is put back into the editor exactly as it was run, through
  the escaped attribute of its row.
\<close>

theorem history_reuse:
  assumes "CHR ''&'' \<notin> set (hi_query h)" "hi_query h \<noteq> []" "sq_editor s \<noteq> None"
  shows "\<exists>row. history_row c h = [row] \<and> getQuery (useHistory row s) = trim (hi_query h)"
  using useHistory_row [OF assms(2), of c s] assms(3)
  by (auto simp: unescape_again_plain [OF assms(1)] setQuery_getQuery)

definition sample_entry :: "string \<Rightarrow> history_entry" where
  "sample_entry q = \<lparr>hi_query = q, hi_time = 0, hi_duration = 3, hi_rows = 1, hi_error = []\<rparr>"

theorem history_reuse_witness:
  "\<exists>row. history_row \<lparr>now = 0, locale_text = (\<lambda>t. []), time_text = (\<lambda>t. []), local_iso = [], number_text = int_str\<rparr> (sample_entry ''select a < 2'') = [row]
    \<and> getQuery (useHistory row sample_sql_page) = trim (hi_query (sample_entry ''select a < 2''))"
  by (rule history_reuse) (simp_all add: sample_entry_def sample_sql_page_def)

text \<open>
  the attribute is decoded twice, by the browser and by \<^verbatim>\<open>useHistory\<close>: a query that contains a
  character reference comes back as another query.
\<close>

theorem history_reuse_alters:
  "\<exists>row. history_row c (sample_entry (''select '' @ sq @ ''&lt;'' @ sq)) = [row]
    \<and> sq_editor (useHistory row sample_sql_page) = Some (''select '' @ sq @ ''<'' @ sq)"
proof -
  have "unescape_again (''select '' @ sq @ ''&lt;'' @ sq) = ''select '' @ sq @ ''<'' @ sq" by code_simp
  then show ?thesis
    using useHistory_row [of "sample_entry (''select '' @ sq @ ''&lt;'' @ sq)" c sample_sql_page]
    by (auto simp: sample_entry_def setQuery_def sample_sql_page_def)
qed

text \<open>
  C24: the object of tables for the completion, filled table by table, has one entry for every table but one named \<^verbatim>\<open>__proto__\<close> and no
  other, and the entry lists exactly the columns of that table in the order of the reply.
\<close>

theorem completions_reference:
  "\<exists>cfg. buildSqlConfig (Some i) = Some cfg \<and> distinct (map fst cfg)
    \<and> map_of cfg = (\<lambda>t. if t \<in> set (sc_tables i) \<and> t \<noteq> ''__proto__'' then Some (map snd (filter (\<lambda>c. fst c = t) (sc_columns i))) else None)"
  using put_key_fold [of "\<lambda>t. map snd (filter (\<lambda>c. fst c = t) (sc_columns i))" "sc_tables i" "[]"]
    put_key_fold_distinct [of "[]" "\<lambda>t. map snd (filter (\<lambda>c. fst c = t) (sc_columns i))" "sc_tables i"]
  by (auto simp: buildSqlConfig_def fun_eq_iff)

text \<open>
  the schema is cached without the database it belongs to: after the database was changed on another page the
  editor asks for no new schema and completes from the tables of the old database.
\<close>

theorem stale_completions:
  assumes "fetchSchema sv s = (Resolved (Some d), s')"
  shows "fetchSchema sv (upd_page (db_setSelected db) s') = (Resolved (Some d), upd_page (db_setSelected db) s')
    \<and> db_getSelected (page (upd_page (db_setSelected db) s')) = db"
proof -
  have "sq_cache s' = Some d"
    using assms by (cases "sq_cache s") (auto simp: fetchSchema_def catch_def await_def Let_def split: prod.splits outcome.splits option.splits)
  then show ?thesis by (simp add: fetchSchema_def upd_page_def db_getSelected_def db_setSelected_def ss.get_put)
qed

theorem stale_completions_witness:
  "\<exists>s'. fetchSchema failing_server sample_sql_page = (Resolved (Some \<lparr>sc_tables = [''t''], sc_columns = []\<rparr>), s')
    \<and> fetchSchema failing_server (upd_page (db_setSelected ''other'') s') = (Resolved (Some \<lparr>sc_tables = [''t''], sc_columns = []\<rparr>), upd_page (db_setSelected ''other'') s')
    \<and> db_getSelected (page (upd_page (db_setSelected ''other'') s')) = ''other''"
proof -
  have "\<exists>s'. fetchSchema failing_server sample_sql_page = (Resolved (Some \<lparr>sc_tables = [''t''], sc_columns = []\<rparr>), s')"
    by (simp add: fetchSchema_def sample_sql_page_def failing_server_def ensure_def ensureSelected_def getSelected_def profile_key_def
        sample_browser_def get_item_def getDefault_def loadSettings_def default_profile_def empty_settings_def setSelected_def set_item_def
        Let_def on_page_def api_def apiProtected_def tryRequest.simps)
  then show ?thesis using stale_completions by blast
qed

text \<open>Whatever the columns and values are, the result is tokenized into the cells of the table and nothing else.\<close>

theorem result_markup:
  "lex_html (ser_list (result_table d)) = (Data, toks_list (result_table d))"
  by (rule lex_ser_list [OF result_table_safe])

end
