(* ===== verification/Planner.thy ===== *)
theory Planner
  imports Sql Router
begin

text \<open>
  The maintenance planner, planner.js: recommendations with a button that carries the SQL over to
  the SQL editor. The SQL travels percent-encoded in a string literal of the button's \<^verbatim>\<open>onclick\<close>
  attribute, then through session storage, to the two renders of the SQL page that the button starts.
\<close>

section \<open>State and server\<close>

record recommendation =
  rc_priority :: string
  rc_category :: string
  rc_object :: string
  rc_action :: string
  rc_reason :: string
  rc_sql :: string

record planner_server =
  mp_settings :: settings_net
  mp_dbs :: "string list option net"
  mp_plan :: "recommendation list net"

section \<open>Markup\<close>

definition planner_frame :: "html list" where
  "planner_frame = [El ''div'' [At ''class'' ''flex-between mb-8'']
      [El ''div'' [At ''style'' ''display:flex;gap:8px;align-items:center;flex-wrap:wrap'']
       [El ''span'' [At ''class'' ''card-title'', At ''style'' ''margin:0''] [Txt ''maintenance planner''],
       El ''div'' [At ''id'' ''planner-db-sel'', At ''class'' ''db-bar'', At ''style'' ''display:inline-flex;margin:0''] [],
       El ''div'' [At ''id'' ''planner-profile-sel'', At ''class'' ''db-bar'', At ''style'' ''display:inline-flex;margin:0''] []],
      El ''button'' [At ''onclick'' ''MaintenancePlanner.load()'', At ''class'' ''btn btn-sm'']
       [El ''i'' [At ''data-lucide'' ''refresh-cw'', At ''class'' ''icon-sm''] [],
       Txt '' refresh'']],
     El ''div'' [At ''id'' ''planner-content'']
      [El ''div'' [At ''class'' ''card'']
       [El ''span'' [At ''class'' ''dim mono-xs''] [Txt ''loading...'']]]]"

definition priority_color :: "string \<Rightarrow> string" where
  "priority_color p = (if p = ''high'' then ''red'' else if p = ''medium'' then ''yellow'' else ''green'')"

definition recommendation_card :: "recommendation \<Rightarrow> html list" where
  "recommendation_card r = [El ''div'' [At ''class'' ''card'', At ''style'' ''padding:10px 12px'']
      [El ''div'' [At ''class'' ''flex-between'', At ''style'' ''margin-bottom:6px'']
       [El ''div'' []
        [El ''span'' [At ''class'' (''mono-xs '' @ (priority_color (rc_priority r)))] [Txt (escHtml (rc_priority r))],
        El ''span'' [At ''class'' ''mono-xs dim''] [Txt (escHtml (rc_category r))]],
       El ''button'' [At ''class'' ''btn btn-sm'', At ''style'' ''font-size:9px'', At ''onclick'' (''MaintenancePlanner.sendToSql('' @ sq @ (encode_uri (rc_sql r)) @ sq @ '')'')] [Txt ''use in sql'']],
      El ''div'' [At ''style'' ''font-weight:600''] [Txt (escHtml (rc_object r))],
      El ''div'' [At ''class'' ''mono-xs accent'', At ''style'' ''margin:4px 0 6px''] [Txt (escHtml (rc_action r))],
      El ''div'' [At ''class'' ''mono-xs dim'', At ''style'' ''margin-bottom:8px''] [Txt (escHtml (rc_reason r))],
      El ''pre'' [At ''class'' ''mono-xs'', At ''style'' ''background:var(--bg-0);border:1px solid var(--border);padding:8px;border-radius:4px;white-space:pre-wrap''] [Txt (escHtml (rc_sql r))]]]"

definition plan_markup :: "recommendation list \<Rightarrow> html list" where
  "plan_markup rs =
     (if rs = [] then [El ''div'' [At ''class'' ''card'']
      [El ''span'' [At ''class'' ''green mono-xs'']
       [Txt (u_check @ '' no immediate maintenance recommendations'')]]]
      else [El ''div'' [At ''class'' ''mono-xs dim mb-8'']
      [Txt ((str_of_nat (length rs)) @ '' recommendation'' @ (if length rs \<noteq> 1 then ''s'' else []))],
     El ''div'' [At ''class'' ''grid'', At ''style'' ''gap:12px''] (concat (map recommendation_card rs))])"

definition planner_error :: "string \<Rightarrow> html list" where
  "planner_error e = [El ''div'' [At ''class'' ''card'']
      [El ''span'' [At ''class'' ''red mono-xs''] [Txt (escHtml e)]]]"

section \<open>Operations\<close>

definition Planner_load :: "planner_server \<Rightarrow> site \<Rightarrow> unit outcome \<times> site" where
  "Planner_load sv s =
     (if \<not> element ''planner-content'' (page s) then (Resolved (), s)
      else catch
        (await (selection (mp_settings sv) ''maintenance'' s) (\<lambda>ps s1.
         await (on_page (api (mp_plan sv) (get_rq (''/maintenance/plan?'' @ ps))) s1) (\<lambda>rs s2.
           (Resolved (), put_markup ''planner-content'' (plan_markup rs) s2))))
        (\<lambda>e s1. (Resolved (), put_markup ''planner-content'' (planner_error e) s1)))"

definition Planner_render :: "planner_server \<Rightarrow> site \<Rightarrow> unit outcome \<times> site" where
  "Planner_render sv s =
     await (databases_into (mp_dbs sv) ''planner-db-sel'' (put_markup ''page-content'' planner_frame s)) (\<lambda>_ s1.
     await (profiles_into (mp_settings sv) ''planner-profile-sel'' ''maintenance'' s1) (\<lambda>_ s2. Planner_load sv s2))"

text \<open>A malformed escape is an URIError before anything happens.\<close>

definition store_draft :: "string \<Rightarrow> browser \<Rightarrow> browser option" where
  "store_draft arg b = map_option (\<lambda>q. set_item draft_key q b) (decode_uri arg)"

text \<open>
  Setting the hash queues a \<^verbatim>\<open>hashchange\<close> event when it changes the hash; the call of \<^verbatim>\<open>navigate\<close> does not wait for it, and the
  listener of the page, registered after the login, navigates once more when the handler is done. The flag says whether it will.
\<close>

definition sendToSql ::
    "(string \<Rightarrow> browser \<Rightarrow> browser) \<Rightarrow> (browser \<Rightarrow> browser) \<Rightarrow> bool \<Rightarrow> string \<Rightarrow> shell \<Rightarrow> unit outcome \<times> bool \<times> shell" where
  "sendToSql render destroyLogs accepted arg sh =
     (case store_draft arg (web sh) of
        None \<Rightarrow> (Rejected ''URIError'', False, sh)
      | Some b \<Rightarrow>
          (let (r, sh1) = navigate render destroyLogs accepted (sh\<lparr>web := b, hash := ''#sql''\<rparr>)
           in (r, routed sh \<and> hash sh \<noteq> ''#sql'', sh1)))"

definition hash_event ::
    "(string \<Rightarrow> browser \<Rightarrow> browser) \<Rightarrow> (browser \<Rightarrow> browser) \<Rightarrow> bool \<Rightarrow> unit outcome \<times> bool \<times> shell \<Rightarrow> shell" where
  "hash_event render destroyLogs accepted st =
     (case st of (r, queued, sh) \<Rightarrow> if queued then snd (navigate render destroyLogs accepted sh) else sh)"

section \<open>The literal in the button\<close>

text \<open>The \<^verbatim>\<open>onclick\<close> attributes of a tree, in document order.\<close>

fun onclicks :: "html \<Rightarrow> string list" where
  "onclicks (Txt t) = []"
| "onclicks (El t as hs) =
     (case find (\<lambda>a. case a of At n v \<Rightarrow> n = ''onclick'' | Flag n \<Rightarrow> False) as of
        Some (At n v) \<Rightarrow> [v] | _ \<Rightarrow> []) @ concat (map onclicks hs)"

definition use_in_sql :: "recommendation \<Rightarrow> string" where
  "use_in_sql r = ''MaintenancePlanner.sendToSql('' @ sq @ encode_uri (rc_sql r) @ sq @ '')''"

lemma card_button: "concat (map onclicks (recommendation_card r)) = [use_in_sql r]"
  by (simp add: recommendation_card_def use_in_sql_def)

section \<open>Two renders of the SQL page\<close>

text \<open>What the calls of a render keep: the document and the stored draft.\<close>

definition keeps :: "browser \<Rightarrow> browser \<Rightarrow> bool" where
  "keeps b b' = (Browser.dom b' = Browser.dom b \<and> get_item draft_key b' = get_item draft_key b)"

lemma keeps_trans: "keeps a b \<Longrightarrow> keeps b c \<Longrightarrow> keeps a c"
  by (simp add: keeps_def)

lemma login_keeps: "showLoginModal b = (res, b') \<Longrightarrow> keeps b b'"
  using showLoginModal_session [of b res b'] by (auto simp: keeps_def get_item_def split: login_result.splits)

lemma tryRequest_keeps: "tryRequest net rq sid b = (r, b') \<Longrightarrow> keeps b b'"
proof (induction net rq sid b rule: tryRequest.induct)
  case (1 net rq sid b)
  let ?b1 = "b\<lparr>sent := sent b @ [rq\<lparr>rq_session := sid\<rparr>]\<rparr>"
  have first: "keeps b ?b1" "keeps b (remove_item session_key ?b1)" "keeps ?b1 (showToast m k ?b1)" for m k
    by (simp_all add: keeps_def get_item_def remove_item_def)
  show ?case
  proof (cases "net (sent b) (rq\<lparr>rq_session := sid\<rparr>)")
    case Unauthorized
    obtain res b2 where lg: "showLoginModal (remove_item session_key ?b1) = (res, b2)" by fastforce
    then have d: "keeps b b2" using keeps_trans [OF first(2) login_keeps] by blast
    show ?thesis
    proof (cases res)
      case (LoggedIn s)
      with "1.prems" Unauthorized lg have "tryRequest net rq s b2 = (r, b')"
        by (simp add: tryRequest.simps [of net rq sid])
      from "1.IH" [OF refl refl Unauthorized lg [unfolded LoggedIn, symmetric] refl this] d show ?thesis by (rule keeps_trans [rotated])
    qed (use "1.prems" Unauthorized lg d in \<open>simp_all add: tryRequest.simps [of net rq sid]\<close>)
  next
    case (HttpError e st)
    then show ?thesis using "1.prems" keeps_trans [OF first(1,3)] by (auto simp: tryRequest.simps [of net rq sid] Let_def)
  qed (use "1.prems" first(1) in \<open>auto simp: tryRequest.simps [of net rq sid] Let_def split: option.splits\<close>)
qed

lemma api_keeps: "api net rq b = (r, b') \<Longrightarrow> keeps b b'"
  by (auto simp: api_def apiProtected_def Let_def split: if_splits prod.splits login_result.splits
      dest: tryRequest_keeps login_keeps intro: keeps_trans)

lemma ensureSelected_keeps:
  assumes "ensureSelected net f c b = (r, c', b')"
  shows "keeps b b'"
proof -
  have refl: "keeps b b" for b by (simp add: keeps_def)
  have load: "loadSettings net c b = (r, c', b') \<Longrightarrow> keeps b b'" for r c c' b b'
    using refl by (auto simp: loadSettings_def Let_def split: option.splits prod.splits outcome.splits dest: api_keeps)
  have set: "keeps b (setSelected f v b')" if "keeps b b'" for v b'
    using that by (simp add: keeps_def setSelected_def ss.get_put profile_key_def)
  show ?thesis using assms refl load set
    by (auto simp: ensureSelected_def getDefault_def Let_def split: if_splits prod.splits outcome.splits)
qed

text \<open>The place of the editor is on the page, and not inside the selectors.\<close>

definition clear_of :: "browser \<Rightarrow> string \<Rightarrow> bool" where
  "clear_of b i =
     (case Browser.dom b i of
        None \<Rightarrow> True
      | Some n \<Rightarrow> (case content n of Markup hs \<Rightarrow> ''sql-cm-editor'' \<notin> fst ` set (nodes_of_list hs) | Plain t \<Rightarrow> True))"

definition editor_place :: "browser \<Rightarrow> bool" where
  "editor_place b = (element ''sql-cm-editor'' b \<and> clear_of b ''sql-db-sel'' \<and> clear_of b ''sql-profile-sel'')"

lemma place_dom: "Browser.dom b' = Browser.dom b \<Longrightarrow> editor_place b' = editor_place b"
  by (simp add: editor_place_def element_def clear_of_def)

lemma place_selector:
  assumes "editor_place b" "i = ''sql-db-sel'' \<or> i = ''sql-profile-sel''" "fst ` set (nodes_of_list hs) \<subseteq> {''db-selector''}"
  shows "editor_place (set_inner i hs b)"
proof (cases "Browser.dom b i")
  case (Some n)
  have new: "map_of (nodes_of_list hs) j = None" if "j \<noteq> ''db-selector''" for j
    using assms(3) that by (auto simp: map_of_eq_None_iff)
  have old: "case content n of Markup gs \<Rightarrow> ''sql-cm-editor'' \<notin> fst ` set (nodes_of_list gs) | Plain t \<Rightarrow> True"
    using assms(1,2) Some by (auto simp: editor_place_def clear_of_def)
  have dom: "Browser.dom (set_inner i hs b) j = (if j = i then Some (n\<lparr>content := Markup hs\<rparr>) else drop_ids (content n) (Browser.dom b) j)"
    if "j \<noteq> ''db-selector''" for j
    using Some new [OF that] by (simp add: set_inner_def map_add_def)
  have drop: "drop_ids (content n) d j = Some m \<Longrightarrow> d j = Some m" for d j m
    by (auto simp: drop_ids_def split: content.splits if_splits)
  have there: "drop_ids (content n) (Browser.dom b) ''sql-cm-editor'' = Browser.dom b ''sql-cm-editor''"
    using old by (auto simp: drop_ids_def split: content.splits)
  have "''sql-cm-editor'' \<notin> fst ` set (nodes_of_list hs)" using assms(3) by auto
  have own: "clear_of (set_inner i hs b) i" using dom [of i] assms(2,3) by (auto simp: clear_of_def)
  have rest: "clear_of (set_inner i hs b) j" if "clear_of b j" "j \<noteq> i" "j \<noteq> ''db-selector''" for j
    using that(1,2) dom [OF that(3)] drop [of "Browser.dom b" j] by (auto simp: clear_of_def split: option.splits)
  have "element ''sql-cm-editor'' (set_inner i hs b)"
    using assms(1,2) dom [of "''sql-cm-editor''"] there by (auto simp: editor_place_def element_def)
  with own rest [of "''sql-db-sel''"] rest [of "''sql-profile-sel''"] assms(1,2) show ?thesis by (auto simp: editor_place_def)
qed (use assms in \<open>simp add: set_inner_def\<close>)

lemma place_append: "editor_place b \<Longrightarrow> editor_place (append_children ''sql-snippets'' hs b)"
  by (auto simp: editor_place_def element_def clear_of_def append_children_def upd_node_def)

lemma get_item_write [simp]: "get_item k (set_inner i hs b) = get_item k b" "get_item k (append_children i hs b) = get_item k b"
  by (simp_all add: append_children_def)

text \<open>The steps before the editor is created keep its place and the draft; the fourth creates an empty editor.\<close>

definition settled_page :: "string \<Rightarrow> sql_page \<Rightarrow> bool" where
  "settled_page d s = (editor_place (page s) \<and> get_item draft_key (page s) = d)"

lemma settled_keeps: "settled_page d s \<Longrightarrow> keeps (page s) (page s') \<Longrightarrow> settled_page d s'"
  using place_dom [of "page s'" "page s"] by (simp add: settled_page_def keeps_def)

lemma early_step:
  assumes "settled_page d s" "render_step Bundle sv shown n s = (Resolved (), s')" "n < 3"
  shows "settled_page d s' \<and> sq_editor s' = sq_editor s"
proof -
  have refl: "keeps b b" for b by (simp add: keeps_def)
  have load: "keeps b b'" if "db_load net c b = (r, c', b')" for net c b r c' b'
    using that refl by (auto simp: db_load_def Let_def split: option.splits prod.splits outcome.splits dest: api_keeps)
  have settings: "keeps b b'" if "getProfiles net c b = (r, c', b')" for net c b r c' b'
    using that refl by (auto simp: getProfiles_def loadSettings_def Let_def split: option.splits prod.splits outcome.splits dest: api_keeps)
  have ids: "fst ` set (nodes_of_list (db_select v ds)) \<subseteq> {''db-selector''}" for v ds
  proof -
    have "concat (map nodes_of (map (db_option v) ds)) = []" by (induction ds) (simp_all add: db_option_def flag_if_def)
    then show ?thesis by (simp add: db_select_def nodes_of_list_def)
  qed
  consider "n = 0" | "n = 1" | "n = 2" using assms(3) by linarith
  then show ?thesis
  proof cases
    case 1
    obtain r c b where l: "db_load (qs_dbs sv) (dbs_cache s) (page s) = (r, c, b)" by (cases "db_load (qs_dbs sv) (dbs_cache s) (page s)")
    have b: "editor_place b" "get_item draft_key b = d"
      using load [OF l] assms(1) place_dom [of b "page s"] by (simp_all add: keeps_def settled_page_def)
    have "editor_place (set_inner ''sql-db-sel'' (db_select v ds) b)" for v ds by (rule place_selector [OF b(1) _ ids]) simp
    then show ?thesis
      using assms(2) 1 l b by (cases r) (auto simp: render_step_def databases_into_def db_renderInto_def databases_def settled_page_def split: if_splits)
  next
    case 2
    obtain r c b where l: "getProfiles (qs_settings sv) (cfg_cache s) (page s) = (r, c, b)" by (cases "getProfiles (qs_settings sv) (cfg_cache s) (page s)")
    obtain r2 c2 b2 where e: "ensureSelected (qs_settings sv) ''sql'' c b = (r2, c2, b2)" by (cases "ensureSelected (qs_settings sv) ''sql'' c b")
    have b: "editor_place b2" "get_item draft_key b2 = d"
      using keeps_trans [OF settings [OF l] ensureSelected_keeps [OF e]] assms(1) place_dom [of b2 "page s"]
      by (simp_all add: keeps_def settled_page_def)
    have "editor_place (set_inner ''sql-profile-sel'' (profile_select v ps) b2)" for v ps by (rule place_selector [OF b(1)]) simp_all
    then show ?thesis
      using assms(1,2) 2 l e b
      by (cases r; cases r2) (auto simp: render_step_def profiles_into_def profile_renderInto_def settled_page_def split: if_splits)
  next
    case 3
    obtain r s1 where l: "on_page (api (qs_snippets sv) (get_rq ''/sql/snippets'')) s = (r, s1)" by fastforce
    then have k: "keeps (page s) (page s1)" "sq_editor s1 = sq_editor s" by (auto simp: on_page_eq dest: api_keeps)
    then have b: "editor_place (page s1)" "get_item draft_key (page s1) = d"
      using assms(1) place_dom [of "page s1" "page s"] by (simp_all add: keeps_def settled_page_def)
    show ?thesis
      using assms(2) 3 l k(2) b place_append
      by (cases r) (auto simp: render_step_def loadSnippets_def settled_page_def ignore_def upd_page_def)
  qed
qed

lemma create_step:
  assumes "settled_page d s" "render_step Bundle sv shown 3 s = (Resolved (), s')"
  shows "settled_page d s' \<and> sq_editor s' = Some []"
proof -
  obtain r s1 where l: "fetchSchema sv (s\<lparr>sq_cm := True\<rparr>) = (r, s1)" by fastforce
  have ens: "keeps (page x) (page y)" if "ensure net f x = (q, y)" for net f and x y :: sql_page and q
    using that by (auto simp: ensure_def dest: ensureSelected_keeps split: prod.splits)
  have call: "keeps (page x) (page y)" if "on_page (api net rq) x = (q, y)" for net rq and x y :: sql_page and q
    using that by (auto simp: on_page_eq dest: api_keeps)
  have "keeps (page s) (page s1)"
  proof (cases "sq_cache s")
    case None
    obtain q y where e: "ensure (qs_settings sv) ''sql'' (s\<lparr>sq_cm := True\<rparr>) = (q, y)" by fastforce
    note k = ens [OF e]
    show ?thesis
    proof (cases q)
      case (Resolved v)
      obtain q2 z where c: "on_page (api (qs_schema sv) (get_rq (''/sql/schema?'' @ selection_params (db_getSelected (page s)) v))) y = (q2, z)" by fastforce
      from l None e Resolved c have "page s1 = page z"
        by (cases q2) (auto simp: fetchSchema_def Let_def split: option.splits)
      with keeps_trans [OF k call [OF c]] show ?thesis by simp
    qed (use l None e k in \<open>auto simp: fetchSchema_def Let_def\<close>)
  qed (use l in \<open>auto simp: fetchSchema_def keeps_def\<close>)
  then have s1: "settled_page d s1" using settled_keeps assms(1) by blast
  have el: "element ''sql-cm-editor'' (page s)" using assms(1) by (simp add: settled_page_def editor_place_def)
  show ?thesis
    using assms(2) el l s1 by (cases r) (auto simp: render_step_def initCodeMirror_def settled_page_def)
qed

lemma draft_step:
  assumes "settled_page d s" "sq_editor s = Some doc" "n = 4"
  shows "render_step cm sv shown n s = (Resolved (), take_draft s) \<and> settled_page [] (take_draft s)
    \<and> sq_editor (take_draft s) = Some (if d = [] then doc else d)"
proof -
  have "editor_place (remove_item draft_key b) = editor_place b" for b by (rule place_dom) simp
  then show ?thesis
    using assms by (auto simp: render_step_def take_draft_def Let_def settled_page_def setQuery_def upd_page_def ss.get_del)
qed

text \<open>
  Two renders in flight: how many of its five steps each has done, and the page. Any of them may take its next step, which ends
  well; the container of a first step may be on the page or not.
\<close>

inductive renders :: "sql_server \<Rightarrow> nat \<times> nat \<times> sql_page \<Rightarrow> nat \<times> nat \<times> sql_page \<Rightarrow> bool" for sv where
  one: "i < 5 \<Longrightarrow> render_step Bundle sv shown i s = (Resolved (), s') \<Longrightarrow> renders sv (i, j, s) (Suc i, j, s')"
| other: "j < 5 \<Longrightarrow> render_step Bundle sv shown j s = (Resolved (), s') \<Longrightarrow> renders sv (i, j, s) (i, Suc j, s')"

inductive_cases rendersE: "renders sv (i, j, s) t"

text \<open>Before a draft is taken: it is stored, and there is an empty editor once one was created.\<close>

definition untaken :: "string \<Rightarrow> nat \<times> nat \<times> sql_page \<Rightarrow> bool" where
  "untaken d t = (case t of (i, j, s) \<Rightarrow> settled_page d s \<and> (if i = 4 \<or> j = 4 then sq_editor s = Some [] else True))"

lemma step_before:
  assumes "render_step Bundle sv shown n s = (Resolved (), s')" "n \<le> 3" "settled_page d s"
  shows "settled_page d s' \<and> (if n = 3 then sq_editor s' = Some [] else sq_editor s' = sq_editor s)"
proof (cases "n = 3")
  case True
  then show ?thesis using create_step assms by simp
next
  case False
  then have "n < 3" using assms(2) by simp
  from early_step [OF assms(3,1) this] False show ?thesis by simp
qed

lemma renders_untaken:
  assumes "(renders sv)\<^sup>*\<^sup>* t u" "untaken d t" "fst u \<le> 4" "fst (snd u) \<le> 4"
  shows "untaken d u"
  using assms
proof (induction rule: rtranclp_induct)
  case (step u v)
  from step.hyps(2) show ?case
  proof (cases rule: renders.cases)
    case (one i shown s s' j)
    then have "i \<le> 3" "untaken d (i, j, s)" using step by simp_all
    then show ?thesis using step_before [OF one(4)] one by (cases "i = 3") (auto simp: untaken_def split: if_splits)
  next
    case (other j shown s s' i)
    then have "j \<le> 3" "untaken d (i, j, s)" using step by simp_all
    then show ?thesis using step_before [OF other(4)] other by (cases "j = 3") (auto simp: untaken_def split: if_splits)
  qed
qed simp

text \<open>After one render took the draft, the other goes on from its step \<open>k\<close>.\<close>

lemma renders_rest:
  assumes "(renders sv)\<^sup>*\<^sup>* (5, k, s1) u" "k \<le> 4" "settled_page [] s1" "sq_editor s1 = Some d"
  shows "fst u = 5 \<and> k \<le> fst (snd u) \<and> settled_page [] (snd (snd u))
    \<and> sq_editor (snd (snd u)) = Some (if k \<le> 3 \<and> 4 \<le> fst (snd u) then [] else d)"
  using assms(1)
proof (induction rule: rtranclp_induct)
  case base
  then show ?case using assms(2-4) by auto
next
  case (step u v)
  from step.hyps(2) show ?case
  proof (cases rule: renders.cases)
    case (other j shown s s' i)
    show ?thesis
    proof (cases "j \<le> 3")
      case True
      then show ?thesis using step_before [OF other(4) True, of "[]"] step.IH other by (auto split: if_splits)
    next
      case False
      then have j: "j = 4" using other(3) by simp
      from step.IH other have "settled_page [] s" "sq_editor s = Some (if k \<le> 3 then [] else d)" by (simp_all add: j)
      from draft_step [OF this j, of Bundle sv shown] other step.IH show ?thesis by (simp add: j)
    qed
  qed (use step.IH in simp)
qed

lemma frame_settled:
  assumes "element ''page-content'' b0" "page s0 = set_inner ''page-content'' sql_frame b0"
  shows "editor_place (page s0)"
proof -
  obtain n where n: "Browser.dom b0 ''page-content'' = Some n" using assms(1) by (auto simp: element_def)
  have "map_of (nodes_of_list sql_frame) ''sql-cm-editor'' \<noteq> None"
    "map_of (nodes_of_list sql_frame) ''sql-db-sel'' = Some (mk_node ''div'' [At ''id'' ''sql-db-sel'', At ''class'' ''db-bar'', At ''style'' ''display:inline-flex;margin:0''] [])"
    "map_of (nodes_of_list sql_frame) ''sql-profile-sel'' = Some (mk_node ''div'' [At ''id'' ''sql-profile-sel'', At ''class'' ''db-bar'', At ''style'' ''display:inline-flex;margin:0''] [])"
    by (simp_all add: sql_frame_def nodes_of_list_def)
  then show ?thesis
    using n by (auto simp: editor_place_def element_def clear_of_def assms(2) set_inner_def map_add_def mk_node_def nodes_of_list_def)
qed

section \<open>Properties\<close>

text \<open>
  C31: the SQL of a recommendation without a single quote is the argument of its button, exactly, and \<^verbatim>\<open>sendToSql\<close> stores it as the
  draft, navigates, and, on a page with another hash, has the listener of the hash navigate once more: two renders of the
  SQL page run, on the frame of the second. Whichever of them comes first to take the draft, after any interleaving of their steps, shows
  it; but unless the other one had created its editor by then, that one replaces the editor by an empty one, the draft is gone, and the run button sends nothing.
\<close>

theorem planner_to_editor:
  fixes r sh s0 b0
  assumes "CHR 0x27 \<notin> set (rc_sql r)" "rc_sql r \<noteq> []" "routed sh" "hash sh \<noteq> ''#sql''"
    and "element ''page-content'' b0" "get_item draft_key b0 = rc_sql r" "page s0 = set_inner ''page-content'' sql_frame b0"
    and "i \<le> 3" "j \<le> 3" "(renders sv)\<^sup>*\<^sup>* (i, j, s0) (4, k, s)" "k \<le> 4"
    and "(renders sv)\<^sup>*\<^sup>* (5, k, take_draft s) (5, 5, s')"
  shows "concat (map onclicks (recommendation_card r)) = [use_in_sql r]
    \<and> (\<exists>arg. handler_args ''MaintenancePlanner.sendToSql'' (use_in_sql r) = Some ([arg], [])
      \<and> (let nav = navigate render destroyLogs acc (sh\<lparr>web := set_item draft_key (rc_sql r) (web sh), hash := ''#sql''\<rparr>)
         in sendToSql render destroyLogs acc arg sh = (fst nav, True, snd nav)
            \<and> hash_event render destroyLogs acc (sendToSql render destroyLogs acc arg sh) = snd (navigate render destroyLogs acc (snd nav))))
    \<and> renders sv (4, k, s) (5, k, take_draft s) \<and> sq_editor (take_draft s) = Some (rc_sql r)
    \<and> get_item draft_key (page s') = [] \<and> sq_editor s' = Some (if k \<le> 3 then [] else rc_sql r)
    \<and> (if k \<le> 3 then execute sv' ms s' = (Resolved (), s') else getQuery s' = trim (rc_sql r))"
proof -
  have args: "handler_args ''MaintenancePlanner.sendToSql'' (use_in_sql r) = Some ([encode_uri (rc_sql r)], [])"
    using assms(1) litu.passed_on [of "''MaintenancePlanner.sendToSql''" "rc_sql r" "[]"] by (simp add: use_in_sql_def encode_uri_plain)
  have "store_draft (encode_uri (rc_sql r)) (web sh) = Some (set_item draft_key (rc_sql r) (web sh))"
    by (simp add: store_draft_def decode_encode_uri)
  then have click: "let nav = navigate render destroyLogs acc (sh\<lparr>web := set_item draft_key (rc_sql r) (web sh), hash := ''#sql''\<rparr>)
      in sendToSql render destroyLogs acc (encode_uri (rc_sql r)) sh = (fst nav, True, snd nav)
         \<and> hash_event render destroyLogs acc (sendToSql render destroyLogs acc (encode_uri (rc_sql r)) sh) = snd (navigate render destroyLogs acc (snd nav))"
    using assms(3,4) by (simp add: sendToSql_def hash_event_def split: prod.split)
  have "settled_page (rc_sql r) s0" using frame_settled [OF assms(5,7)] assms(6,7) by (simp add: settled_page_def)
  then have "untaken (rc_sql r) (i, j, s0)" using assms(8,9) by (simp add: untaken_def)
  from renders_untaken [OF assms(10) this] assms(11) have "settled_page (rc_sql r) s" "sq_editor s = Some []"
    by (simp_all add: untaken_def)
  from draft_step [OF this, of 4 Bundle sv True] assms(2)
  have taken: "render_step Bundle sv True 4 s = (Resolved (), take_draft s)" "settled_page [] (take_draft s)" "sq_editor (take_draft s) = Some (rc_sql r)" by simp_all
  have step: "renders sv (4, k, s) (5, k, take_draft s)" using renders.one [where i = 4, OF _ taken(1)] by simp
  from renders_rest [OF assms(12,11) taken(2,3)] have fin: "settled_page [] s'" "sq_editor s' = Some (if k \<le> 3 then [] else rc_sql r)" by simp_all
  have "if k \<le> 3 then execute sv' ms s' = (Resolved (), s') else getQuery s' = trim (rc_sql r)"
    using fin(2) by (simp add: execute_def getQuery_def trim_def)
  then show ?thesis using card_button args click step taken(3) fin by (auto simp: settled_page_def)
qed

definition sample_recommendation :: "string \<Rightarrow> recommendation" where
  "sample_recommendation q = \<lparr>rc_priority = ''high'', rc_category = ''vacuum'', rc_object = ''t'', rc_action = ''vacuum'', rc_reason = ''dead rows'', rc_sql = q\<rparr>"

definition planner_shell :: shell where
  "planner_shell = sample_shell\<lparr>hash := ''#planner''\<rparr>"

text \<open>A page with the draft stored and the frame just written, the schema cached.\<close>

definition drafted_page :: sql_page where
  "drafted_page = sample_sql_page\<lparr>page := set_inner ''page-content'' sql_frame
     (sample_browser\<lparr>dom := [''page-content'' \<mapsto> mk_node ''div'' [] []], session := [draft_key \<mapsto> ''VACUUM t'']\<rparr>),
     sq_cache := Some \<lparr>sc_tables = [], sc_columns = []\<rparr>\<rparr>"

theorem planner_to_editor_witness:
  "\<exists>s s'. (renders failing_server)\<^sup>*\<^sup>* (3, 3, drafted_page) (4, 3, s) \<and> (renders failing_server)\<^sup>*\<^sup>* (5, 3, take_draft s) (5, 5, s')
    \<and> sq_editor (take_draft s) = Some ''VACUUM t'' \<and> sq_editor s' = Some [] \<and> execute failing_server 1 s' = (Resolved (), s')"
proof -
  let ?b0 = "sample_browser\<lparr>dom := [''page-content'' \<mapsto> mk_node ''div'' [] []], session := [draft_key \<mapsto> ''VACUUM t'']\<rparr>"
  let ?r = "sample_recommendation ''VACUUM t''"
  have b0: "element ''page-content'' ?b0" "get_item draft_key ?b0 = rc_sql ?r" "page drafted_page = set_inner ''page-content'' sql_frame ?b0"
    by (simp_all add: element_def get_item_def drafted_page_def sample_recommendation_def)
  have p0: "settled_page ''VACUUM t'' drafted_page"
    using frame_settled [OF b0(1,3)] b0(2) by (simp add: settled_page_def b0(3) sample_recommendation_def)
  have create: "\<exists>s'. render_step Bundle failing_server True 3 s = (Resolved (), s') \<and> sq_cache s' = sq_cache s"
    if "settled_page d s" "sq_cache s \<noteq> None" for d s
    using that by (auto simp: render_step_def initCodeMirror_def settled_page_def editor_place_def fetchSchema_def Let_def)
  obtain s where s: "render_step Bundle failing_server True 3 drafted_page = (Resolved (), s)" "sq_cache s \<noteq> None"
    using create [OF p0] by (auto simp: drafted_page_def)
  have first: "(renders failing_server)\<^sup>*\<^sup>* (3, 3, drafted_page) (4, 3, s)"
    using renders.one [where i = 3, OF _ s(1)] by (auto intro: r_into_rtranclp)
  from create_step [OF p0 s(1)] have c: "settled_page ''VACUUM t'' s" "sq_editor s = Some []" by simp_all
  from draft_step [OF c, of 4 Bundle failing_server True] have t: "settled_page [] (take_draft s)" by simp
  have "sq_cache (take_draft s) \<noteq> None" using s(2) by (simp add: take_draft_def Let_def setQuery_def upd_page_def split: option.split)
  from create [OF t this] obtain s1 where s1: "render_step Bundle failing_server True 3 (take_draft s) = (Resolved (), s1)" by blast
  from create_step [OF t s1] have c1: "settled_page [] s1" "sq_editor s1 = Some []" by simp_all
  from draft_step [OF c1, of 4 Bundle failing_server True] have t1: "render_step Bundle failing_server True 4 s1 = (Resolved (), take_draft s1)" by simp
  have rest: "(renders failing_server)\<^sup>*\<^sup>* (5, 3, take_draft s) (5, 5, take_draft s1)"
    using renders.other [where j = 3 and i = 5, OF _ s1] renders.other [where j = 4 and i = 5, OF _ t1]
    by (auto intro!: converse_rtranclp_into_rtranclp)
  have "CHR 0x27 \<notin> set (rc_sql ?r)" "rc_sql ?r \<noteq> []" "routed planner_shell" "hash planner_shell \<noteq> ''#sql''"
    by (simp_all add: sample_recommendation_def planner_shell_def sample_shell_def)
  from planner_to_editor [OF this b0 _ _ first _ rest, of "\<lambda>k b. b" id True failing_server 1]
  have "sq_editor (take_draft s) = Some ''VACUUM t'' \<and> sq_editor (take_draft s1) = Some [] \<and> execute failing_server 1 (take_draft s1) = (Resolved (), take_draft s1)"
    by (simp add: sample_recommendation_def)
  with first rest show ?thesis by blast
qed

text \<open>
  \<^verbatim>\<open>encodeURIComponent\<close> leaves single quotes alone: a quote in the SQL that is not directly before a closing parenthesis ends
  the literal of the button early and its handler is no valid script, so the button does nothing.
\<close>

theorem planner_quote_dead:
  assumes "rc_sql r = p @ CHR 0x27 # c # q" "CHR 0x27 \<notin> set p" "c \<noteq> CHR '')''"
  shows "handler_args ''MaintenancePlanner.sendToSql'' (use_in_sql r) = None"
proof -
  obtain d ds where d: "encode_char c = d # ds" by (cases "encode_char c") (auto simp: encode_char_def split: if_splits)
  have comma: "encode_char (CHR '','') = ''%2C''" by code_simp
  have "d = c \<or> d = CHR ''%''" using d by (auto simp: encode_char_def split: if_splits)
  with d comma assms(3) have dn: "d \<noteq> CHR '')''" "d \<noteq> CHR '',''"
    by auto
  have quote: "encode_char (CHR 0x27) = sq" by (simp add: encode_char_def is_unreserved_def)
  have "encode_uri (rc_sql r) = encode_uri p @ CHR 0x27 # d # (ds @ encode_uri q)"
    using d quote by (simp add: assms(1) encode_uri_def)
  from litu.quote_ends [OF _ this _ dn, of "''MaintenancePlanner.sendToSql''" "[]"] show ?thesis
    using assms(2) by (simp add: use_in_sql_def encode_uri_plain)
qed

end
