(* ===== verification/Queries.thy ===== *)
theory Queries
  imports Site
begin

text \<open>
  The slow query page, queries.js: statistics, saved plans with the selection for a comparison, the
  EXPLAIN dialog and the reset. A plan is kept as the text that \<^verbatim>\<open>JSON.stringify\<close> prints of it. The
  dialog is opened, the call is made, and its reply is shown, as three steps, since the user can close
  the dialog and open it for another query before the reply comes.
\<close>

section \<open>State and server\<close>

record slow_query =
  sl_query :: string
  sl_calls :: int
  sl_mean :: rat
  sl_sum :: rat
  sl_rows :: int
  sl_hit :: int
  sl_read :: int

record slow_stats =
  ss_available :: bool
  ss_message :: string
  ss_queries :: "slow_query list"

record saved_plan =
  sp_id :: string
  sp_mode :: string
  sp_name :: string
  sp_database :: string
  sp_profile :: string
  sp_created :: int
  sp_query :: string
  sp_plan :: string

record explained =
  xp_mode :: string
  xp_plan :: "string option"

record queries_page = site +
  qu_queries :: "slow_query list"
  qu_plans :: "saved_plan list"
  qu_compare :: "string list"
  qu_saves :: "(slow_query \<times> string) list"

record queries_server =
  qv_settings :: settings_net
  qv_dbs :: "string list option net"
  qv_slow :: "slow_stats option net"
  qv_plans :: "saved_plan list net"
  qv_plan :: "saved_plan option net"
  qv_explain :: "explained option net"
  qv_save :: "string option net"
  qv_reset :: "unit net"

section \<open>Saved plans\<close>

definition plan_color :: "saved_plan \<Rightarrow> string" where
  "plan_color p = (if sp_mode p = ''analyzed'' then ''green'' else ''yellow'')"

definition plan_row :: "clock \<Rightarrow> string list \<Rightarrow> saved_plan \<Rightarrow> html list" where
  "plan_row c chosen p = [El ''label'' [At ''class'' ''mono-xs'', At ''style'' ''display:flex;align-items:flex-start;gap:8px'']
      [El ''input'' ([At ''type'' ''checkbox''] @ (flag_if (sp_id p \<in> set chosen) ''checked'') @ [At ''onchange'' (''SlowQueries.toggleCompare('' @ sq @ (sp_id p) @ sq @ '', this.checked)'')]) [],
      El ''span'' []
       [El ''span'' [At ''class'' (plan_color p)] [Txt (escHtml (or_str (sp_name p) (sp_id p)))],
       El ''span'' [At ''class'' ''dim'']
        [Txt ((escHtml (or_str (sp_database p) ''-'')) @ '' '' @ u_middot @ '' '' @ (escHtml (or_str (sp_profile p) ''direct'')) @ '' '' @ u_middot @ '' '' @ (timeAgo (now c) (sp_created p)))]]]]"

definition plans_markup :: "clock \<Rightarrow> string list \<Rightarrow> saved_plan list \<Rightarrow> html list" where
  "plans_markup c chosen ps = [El ''div'' [At ''class'' ''card'']
      [El ''div'' [At ''class'' ''flex-between'', At ''style'' ''margin-bottom:8px'']
       [El ''span'' [At ''class'' ''card-title'', At ''style'' ''margin:0''] [Txt ''saved plans''],
       El ''button'' [At ''class'' ''btn btn-sm'', At ''style'' ''font-size:9px'', At ''onclick'' ''SlowQueries.compareSelected()''] [Txt ''compare selected'']],
      El ''div'' [At ''style'' ''display:grid;gap:8px''] (concat (map (plan_row c chosen) (take 8 ps)))]]"

definition renderSavedPlans :: "clock \<Rightarrow> queries_page \<Rightarrow> queries_page" where
  "renderSavedPlans c s =
     put_markup ''queries-plans'' (if qu_plans s = [] then [] else plans_markup c (qu_compare s) (qu_plans s)) s"

definition select_plan :: "string \<Rightarrow> bool \<Rightarrow> string list \<Rightarrow> string list" where
  "select_plan i on chosen =
     (if on then (if 2 \<le> length chosen then tl chosen else chosen) @ [i]
      else filter (\<lambda>x. x \<noteq> i) chosen)"

definition toggleCompare :: "clock \<Rightarrow> string \<Rightarrow> bool \<Rightarrow> queries_page \<Rightarrow> queries_page" where
  "toggleCompare c i on s = renderSavedPlans c (s\<lparr>qu_compare := select_plan i on (qu_compare s)\<rparr>)"

section \<open>Statistics\<close>

definition hit_ratio :: "slow_query \<Rightarrow> string" where
  "hit_ratio q =
     (if 0 < sl_hit q + sl_read q
      then to_fixed 1 (of_int (sl_hit q) / of_int (sl_hit q + sl_read q) * 100) @ ''%'' else ''-'')"

definition is_select :: "slow_query \<Rightarrow> bool" where
  "is_select q =
     (starts_with ''SELECT'' (to_upper (trim (sl_query q))) \<or> starts_with ''WITH'' (to_upper (trim (sl_query q))))"

definition explain_button :: "nat \<Rightarrow> slow_query \<Rightarrow> html list" where
  "explain_button i q =
     (if is_select q then [El ''button'' [At ''onclick'' (''SlowQueries.explain('' @ (str_of_nat i) @ '')''), At ''class'' ''btn btn-sm'', At ''title'' ''Explain Analyze''] [Txt ''explain'']] else [El ''span'' [At ''class'' ''dim''] [Txt ''-'']])"

definition slow_row :: "nat \<Rightarrow> slow_query \<Rightarrow> html list" where
  "slow_row i q = [El ''tr'' []
      [El ''td'' [At ''style'' ''overflow:hidden;text-overflow:ellipsis;white-space:nowrap'', At ''title'' (escHtml (sl_query q))] [Txt (escHtml (sl_query q))],
      El ''td'' [] [Txt (fmt_count (sl_calls q))],
      El ''td'' [At ''class'' (if 100 < sl_mean q then ''red'' else if 10 < sl_mean q then ''yellow'' else [])] [Txt (to_fixed 2 (sl_mean q))],
      El ''td'' [] [Txt (to_fixed 0 (sl_sum q))],
      El ''td'' [] [Txt (fmt_count (sl_rows q))],
      El ''td'' [] [Txt (hit_ratio q)],
      El ''td'' [] (explain_button i q)]]"

definition slow_table :: "slow_query list \<Rightarrow> html list" where
  "slow_table qs = [El ''div'' [At ''class'' ''mono-xs dim mb-8''] [Txt ((str_of_nat (length qs)) @ '' queries'')],
     El ''div'' [At ''class'' ''card'', At ''style'' ''padding:0;overflow-x:auto;height:calc(100vh - 138px);overflow-y:auto'']
      [El ''table'' [At ''class'' ''data-table'', At ''style'' ''table-layout:fixed;width:100%'']
       [El ''thead'' []
        [El ''tr'' []
         [El ''th'' [] [Txt ''query''],
         El ''th'' [At ''style'' ''width:80px''] [Txt ''calls''],
         El ''th'' [At ''style'' ''width:90px''] [Txt ''avg (ms)''],
         El ''th'' [At ''style'' ''width:100px''] [Txt ''total (ms)''],
         El ''th'' [At ''style'' ''width:80px''] [Txt ''rows''],
         El ''th'' [At ''style'' ''width:80px''] [Txt ''hit ratio''],
         El ''th'' [At ''style'' ''width:80px''] [Txt ''actions'']]],
       El ''tbody'' []
        (concat (map (\<lambda>(i, q). slow_row i q) (enumerate 0 qs)))]]]"

definition show_slow :: "slow_stats \<Rightarrow> queries_page \<Rightarrow> queries_page" where
  "show_slow d s =
     (if \<not> ss_available d then put_markup ''queries-content'' [El ''div'' [At ''class'' ''card'']
      [El ''span'' [At ''class'' ''yellow mono-xs''] [Txt (u_warn @ '' '' @ (ss_message d))]]] s
      else if ss_queries d = [] then put_markup ''queries-content'' [El ''div'' [At ''class'' ''card'']
      [El ''span'' [At ''class'' ''dim mono-xs''] [Txt ''no slow queries recorded'']]] s
      else (put_markup ''queries-content'' (slow_table (ss_queries d)) s)\<lparr>qu_queries := ss_queries d\<rparr>)"

definition slow_loaded :: "clock \<Rightarrow> slow_stats option \<times> saved_plan list \<Rightarrow> queries_page \<Rightarrow> queries_page" where
  "slow_loaded c r s =
     (let s1 = s\<lparr>qu_plans := snd r\<rparr> in
      if \<not> element ''queries-content'' (page s1) then s1
      else (let s2 = renderSavedPlans c s1
            in case fst r of None \<Rightarrow> s2 | Some d \<Rightarrow> show_slow d s2))"

definition Queries_load :: "queries_server \<Rightarrow> clock \<Rightarrow> queries_page \<Rightarrow> unit outcome \<times> queries_page" where
  "Queries_load sv c s =
     catch
       (await (selection (qv_settings sv) ''queries'' s) (\<lambda>ps s1.
        await (on_page (both (api (qv_slow sv) (get_rq (''/queries/slow?'' @ ps))) (api (qv_plans sv) (get_rq ''/queries/plans''))) s1) (\<lambda>r s2.
          (Resolved (), slow_loaded c r s2))))
       ignore"

section \<open>EXPLAIN\<close>

definition explain_rq :: "slow_query \<Rightarrow> string \<Rightarrow> string \<Rightarrow> request" where
  "explain_rq q db prof =
     post_rq ''/queries/explain'' (Some (JObj [(''query'', JStr (sl_query q)), (''database'', JStr db), (''profile'', JStr prof)]))"

definition save_plan_rq :: "slow_query \<Rightarrow> string \<Rightarrow> string \<Rightarrow> request" where
  "save_plan_rq q db prof =
     post_rq ''/queries/explain''
       (Some (JObj [(''query'', JStr (sl_query q)), (''database'', JStr db), (''profile'', JStr prof),
                    (''save'', JBool True), (''name'', JStr (take 60 (sl_query q)))]))"

definition explain_dialog :: "slow_query \<Rightarrow> html list" where
  "explain_dialog q = [El ''div'' [At ''class'' ''modal-dialog'', At ''style'' ''width:700px;max-height:80vh'']
      [El ''div'' [At ''class'' ''modal-header'']
       [El ''span'' [At ''class'' ''modal-title''] [Txt ''explain analyze''],
       El ''button'' [At ''class'' ''modal-close'', At ''id'' ''explain-close''] [Txt ''&times;'']],
      El ''div'' [At ''class'' ''modal-body'', At ''style'' ''overflow:auto;max-height:60vh'']
       [El ''div'' [At ''class'' ''mono-xs dim mb-8'', At ''style'' ''word-break:break-all''] [Txt (escHtml (sl_query q))],
       El ''div'' [At ''id'' ''explain-result'', At ''style'' ''margin-top:8px'']
        [El ''span'' [At ''class'' ''dim mono-xs''] [Txt ''running EXPLAIN...'']]],
      El ''div'' [At ''class'' ''modal-footer'']
       [El ''button'' [At ''class'' ''btn btn-sm btn-primary'', At ''id'' ''explain-save-btn''] [Txt ''save plan''],
       El ''button'' [At ''class'' ''btn btn-sm'', At ''id'' ''explain-close-btn''] [Txt ''close'']]]]"

text \<open>A new dialog has a new save button, without listeners.\<close>

definition explain_open :: "slow_query \<Rightarrow> queries_page \<Rightarrow> queries_page" where
  "explain_open q s = upd_page (add_overlay ''explain-modal'' (explain_dialog q)) (s\<lparr>qu_saves := []\<rparr>)"

definition explain_close :: "queries_page \<Rightarrow> queries_page" where
  "explain_close s = upd_page (remove_overlay ''explain-modal'') (s\<lparr>qu_saves := []\<rparr>)"

definition mode_badge :: "string \<Rightarrow> html list" where
  "mode_badge m =
     (if m = ''estimated'' then [El ''span'' [At ''class'' ''badge badge-yellow'', At ''style'' ''margin-bottom:8px;display:inline-block''] [Txt ''estimated plan (parameterized query)'']]
      else [El ''span'' [At ''class'' ''badge badge-green'', At ''style'' ''margin-bottom:8px;display:inline-block''] [Txt ''analyzed (actual execution)'']])"

definition explained_markup :: "string \<Rightarrow> string \<Rightarrow> html list" where
  "explained_markup m p = ((mode_badge m) @ [El ''pre'' [At ''class'' ''mono-xs'', At ''style'' ''background:var(--bg-0);border:1px solid var(--border); padding:12px;border-radius:4px;overflow:auto;max-height:400px;white-space:pre-wrap; font-size:10px;line-height:1.5''] [Txt (escHtml p)]])"

definition explain_error :: "string \<Rightarrow> html list" where
  "explain_error e = [El ''span'' [At ''class'' ''red mono-xs''] [Txt (''error: '' @ (escHtml e))]]"

text \<open>
  The reply: the result element and the save button are looked up when it comes. Without a
  button the listener cannot be added, and the error ends in a message for the missing element.
\<close>

definition explain_answer :: "slow_query \<Rightarrow> string \<Rightarrow> explained option \<Rightarrow> queries_page \<Rightarrow> queries_page" where
  "explain_answer q prof r s =
     (let s1 = (case r of
                  None \<Rightarrow> s
                | Some x \<Rightarrow> (case xp_plan x of None \<Rightarrow> s | Some p \<Rightarrow> put_markup ''explain-result'' (explained_markup (xp_mode x) p) s))
      in if element ''explain-save-btn'' (page s1) then s1\<lparr>qu_saves := qu_saves s1 @ [(q, prof)]\<rparr>
         else put_markup ''explain-result'' (explain_error ''TypeError'') s1)"

definition explain_call :: "queries_server \<Rightarrow> slow_query \<Rightarrow> queries_page \<Rightarrow> unit outcome \<times> queries_page" where
  "explain_call sv q s =
     catch
       (await (ensure (qv_settings sv) ''queries'' s) (\<lambda>prof s1.
        await (on_page (apiProtected (qv_explain sv) (explain_rq q (db_getSelected (page s1)) prof)) s1) (\<lambda>r s2.
          (Resolved (), explain_answer q prof r s2))))
       (\<lambda>e s1. (Resolved (), put_markup ''explain-result'' (explain_error e) s1))"

definition explain :: "queries_server \<Rightarrow> nat \<Rightarrow> queries_page \<Rightarrow> unit outcome \<times> queries_page" where
  "explain sv i s =
     (if length (qu_queries s) \<le> i then (Resolved (), s)
      else explain_call sv (qu_queries s ! i) (explain_open (qu_queries s ! i) s))"

definition save_plan :: "queries_server \<Rightarrow> clock \<Rightarrow> slow_query \<times> string \<Rightarrow> queries_page \<Rightarrow> unit outcome \<times> queries_page" where
  "save_plan sv c qp s =
     catch
       (await (on_page (apiProtected (qv_save sv) (save_plan_rq (fst qp) (db_getSelected (page s)) (snd qp))) s) (\<lambda>r s1.
          Queries_load sv c (toast (''plan saved as '' @ or_none r ''undefined'') ''success'' s1)))
       (\<lambda>e s1. (Resolved (), toast (''save failed: '' @ e) ''error'' s1))"

text \<open>A click on the save button runs its listeners in the order they were added.\<close>

definition click_save :: "queries_server \<Rightarrow> clock \<Rightarrow> queries_page \<Rightarrow> queries_page" where
  "click_save sv c s = fold (\<lambda>qp t. snd (save_plan sv c qp t)) (qu_saves s) s"

section \<open>Reset and comparison\<close>

definition resetStats :: "queries_server \<Rightarrow> clock \<Rightarrow> queries_page \<Rightarrow> unit outcome \<times> queries_page" where
  "resetStats sv c s =
     confirmed ''reset statistics'' ''Reset pg_stat_statements? This clears all query statistics.'' (danger_options ''reset'')
       (\<lambda>s0. catch
          (await (selection (qv_settings sv) ''queries'' s0) (\<lambda>ps s1.
           await (on_page (apiProtected (qv_reset sv) (post_rq (''/queries/reset?'' @ ps) None)) s1) (\<lambda>_ s2.
             Queries_load sv c (toast ''statistics reset'' ''success'' s2))))
          ignore) s"

definition plan_rq :: "string \<Rightarrow> request" where
  "plan_rq i = get_rq (''/queries/plans/'' @ encode_uri i)"

definition compared_plan :: "clock \<Rightarrow> saved_plan \<Rightarrow> html list" where
  "compared_plan c p = [El ''div'' [At ''class'' ''card'']
      [El ''div'' [At ''class'' (''mono-xs '' @ (plan_color p)), At ''style'' ''margin-bottom:6px''] [Txt (escHtml (or_str (sp_name p) (sp_id p)))],
      El ''div'' [At ''class'' ''mono-xs dim'', At ''style'' ''margin-bottom:8px'']
       [Txt ((escHtml (or_str (sp_database p) ''-'')) @ '' '' @ u_middot @ '' '' @ (escHtml (or_str (sp_profile p) ''direct'')) @ '' '' @ u_middot @ '' '' @ (timeAgo (now c) (sp_created p)))],
      El ''div'' [At ''class'' ''mono-xs dim'', At ''style'' ''margin-bottom:8px;white-space:pre-wrap''] [Txt (escHtml (sp_query p))],
      El ''pre'' [At ''class'' ''mono-xs'', At ''style'' ''background:var(--bg-0);border:1px solid var(--border);padding:8px;border-radius:4px;white-space:pre-wrap''] [Txt (escHtml (sp_plan p))]]]"

definition compare_dialog :: "clock \<Rightarrow> saved_plan list \<Rightarrow> html list" where
  "compare_dialog c ps = [El ''div'' [At ''class'' ''modal-dialog'', At ''style'' ''width:920px;max-height:84vh'']
      [El ''div'' [At ''class'' ''modal-header'']
       [El ''span'' [At ''class'' ''modal-title''] [Txt ''compare saved plans''],
       El ''button'' [At ''class'' ''modal-close'', At ''id'' ''plan-compare-close''] [Txt ''&times;'']],
      El ''div'' [At ''class'' ''modal-body'', At ''style'' ''max-height:70vh;overflow:auto'']
       [El ''div'' [At ''class'' ''grid grid-2'', At ''style'' ''gap:12px''] (concat (map (compared_plan c) ps))]]]"

definition compareSelected :: "queries_server \<Rightarrow> clock \<Rightarrow> queries_page \<Rightarrow> unit outcome \<times> queries_page" where
  "compareSelected sv c s =
     (case qu_compare s of
        [i, j] \<Rightarrow>
          await (on_page (both (api (qv_plan sv) (plan_rq i)) (api (qv_plan sv) (plan_rq j))) s) (\<lambda>r s1.
            case r of
              (Some p, Some q) \<Rightarrow> (Resolved (), upd_page (add_overlay ''plan-compare-modal'' (compare_dialog c [p, q])) s1)
            | _ \<Rightarrow> (Rejected ''TypeError'', upd_page (remove_overlay ''plan-compare-modal'') s1))
      | _ \<Rightarrow> (Resolved (), toast ''select exactly two saved plans'' ''error'' s))"

definition compare_close :: "queries_page \<Rightarrow> queries_page" where
  "compare_close s = upd_page (remove_overlay ''plan-compare-modal'') s"

section \<open>Rendering\<close>

definition queries_frame :: "html list" where
  "queries_frame = [El ''div'' [At ''class'' ''flex-between mb-8'']
      [El ''div'' [At ''style'' ''display:flex;gap:8px;align-items:center'']
       [El ''span'' [At ''class'' ''card-title'', At ''style'' ''margin:0''] [Txt ''slow queries''],
       El ''div'' [At ''id'' ''queries-db-sel'', At ''class'' ''db-bar'', At ''style'' ''display:inline-flex;margin:0''] [],
       El ''div'' [At ''id'' ''queries-profile-sel'', At ''class'' ''db-bar'', At ''style'' ''display:inline-flex;margin:0''] []],
      El ''div'' [At ''style'' ''display:flex;gap:6px'']
       [El ''button'' [At ''onclick'' ''SlowQueries.resetStats()'', At ''class'' ''btn btn-sm btn-danger'', At ''title'' ''Reset statistics'']
        [El ''i'' [At ''data-lucide'' ''trash-2'', At ''class'' ''icon-sm''] [],
        Txt '' reset''],
       El ''button'' [At ''onclick'' ''SlowQueries.load()'', At ''class'' ''btn btn-sm'']
        [El ''i'' [At ''data-lucide'' ''refresh-cw'', At ''class'' ''icon-sm''] [],
        Txt '' refresh'']]],
     El ''div'' [At ''id'' ''queries-plans'', At ''class'' ''mb-8''] [],
     El ''div'' [At ''id'' ''queries-content'']
      [El ''div'' [At ''class'' ''card'']
       [El ''span'' [At ''class'' ''dim mono-xs''] [Txt ''loading...'']]]]"

definition Queries_render :: "queries_server \<Rightarrow> clock \<Rightarrow> queries_page \<Rightarrow> unit outcome \<times> queries_page" where
  "Queries_render sv c s =
     await (databases_into (qv_dbs sv) ''queries-db-sel'' (put_markup ''page-content'' queries_frame s)) (\<lambda>_ s1.
     await (profiles_into (qv_settings sv) ''queries-profile-sel'' ''queries'' s1) (\<lambda>_ s2. Queries_load sv c s2))"

section \<open>The boxes and the selection\<close>

text \<open>The check boxes in a tree: handler and state as the markup has them.\<close>

fun boxes_of :: "html \<Rightarrow> (string \<times> bool) list" where
  "boxes_of (Txt t) = []"
| "boxes_of (El t as hs) =
     (if t = ''input'' then [(or_none (attr_val ''onchange'' as) [], attr_val ''checked'' as \<noteq> None)] else [])
     @ concat (map boxes_of hs)"

definition plan_boxes :: "queries_page \<Rightarrow> (string \<times> bool) list" where
  "plan_boxes s = concat (map boxes_of (inner ''queries-plans'' (page s)))"

definition box_handler :: "saved_plan \<Rightarrow> string" where
  "box_handler p = html_decode (''SlowQueries.toggleCompare('' @ sq @ sp_id p @ sq @ '', this.checked)'')"

text \<open>The user clicks a box, which turns its state around, or a load ends.\<close>

datatype plan_event = ClickBox nat | Loaded "slow_stats option" "saved_plan list"

fun plan_step :: "clock \<Rightarrow> plan_event \<Rightarrow> queries_page \<Rightarrow> queries_page" where
  "plan_step c (ClickBox n) s =
     (if n < length (plan_boxes s) then toggleCompare c (sp_id (qu_plans s ! n)) (\<not> snd (plan_boxes s ! n)) s else s)"
| "plan_step c (Loaded d ps) s = slow_loaded c (d, ps) s"

definition boxes_ok :: "queries_page \<Rightarrow> bool" where
  "boxes_ok s =
     (plan_boxes s = map (\<lambda>p. (box_handler p, sp_id p \<in> set (qu_compare s))) (take 8 (qu_plans s))
      \<and> distinct (qu_compare s) \<and> length (qu_compare s) \<le> 2
      \<and> leaf ''queries-plans'' (page s) \<and> leaf ''queries-content'' (page s))"

lemma boxes_of_plans: "concat (map boxes_of (plans_markup c chosen ps)) = map (\<lambda>p. (box_handler p, sp_id p \<in> set chosen)) (take 8 ps)"
proof -
  have "concat (map boxes_of (plan_row c chosen p)) = [(box_handler p, sp_id p \<in> set chosen)]" for p
    by (simp add: plan_row_def box_handler_def flag_if_def)
  then have "concat (map boxes_of (concat (map (plan_row c chosen) qs))) = map (\<lambda>p. (box_handler p, sp_id p \<in> set chosen)) qs" for qs
    by (induction qs) simp_all
  then show ?thesis by (simp add: plans_markup_def)
qed

lemma plans_no_nodes: "nodes_of_list (plans_markup c chosen ps) = []" "nodes_of_list (slow_table qs) = []"
proof -
  have "concat (map nodes_of (plan_row c chosen p)) = []" for p by (simp add: plan_row_def flag_if_def)
  then show "nodes_of_list (plans_markup c chosen ps) = []"
    using no_nodes_concat [of "plan_row c chosen" "take 8 ps"] by (simp add: plans_markup_def nodes_of_list_def)
  have "concat (map nodes_of (explain_button i q)) = []" for i q by (simp add: explain_button_def)
  then have "concat (map nodes_of (slow_row i q)) = []" for i q by (simp add: slow_row_def)
  then show "nodes_of_list (slow_table qs) = []"
    using no_nodes_concat [of "\<lambda>(i, q). slow_row i q" "enumerate 0 qs"] by (simp add: slow_table_def nodes_of_list_def split_beta)
qed

lemma select_plan_ok:
  "distinct chosen \<Longrightarrow> length chosen \<le> 2 \<Longrightarrow> (on \<Longrightarrow> i \<notin> set chosen) \<Longrightarrow>
   distinct (select_plan i on chosen) \<and> length (select_plan i on chosen) \<le> 2"
  using length_filter_le [of "\<lambda>x. x \<noteq> i" chosen] by (cases chosen; cases on) (auto simp: select_plan_def le_Suc_eq)

lemma renderSavedPlans_ok:
  assumes "distinct (qu_compare s)" "length (qu_compare s) \<le> 2" "leaf ''queries-plans'' (page s)" "leaf ''queries-content'' (page s)"
  shows "boxes_ok (renderSavedPlans c s)"
proof -
  let ?hs = "if qu_plans s = [] then [] else plans_markup c (qu_compare s) (qu_plans s)"
  have hs: "nodes_of_list ?hs = []" using plans_no_nodes(1) by (simp add: nodes_of_list_def)
  have "concat (map boxes_of ?hs) = map (\<lambda>p. (box_handler p, sp_id p \<in> set (qu_compare s))) (take 8 (qu_plans s))"
    by (simp add: boxes_of_plans)
  moreover have "inner ''queries-plans'' (page (renderSavedPlans c s)) = ?hs"
    using leaf_inner(1) [OF assms(3) hs] by (simp add: renderSavedPlans_def put_markup_def)
  moreover have "qu_compare (renderSavedPlans c s) = qu_compare s \<and> qu_plans (renderSavedPlans c s) = qu_plans s"
    by (simp add: renderSavedPlans_def put_markup_def upd_page_def)
  ultimately show ?thesis
    unfolding boxes_ok_def plan_boxes_def using assms hs
    by (simp add: renderSavedPlans_def put_markup_def leaf_write)
qed

lemma content_ok:
  assumes "boxes_ok s" "nodes_of_list hs = []"
  shows "boxes_ok (put_markup ''queries-content'' hs s)" "boxes_ok ((put_markup ''queries-content'' hs s)\<lparr>qu_queries := qs\<rparr>)"
  using assms leaf_inner(2) [of "''queries-content''" "page s" hs "''queries-plans''"]
  by (simp_all add: boxes_ok_def plan_boxes_def put_markup_def upd_page_def leaf_write)

lemma plan_step_ok: "boxes_ok s \<Longrightarrow> boxes_ok (plan_step c e s)"
proof (cases e)
  case (ClickBox n)
  assume ok: "boxes_ok s"
  show ?thesis
  proof (cases "n < length (plan_boxes s)")
    case True
    let ?i = "sp_id (qu_plans s ! n)" and ?on = "\<not> snd (plan_boxes s ! n)"
    have "snd (plan_boxes s ! n) = (?i \<in> set (qu_compare s))" using ok True by (simp add: boxes_ok_def)
    then have "distinct (select_plan ?i ?on (qu_compare s)) \<and> length (select_plan ?i ?on (qu_compare s)) \<le> 2"
      using ok by (intro select_plan_ok) (simp_all add: boxes_ok_def)
    then show ?thesis using ok True ClickBox
      by (simp add: toggleCompare_def) (rule renderSavedPlans_ok, simp_all add: boxes_ok_def)
  qed (simp add: ClickBox ok)
next
  case (Loaded d ps)
  assume ok: "boxes_ok s"
  then have r: "boxes_ok (renderSavedPlans c (s\<lparr>qu_plans := ps\<rparr>))"
    by (intro renderSavedPlans_ok) (simp_all add: boxes_ok_def)
  have "element ''queries-content'' (page s)" using ok leaf_element by (auto simp: boxes_ok_def)
  with r Loaded show ?thesis
    by (auto simp: slow_loaded_def Let_def show_slow_def plans_no_nodes intro!: content_ok split: option.splits)
       (auto simp: nodes_of_list_def)
qed

section \<open>Properties\<close>

text \<open>
  C21: in every run of clicks and loads the check boxes show exactly the selection of the page, one for each of the first eight
  plans, and the selection has no duplicates and at most two plans.
\<close>

theorem compare_boxes:
  assumes "boxes_ok s"
  shows "boxes_ok (fold (plan_step c) es s)"
  using assms by (induction es arbitrary: s) (simp_all add: plan_step_ok)

definition sample_plan :: "string \<Rightarrow> saved_plan" where
  "sample_plan i = \<lparr>sp_id = i, sp_mode = ''analyzed'', sp_name = [], sp_database = [], sp_profile = [], sp_created = 0, sp_query = [], sp_plan = []\<rparr>"

definition sample_queries :: queries_page where
  "sample_queries = \<lparr>cfg_cache = None, dbs_cache = None,
     page = sample_browser\<lparr>dom := [''queries-plans'' \<mapsto> mk_node ''div'' [] [], ''queries-content'' \<mapsto> mk_node ''div'' [] []]\<rparr>,
     qu_queries = [], qu_plans = [], qu_compare = [], qu_saves = []\<rparr>"

theorem compare_boxes_witness:
  "boxes_ok (fold (plan_step \<lparr>now = 0, locale_text = (\<lambda>t. []), time_text = (\<lambda>t. []), local_iso = [], number_text = int_str\<rparr>)
     [Loaded None [sample_plan ''a'', sample_plan ''b'', sample_plan ''c''], ClickBox 0, ClickBox 1, ClickBox 2] sample_queries)"
  by (rule compare_boxes)
    (simp add: boxes_ok_def plan_boxes_def sample_queries_def leaf_def mk_node_def nodes_of_list_def inner_def)

text \<open>
  C37: the reply to EXPLAIN is written into whatever dialog is open when it comes: when the user closed the dialog
  and opened it for another query, that dialog shows the plan of the first query, and its save button saves the first query.
\<close>

theorem stale_explain:
  fixes s :: queries_page
  shows "let s' = explain_answer q prof (Some \<lparr>xp_mode = m, xp_plan = Some p\<rparr>) (explain_open q2 (explain_close (explain_open q s)))
    in inner ''explain-modal'' (page s') = explain_dialog q2 \<and> inner ''explain-result'' (page s') = explained_markup m p \<and> qu_saves s' = [(q, prof)]"
proof -
  let ?b = "page (explain_open q2 (explain_close (explain_open q s)))"
  have no: "nodes_of_list (explained_markup m p) = []" by (simp add: explained_markup_def mode_badge_def nodes_of_list_def)
  have dlg: "inner ''explain-modal'' ?b = explain_dialog q2 \<and> leaf ''explain-result'' ?b \<and> element ''explain-save-btn'' ?b"
    by (simp add: explain_open_def add_overlay_def Let_def explain_dialog_def nodes_of_list_def mk_node_def leaf_def inner_def element_def)
  have el: "element ''explain-save-btn'' (set_inner ''explain-result'' (explained_markup m p) ?b)"
    using dlg leaf_other [of "''explain-result''" ?b "explained_markup m p" "''explain-save-btn''"] no by (simp add: element_def)
  show ?thesis
    using leaf_inner(1) [of "''explain-result''" ?b "explained_markup m p"] leaf_inner(2) [of "''explain-result''" ?b "explained_markup m p" "''explain-modal''"] dlg el no
    by (simp add: Let_def explain_answer_def put_markup_def upd_page_def) (simp add: explain_open_def upd_page_def)
qed

end
