(* ===== verification/Config.thy ===== *)
theory Config
  imports Site "HOL-Library.List_Lexorder" "HOL-Library.Char_ord" "HOL-Library.Multiset"
begin

text \<open>
  The settings page, config.js: search and source filter over the settings, grouped by category, the
  edit dialog, reload and restart. The three arguments of the dialog travel as string literals in the
  \<^verbatim>\<open>onclick\<close> attribute of a row's button.
\<close>

section \<open>State and server\<close>

record pg_setting =
  g_name :: string
  g_setting :: string
  g_unit :: "string option"
  g_desc :: string
  g_category :: string
  g_context :: string
  g_source :: string

text \<open>\<^verbatim>\<open>cf_edit\<close>: what the handlers of the open dialog hold: name, current value, whether a restart is needed.\<close>

record config_page = site +
  cf_data :: "pg_setting list"
  cf_edit :: "(string \<times> string \<times> bool) option"

record config_server =
  cv_list :: "pg_setting list net"
  cv_set :: "unit net"
  cv_execute :: "unit net"
  cv_restart :: "unit net"

section \<open>Filter and table\<close>

definition config_match :: "string \<Rightarrow> pg_setting \<Rightarrow> bool" where
  "config_match search i =
     (str_includes search (to_lower (g_name i)) \<or> str_includes search (to_lower (g_desc i))
      \<or> str_includes search (to_lower (g_category i)))"

definition config_filter :: "string \<Rightarrow> string \<Rightarrow> pg_setting list \<Rightarrow> pg_setting list" where
  "config_filter search source ds =
     (let found = (if search \<noteq> [] then filter (config_match search) ds else ds)
      in if source \<noteq> [] then filter (\<lambda>i. g_source i = source) found else found)"

definition edit_call :: "pg_setting \<Rightarrow> string" where
  "edit_call i =
     ''ConfigViewer.edit('' @ sq @ esc5 (g_name i) @ sq @ '','' @ sq @ esc5 (g_setting i) @ sq @ '','' @ sq @ esc5 (g_context i) @ sq @ '')''"

definition edit_button :: "pg_setting \<Rightarrow> html list" where
  "edit_button i =
     (if g_context i \<noteq> ''internal'' then [El ''button'' [At ''onclick'' (edit_call i), At ''class'' ''btn btn-sm'', At ''style'' ''font-size:9px''] [Txt ''edit'']] else [El ''span'' [At ''class'' ''dim mono-xs''] [Txt ''-'']])"

definition config_row :: "pg_setting \<Rightarrow> html list" where
  "config_row i = [El ''tr'' []
      [El ''td'' [At ''class'' (if g_source i \<noteq> ''default'' \<and> g_source i \<noteq> ''override'' then ''accent'' else []), At ''style'' ''word-break:break-all''] [Txt (esc5 (g_name i))],
      El ''td'' [At ''id'' (''val-'' @ (g_name i)), At ''style'' ''overflow:hidden;text-overflow:ellipsis;white-space:nowrap'', At ''title'' (esc5 (g_setting i))] [Txt (esc5 (g_setting i))],
      El ''td'' [At ''class'' ''dim''] [Txt (or_none (g_unit i) [])],
      El ''td'' [At ''class'' ''dim'', At ''style'' ''overflow:hidden;text-overflow:ellipsis;white-space:nowrap'', At ''title'' (esc5 (g_desc i))] [Txt (esc5 (g_desc i))],
      El ''td'' []
       [El ''span'' [At ''class'' (''mono-xs '' @ (if g_context i = ''postmaster'' then ''red'' else if g_context i = ''sighup'' then ''green'' else ''dim''))] [Txt (esc5 (g_context i))]],
      El ''td'' [] (edit_button i)]]"

definition config_group :: "string \<times> pg_setting list \<Rightarrow> html list" where
  "config_group g = [El ''div'' [At ''class'' ''card mb-8'', At ''style'' ''padding:0'']
      [El ''div'' [At ''style'' ''padding:6px 10px;border-bottom:1px solid var(--border);background:var(--bg-2)'']
       [El ''span'' [At ''class'' ''accent'', At ''style'' ''font-size:11px;font-weight:600''] [Txt (esc5 (fst g))],
       El ''span'' [At ''class'' ''dim'', At ''style'' ''font-size:10px;margin-left:6px''] [Txt (''('' @ (str_of_nat (length (snd g))) @ '')'')]],
      El ''div'' [At ''style'' ''overflow-x:auto'']
       [El ''table'' [At ''class'' ''data-table'', At ''style'' ''table-layout:fixed;width:100%'']
        [El ''thead'' []
         [El ''tr'' []
          [El ''th'' [At ''style'' ''width:200px''] [Txt ''name''],
          El ''th'' [At ''style'' ''width:120px''] [Txt ''value''],
          El ''th'' [At ''style'' ''width:50px''] [Txt ''unit''],
          El ''th'' [] [Txt ''description''],
          El ''th'' [At ''style'' ''width:90px''] [Txt ''context''],
          El ''th'' [At ''style'' ''width:80px''] [Txt ''action'']]],
        El ''tbody'' [] (concat (map config_row (snd g)))]]]]"

definition config_groups :: "pg_setting list \<Rightarrow> (string \<times> pg_setting list) list" where
  "config_groups ds = group_by g_category ds"

definition config_markup :: "pg_setting list \<Rightarrow> html list" where
  "config_markup ds =
     (if ds = [] then [El ''div'' [At ''class'' ''card'']
      [El ''span'' [At ''class'' ''dim mono-xs''] [Txt ''no matching settings'']]]
      else [El ''div'' [At ''class'' ''mono-xs dim mb-8''] [Txt ((str_of_nat (length ds)) @ '' settings'')]] @ concat (map config_group (config_groups ds)))"

definition filterAndRender :: "config_page \<Rightarrow> config_page" where
  "filterAndRender s =
     (let search = to_lower (value_of ''config-search'' (page s));
          source = value_of ''config-source-filter'' (page s)
      in put_markup ''config-content'' (config_markup (config_filter search source (cf_data s))) s)"

section \<open>Loading\<close>

definition source_names :: "pg_setting list \<Rightarrow> string list" where
  "source_names ds = sort (remdups (map g_source ds))"

definition source_option :: "string \<Rightarrow> html" where
  "source_option x = El ''option'' [At ''value'' (escHtml x)] [Txt (escHtml x)]"

definition config_loaded :: "pg_setting list \<Rightarrow> config_page \<Rightarrow> config_page" where
  "config_loaded ds s =
     filterAndRender
       (upd_page (append_children ''config-source-filter'' (map source_option (source_names ds))) (s\<lparr>cf_data := ds\<rparr>))"

definition config_error :: "string \<Rightarrow> html list" where
  "config_error e = [El ''div'' [At ''class'' ''card'']
      [El ''span'' [At ''class'' ''red mono-xs''] [Txt (''error: '' @ e)]]]"

definition loadConfig :: "config_server \<Rightarrow> config_page \<Rightarrow> unit outcome \<times> config_page" where
  "loadConfig sv s =
     catch
       (await (on_page (api (cv_list sv) (get_rq ''/config'')) s) (\<lambda>ds s1. (Resolved (), config_loaded ds s1)))
       (\<lambda>e s1. if element ''config-content'' (page s1) then (Resolved (), put_markup ''config-content'' (config_error e) s1)
              else (Rejected ''TypeError'', s1))"

definition config_frame :: "html list" where
  "config_frame = [El ''div'' [At ''class'' ''flex-between mb-8'']
      [El ''span'' [At ''class'' ''card-title'', At ''style'' ''margin:0''] [Txt ''postgresql configuration''],
      El ''div'' [At ''class'' ''flex gap-4'']
       [El ''input'' [At ''type'' ''text'', At ''id'' ''config-search'', At ''placeholder'' ''search settings...'', At ''style'' ''background:var(--bg-2);border:1px solid var(--border);color:var(--text-1); padding:4px 8px;font-size:11px;font-family:var(--font);width:200px''] [],
       El ''select'' [At ''id'' ''config-source-filter'', At ''style'' ''background:var(--bg-2);border:1px solid var(--border);color:var(--text-1); padding:4px 8px;font-size:11px;font-family:var(--font)'']
        [El ''option'' [At ''value'' ''''] [Txt ''all sources'']],
       El ''button'' [At ''onclick'' ''ConfigViewer.reloadPg()'', At ''class'' ''btn btn-sm'', At ''title'' ''pg_reload_conf()'']
        [El ''i'' [At ''data-lucide'' ''refresh-cw'', At ''class'' ''icon-sm''] [],
        Txt '' reload''],
       El ''button'' [At ''onclick'' ''ConfigViewer.restartPg()'', At ''class'' ''btn btn-sm btn-danger'', At ''title'' ''pg_ctl restart'']
        [El ''i'' [At ''data-lucide'' ''power'', At ''class'' ''icon-sm''] [],
        Txt '' restart'']]],
     El ''div'' [At ''id'' ''config-content'']
      [El ''div'' [At ''class'' ''card'']
       [El ''span'' [At ''class'' ''dim mono-xs''] [Txt ''loading...'']]]]"

definition Config_render :: "config_server \<Rightarrow> config_page \<Rightarrow> unit outcome \<times> config_page" where
  "Config_render sv s = loadConfig sv (put_markup ''page-content'' config_frame s)"

section \<open>Editing\<close>

definition restart_note :: "bool \<Rightarrow> html list" where
  "restart_note r =
     (if r then [El ''div'' [At ''class'' ''mono-xs red'', At ''style'' ''margin-bottom:10px''] [Txt (u_warn @ '' requires postgresql restart'')]] else [El ''div'' [At ''class'' ''mono-xs green'', At ''style'' ''margin-bottom:10px''] [Txt ''requires reload only'']])"

definition edit_dialog :: "string \<Rightarrow> string \<Rightarrow> bool \<Rightarrow> html list" where
  "edit_dialog name cur restart = [El ''div'' [At ''class'' ''modal-dialog'']
      [El ''div'' [At ''class'' ''modal-header'']
       [El ''span'' [At ''class'' ''modal-title''] [Txt ''edit parameter''],
       El ''button'' [At ''class'' ''modal-close'', At ''onclick'' (''document.getElementById('' @ sq @ ''config-modal'' @ sq @ '').remove()'')] [Txt ''&times;'']],
      El ''div'' [At ''class'' ''modal-body'']
       ([El ''label'' [] [Txt ''parameter''],
        El ''div'' [At ''class'' ''mono-xs accent'', At ''style'' ''margin-bottom:10px''] [Txt (esc5 name)],
        El ''label'' [] [Txt ''current value''],
        El ''div'' [At ''class'' ''mono-xs dim'', At ''style'' ''margin-bottom:10px''] [Txt (esc5 cur)]] @ (restart_note restart) @ [El ''label'' [] [Txt ''new value''],
        El ''input'' [At ''type'' ''text'', At ''id'' ''config-modal-input'', At ''value'' (esc5 cur), Flag ''autofocus''] []]),
      El ''div'' [At ''class'' ''modal-footer'']
       [El ''button'' [At ''class'' ''btn btn-sm'', At ''onclick'' (''document.getElementById('' @ sq @ ''config-modal'' @ sq @ '').remove()'')] [Txt ''cancel''],
       El ''button'' [At ''class'' ''btn btn-sm btn-primary'', At ''id'' ''config-modal-save''] [Txt ''save'']]]]"

definition config_edit :: "string \<Rightarrow> string \<Rightarrow> string \<Rightarrow> config_page \<Rightarrow> config_page" where
  "config_edit name cur ctx s =
     after 50 ConfigFocus
       (upd_page (add_overlay ''config-modal'' (edit_dialog name cur (ctx = ''postmaster'')))
         (s\<lparr>cf_edit := Some (name, cur, ctx = ''postmaster'')\<rparr>))"

definition close_edit :: "config_page \<Rightarrow> config_page" where
  "close_edit s = upd_page (remove_overlay ''config-modal'') (s\<lparr>cf_edit := None\<rparr>)"

definition set_rq :: "string \<Rightarrow> string \<Rightarrow> request" where
  "set_rq name v = post_rq (''/config/set?name='' @ encode_uri name @ ''&value='' @ encode_uri v) None"

definition save_edit :: "config_server \<Rightarrow> config_page \<Rightarrow> unit outcome \<times> config_page" where
  "save_edit sv s =
     (case cf_edit s of
        None \<Rightarrow> (Resolved (), s)
      | Some (name, cur, restart) \<Rightarrow>
          (let v = value_of ''config-modal-input'' (page s) in
           if v = cur then (Resolved (), close_edit s)
           else catch
             (await (on_page (apiProtected (cv_set sv) (set_rq name v)) s) (\<lambda>_ s1.
                loadConfig sv (close_edit
                  (toast (name @ '' = '' @ v @ (if restart then '' (restart required)'' else '' (reloaded)'')) ''success'' s1))))
             (\<lambda>e s1. (Resolved (), close_edit s1))))"

definition edit_key :: "config_server \<Rightarrow> string \<Rightarrow> config_page \<Rightarrow> unit outcome \<times> config_page" where
  "edit_key sv k s =
     (if k = ''Enter'' then save_edit sv s else if k = ''Escape'' then (Resolved (), close_edit s) else (Resolved (), s))"

section \<open>Reload and restart\<close>

definition reloadPg :: "config_server \<Rightarrow> config_page \<Rightarrow> unit outcome \<times> config_page" where
  "reloadPg sv s =
     catch
       (await (catch (on_page (apiProtected (cv_set sv) (post_rq ''/config/set?name=__reload__&value=1'' None)) s) ignore) (\<lambda>_ s1.
        await (on_page (apiProtected (cv_execute sv)
                 (post_rq ''/sql/execute'' (Some (JObj [(''query'', JStr ''SELECT pg_reload_conf()'')])))) s1) (\<lambda>_ s2.
          loadConfig sv (toast ''PostgreSQL configuration reloaded'' ''success'' s2))))
       ignore"

definition restart_message :: string where
  "restart_message =
     ''Restart PostgreSQL?'' @ [CHR 0x0A, CHR 0x0A] @ ''This will briefly disconnect all clients.'' @ [CHR 0x0A]
     @ ''Required for '' @ dq @ ''postmaster'' @ dq @ '' context settings.''"

definition restartPg :: "config_server \<Rightarrow> config_page \<Rightarrow> unit outcome \<times> config_page" where
  "restartPg sv s =
     confirmed ''restart postgresql'' restart_message (danger_options ''restart'')
       (\<lambda>s0. catch
          (await (on_page (apiProtected (cv_restart sv) (post_rq ''/config/restart'' None)) s0) (\<lambda>_ s1.
             (Resolved (), after 5000 ConfigReloaded
               (toast (''PostgreSQL restart initiated '' @ u_dash @ '' reconnecting in 5s...'') ''info'' s1))))
          ignore) s"

text \<open>The callback of the timer.\<close>

definition config_restarted :: "config_server \<Rightarrow> config_page \<Rightarrow> unit outcome \<times> config_page" where
  "config_restarted sv s =
     catch (await (loadConfig sv s) (\<lambda>_ s1. (Resolved (), toast ''PostgreSQL restarted'' ''success'' s1)))
       (\<lambda>e s1. (Resolved (), toast (''Still restarting '' @ u_dash @ '' try refreshing'') ''warning'' s1))"

section \<open>The literals of the edit button\<close>

lemma edit_args:
  "handler_args ''ConfigViewer.edit'' (edit_call i) =
     js_args (sq @ g_name i @ sq @ '','' @ sq @ g_setting i @ sq @ '','' @ sq @ g_context i @ sq @ '')'')"
  using lit5.handler_three [of "''ConfigViewer.edit''" "g_name i" "g_setting i" "g_context i"] by (simp add: edit_call_def)

lemma edit_args_plain:
  assumes "js_plain (g_name i)" "js_plain (g_setting i)" "js_plain (g_context i)"
  shows "handler_args ''ConfigViewer.edit'' (edit_call i) = Some ([g_name i, g_setting i, g_context i], [])"
  using lit5.three_passed_on [OF _ assms, of "''ConfigViewer.edit''"] by (simp add: edit_call_def)

lemma edit_dialog_input:
  "map_of (nodes_of_list (edit_dialog name cur r)) ''config-modal-input'' \<noteq> None
   \<and> val (the (map_of (nodes_of_list (edit_dialog name cur r)) ''config-modal-input'')) = one_line cur"
  by (cases r) (simp_all add: edit_dialog_def restart_note_def nodes_of_list_def mk_node_def e5.decode_esc)

lemma config_edit_value: "value_of ''config-modal-input'' (page (config_edit name cur ctx s)) = one_line cur"
  using edit_dialog_input [of name cur "ctx = ''postmaster''"]
  by (auto simp: config_edit_def after_def value_of_def add_overlay_def Let_def map_add_def split: option.splits)

lemma config_edit_edit: "cf_edit (config_edit name cur ctx s) = Some (name, cur, ctx = ''postmaster'')"
  by (simp add: config_edit_def after_def upd_page_def)

lemma sep_unique: "c \<notin> set a \<Longrightarrow> c \<notin> set b \<Longrightarrow> a @ c # r = b @ c # r' \<longleftrightarrow> a = b \<and> r = r'"
proof (induction a arbitrary: b)
  case Nil
  then show ?case by (cases b) auto
next
  case (Cons x xs)
  then show ?case by (cases b) auto
qed

lemma set_rq_inject: "set_rq n v = set_rq n' v' \<longleftrightarrow> n = n' \<and> v = v'"
proof -
  have "encode_uri n @ CHR ''&'' # r = encode_uri n' @ CHR ''&'' # r' \<longleftrightarrow> encode_uri n = encode_uri n' \<and> r = r'" for r r'
    using sep_unique [OF encode_uri_separators(1) encode_uri_separators(1)] .
  then show ?thesis by (auto simp: set_rq_def post_rq_def encode_uri_inject)
qed

section \<open>Grouping and filtering\<close>

lemma group_push_mset: "mset (concat (map snd (group_push k x gs))) = add_mset x (mset (concat (map snd gs)))"
  by (induction k x gs rule: group_push.induct) auto

lemma group_by_mset: "mset (concat (map snd (group_by key xs))) = mset xs"
  by (induction xs rule: rev_induct) (auto simp: group_by_snoc group_push_mset)

lemma config_val_ids: "j \<in> fst ` set (nodes_of_list (config_markup ds)) \<Longrightarrow> starts_with ''val-'' j"
proof -
  have button: "concat (map nodes_of (edit_button i)) = []" for i by (simp add: edit_button_def)
  have row: "j \<in> fst ` set (concat (map nodes_of (config_row i))) \<Longrightarrow> starts_with ''val-'' j" for i j
    by (auto simp: config_row_def button)
  have grp: "j \<in> fst ` set (concat (map nodes_of (config_group g))) \<Longrightarrow> starts_with ''val-'' j" for g j
    using row by (force simp: config_group_def image_iff)
  have "j \<in> fst ` set (nodes_of_list (config_markup ds)) \<Longrightarrow> starts_with ''val-'' j" for j
    using grp by (force simp: config_markup_def nodes_of_list_def image_iff split: if_splits)
  then show "j \<in> fst ` set (nodes_of_list (config_markup ds)) \<Longrightarrow> starts_with ''val-'' j" for j .
qed

lemma config_ids: "''config-content'' \<notin> fst ` set (nodes_of_list (config_markup ds))"
  using config_val_ids [of "''config-content''" ds] by auto

text \<open>The elements inside the table are the value cells; writing it keeps every other element.\<close>

definition cells_only :: "browser \<Rightarrow> bool" where
  "cells_only b =
     (case Browser.dom b ''config-content'' of
        None \<Rightarrow> False
      | Some n \<Rightarrow> (case content n of Markup hs \<Rightarrow> list_all (\<lambda>p. starts_with ''val-'' (fst p)) (nodes_of_list hs) | Plain t \<Rightarrow> True))"

lemma cells_only_write:
  assumes "cells_only b"
  shows "cells_only (set_inner ''config-content'' (config_markup ds) b)"
    and "\<not> starts_with ''val-'' j \<Longrightarrow> j \<noteq> ''config-content'' \<Longrightarrow> Browser.dom (set_inner ''config-content'' (config_markup ds) b) j = Browser.dom b j"
proof -
  obtain n where n: "Browser.dom b ''config-content'' = Some n"
    using assms by (auto simp: cells_only_def split: option.splits)
  have vals: "list_all (\<lambda>p. starts_with ''val-'' (fst p)) (nodes_of_list (config_markup ds))"
    using config_val_ids by (fastforce simp: list_all_iff)
  have fresh: "map_of (nodes_of_list (config_markup ds)) k = None" if "\<not> starts_with ''val-'' k" for k
    using config_val_ids [of k ds] that by (auto simp: map_of_eq_None_iff)
  show "cells_only (set_inner ''config-content'' (config_markup ds) b)"
    using n vals fresh [of "''config-content''"] by (simp add: cells_only_def set_inner_def map_add_def)
  show "Browser.dom (set_inner ''config-content'' (config_markup ds) b) j = Browser.dom b j"
    if "\<not> starts_with ''val-'' j" "j \<noteq> ''config-content''"
  proof -
    have "j \<notin> fst ` set (nodes_of_list hs)" if "content n = Markup hs" for hs
      using assms n that \<open>\<not> starts_with ''val-'' j\<close> by (auto simp: cells_only_def list_all_iff)
    then have "drop_ids (content n) (Browser.dom b) j = Browser.dom b j"
      by (cases "content n") (auto simp: drop_ids_def)
    then show ?thesis using n fresh [OF that(1)] that(2) by (simp add: set_inner_def map_add_def)
  qed
qed

section \<open>Properties\<close>

text \<open>
  C32: for a setting without quotes, backslashes and line breaks, the edit button of its row opens the dialog with that
  setting's name, and the input holds its current value; saving it unchanged sends nothing and closes the dialog.
\<close>

theorem edit_opens_row:
  assumes "js_plain (g_name i)" "js_plain (g_setting i)" "js_plain (g_context i)"
  shows "\<exists>n v c. handler_args ''ConfigViewer.edit'' (edit_call i) = Some ([n, v, c], []) \<and> n = g_name i
    \<and> value_of ''config-modal-input'' (page (config_edit n v c s)) = g_setting i
    \<and> save_edit sv (config_edit n v c s) = (Resolved (), close_edit (config_edit n v c s))
    \<and> requests (close_edit (config_edit n v c s)) = requests s
    \<and> element ''config-modal'' (page (close_edit (config_edit n v c s))) = False"
proof -
  let ?s = "config_edit (g_name i) (g_setting i) (g_context i) s"
  have val: "value_of ''config-modal-input'' (page (config_edit n (g_setting i) c s)) = g_setting i" for n c
    by (simp only: config_edit_value js_plain_line [OF assms(2)])
  have "save_edit sv ?s = (Resolved (), close_edit ?s)"
    using val [of "g_name i" "g_context i"]
    unfolding save_edit_def Let_def by (simp add: config_edit_edit)
  moreover have "requests (close_edit ?s) = requests s"
    by (simp add: close_edit_def config_edit_def)
  moreover have "\<not> element ''config-modal'' (page (close_edit ?s))"
    by (simp add: close_edit_def remove_overlay_gone)
  ultimately show ?thesis using edit_args_plain [OF assms] val by blast
qed

definition sample_setting :: "string \<Rightarrow> pg_setting" where
  "sample_setting v = \<lparr>g_name = ''work_mem'', g_setting = v, g_unit = Some ''kB'', g_desc = ''memory'', g_category = ''Resource'',
     g_context = ''user'', g_source = ''default''\<rparr>"

definition sample_config :: config_page where
  "sample_config = \<lparr>cfg_cache = None, dbs_cache = None,
     page = sample_browser\<lparr>dom := [''config-content'' \<mapsto> mk_node ''div'' [] [], ''config-search'' \<mapsto> mk_node ''input'' [] [],
       ''config-source-filter'' \<mapsto> mk_node ''select'' [] [], ''toast-container'' \<mapsto> mk_node ''div'' [] []]\<rparr>,
     cf_data = [], cf_edit = None\<rparr>"

definition refusing_server :: config_server where
  "refusing_server = \<lparr>cv_list = (\<lambda>h q. HttpError ''starting up'' ''503''), cv_set = (\<lambda>h q. Ok (Some ())), cv_execute = (\<lambda>h q. Ok (Some ())),
     cv_restart = (\<lambda>h q. Ok (Some ()))\<rparr>"

theorem edit_opens_row_witness:
  "\<exists>n v c. handler_args ''ConfigViewer.edit'' (edit_call (sample_setting ''4096'')) = Some ([n, v, c], []) \<and> n = g_name (sample_setting ''4096'')
    \<and> value_of ''config-modal-input'' (page (config_edit n v c sample_config)) = g_setting (sample_setting ''4096'')
    \<and> save_edit refusing_server (config_edit n v c sample_config) = (Resolved (), close_edit (config_edit n v c sample_config))
    \<and> requests (close_edit (config_edit n v c sample_config)) = requests sample_config
    \<and> element ''config-modal'' (page (close_edit (config_edit n v c sample_config))) = False"
  by (rule edit_opens_row) (simp_all add: sample_setting_def)

text \<open>
  the escaping for the attribute is undone before the script is read: a value with a single quote, such as
  an archive command, ends its literal early, and the edit button does nothing.
\<close>

theorem edit_quote_dead:
  assumes "g_setting i = p @ CHR 0x27 # c # q" "js_plain p" "c \<noteq> CHR '')''" "c \<noteq> CHR '',''" "js_plain (g_name i)"
  shows "handler_args ''ConfigViewer.edit'' (edit_call i) = None"
  using js_args_broken [OF assms(2-4), of "q @ sq @ '','' @ sq @ g_context i @ sq @ '')''"]
  by (simp add: edit_args js_args_more assms(1,5))

theorem edit_quote_dead_witness:
  "handler_args ''ConfigViewer.edit'' (edit_call (sample_setting (''cp %p '' @ sq @ ''/a'' @ sq))) = None"
  by (rule edit_quote_dead [of _ "''cp %p ''" "CHR ''/''" "''a'' @ sq"]) (simp_all add: sample_setting_def)

text \<open>
  C25: the table shows every setting that matches the search and the source, once, in the group of its category, each
  category once, and nothing else.
\<close>

theorem config_shows_matches:
  fixes s :: config_page
  assumes "element ''config-content'' (page s)"
  defines "search \<equiv> to_lower (value_of ''config-search'' (page s))"
    and "source \<equiv> value_of ''config-source-filter'' (page s)"
  shows "\<exists>ds. inner ''config-content'' (page (filterAndRender s)) = config_markup ds
    \<and> distinct (map fst (config_groups ds))
    \<and> list_all (\<lambda>(c, is). is \<noteq> [] \<and> list_all (\<lambda>i. g_category i = c) is) (config_groups ds)
    \<and> mset (concat (map snd (config_groups ds)))
        = filter_mset (\<lambda>i. (search = [] \<or> config_match search i) \<and> (source = [] \<or> g_source i = source)) (mset (cf_data s))"
proof -
  let ?ds = "config_filter search source (cf_data s)"
  have "inner ''config-content'' (page (filterAndRender s)) = config_markup ?ds"
    using set_inner_content [OF assms(1) config_ids] by (simp add: filterAndRender_def put_markup_def search_def source_def)
  moreover have "mset ?ds = filter_mset (\<lambda>i. (search = [] \<or> config_match search i) \<and> (source = [] \<or> g_source i = source)) (mset (cf_data s))"
    by (auto simp: config_filter_def Let_def filter_filter_mset intro!: filter_mset_cong)
  moreover have "list_all (\<lambda>(c, is). is \<noteq> [] \<and> list_all (\<lambda>i. g_category i = c) is) (config_groups ?ds)"
    by (auto simp: config_groups_def list_all_iff dest: group_by_member)
  moreover have "distinct (map fst (config_groups ?ds))" unfolding config_groups_def by (rule distinct_keys_group_by)
  ultimately show ?thesis unfolding config_groups_def group_by_mset by blast
qed

theorem config_shows_matches_witness:
  "\<exists>ds. inner ''config-content'' (page (filterAndRender (sample_config\<lparr>cf_data := [sample_setting ''1'']\<rparr>))) = config_markup ds
    \<and> distinct (map fst (config_groups ds))
    \<and> list_all (\<lambda>(c, is). is \<noteq> [] \<and> list_all (\<lambda>i. g_category i = c) is) (config_groups ds)
    \<and> mset (concat (map snd (config_groups ds)))
        = filter_mset (\<lambda>i. (to_lower (value_of ''config-search'' (page (sample_config\<lparr>cf_data := [sample_setting ''1'']\<rparr>))) = []
             \<or> config_match (to_lower (value_of ''config-search'' (page (sample_config\<lparr>cf_data := [sample_setting ''1'']\<rparr>)))) i)
          \<and> (value_of ''config-source-filter'' (page (sample_config\<lparr>cf_data := [sample_setting ''1'']\<rparr>)) = []
             \<or> g_source i = value_of ''config-source-filter'' (page (sample_config\<lparr>cf_data := [sample_setting ''1'']\<rparr>))))
           (mset (cf_data (sample_config\<lparr>cf_data := [sample_setting ''1'']\<rparr>)))"
  by (rule config_shows_matches) (simp add: sample_config_def element_def)

text \<open>
  every load appends the source options once more: after a second load of the same settings, as after each saved
  edit, the filter offers every source twice.
\<close>

theorem sources_duplicate:
  assumes "Browser.dom (page s) ''config-source-filter'' = Some n" "content n = Markup hs" "cells_only (page s)"
  shows "inner ''config-source-filter'' (page (config_loaded ds (config_loaded ds s)))
    = hs @ map source_option (source_names ds) @ map source_option (source_names ds)"
proof -
  let ?o = "map source_option (source_names ds)"
  have add: "Browser.dom (append_children ''config-source-filter'' ?o b) ''config-source-filter'' = Some (n'\<lparr>content := Markup (gs @ ?o)\<rparr>)
      \<and> cells_only (append_children ''config-source-filter'' ?o b)"
    if "Browser.dom b ''config-source-filter'' = Some n'" "content n' = Markup gs" "cells_only b" for b n' gs
    using that by (simp add: append_children_def upd_node_def cells_only_def)
  have load: "\<exists>n''. Browser.dom (page (config_loaded ds t)) ''config-source-filter'' = Some n'' \<and> content n'' = Markup (gs @ ?o) \<and> cells_only (page (config_loaded ds t))"
    if "Browser.dom (page t) ''config-source-filter'' = Some n'" "content n' = Markup gs" "cells_only (page t)" for t n' gs
    using add [OF that] by (simp add: config_loaded_def filterAndRender_def Let_def put_markup_def cells_only_write)
  obtain n1 where "Browser.dom (page (config_loaded ds s)) ''config-source-filter'' = Some n1" "content n1 = Markup (hs @ ?o)" "cells_only (page (config_loaded ds s))"
    using load [OF assms] by blast
  from load [OF this] show ?thesis by (auto simp: inner_def)
qed

theorem sources_duplicate_witness:
  "inner ''config-source-filter'' (page (config_loaded [sample_setting ''1''] (config_loaded [sample_setting ''1''] sample_config)))
    = [] @ map source_option (source_names [sample_setting ''1'']) @ map source_option (source_names [sample_setting ''1''])"
  by (rule sources_duplicate [of _ "mk_node ''select'' [] []"]) (simp_all add: sample_config_def mk_node_def cells_only_def nodes_of_list_def)

text \<open>
  C39: \<^verbatim>\<open>loadConfig\<close> reports its errors in the page and does not reject: five seconds after a restart the page says
  that PostgreSQL restarted even when the settings could not be read, and the warning is never shown while the page is open.
\<close>

theorem restart_claims_success:
  fixes s :: config_page
  assumes "on_page (api (cv_list sv) (get_rq ''/config'')) s = (Rejected e, s1)" "element ''config-content'' (page s)"
  shows "config_restarted sv s = (Resolved (), toast ''PostgreSQL restarted'' ''success'' (put_markup ''config-content'' (config_error e) s1))"
proof -
  have "element ''config-content'' (page s1)"
    using call_dom(1) [OF assms(1)] assms(2) by (simp add: element_def)
  then show ?thesis using assms(1) by (simp add: config_restarted_def loadConfig_def)
qed

theorem restart_claims_success_witness:
  "\<exists>s1. config_restarted refusing_server sample_config
     = (Resolved (), toast ''PostgreSQL restarted'' ''success'' (put_markup ''config-content'' (config_error ''starting up'') s1))"
proof -
  have "\<exists>s1. on_page (api (cv_list refusing_server) (get_rq ''/config'')) sample_config = (Rejected ''starting up'', s1)"
    by (simp add: on_page_eq api_def apiProtected_def sample_config_def sample_browser_def get_item_def refusing_server_def tryRequest.simps Let_def)
  then obtain s1 where "on_page (api (cv_list refusing_server) (get_rq ''/config'')) sample_config = (Rejected ''starting up'', s1)" by blast
  from restart_claims_success [OF this] show ?thesis by (auto simp: sample_config_def element_def)
qed

text \<open>
  The dialog of a setting sends the name and the new value apart: two different settings or values are never sent as the same request.
\<close>

theorem set_request_exact: "set_rq n v = set_rq n' v' \<longleftrightarrow> n = n' \<and> v = v'"
  by (rule set_rq_inject)

end
