(* ===== verification/Logs.thy ===== *)
theory Logs
  imports Site
begin

text \<open>
  The log stream, logs.js: the recent lines, the socket that appends new ones, and the window that is
  kept. The child nodes of the output element are its markup, a line being a span and the text node of
  the line break behind it. Sockets are numbered in the order of their creation; closing one delivers
  its close event later, to the handler it has then.
\<close>

section \<open>State\<close>

record log_socket =
  lk_url :: string
  lk_open :: bool
  lk_wired :: bool
  lk_done :: bool

record logs_page = site +
  lo_socks :: "log_socket list"
  lo_ws :: "nat option"
  lo_auto :: bool
  lo_frames :: nat

section \<open>Lines\<close>

definition log_class :: "string \<Rightarrow> string" where
  "log_class line =
     (let l = to_lower line in
      if str_includes ''error'' l \<or> str_includes ''fatal'' l \<or> str_includes ''panic'' l then ''red''
      else if str_includes ''warning'' l \<or> str_includes ''warn'' l then ''yellow''
      else if str_includes ''log'' l \<or> str_includes ''notice'' l then ''dim''
      else if str_includes ''statement'' l then ''accent'' else [])"

definition colorize :: "string \<Rightarrow> html list" where
  "colorize line = [El ''span'' [At ''class'' (log_class line)] [Txt (escape3 line)], Txt [CHR 0x0A]]"

text \<open>\<^verbatim>\<open>requestAnimationFrame\<close> queues the scrolling.\<close>

definition scrollToBottom :: "logs_page \<Rightarrow> logs_page" where
  "scrollToBottom s = (if lo_auto s then s\<lparr>lo_frames := Suc (lo_frames s)\<rparr> else s)"

function trim_nodes :: "html list \<Rightarrow> html list" where
  "trim_nodes hs = (if 2000 < length hs then trim_nodes (tl hs) else hs)"
  by auto
termination by (relation "measure length") auto

declare trim_nodes.simps [simp del]

definition trim_children :: "string \<Rightarrow> browser \<Rightarrow> browser" where
  "trim_children i =
     upd_node i (\<lambda>n. n\<lparr>content := (case content n of Markup hs \<Rightarrow> Markup (trim_nodes hs) | Plain t \<Rightarrow> Plain t)\<rparr>)"

definition appendLine :: "string \<Rightarrow> logs_page \<Rightarrow> logs_page" where
  "appendLine line s =
     (if \<not> element ''log-output'' (page s) then s
      else scrollToBottom (upd_page (\<lambda>b. trim_children ''log-output'' (append_children ''log-output'' (colorize line) b)) s))"

definition clear_log :: "logs_page \<Rightarrow> logs_page" where
  "clear_log s = put_markup ''log-output'' [] s"

definition recent_markup :: "string list \<Rightarrow> html list" where
  "recent_markup ls = (if ls = [] then [Txt ''no logs''] else concat (map colorize ls))"

definition loadRecent :: "string list net \<Rightarrow> logs_page \<Rightarrow> unit outcome \<times> logs_page" where
  "loadRecent net s =
     catch
       (await (on_page (api net (get_rq ''/logs?n=500'')) s) (\<lambda>ls s1.
          (Resolved (), if element ''log-output'' (page s1)
                        then scrollToBottom (put_markup ''log-output'' (recent_markup ls) s1) else s1)))
       (\<lambda>e s1. (Resolved (), upd_page (set_text ''log-output'' (''error loading logs: '' @ e)) s1))"

section \<open>The socket\<close>

definition log_url :: "bool \<Rightarrow> string \<Rightarrow> browser \<Rightarrow> string" where
  "log_url secure host b =
     (if secure then ''wss'' else ''ws'') @ ''://'' @ host @ ''/api/logs/ws?session_id='' @ encode_uri (get_item session_key b)"

definition upd_sock :: "nat \<Rightarrow> (log_socket \<Rightarrow> log_socket) \<Rightarrow> logs_page \<Rightarrow> logs_page" where
  "upd_sock i f s = (if i < length (lo_socks s) then s\<lparr>lo_socks := (lo_socks s)[i := f (lo_socks s ! i)]\<rparr> else s)"

definition close_ws :: "logs_page \<Rightarrow> logs_page" where
  "close_ws s = (case lo_ws s of None \<Rightarrow> s | Some i \<Rightarrow> (upd_sock i (\<lambda>k. k\<lparr>lk_open := False\<rparr>) s)\<lparr>lo_ws := None\<rparr>)"

text \<open>\<^verbatim>\<open>accepted\<close>: whether the constructor returns a socket or throws.\<close>

definition connectWs :: "bool \<Rightarrow> bool \<Rightarrow> string \<Rightarrow> logs_page \<Rightarrow> logs_page" where
  "connectWs accepted secure host s =
     (let s1 = close_ws s in
      if \<not> accepted then s1
      else s1\<lparr>lo_socks := lo_socks s1 @ [\<lparr>lk_url = log_url secure host (page s1), lk_open = True, lk_wired = True, lk_done = False\<rparr>],
              lo_ws := Some (length (lo_socks s1))\<rparr>)"

definition log_destroy :: "logs_page \<Rightarrow> logs_page" where
  "log_destroy s =
     (case lo_ws s of None \<Rightarrow> s | Some i \<Rightarrow> close_ws (upd_sock i (\<lambda>k. k\<lparr>lk_wired := False\<rparr>) s))"

text \<open>The close event, once per socket: of a socket that was closed here or lost its connection.\<close>

definition log_onclose :: "nat \<Rightarrow> logs_page \<Rightarrow> logs_page" where
  "log_onclose i s =
     (if length (lo_socks s) \<le> i \<or> lk_done (lo_socks s ! i) then s
      else (let s1 = upd_sock i (\<lambda>k. k\<lparr>lk_open := False, lk_done := True\<rparr>) s
            in if lk_wired (lo_socks s ! i) then s1\<lparr>lo_ws := None\<rparr> else s1))"

text \<open>A frame: \<^verbatim>\<open>None\<close> is one without a line, or that is no JSON object.\<close>

definition log_onmessage :: "nat \<Rightarrow> string option \<Rightarrow> logs_page \<Rightarrow> logs_page" where
  "log_onmessage i d s =
     (if length (lo_socks s) \<le> i \<or> \<not> lk_open (lo_socks s ! i) then s
      else (case d of Some line \<Rightarrow> if line \<noteq> [] then appendLine line s else s | None \<Rightarrow> s))"

section \<open>Rendering\<close>

definition logs_frame :: "html list" where
  "logs_frame = [El ''div'' [At ''class'' ''flex-between mb-8'']
      [El ''span'' [At ''class'' ''card-title'', At ''style'' ''margin:0''] [Txt ''postgresql log stream''],
      El ''div'' [At ''class'' ''flex gap-4'']
       [El ''label'' [At ''class'' ''flex-center gap-4 mono-xs dim'']
        [El ''input'' [At ''type'' ''checkbox'', At ''id'' ''log-autoscroll'', Flag ''checked''] [],
        Txt '' auto-scroll''],
       El ''button'' [At ''onclick'' ''LogStream.clear()'', At ''class'' ''btn btn-sm'']
        [El ''i'' [At ''data-lucide'' ''trash-2'', At ''class'' ''icon-sm''] [],
        Txt '' clear'']]],
     El ''div'' [At ''class'' ''card'', At ''id'' ''log-card'', At ''style'' ''padding:0'']
      [El ''pre'' [At ''id'' ''log-output'', At ''style'' '' margin:0; padding:8px; font-size:11px; line-height:1.6; height:calc(100vh - 116px); overflow:auto; color:var(--text-1); white-space:pre-wrap; word-break:break-all; ''] [Txt ''loading...'']]]"

definition autoscroll_changed :: "bool \<Rightarrow> logs_page \<Rightarrow> logs_page" where
  "autoscroll_changed on s = scrollToBottom (upd_page (set_checked ''log-autoscroll'' on) (s\<lparr>lo_auto := on\<rparr>))"

definition Logs_render :: "string list net \<Rightarrow> bool \<Rightarrow> bool \<Rightarrow> string \<Rightarrow> logs_page \<Rightarrow> unit outcome \<times> logs_page" where
  "Logs_render net accepted secure host s =
     await (loadRecent net (put_markup ''page-content'' logs_frame s)) (\<lambda>_ s1. (Resolved (), connectWs accepted secure host s1))"

section \<open>The window\<close>

lemma trim_nodes_drop: "trim_nodes hs = drop (length hs - 2000) hs"
proof (induction hs rule: trim_nodes.induct)
  case (1 hs)
  show ?case
  proof (cases "2000 < length hs")
    case True
    then have "trim_nodes hs = drop (length (tl hs) - 2000) (tl hs)" using 1 by (subst trim_nodes.simps) simp
    also have "\<dots> = drop (Suc (length hs - 1 - 2000)) hs" by (cases hs) auto
    also have "Suc (length hs - 1 - 2000) = length hs - 2000" using True by simp
    finally show ?thesis .
  qed (simp add: trim_nodes.simps)
qed

definition log_nodes :: "string list \<Rightarrow> html list" where
  "log_nodes ls = concat (map colorize ls)"

lemma log_nodes_simps [simp]: "log_nodes [] = []" "log_nodes (ls @ [l]) = log_nodes ls @ colorize l" "length (log_nodes ls) = 2 * length ls"
  by (simp_all add: log_nodes_def length_concat comp_def colorize_def sum_list_triv)

lemma drop_log_nodes: "drop (2 * n) (log_nodes ls) = log_nodes (drop n ls)"
proof (induction n arbitrary: ls)
  case (Suc n)
  then show ?case by (cases ls) (simp_all add: log_nodes_def colorize_def)
qed simp

text \<open>The last \<open>n\<close> members of a list, and the lines that are the last of a list of nodes.\<close>

definition take_last :: "nat \<Rightarrow> 'a list \<Rightarrow> 'a list" where
  "take_last n xs = drop (length xs - n) xs"

lemma take_last_again: "take_last n (take_last n xs @ ys) = take_last n (xs @ ys)"
  by (cases "length xs \<le> n") (auto simp: take_last_def add.commute)

lemma take_last_append: "n \<le> length ys \<Longrightarrow> take_last n (xs @ ys) = take_last n ys"
  by (simp add: take_last_def)

lemma take_last_log_nodes: "take_last 2000 (log_nodes ls) = log_nodes (take_last 1000 ls)"
proof -
  have "2 * length ls - 2000 = 2 * (length ls - 1000)" by simp
  then show ?thesis by (simp add: take_last_def drop_log_nodes)
qed

text \<open>The child nodes of the output element, and what lines and the clear button do to them.\<close>

definition log_children :: "logs_page \<Rightarrow> html list" where
  "log_children s =
     (case Browser.dom (page s) ''log-output'' of
        Some n \<Rightarrow> (case content n of Markup hs \<Rightarrow> hs | Plain t \<Rightarrow> if t = [] then [] else [Txt (escHtml t)])
      | None \<Rightarrow> [])"

datatype log_event = Line string | Cleared

primrec log_do :: "log_event \<Rightarrow> logs_page \<Rightarrow> logs_page" where
  "log_do (Line l) s = appendLine l s"
| "log_do Cleared s = clear_log s"

definition lines_of :: "log_event list \<Rightarrow> string list" where
  "lines_of es = concat (map (\<lambda>e. case e of Line l \<Rightarrow> [l] | Cleared \<Rightarrow> []) (rev (takeWhile (\<lambda>e. e \<noteq> Cleared) (rev es))))"

lemma lines_of_simps [simp]:
  "lines_of [] = []" "lines_of (es @ [Line l]) = lines_of es @ [l]" "lines_of (es @ [Cleared]) = []"
  by (simp_all add: lines_of_def)

lemma log_frames [simp]:
  "leaf ''log-output'' (page (scrollToBottom s)) = leaf ''log-output'' (page s)" "log_children (scrollToBottom s) = log_children s"
  by (simp_all add: scrollToBottom_def log_children_def)

lemma appendLine_children:
  assumes "leaf ''log-output'' (page s)"
  shows "leaf ''log-output'' (page (appendLine l s))" "log_children (appendLine l s) = take_last 2000 (log_children s @ colorize l)"
proof -
  obtain n where n: "Browser.dom (page s) ''log-output'' = Some n" "case content n of Markup hs \<Rightarrow> nodes_of_list hs = [] | Plain t \<Rightarrow> True"
    using assms by (auto simp: leaf_def)
  let ?hs = "trim_nodes (log_children s @ colorize l)"
  have keep: "nodes_of_list (drop k hs) = []" if "nodes_of_list hs = []" for k and hs :: "html list"
    using that by (auto simp: nodes_of_list_def dest: in_set_dropD)
  have old: "nodes_of_list (log_children s) = []"
    using n by (cases "content n") (auto simp: log_children_def nodes_of_list_def)
  have "nodes_of_list (log_children s @ colorize l) = []"
    using old by (simp add: nodes_of_list_def colorize_def)
  then have no: "nodes_of_list ?hs = []" unfolding trim_nodes_drop by (rule keep)
  have dom: "Browser.dom (page (appendLine l s)) ''log-output'' = Some (n\<lparr>content := Markup ?hs\<rparr>)"
    using n(1) by (cases "content n")
      (simp_all add: appendLine_def element_def scrollToBottom_def trim_children_def append_children_def upd_node_def log_children_def)
  show "leaf ''log-output'' (page (appendLine l s))" using dom no by (simp add: leaf_def)
  show "log_children (appendLine l s) = take_last 2000 (log_children s @ colorize l)"
    using dom by (simp add: log_children_def [of "appendLine l s"] trim_nodes_drop take_last_def)
qed

lemma clear_log_children:
  assumes "leaf ''log-output'' (page s)"
  shows "leaf ''log-output'' (page (clear_log s))" "log_children (clear_log s) = []"
proof -
  have no: "nodes_of_list [] = []" by (simp add: nodes_of_list_def)
  have eq: "page (clear_log s) = upd_node ''log-output'' (\<lambda>n. n\<lparr>content := Markup []\<rparr>) (page s)"
    by (simp add: clear_log_def put_markup_def set_inner_leaf [OF assms no])
  obtain n where "Browser.dom (page s) ''log-output'' = Some n" using assms by (auto simp: leaf_def)
  then show "leaf ''log-output'' (page (clear_log s))" "log_children (clear_log s) = []"
    unfolding log_children_def leaf_def eq by (simp_all add: upd_node_def no)
qed

lemma log_run:
  assumes "leaf ''log-output'' (page s)"
  shows "leaf ''log-output'' (page (fold log_do es s))
    \<and> log_children (fold log_do es s) =
        (let hs = (if Cleared \<in> set es then [] else log_children s)
         in if lines_of es = [] then hs else take_last 2000 (hs @ log_nodes (lines_of es)))"
proof (induction es rule: rev_induct)
  case (snoc e es)
  then show ?case
    by (cases e) (auto simp: Let_def appendLine_children clear_log_children take_last_again [of _ _ "colorize _", simplified])
qed (simp add: assms)

lemma recent_no_nodes: "nodes_of_list (recent_markup ls) = []"
  by (simp add: recent_markup_def nodes_of_list_def colorize_def)

text \<open>What the first load leaves: the lines, the words for none, the words for a failure, or what was there.\<close>

definition first_nodes :: "string list outcome \<Rightarrow> html list \<Rightarrow> html list" where
  "first_nodes r before =
     (case r of
        Resolved ls \<Rightarrow> if ls = [] then [Txt ''no logs''] else log_nodes ls
      | Rejected e \<Rightarrow> [Txt (escHtml (''error loading logs: '' @ e))]
      | Pending \<Rightarrow> before)"

lemma loadRecent_children:
  assumes "leaf ''log-output'' (page s)"
  shows "leaf ''log-output'' (page (snd (loadRecent net s)))
    \<and> log_children (snd (loadRecent net s)) = first_nodes (fst (on_page (api net (get_rq ''/logs?n=500'')) s)) (log_children s)"
proof -
  obtain r s1 where r: "on_page (api net (get_rq ''/logs?n=500'')) s = (r, s1)" by fastforce
  note d = call_dom(1) [OF r]
  have l: "leaf ''log-output'' (page s1)" using assms leaf_dom [OF d] by simp
  obtain n where n: "Browser.dom (page s1) ''log-output'' = Some n" using l by (auto simp: leaf_def)
  show ?thesis
  proof (cases r)
    case (Resolved ls)
    have "leaf ''log-output'' (set_inner ''log-output'' (recent_markup ls) (page s1))" by (rule leaf_write(1) [OF l l recent_no_nodes])
    moreover have "log_children (put_markup ''log-output'' (recent_markup ls) s1) = recent_markup ls"
      using n by (simp add: put_markup_def set_inner_leaf [OF l recent_no_nodes] log_children_def upd_node_def)
    ultimately show ?thesis using r Resolved n
      by (simp add: loadRecent_def element_def put_markup_def first_nodes_def recent_markup_def log_nodes_def)
  next
    case (Rejected e)
    have "leaf ''log-output'' (set_text ''log-output'' (''error loading logs: '' @ e) (page s1))" by (rule leaf_write(2) [OF l l])
    moreover have "log_children (upd_page (set_text ''log-output'' (''error loading logs: '' @ e)) s1) = [Txt (escHtml (''error loading logs: '' @ e))]"
      using n by (simp add: set_text_leaf [OF l] log_children_def upd_node_def)
    ultimately show ?thesis using r Rejected by (simp add: loadRecent_def first_nodes_def)
  next
    case Pending
    then show ?thesis using r l d by (simp add: loadRecent_def first_nodes_def log_children_def)
  qed
qed

section \<open>One socket\<close>

text \<open>
  The steps of the page when it connects only without a socket of its own, as after \<^verbatim>\<open>destroy\<close>
  and after a lost connection.
\<close>

inductive log_step :: "logs_page \<Rightarrow> logs_page \<Rightarrow> bool" where
  connect: "lo_ws s = None \<Longrightarrow> log_step s (connectWs ok secure host s)"
| destroy: "log_step s (log_destroy s)"
| closed: "log_step s (log_onclose i s)"
| frame: "log_step s (log_onmessage i d s)"
| clear: "log_step s (clear_log s)"
| autoscroll: "log_step s (autoscroll_changed on s)"

inductive_cases log_stepE: "log_step s s'"

definition heard :: "log_socket \<Rightarrow> bool" where
  "heard k = (lk_open k \<or> lk_wired k \<and> \<not> lk_done k)"

definition sockets_ok :: "log_socket list \<Rightarrow> nat option \<Rightarrow> bool" where
  "sockets_ok ks w = (list_all (\<lambda>(i, k). heard k \<longrightarrow> w = Some i) (enumerate 0 ks) \<and> (case w of None \<Rightarrow> True | Some i \<Rightarrow> i < length ks))"

definition one_socket :: "logs_page \<Rightarrow> bool" where
  "one_socket s = sockets_ok (lo_socks s) (lo_ws s)"

lemma sockets_ok_nth: "sockets_ok ks w \<longleftrightarrow> (\<forall>i < length ks. heard (ks ! i) \<longrightarrow> w = Some i) \<and> (case w of None \<Rightarrow> True | Some i \<Rightarrow> i < length ks)"
  by (auto simp: sockets_ok_def list_all_length nth_enumerate_eq)

lemma sockets_ok_new: "sockets_ok ks None \<Longrightarrow> sockets_ok (ks @ [k]) (Some (length ks))"
  unfolding sockets_ok_nth by (auto simp: nth_append less_Suc_eq)

lemma sockets_ok_end:
  assumes "sockets_ok ks w" "\<not> heard k" "w = Some i \<or> w' = w" "w' = w \<or> w' = None"
  shows "sockets_ok (ks[i := k]) w'"
proof -
  have "w' = Some j" if "j < length ks" "heard (ks[i := k] ! j)" for j
  proof (cases "j = i")
    case True
    then show ?thesis using that assms(2) by simp
  next
    case False
    with that have "heard (ks ! j)" by simp
    then have "w = Some j" using assms(1) that(1) by (simp add: sockets_ok_nth)
    with False assms(3) show ?thesis by simp
  qed
  moreover have "case w' of None \<Rightarrow> True | Some j \<Rightarrow> j < length ks"
    using assms(1,4) by (auto simp: sockets_ok_nth split: option.splits)
  ultimately show ?thesis unfolding sockets_ok_nth length_list_update by blast
qed

lemma page_ops_sockets [simp]:
  "lo_socks (scrollToBottom s) = lo_socks s" "lo_ws (scrollToBottom s) = lo_ws s"
  "lo_socks (upd_page f s) = lo_socks s" "lo_ws (upd_page f s) = lo_ws s"
  "lo_socks (appendLine l s) = lo_socks s" "lo_ws (appendLine l s) = lo_ws s"
  by (simp_all add: scrollToBottom_def upd_page_def appendLine_def)

lemma log_step_one: "log_step s s' \<Longrightarrow> one_socket s \<Longrightarrow> one_socket s'"
proof (induction rule: log_step.induct)
  case (connect s ok secure host)
  then show ?case by (simp add: one_socket_def connectWs_def close_ws_def Let_def sockets_ok_new)
next
  case (destroy s)
  show ?case
  proof (cases "lo_ws s")
    case (Some i)
    with destroy have i: "i < length (lo_socks s)" by (simp add: one_socket_def sockets_ok_def)
    have "sockets_ok ((lo_socks s)[i := k]) None" if "\<not> heard k" for k
      using destroy Some that by (intro sockets_ok_end [of _ "lo_ws s"]) (simp_all add: one_socket_def)
    with Some i show ?thesis by (simp add: log_destroy_def close_ws_def upd_sock_def one_socket_def heard_def)
  qed (simp add: log_destroy_def destroy)
next
  case (closed s i)
  let ?k = "lo_socks s ! i"
  show ?case
  proof (cases "length (lo_socks s) \<le> i \<or> lk_done ?k")
    case False
    have own: "lk_wired ?k \<Longrightarrow> lo_ws s = Some i"
      using closed False by (simp add: one_socket_def sockets_ok_nth heard_def)
    have "sockets_ok ((lo_socks s)[i := ?k\<lparr>lk_open := False, lk_done := True\<rparr>]) (if lk_wired ?k then None else lo_ws s)"
      using closed own by (intro sockets_ok_end [of _ "lo_ws s"]) (simp_all add: one_socket_def heard_def)
    with False show ?thesis by (cases "lk_wired ?k") (simp_all add: log_onclose_def upd_sock_def Let_def one_socket_def)
  qed (auto simp: log_onclose_def closed)
next
  case (frame s i d)
  have "lo_socks (log_onmessage i d s) = lo_socks s \<and> lo_ws (log_onmessage i d s) = lo_ws s"
    by (simp add: log_onmessage_def split: option.splits)
  with frame show ?case by (simp add: one_socket_def)
next
  case (clear s)
  then show ?case by (simp add: one_socket_def clear_log_def put_markup_def)
next
  case (autoscroll s on)
  then show ?case by (simp add: one_socket_def autoscroll_changed_def)
qed

lemma log_steps_one: "log_step\<^sup>*\<^sup>* s s' \<Longrightarrow> one_socket s \<Longrightarrow> one_socket s'"
  by (induction rule: rtranclp_induct) (auto intro: log_step_one)

section \<open>Properties\<close>

text \<open>
  C15: the output refines the history of the page: after the first load, whatever came of it, and any sequence of lines
  and uses of the clear button, its child nodes are what the load left (the lines it brought, the words for none or for its failure, or
  what was there while it has no answer; nothing once the output was cleared) and the nodes of the lines since, cut to the last 2000 nodes
  as soon as one line came. A line is its coloured span and the text node of its line break, so the output keeps a thousand lines, where the comment says
  2000: the last thousand of the loaded and appended ones, and after a thousand lines nothing but the last thousand of them.
\<close>

theorem log_window:
  assumes "leaf ''log-output'' (page s)"
  shows "let rs = fst (on_page (api net (get_rq ''/logs?n=500'')) s);
             hs = (if Cleared \<in> set es then [] else first_nodes rs (log_children s));
             ls = lines_of es;
             out = log_children (fold log_do es (snd (loadRecent net s)))
         in out = (if ls = [] then hs else take_last 2000 (hs @ log_nodes ls))
            \<and> (if 1000 \<le> length ls then out = log_nodes (take_last 1000 ls) else True)
            \<and> (case rs of Resolved (r # rs') \<Rightarrow> if Cleared \<in> set es \<or> ls = [] then True else out = log_nodes (take_last 1000 (r # rs' @ ls)) | _ \<Rightarrow> True)"
proof -
  let ?s = "snd (loadRecent net s)"
  let ?rs = "fst (on_page (api net (get_rq ''/logs?n=500'')) s)"
  note l = loadRecent_children [OF assms, of net]
  let ?hs = "if Cleared \<in> set es then [] else first_nodes ?rs (log_children s)"
  have out: "log_children (fold log_do es ?s) = (if lines_of es = [] then ?hs else take_last 2000 (?hs @ log_nodes (lines_of es)))"
    using log_run [OF conjunct1 [OF l], of es] l by (simp add: Let_def)
  have many: "log_children (fold log_do es ?s) = log_nodes (take_last 1000 (lines_of es))" if "1000 \<le> length (lines_of es)"
  proof -
    from that have "lines_of es \<noteq> []" by auto
    with that show ?thesis unfolding out by (simp add: take_last_append take_last_log_nodes)
  qed
  have loaded: "log_children (fold log_do es ?s) = log_nodes (take_last 1000 (r # rs' @ lines_of es))"
    if "?rs = Resolved (r # rs')" "\<not> (Cleared \<in> set es \<or> lines_of es = [])" for r rs'
    using that take_last_log_nodes [of "(r # rs') @ lines_of es"] unfolding out by (simp add: first_nodes_def log_nodes_def)
  show ?thesis
    unfolding Let_def using out many loaded by (auto split: outcome.splits list.splits)
qed

definition sample_logs :: logs_page where
  "sample_logs = \<lparr>cfg_cache = None, dbs_cache = None,
     page = sample_browser\<lparr>dom := [''log-output'' \<mapsto> mk_node ''pre'' [] [], ''log-autoscroll'' \<mapsto> mk_node ''input'' [] []]\<rparr>,
     lo_socks = [], lo_ws = None, lo_auto = True, lo_frames = 0\<rparr>"

theorem log_window_witness:
  "let rs = fst (on_page (api (\<lambda>h q. Ok (Some [])) (get_rq ''/logs?n=500'')) sample_logs);
       hs = (if Cleared \<in> set [Line ''a'', Cleared, Line ''LOG: ready''] then [] else first_nodes rs (log_children sample_logs));
       ls = lines_of [Line ''a'', Cleared, Line ''LOG: ready''];
       out = log_children (fold log_do [Line ''a'', Cleared, Line ''LOG: ready''] (snd (loadRecent (\<lambda>h q. Ok (Some [])) sample_logs)))
   in out = (if ls = [] then hs else take_last 2000 (hs @ log_nodes ls))
      \<and> (if 1000 \<le> length ls then out = log_nodes (take_last 1000 ls) else True)
      \<and> (case rs of Resolved (r # rs') \<Rightarrow> if Cleared \<in> set [Line ''a'', Cleared, Line ''LOG: ready''] \<or> ls = [] then True
           else out = log_nodes (take_last 1000 (r # rs' @ ls)) | _ \<Rightarrow> True)"
  by (rule log_window) (simp add: leaf_def sample_logs_def mk_node_def nodes_of_list_def)

text \<open>
  C16: as long as the page connects only without a socket of its own, at most one socket is open, and it is the one that
  \<^verbatim>\<open>destroy\<close> closes.
\<close>

theorem log_one_socket:
  assumes "log_step\<^sup>*\<^sup>* s s'" "one_socket s"
  shows "one_socket s' \<and> one_socket (log_destroy s') \<and> (filter lk_open (lo_socks (log_destroy s')) = [])"
proof -
  have one: "one_socket s'" by (rule log_steps_one [OF assms])
  then have d: "one_socket (log_destroy s')" by (rule log_step_one [OF log_step.destroy])
  have "lo_ws (log_destroy s') = None" by (simp add: log_destroy_def close_ws_def upd_sock_def split: option.splits)
  then have "\<not> lk_open k" if "k \<in> set (lo_socks (log_destroy s'))" for k
    using d that by (auto simp: one_socket_def sockets_ok_nth heard_def in_set_conv_nth)
  then show ?thesis using one d by (auto simp: filter_empty_conv)
qed

theorem log_one_socket_witness:
  "one_socket (log_destroy (connectWs True True ''h'' sample_logs)) \<and> one_socket (log_destroy (log_destroy (connectWs True True ''h'' sample_logs)))
    \<and> filter lk_open (lo_socks (log_destroy (log_destroy (connectWs True True ''h'' sample_logs)))) = []"
proof (rule log_one_socket)
  show "log_step\<^sup>*\<^sup>* sample_logs (log_destroy (connectWs True True ''h'' sample_logs))"
  proof (rule rtranclp.rtrancl_into_rtrancl)
    show "log_step\<^sup>*\<^sup>* sample_logs (connectWs True True ''h'' sample_logs)"
      by (rule r_into_rtranclp, rule log_step.connect) (simp add: sample_logs_def)
  qed (rule log_step.destroy)
qed (simp add: one_socket_def sockets_ok_def sample_logs_def)

text \<open>
  connecting while the page still has a socket, as a slow first load does that ends after the page was left and entered
  again, closes the old socket with its handler in place: its close event forgets the new socket, which stays open, goes on
  appending lines and is not closed by \<^verbatim>\<open>destroy\<close>.
\<close>

theorem log_orphan:
  assumes "lo_ws s = None"
  shows "let n = length (lo_socks s);
             s' = log_destroy (log_onclose n (connectWs True secure host (connectWs True secure host s)))
         in lo_ws s' = None \<and> lk_open (lo_socks s' ! Suc n) \<and> log_onmessage (Suc n) (Some (x # xs)) s' = appendLine (x # xs) s'"
  using assms by (simp add: Let_def connectWs_def close_ws_def upd_sock_def log_onclose_def log_destroy_def log_onmessage_def nth_append nth_list_update list_update_append)

theorem log_orphan_witness:
  "let n = length (lo_socks sample_logs);
       s' = log_destroy (log_onclose n (connectWs True True ''h'' (connectWs True True ''h'' sample_logs)))
   in lo_ws s' = None \<and> lk_open (lo_socks s' ! Suc n) \<and> log_onmessage (Suc n) (Some ''x'') s' = appendLine ''x'' s'"
  by (rule log_orphan) (simp add: sample_logs_def)

text \<open>Whatever a line says, its span is read as that text.\<close>

theorem log_line_markup: "lex_html (ser_list (colorize line)) = (Data, toks_list (colorize line))"
  by (rule lex_ser_list) (simp add: colorize_def log_class_def Let_def markup_safe name_ok_eval escape3_no_lt)

end
