(* ===== verification/Locks.thy ===== *)
theory Locks
  imports Site
begin

text \<open>
  The lock monitor, locks.js: the table of conflicts, the forest of blocking sessions, which the
  renderer walks recursively, and the termination of a blocker. \<^verbatim>\<open>switchTab\<close> does not await the load
  it starts: loads wait in a queue with the tab they were started for, and end in any order.
\<close>

section \<open>State and server\<close>

record lock_conflict =
  lc_blocking :: int
  lc_blockingUser :: string
  lc_blockingQuery :: string
  lc_blocked :: int
  lc_blockedUser :: string
  lc_blockedQuery :: string

record lock_info =
  nd_pid :: int
  nd_user :: string
  nd_database :: string
  nd_state :: string
  nd_waitType :: string
  nd_wait :: string
  nd_since :: string
  nd_query :: string

record lock_edge =
  ed_type :: string
  ed_relation :: string
  ed_since :: string

datatype lock_node = LockNode lock_info "lock_node list" "lock_edge list"

record locks_page = site +
  lm_tab :: string
  lm_loads :: "string list"

record locks_server =
  lv_locks :: "lock_conflict list net"
  lv_tree :: "lock_node list net"
  lv_kill :: "unit net"

section \<open>Conflicts\<close>

definition conflict_row :: "lock_conflict \<Rightarrow> html list" where
  "conflict_row l = [El ''tr'' []
      [El ''td'' [At ''class'' ''red'']
       [Txt ((str_of_int (lc_blocking l)) @ '' ''),
       El ''span'' [At ''class'' ''dim''] [Txt (''('' @ (escHtml (lc_blockingUser l)) @ '')'')]],
      El ''td'' [At ''style'' ''overflow:hidden;text-overflow:ellipsis;white-space:nowrap'', At ''title'' (escHtml (lc_blockingQuery l))] [Txt (escHtml (lc_blockingQuery l))],
      El ''td'' []
       [Txt ((str_of_int (lc_blocked l)) @ '' ''),
       El ''span'' [At ''class'' ''dim''] [Txt (''('' @ (escHtml (lc_blockedUser l)) @ '')'')]],
      El ''td'' [At ''style'' ''overflow:hidden;text-overflow:ellipsis;white-space:nowrap'', At ''title'' (escHtml (lc_blockedQuery l))] [Txt (escHtml (lc_blockedQuery l))],
      El ''td'' []
       [El ''button'' [At ''onclick'' (''LockMonitor.killBlocker('' @ (str_of_int (lc_blocking l)) @ '')''), At ''class'' ''btn btn-sm'', At ''style'' ''font-size:9px''] [Txt (''kill '' @ (str_of_int (lc_blocking l)))]]]]"

definition conflicts_markup :: "lock_conflict list \<Rightarrow> html list" where
  "conflicts_markup ls =
     (if ls = [] then [El ''div'' [At ''class'' ''card'']
      [El ''span'' [At ''class'' ''green mono-xs''] [Txt (u_check @ '' no lock conflicts detected'')]]]
      else [El ''div'' [At ''class'' ''mono-xs yellow mb-8'']
      [Txt (u_warn @ '' '' @ (str_of_nat (length ls)) @ '' lock conflict(s)'')],
     El ''div'' [At ''class'' ''card'', At ''style'' ''padding:0;overflow-x:auto;height:calc(100vh - 130px);overflow-y:auto'']
      [El ''table'' [At ''class'' ''data-table'', At ''style'' ''table-layout:fixed;width:100%'']
       [El ''thead'' []
        [El ''tr'' []
         [El ''th'' [At ''style'' ''width:100px''] [Txt ''blocker''],
         El ''th'' [] [Txt ''blocking query''],
         El ''th'' [At ''style'' ''width:100px''] [Txt ''blocked''],
         El ''th'' [] [Txt ''blocked query''],
         El ''th'' [At ''style'' ''width:80px''] [Txt ''action'']]],
       El ''tbody'' [] (concat (map conflict_row ls))]]])"

section \<open>The blocking tree\<close>

definition detail :: "string \<Rightarrow> string \<Rightarrow> string" where
  "detail sep x = (if x \<noteq> [] then sep @ escHtml x else [])"

definition edge_info :: "lock_edge option \<Rightarrow> html list" where
  "edge_info e =
     (case e of
        None \<Rightarrow> []
      | Some d \<Rightarrow> [El ''div'' [At ''class'' ''mono-xs dim'', At ''style'' ''margin:4px 0 8px'']
      [Txt (''waits on '' @ (escHtml (or_str (ed_type d) ''lock'')) @ (detail ('' '' @ u_middot @ '' relation '') (ed_relation d)) @ (detail ('' '' @ u_middot @ '' '') (ed_since d)))]])"

definition node_card :: "lock_info \<Rightarrow> html list \<Rightarrow> html list \<Rightarrow> html list" where
  "node_card i edge below = [El ''div'' [At ''class'' ''card'', At ''style'' ''padding:10px 12px'']
      (edge @ [El ''div'' [At ''class'' ''flex-between'', At ''style'' ''align-items:flex-start;gap:12px'']
        [El ''div'' []
         [El ''div'' []
          [El ''span'' [At ''class'' ''accent mono-xs''] [Txt (''pid '' @ (str_of_int (nd_pid i)))],
          El ''span'' [At ''class'' ''dim mono-xs'']
           [Txt ((escHtml (or_str (nd_user i) ''-'')) @ '' @ '' @ (escHtml (or_str (nd_database i) ''-'')))]],
         El ''div'' [At ''class'' ''mono-xs dim'', At ''style'' ''margin-top:4px'']
          [Txt ((escHtml (or_str (nd_state i) ''blocking'')) @ '' '' @ (detail ('' '' @ u_middot @ '' '') (nd_waitType i)) @ '' '' @ (detail ''/'' (nd_wait i)) @ '' '' @ (detail ('' '' @ u_middot @ '' '') (nd_since i)))],
         El ''div'' [At ''style'' ''margin-top:6px;white-space:pre-wrap''] [Txt (escHtml (or_str (nd_query i) ''-''))]],
        El ''button'' [At ''onclick'' (''LockMonitor.killBlocker('' @ (str_of_int (nd_pid i)) @ '')''), At ''class'' ''btn btn-sm'', At ''style'' ''font-size:9px''] [Txt (''kill '' @ (str_of_int (nd_pid i)))]]] @ below)]"

definition children_box :: "html list \<Rightarrow> html list" where
  "children_box hs = [El ''div'' [At ''style'' ''margin-top:10px;padding-left:14px;border-left:1px solid var(--border);display:grid;gap:10px''] hs]"

definition edge_at :: "lock_edge list \<Rightarrow> nat \<Rightarrow> lock_edge option" where
  "edge_at es k = (if k < length es then Some (es ! k) else None)"

function renderNode :: "lock_node \<Rightarrow> lock_edge option \<Rightarrow> html list" where
  "renderNode (LockNode i cs es) e =
     node_card i (edge_info e)
       (if cs = [] then [] else children_box (concat (map (\<lambda>(k, c). renderNode c (edge_at es k)) (enumerate 0 cs))))"
  by pat_completeness auto
termination
proof (relation "measure (\<lambda>(n, e). size n)")
  fix i :: lock_info and cs :: "lock_node list" and es :: "lock_edge list" and e :: "lock_edge option" and x k c
  assume "x \<in> set (enumerate 0 cs)" "(k, c) = x"
  then have "c \<in> set cs" by (auto simp: in_set_enumerate_eq)
  then have "size c < Suc (size_list size cs)" by (auto simp: less_Suc_eq_le intro: size_list_estimation')
  then show "((c, edge_at es k), LockNode i cs es, e) \<in> measure (\<lambda>(n, e). size n)" by simp
qed simp

definition tree_markup :: "lock_node list \<Rightarrow> html list" where
  "tree_markup roots =
     (if roots = [] then [El ''div'' [At ''class'' ''card'']
      [El ''span'' [At ''class'' ''green mono-xs''] [Txt (u_check @ '' no blocking tree to render'')]]]
      else [El ''div'' [At ''class'' ''mono-xs yellow mb-8'']
      [Txt ''blocking chains from root blockers to waiting sessions''],
     El ''div'' [At ''class'' ''grid'', At ''style'' ''gap:12px''] (concat (map (\<lambda>r. renderNode r None) roots))])"

definition locks_error :: "string \<Rightarrow> html list" where
  "locks_error e = [El ''div'' [At ''class'' ''card'']
      [El ''span'' [At ''class'' ''red mono-xs''] [Txt (escHtml e)]]]"

section \<open>Operations\<close>

definition loadConflicts :: "locks_server \<Rightarrow> locks_page \<Rightarrow> unit outcome \<times> locks_page" where
  "loadConflicts sv s =
     catch (await (on_page (api (lv_locks sv) (get_rq ''/locks'')) s) (\<lambda>ls s1.
              (Resolved (), put_markup ''locks-content'' (conflicts_markup ls) s1)))
       ignore"

definition loadTree :: "locks_server \<Rightarrow> locks_page \<Rightarrow> unit outcome \<times> locks_page" where
  "loadTree sv s =
     (if \<not> element ''locks-content'' (page s) then (Resolved (), s)
      else catch (await (on_page (api (lv_tree sv) (get_rq ''/locks/tree'')) s) (\<lambda>rs s1.
              (Resolved (), put_markup ''locks-content'' (tree_markup rs) s1)))
            (\<lambda>e s1. (Resolved (), put_markup ''locks-content'' (locks_error e) s1)))"

definition load_tab :: "locks_server \<Rightarrow> string \<Rightarrow> locks_page \<Rightarrow> unit outcome \<times> locks_page" where
  "load_tab sv t s = (if t = ''tree'' then loadTree sv s else loadConflicts sv s)"

definition Locks_load :: "locks_server \<Rightarrow> locks_page \<Rightarrow> unit outcome \<times> locks_page" where
  "Locks_load sv s = load_tab sv (lm_tab s) s"

definition Locks_switchTab :: "string \<Rightarrow> locks_page \<Rightarrow> locks_page" where
  "Locks_switchTab t s =
     (upd_page (\<lambda>b. set_style ''locks-tab-tree'' ''opacity'' (if t = ''tree'' then ''1'' else ''0.5'')
        (set_style ''locks-tab-conflicts'' ''opacity'' (if t = ''conflicts'' then ''1'' else ''0.5'') b)) s)
      \<lparr>lm_tab := t, lm_loads := lm_loads s @ [t]\<rparr>"

text \<open>The \<^verbatim>\<open>n\<close>-th queued load ends.\<close>

definition load_ended :: "locks_server \<Rightarrow> nat \<Rightarrow> locks_page \<Rightarrow> locks_page" where
  "load_ended sv n s =
     (if length (lm_loads s) \<le> n then s
      else snd (load_tab sv (lm_loads s ! n) (s\<lparr>lm_loads := take n (lm_loads s) @ drop (Suc n) (lm_loads s)\<rparr>)))"

definition kill_prompt :: "int \<Rightarrow> string" where
  "kill_prompt pid = ''Terminate PID '' @ str_of_int pid @ ''?''"

definition kill_rq :: "int \<Rightarrow> request" where
  "kill_rq pid = post_rq (''/dashboard/terminate/'' @ str_of_int pid) None"

definition killBlocker :: "locks_server \<Rightarrow> int \<Rightarrow> locks_page \<Rightarrow> unit outcome \<times> locks_page" where
  "killBlocker sv pid s =
     confirmed ''terminate process'' (kill_prompt pid) (danger_options ''terminate'')
       (\<lambda>s0. catch (await (on_page (apiProtected (lv_kill sv) (kill_rq pid)) s0) (\<lambda>_ s1.
              (Resolved (), after 1000 LocksReload (toast (''PID '' @ str_of_int pid @ '' terminated'') ''success'' s1))))
            ignore) s"

definition locks_reload_fires :: "locks_page \<Rightarrow> locks_page" where
  "locks_reload_fires s = s\<lparr>lm_loads := lm_loads s @ [lm_tab s]\<rparr>"

definition locks_frame :: "html list" where
  "locks_frame = [El ''div'' [At ''class'' ''flex-between mb-8'']
      [El ''div'' [At ''style'' ''display:flex;gap:8px;align-items:center'']
       [El ''span'' [At ''class'' ''card-title'', At ''style'' ''margin:0''] [Txt ''lock monitor''],
       El ''div'' [At ''style'' ''display:flex;gap:2px'']
        [El ''button'' [At ''onclick'' (''LockMonitor.switchTab('' @ sq @ ''conflicts'' @ sq @ '')''), At ''class'' ''btn btn-sm'', At ''id'' ''locks-tab-conflicts'', At ''style'' ''font-size:9px''] [Txt ''conflicts''],
        El ''button'' [At ''onclick'' (''LockMonitor.switchTab('' @ sq @ ''tree'' @ sq @ '')''), At ''class'' ''btn btn-sm'', At ''id'' ''locks-tab-tree'', At ''style'' ''font-size:9px''] [Txt ''blocking tree'']]],
      El ''button'' [At ''onclick'' ''LockMonitor.load()'', At ''class'' ''btn btn-sm'']
       [El ''i'' [At ''data-lucide'' ''refresh-cw'', At ''class'' ''icon-sm''] [],
       Txt '' refresh'']],
     El ''div'' [At ''id'' ''locks-content'']
      [El ''div'' [At ''class'' ''card'']
       [El ''span'' [At ''class'' ''dim mono-xs''] [Txt ''loading...'']]]]"

definition Locks_render :: "locks_server \<Rightarrow> locks_page \<Rightarrow> unit outcome \<times> locks_page" where
  "Locks_render sv s = Locks_load sv (put_markup ''page-content'' locks_frame s)"

section \<open>The forest\<close>

text \<open>The sessions of a tree in the order of the page.\<close>

fun preorder :: "lock_node \<Rightarrow> int list" where
  "preorder (LockNode i cs es) = nd_pid i # concat (map preorder cs)"

text \<open>The pids whose kill button a tree has.\<close>

fun kill_buttons :: "html \<Rightarrow> string list" where
  "kill_buttons (Txt t) = []"
| "kill_buttons (El t as hs) =
     (if t = ''button'' then [or_none (attr_val ''onclick'' as) []] else []) @ concat (map kill_buttons hs)"

abbreviation buttons_in :: "html list \<Rightarrow> string list" where
  "buttons_in hs \<equiv> concat (map kill_buttons hs)"

definition kill_handler :: "int \<Rightarrow> string" where
  "kill_handler pid = ''LockMonitor.killBlocker('' @ str_of_int pid @ '')''"

lemma str_of_int_plain: "CHR ''&'' \<notin> set (str_of_int i)"
proof -
  have "plain_str (str_of_int i)" by simp
  then show ?thesis by (auto simp: plain_str_def plain_char_def list_all_iff)
qed

lemma kill_handler_decoded: "html_decode (kill_handler pid) = kill_handler pid"
  by (rule html_decode_plain) (simp add: kill_handler_def str_of_int_plain)

lemma card_buttons: "buttons_in (node_card i edge below) = buttons_in edge @ kill_handler (nd_pid i) # buttons_in below"
  using kill_handler_decoded [of "nd_pid i"] by (simp add: node_card_def kill_handler_def)

lemma edge_buttons: "buttons_in (edge_info e) = []"
  by (cases e) (simp_all add: edge_info_def)

lemma buttons_concat: "buttons_in (concat (map f xs)) = concat (map (\<lambda>x. buttons_in (f x)) xs)"
  by (induction xs) simp_all

lemma concat_enumerate: "concat (map (\<lambda>(k, c). f c) (enumerate n cs)) = concat (map f cs)"
  by (induction cs arbitrary: n) simp_all

lemma renderNode_buttons: "buttons_in (renderNode n e) = map kill_handler (preorder n)"
proof (induction n e rule: renderNode.induct)
  case (1 i cs es e)
  have eq: "map (\<lambda>(k, c). buttons_in (renderNode c (edge_at es k))) (enumerate 0 cs) = map (\<lambda>(k, c). map kill_handler (preorder c)) (enumerate 0 cs)"
  proof (rule map_cong [OF refl])
    fix p assume p: "p \<in> set (enumerate 0 cs)"
    obtain k c where kc: "p = (k, c)" by (cases p)
    from p have "cs \<noteq> []" by auto
    from 1 [OF this p kc [symmetric]] kc
    show "(case p of (k, c) \<Rightarrow> buttons_in (renderNode c (edge_at es k))) = (case p of (k, c) \<Rightarrow> map kill_handler (preorder c))" by simp
  qed
  have "buttons_in (concat (map (\<lambda>(k, c). renderNode c (edge_at es k)) (enumerate 0 cs))) =
      concat (map (\<lambda>(k, c). buttons_in (renderNode c (edge_at es k))) (enumerate 0 cs))"
    unfolding buttons_concat by (intro arg_cong [where f = concat] map_cong) auto
  also have "\<dots> = concat (map (\<lambda>c. map kill_handler (preorder c)) cs)"
    unfolding eq by (rule concat_enumerate)
  finally have below: "buttons_in (concat (map (\<lambda>(k, c). renderNode c (edge_at es k)) (enumerate 0 cs))) = concat (map (\<lambda>c. map kill_handler (preorder c)) cs)" .
  show ?case
    by (simp add: card_buttons edge_buttons children_box_def below) (simp add: map_concat comp_def)
qed

lemma detail_safe [markup_safe]: "CHR ''<'' \<notin> set sep \<Longrightarrow> CHR ''<'' \<notin> set (detail sep x)"
  by (simp add: detail_def eh.no_lt)

lemma edge_info_safe: "safe_list (edge_info e)"
  by (cases e) (simp_all add: edge_info_def markup_safe name_ok_eval eh.no_lt)

lemma node_card_safe: "safe_list edge \<Longrightarrow> safe_list below \<Longrightarrow> safe_list (node_card i edge below)"
  by (simp add: node_card_def markup_safe name_ok_eval eh.no_lt)

lemma renderNode_safe: "safe_list (renderNode n e)"
proof (induction n e rule: renderNode.induct)
  case (1 i cs es e)
  have "safe_list (concat (map (\<lambda>(k, c). renderNode c (edge_at es k)) (enumerate 0 cs)))" if "cs \<noteq> []"
    using 1 [OF that _ refl] by (auto simp: safe_list_concat_map)
  then have "safe_list (if cs = [] then [] else children_box (concat (map (\<lambda>(k, c). renderNode c (edge_at es k)) (enumerate 0 cs))))"
    by (simp add: children_box_def markup_safe name_ok_eval)
  then show ?case by (simp add: node_card_safe edge_info_safe)
qed

section \<open>Properties\<close>

text \<open>
  C17: the blocking tree shows every session of the forest once, in preorder, with a button that kills this session, however deep
  the forest is and however many edges the reply has; and it is read as the tags of the template only, whatever the queries contain.
\<close>

theorem tree_complete:
  "buttons_in (tree_markup roots) = map kill_handler (concat (map preorder roots))
    \<and> lex_html (ser_list (tree_markup roots)) = (Data, toks_list (tree_markup roots))"
proof
  have "buttons_in (concat (map (\<lambda>r. renderNode r None) roots)) = map kill_handler (concat (map preorder roots))"
    by (simp add: buttons_concat renderNode_buttons) (simp add: map_concat comp_def)
  then show "buttons_in (tree_markup roots) = map kill_handler (concat (map preorder roots))"
    by (simp add: tree_markup_def)
  have "safe_list (tree_markup roots)"
    by (simp add: tree_markup_def markup_safe name_ok_eval renderNode_safe)
  then show "lex_html (ser_list (tree_markup roots)) = (Data, toks_list (tree_markup roots))" by (rule lex_ser_list)
qed

end
