(* ===== verification/Alerts.thy ===== *)
theory Alerts
  imports Site
begin

text \<open>
  The alerts page, alerts.js: the settings form, the open alerts and the history. The settings object
  of the server is its alert settings and the rest, which the page only hands back; the order of its
  keys is not kept.
\<close>

section \<open>State and server\<close>

record thresholds =
  th_disk :: int
  th_conn :: int
  th_repl :: int
  th_backup :: int

text \<open>A missing number is 0 here, which the page treats alike.\<close>

record alert_settings =
  al_enabled :: bool
  al_cooldown :: int
  al_telegram :: "(string \<times> string) option"
  al_thresholds :: "thresholds option"

record alert_config =
  ac_alerts :: alert_settings
  ac_rest :: "(string \<times> json) list"

record open_alert =
  oa_status :: string
  oa_level :: string
  oa_metric :: string
  oa_count :: int
  oa_message :: string
  oa_opened :: int
  oa_seen :: int
  oa_value :: string

record past_alert =
  pa_time :: "int option"
  pa_level :: string
  pa_metric :: string
  pa_message :: string

record alert_state =
  as_active :: "open_alert list"
  as_history :: "past_alert list"

record alerts_page = site +
  ap_config :: "alert_config option"
  ap_alerts :: "alert_state option"

record alerts_server =
  av_settings :: "alert_config option net"
  av_alerts :: "alert_state option net"
  av_save :: "unit net"
  av_test :: "unit net"

section \<open>The form\<close>

definition thresholdInput :: "string \<Rightarrow> string \<Rightarrow> int \<Rightarrow> int \<Rightarrow> int \<Rightarrow> html list" where
  "thresholdInput label i v mn mx = [El ''div'' [At ''style'' ''display:flex;justify-content:space-between;align-items:center;margin-bottom:6px'']
      [El ''span'' [At ''class'' ''mono-xs dim''] [Txt label],
      El ''input'' [At ''type'' ''number'', At ''id'' i, At ''value'' (str_of_int v), At ''min'' (str_of_int mn), At ''max'' (str_of_int mx), At ''style'' ''width:60px;background:var(--bg-0);border:1px solid var(--border);color:var(--text-1); padding:2px 4px;font-size:11px;font-family:var(--font);text-align:right''] []]]"

definition threshold :: "(thresholds \<Rightarrow> int) \<Rightarrow> int \<Rightarrow> alert_settings \<Rightarrow> int" where
  "threshold f d a = (case al_thresholds a of None \<Rightarrow> d | Some t \<Rightarrow> or_int (f t) d)"

definition settings_markup :: "alert_settings \<Rightarrow> html list" where
  "settings_markup a = [El ''div'' [At ''class'' ''grid-3'', At ''style'' ''gap:8px'']
      [El ''div'' [At ''class'' ''card'']
       ([El ''div'' [At ''class'' ''card-title''] [Txt ''general''],
        El ''label'' [At ''class'' ''flex gap-4 mono-xs'', At ''style'' ''align-items:center;margin-bottom:8px'']
         [El ''input'' ([At ''type'' ''checkbox'', At ''id'' ''alert-enabled''] @ (flag_if (al_enabled a) ''checked'')) [],
         El ''span'' [] [Txt ''enable alerting'']]] @ (thresholdInput ''cooldown (min)'' ''alert-cooldown'' (or_int (al_cooldown a) 15) 0 1440)),
      El ''div'' [At ''class'' ''card mt-2'']
       [El ''div'' [At ''class'' ''card-title''] [Txt ''telegram''],
       El ''div'' [At ''class'' ''mono-xs dim mb-4''] [Txt ''bot token''],
       El ''input'' [At ''type'' ''text'', At ''id'' ''alert-tg-token'', At ''value'' (escHtml (fst (or_none (al_telegram a) ([], [])))), At ''style'' ''width:100%;background:var(--bg-0);border:1px solid var(--border);color:var(--text-1); padding:4px 6px;font-size:11px;font-family:var(--font);margin-bottom:8px;box-sizing:border-box''] [],
       El ''div'' [At ''class'' ''mono-xs dim mb-4''] [Txt ''chat id''],
       El ''input'' [At ''type'' ''text'', At ''id'' ''alert-tg-chat'', At ''value'' (escHtml (snd (or_none (al_telegram a) ([], [])))), At ''style'' ''width:100%;background:var(--bg-0);border:1px solid var(--border);color:var(--text-1); padding:4px 6px;font-size:11px;font-family:var(--font);margin-bottom:8px;box-sizing:border-box''] [],
       El ''button'' [At ''onclick'' ''AlertsPage.testNotification()'', At ''class'' ''btn btn-sm'', At ''style'' ''font-size:9px''] [Txt ''test'']],
      El ''div'' [At ''class'' ''card mt-2'']
       ([El ''div'' [At ''class'' ''card-title''] [Txt ''thresholds'']] @ (thresholdInput ''disk usage %'' ''alert-disk'' (threshold th_disk 80 a) 0 100) @ (thresholdInput ''connections %'' ''alert-conn'' (threshold th_conn 80 a) 0 100) @ (thresholdInput ''repl lag (s)'' ''alert-repl'' (threshold th_repl 30 a) 0 100) @ (thresholdInput ''backup age (h)'' ''alert-bkp'' (threshold th_backup 24 a) 0 100))]]"

definition renderSettings :: "alerts_page \<Rightarrow> alerts_page" where
  "renderSettings s =
     (case ap_config s of None \<Rightarrow> s | Some c \<Rightarrow> put_markup ''alerts-settings'' (settings_markup (ac_alerts c)) s)"

section \<open>Alerts\<close>

definition ago :: "clock \<Rightarrow> int \<Rightarrow> string" where
  "ago c t = (if t \<noteq> 0 then timeAgo (now c) t else ''-'')"

definition active_card :: "clock \<Rightarrow> open_alert \<Rightarrow> html list" where
  "active_card c a = [El ''div'' [At ''class'' ''card'']
      [El ''div'' [At ''class'' ''flex-between'', At ''style'' ''gap:12px'']
       [El ''span'' [At ''class'' (''mono-xs '' @ (if oa_level a = ''critical'' then ''red'' else ''yellow''))] [Txt (escHtml (oa_metric a))],
       El ''span'' [At ''class'' ''mono-xs dim''] [Txt (''x'' @ (str_of_int (or_int (oa_count a) 1)))]],
      El ''div'' [At ''class'' ''mono-xs'', At ''style'' ''margin-top:6px''] [Txt (escHtml (oa_message a))],
      El ''div'' [At ''class'' ''mono-xs dim'', At ''style'' ''margin-top:6px''] [Txt (''opened '' @ (ago c (oa_opened a)))],
      El ''div'' [At ''class'' ''mono-xs dim''] [Txt (''last seen '' @ (ago c (oa_seen a)))],
      El ''div'' [At ''class'' ''mono-xs dim''] [Txt (''value '' @ (escHtml (or_str (oa_value a) ''-'')))]]]"

definition open_alerts :: "alert_state \<Rightarrow> open_alert list" where
  "open_alerts x = filter (\<lambda>a. oa_status a = ''open'') (as_active x)"

definition active_markup :: "clock \<Rightarrow> open_alert list \<Rightarrow> html list" where
  "active_markup c as =
     (if as = [] then [El ''div'' [At ''class'' ''card'']
      [El ''span'' [At ''class'' ''dim mono-xs''] [Txt ''no open alerts'']]]
      else [El ''div'' [At ''class'' ''grid-3'', At ''style'' ''gap:8px''] (concat (map (active_card c) as))])"

definition renderActive :: "clock \<Rightarrow> alerts_page \<Rightarrow> alerts_page" where
  "renderActive c s =
     (case ap_alerts s of None \<Rightarrow> s | Some x \<Rightarrow> put_markup ''alerts-active'' (active_markup c (open_alerts x)) s)"

definition past_row :: "clock \<Rightarrow> past_alert \<Rightarrow> html list" where
  "past_row c e = [El ''tr'' []
      [El ''td'' [At ''class'' ''dim''] [Txt (date_text c (pa_time e))],
      El ''td'' [At ''class'' (if pa_level e = ''critical'' then ''red'' else if pa_level e = ''resolved'' then ''green'' else ''yellow'')] [Txt (pa_level e)],
      El ''td'' [] [Txt (pa_metric e)],
      El ''td'' [At ''style'' ''overflow:hidden;text-overflow:ellipsis;white-space:nowrap''] [Txt (escHtml (pa_message e))]]]"

definition past_markup :: "clock \<Rightarrow> past_alert list \<Rightarrow> html list" where
  "past_markup c es =
     (if es = [] then [El ''div'' [At ''class'' ''card'']
      [El ''span'' [At ''class'' ''dim mono-xs''] [Txt ''no alerts'']]]
      else [El ''div'' [At ''class'' ''card'', At ''style'' ''padding:0;max-height:300px;overflow-y:auto'']
      [El ''table'' [At ''class'' ''data-table'', At ''style'' ''table-layout:fixed;width:100%'']
       [El ''thead'' []
        [El ''tr'' []
         [El ''th'' [At ''style'' ''width:150px''] [Txt ''time''],
         El ''th'' [At ''style'' ''width:70px''] [Txt ''level''],
         El ''th'' [At ''style'' ''width:100px''] [Txt ''metric''],
         El ''th'' [] [Txt ''message'']]],
       El ''tbody'' [] (concat (map (past_row c) es))]]])"

definition renderHistory :: "clock \<Rightarrow> alerts_page \<Rightarrow> alerts_page" where
  "renderHistory c s =
     (case ap_alerts s of None \<Rightarrow> s | Some x \<Rightarrow> put_markup ''alerts-history'' (past_markup c (as_history x)) s)"

section \<open>Operations\<close>

definition alerts_loaded :: "clock \<Rightarrow> alert_config option \<times> alert_state option \<Rightarrow> alerts_page \<Rightarrow> alerts_page" where
  "alerts_loaded c r s = renderHistory c (renderActive c (renderSettings (s\<lparr>ap_config := fst r, ap_alerts := snd r\<rparr>)))"

definition Alerts_load :: "alerts_server \<Rightarrow> clock \<Rightarrow> alerts_page \<Rightarrow> unit outcome \<times> alerts_page" where
  "Alerts_load sv c s =
     catch
       (await (on_page (both (api (av_settings sv) (get_rq ''/settings'')) (api (av_alerts sv) (get_rq ''/alerts''))) s) (\<lambda>r s1.
          (Resolved (), alerts_loaded c r s1)))
       ignore"

text \<open>What the form says; a missing input counts as empty.\<close>

definition read_form :: "browser \<Rightarrow> alert_settings" where
  "read_form b =
     \<lparr>al_enabled = is_checked ''alert-enabled'' b,
      al_cooldown = parse_int_or (value_of ''alert-cooldown'' b) 15,
      al_telegram = Some (value_of ''alert-tg-token'' b, value_of ''alert-tg-chat'' b),
      al_thresholds = Some \<lparr>th_disk = parse_int_or (value_of ''alert-disk'' b) 80, th_conn = parse_int_or (value_of ''alert-conn'' b) 80,
        th_repl = parse_int_or (value_of ''alert-repl'' b) 30, th_backup = parse_int_or (value_of ''alert-bkp'' b) 24\<rparr>\<rparr>"

definition alerts_json :: "alert_settings \<Rightarrow> json" where
  "alerts_json a =
     JObj
       ([(''enabled'', JBool (al_enabled a))]
        @ (case al_telegram a of None \<Rightarrow> [] | Some (t, i) \<Rightarrow> [(''telegram'', JObj [(''botToken'', JStr t), (''chatId'', JStr i)])])
        @ (case al_thresholds a of None \<Rightarrow> [] | Some t \<Rightarrow>
             [(''thresholds'', JObj [(''diskUsagePct'', JInt (th_disk t)), (''connectionsPct'', JInt (th_conn t)),
                (''replicationLagSec'', JInt (th_repl t)), (''backupMaxAgeHours'', JInt (th_backup t))])])
        @ [(''cooldownMinutes'', JInt (al_cooldown a))])"

definition save_settings_rq :: "alert_config \<Rightarrow> request" where
  "save_settings_rq c = post_rq ''/settings'' (Some (JObj (ac_rest c @ [(''alerts'', alerts_json (ac_alerts c))])))"

definition Alerts_save :: "alerts_server \<Rightarrow> clock \<Rightarrow> alerts_page \<Rightarrow> unit outcome \<times> alerts_page" where
  "Alerts_save sv c s =
     (case ap_config s of
        None \<Rightarrow> (Resolved (), s)
      | Some cfg \<Rightarrow>
          (let cfg' = cfg\<lparr>ac_alerts := read_form (page s)\<rparr>; s0 = s\<lparr>ap_config := Some cfg'\<rparr> in
           catch (await (on_page (apiProtected (av_save sv) (save_settings_rq cfg')) s0) (\<lambda>_ s1.
                    Alerts_load sv c (toast ''settings saved'' ''success'' s1)))
             ignore))"

definition testNotification :: "alerts_server \<Rightarrow> alerts_page \<Rightarrow> unit outcome \<times> alerts_page" where
  "testNotification sv s =
     catch (await (on_page (apiProtected (av_test sv) (post_rq ''/alerts/test'' None)) s) (\<lambda>_ s1.
              (Resolved (), toast ''test notification sent'' ''success'' s1)))
       ignore"

definition alerts_frame :: "html list" where
  "alerts_frame = [El ''div'' [At ''class'' ''flex-between mb-8'']
      [El ''span'' [At ''class'' ''card-title'', At ''style'' ''margin:0''] [Txt ''alerts & notifications''],
      El ''button'' [At ''onclick'' ''AlertsPage.save()'', At ''class'' ''btn btn-sm btn-primary'']
       [El ''i'' [At ''data-lucide'' ''save'', At ''class'' ''icon-sm''] [],
       Txt '' save'']],
     El ''div'' [At ''id'' ''alerts-settings'']
      [El ''div'' [At ''class'' ''card'']
       [El ''span'' [At ''class'' ''dim mono-xs''] [Txt ''loading...'']]],
     El ''div'' [At ''class'' ''card-title'', At ''style'' ''margin-top:16px''] [Txt ''active alerts''],
     El ''div'' [At ''id'' ''alerts-active'']
      [El ''div'' [At ''class'' ''card'']
       [El ''span'' [At ''class'' ''dim mono-xs''] [Txt ''loading...'']]],
     El ''div'' [At ''class'' ''card-title'', At ''style'' ''margin-top:16px''] [Txt ''alert history''],
     El ''div'' [At ''id'' ''alerts-history'']
      [El ''div'' [At ''class'' ''card'']
       [El ''span'' [At ''class'' ''dim mono-xs''] [Txt ''loading...'']]]]"

definition Alerts_render :: "alerts_server \<Rightarrow> clock \<Rightarrow> alerts_page \<Rightarrow> unit outcome \<times> alerts_page" where
  "Alerts_render sv c s = Alerts_load sv c (put_markup ''page-content'' alerts_frame s)"

section \<open>The form reads back\<close>

text \<open>The settings that the form can show and save as they are.\<close>

definition plain_settings :: "alert_settings \<Rightarrow> bool" where
  "plain_settings a =
     (al_cooldown a \<noteq> 0 \<and> al_telegram a \<noteq> None
      \<and> (case al_thresholds a of None \<Rightarrow> False | Some t \<Rightarrow> th_disk t \<noteq> 0 \<and> th_conn t \<noteq> 0 \<and> th_repl t \<noteq> 0 \<and> th_backup t \<noteq> 0))"

definition input_node :: "html list \<Rightarrow> (string \<times> node) list" where
  "input_node hs = concat (map nodes_of hs)"

definition threshold_el :: "string \<Rightarrow> string \<Rightarrow> int \<Rightarrow> int \<Rightarrow> int \<Rightarrow> node" where
  "threshold_el l i v mn mx = snd (hd (input_node (thresholdInput l i v mn mx)))"

lemma threshold_node:
  "input_node (thresholdInput l i v mn mx) = [(html_decode i, threshold_el l i v mn mx)]" "val (threshold_el l i v mn mx) = str_of_int v"
  by (simp_all add: threshold_el_def input_node_def thresholdInput_def mk_node_def decode_plain)

lemma settings_nodes:
  "\<exists>n1 n2 n3. nodes_of_list (settings_markup a) =
     [(''alert-enabled'', n1), (''alert-cooldown'', threshold_el ''cooldown (min)'' ''alert-cooldown'' (or_int (al_cooldown a) 15) 0 1440),
      (''alert-tg-token'', n2), (''alert-tg-chat'', n3),
      (''alert-disk'', threshold_el ''disk usage %'' ''alert-disk'' (threshold th_disk 80 a) 0 100),
      (''alert-conn'', threshold_el ''connections %'' ''alert-conn'' (threshold th_conn 80 a) 0 100),
      (''alert-repl'', threshold_el ''repl lag (s)'' ''alert-repl'' (threshold th_repl 30 a) 0 100),
      (''alert-bkp'', threshold_el ''backup age (h)'' ''alert-bkp'' (threshold th_backup 24 a) 0 100)]
     \<and> checked n1 = al_enabled a \<and> val n2 = one_line (fst (or_none (al_telegram a) ([], []))) \<and> val n3 = one_line (snd (or_none (al_telegram a) ([], [])))"
proof -
  have "checked (mk_node ''input'' (At ''type'' ''checkbox'' # At ''id'' ''alert-enabled'' # flag_if (al_enabled a) ''checked'') []) = al_enabled a"
    by (simp add: mk_node_def flag_if_def)
  then show ?thesis
    by (simp add: settings_markup_def nodes_of_list_def threshold_node [unfolded input_node_def] decode_plain) (simp add: mk_node_def eh.decode_esc)
qed

abbreviation form_ids :: "string list" where
  "form_ids \<equiv> [''alert-enabled'', ''alert-cooldown'', ''alert-tg-token'', ''alert-tg-chat'', ''alert-disk'', ''alert-conn'', ''alert-repl'', ''alert-bkp'']"

lemma read_settings:
  assumes "map (Browser.dom b) form_ids = map (map_of (nodes_of_list (settings_markup a))) form_ids"
  shows "read_form b = \<lparr>al_enabled = al_enabled a, al_cooldown = or_int (al_cooldown a) 15, al_telegram = Some (map_prod one_line one_line (or_none (al_telegram a) ([], []))),
     al_thresholds = Some \<lparr>th_disk = threshold th_disk 80 a, th_conn = threshold th_conn 80 a, th_repl = threshold th_repl 30 a,
       th_backup = threshold th_backup 24 a\<rparr>\<rparr>"
proof -
  obtain n1 n2 n3 where ns: "nodes_of_list (settings_markup a) =
     [(''alert-enabled'', n1), (''alert-cooldown'', threshold_el ''cooldown (min)'' ''alert-cooldown'' (or_int (al_cooldown a) 15) 0 1440),
      (''alert-tg-token'', n2), (''alert-tg-chat'', n3),
      (''alert-disk'', threshold_el ''disk usage %'' ''alert-disk'' (threshold th_disk 80 a) 0 100),
      (''alert-conn'', threshold_el ''connections %'' ''alert-conn'' (threshold th_conn 80 a) 0 100),
      (''alert-repl'', threshold_el ''repl lag (s)'' ''alert-repl'' (threshold th_repl 30 a) 0 100),
      (''alert-bkp'', threshold_el ''backup age (h)'' ''alert-bkp'' (threshold th_backup 24 a) 0 100)]"
    and v: "checked n1 = al_enabled a" "val n2 = one_line (fst (or_none (al_telegram a) ([], [])))" "val n3 = one_line (snd (or_none (al_telegram a) ([], [])))"
    using settings_nodes [of a] by blast
  from assms have "is_checked ''alert-enabled'' b = al_enabled a \<and> value_of ''alert-cooldown'' b = str_of_int (or_int (al_cooldown a) 15)
      \<and> value_of ''alert-tg-token'' b = one_line (fst (or_none (al_telegram a) ([], []))) \<and> value_of ''alert-tg-chat'' b = one_line (snd (or_none (al_telegram a) ([], [])))
      \<and> value_of ''alert-disk'' b = str_of_int (threshold th_disk 80 a) \<and> value_of ''alert-conn'' b = str_of_int (threshold th_conn 80 a)
      \<and> value_of ''alert-repl'' b = str_of_int (threshold th_repl 30 a) \<and> value_of ''alert-bkp'' b = str_of_int (threshold th_backup 24 a)"
    by (simp add: ns v is_checked_def value_of_def threshold_node)
  moreover have "or_int (threshold f d a) d = threshold f d a" for f d
    by (simp add: threshold_def or_int_def split: option.splits)
  moreover have "or_int (or_int x d) d = or_int x d" for x d by (simp add: or_int_def)
  ultimately show ?thesis by (simp add: read_form_def map_prod_def case_prod_beta)
qed

definition form_ready :: "browser \<Rightarrow> bool" where
  "form_ready b =
     ((case Browser.dom b ''alerts-settings'' of
         None \<Rightarrow> False
       | Some n \<Rightarrow> (case content n of Markup hs \<Rightarrow> list_all (\<lambda>p. fst p \<in> set form_ids) (nodes_of_list hs) | Plain t \<Rightarrow> True))
      \<and> leaf ''alerts-active'' b \<and> leaf ''alerts-history'' b)"

lemma alerts_no_nodes: "nodes_of_list (active_markup c as) = []" "nodes_of_list (past_markup c es) = []"
proof -
  have "concat (map nodes_of (active_card c a)) = []" for a by (simp add: active_card_def)
  then show "nodes_of_list (active_markup c as) = []"
    using no_nodes_concat [of "active_card c" as] by (simp add: active_markup_def nodes_of_list_def)
  have "concat (map nodes_of (past_row c e)) = []" for e by (simp add: past_row_def)
  then show "nodes_of_list (past_markup c es) = []"
    using no_nodes_concat [of "past_row c" es] by (simp add: past_markup_def nodes_of_list_def)
qed

lemma settings_ids: "fst ` set (nodes_of_list (settings_markup a)) = set form_ids"
  using settings_nodes [of a] by auto

lemma form_written:
  assumes "form_ready b"
  shows "form_ready (set_inner ''alerts-settings'' (settings_markup a) b)"
    and "map (Browser.dom (set_inner ''alerts-settings'' (settings_markup a) b)) form_ids = map (map_of (nodes_of_list (settings_markup a))) form_ids"
proof -
  let ?m = "map_of (nodes_of_list (settings_markup a))"
  obtain n where n1: "Browser.dom b ''alerts-settings'' = Some n"
    and c: "case content n of Markup hs \<Rightarrow> list_all (\<lambda>p. fst p \<in> set form_ids) (nodes_of_list hs) | Plain t \<Rightarrow> True"
    using assms unfolding form_ready_def by (cases "Browser.dom b ''alerts-settings''") auto
  have sub: "fst ` set (nodes_of_list hs) \<subseteq> set form_ids" if "content n = Markup hs" for hs
    using c that by (auto simp: list_all_iff)
  note n = n1 sub
  have some: "?m i \<noteq> None \<longleftrightarrow> i \<in> set form_ids" for i
    using settings_ids [of a] by (simp add: map_of_eq_None_iff)
  show "map (Browser.dom (set_inner ''alerts-settings'' (settings_markup a) b)) form_ids = map ?m form_ids"
  proof (rule map_cong [OF refl])
    fix i assume "i \<in> set form_ids"
    then obtain k where "?m i = Some k" using some [of i] by blast
    then show "Browser.dom (set_inner ''alerts-settings'' (settings_markup a) b) i = ?m i"
      using n(1) by (simp add: set_inner_def map_add_def)
  qed
  have keep: "Browser.dom (set_inner ''alerts-settings'' (settings_markup a) b) i = Browser.dom b i"
    if "i \<notin> set form_ids" "i \<noteq> ''alerts-settings''" for i
  proof -
    have "?m i = None" using that(1) some [of i] by blast
    moreover have "drop_ids (content n) (Browser.dom b) i = Browser.dom b i"
      using n(2) that(1) by (cases "content n") (auto simp: drop_ids_def)
    ultimately show ?thesis using n(1) that(2) by (simp add: set_inner_def map_add_def)
  qed
  have "?m ''alerts-settings'' = None" using some [of "''alerts-settings''"] by simp
  then show "form_ready (set_inner ''alerts-settings'' (settings_markup a) b)"
    using assms n(1) keep [of "''alerts-active''"] keep [of "''alerts-history''"] settings_ids [of a]
    by (auto simp: form_ready_def leaf_def set_inner_def map_add_def list_all_iff)
qed

lemma list_written:
  assumes "form_ready b" "nodes_of_list hs = []" "i = ''alerts-active'' \<or> i = ''alerts-history''"
  shows "form_ready (set_inner i hs b)" "map (Browser.dom (set_inner i hs b)) form_ids = map (Browser.dom b) form_ids"
proof -
  have l: "leaf i b" using assms(1,3) by (auto simp: form_ready_def)
  have i: "i \<noteq> ''alerts-settings''" "i \<notin> set form_ids" using assms(3) by auto
  have keep: "j \<noteq> i \<Longrightarrow> Browser.dom (set_inner i hs b) j = Browser.dom b j" for j by (rule leaf_other [OF l assms(2)])
  show "form_ready (set_inner i hs b)"
    using assms(1,2) l keep [of "''alerts-settings''"] i(1) by (simp add: form_ready_def leaf_write)
  show "map (Browser.dom (set_inner i hs b)) form_ids = map (Browser.dom b) form_ids"
    by (rule map_cong [OF refl], rule keep) (use i(2) in blast)
qed

lemma alerts_loaded_form:
  assumes "form_ready (page s)"
  shows "form_ready (page (alerts_loaded c (Some cfg, x) s))
    \<and> map (Browser.dom (page (alerts_loaded c (Some cfg, x) s))) form_ids = map (map_of (nodes_of_list (settings_markup (ac_alerts cfg)))) form_ids"
proof -
  note w = form_written [OF assms, of "ac_alerts cfg"]
  show ?thesis
  proof (cases x)
    case (Some y)
    note w2 = list_written [OF w(1) alerts_no_nodes(1) disjI1 [OF refl], of c "open_alerts y"]
    note w3 = list_written [OF w2(1) alerts_no_nodes(2) disjI2 [OF refl], of c "as_history y"]
    have "page (alerts_loaded c (Some cfg, x) s) = set_inner ''alerts-history'' (past_markup c (as_history y))
        (set_inner ''alerts-active'' (active_markup c (open_alerts y)) (set_inner ''alerts-settings'' (settings_markup (ac_alerts cfg)) (page s)))"
      by (simp add: Some alerts_loaded_def renderSettings_def renderActive_def renderHistory_def put_markup_def upd_page_def)
    with w3 w2(2) w(2) show ?thesis by (simp only: simp_thms)
  next
    case None
    have "page (alerts_loaded c (Some cfg, x) s) = set_inner ''alerts-settings'' (settings_markup (ac_alerts cfg)) (page s)"
      by (simp add: None alerts_loaded_def renderSettings_def renderActive_def renderHistory_def put_markup_def upd_page_def)
    with w show ?thesis by (simp only: simp_thms)
  qed
qed

section \<open>Properties\<close>

text \<open>
  C19: settings whose numbers are not 0 come back from the form as they were loaded, their two texts without the line breaks, which
  a text input drops. When the texts have none, saving right after a load sends the loaded object again; and the form is ready
  for the next load.
\<close>

theorem alerts_roundtrip:
  assumes "form_ready (page s)" "plain_settings (ac_alerts cfg)"
  shows "let a = ac_alerts cfg; read = read_form (page (alerts_loaded c (Some cfg, x) s))
         in read = a\<lparr>al_telegram := map_option (\<lambda>(token, chat). (one_line token, one_line chat)) (al_telegram a)\<rparr>
            \<and> (case al_telegram a of
                 None \<Rightarrow> False
               | Some (token, chat) \<Rightarrow>
                   if CHR 0x0A \<notin> set (token @ chat) \<and> CHR 0x0D \<notin> set (token @ chat)
                   then read = a \<and> save_settings_rq (cfg\<lparr>ac_alerts := read\<rparr>) = save_settings_rq cfg else True)
            \<and> form_ready (page (alerts_loaded c (Some cfg, x) s))"
proof -
  let ?a = "ac_alerts cfg" and ?read = "read_form (page (alerts_loaded c (Some cfg, x) s))"
  obtain token chat where t: "al_telegram ?a = Some (token, chat)" using assms(2) by (auto simp: plain_settings_def)
  have read: "?read = ?a\<lparr>al_telegram := Some (one_line token, one_line chat)\<rparr>"
    using read_settings [OF conjunct2 [OF alerts_loaded_form [OF assms(1), of c cfg x]]] assms(2) t
    by (auto simp: plain_settings_def threshold_def or_int_def or_none_def split: option.splits)
  have "?read = ?a" if "CHR 0x0A \<notin> set (token @ chat)" "CHR 0x0D \<notin> set (token @ chat)"
    using that t unfolding read by (simp add: one_line_id)
  then show ?thesis using read t alerts_loaded_form [OF assms(1), of c cfg x] by (simp add: Let_def)
qed

definition sample_alerts :: alerts_page where
  "sample_alerts = \<lparr>cfg_cache = None, dbs_cache = None,
     page = sample_browser\<lparr>dom := [''alerts-settings'' \<mapsto> mk_node ''div'' [] [], ''alerts-active'' \<mapsto> mk_node ''div'' [] [],
       ''alerts-history'' \<mapsto> mk_node ''div'' [] []]\<rparr>, ap_config = None, ap_alerts = None\<rparr>"

definition sample_alert_config :: alert_config where
  "sample_alert_config = \<lparr>ac_alerts = \<lparr>al_enabled = True, al_cooldown = 5, al_telegram = Some (''tok'', ''42''),
     al_thresholds = Some \<lparr>th_disk = 90, th_conn = 70, th_repl = 60, th_backup = 48\<rparr>\<rparr>, ac_rest = []\<rparr>"

abbreviation sample_time :: clock where
  "sample_time \<equiv> \<lparr>now = 0, locale_text = (\<lambda>t. []), time_text = (\<lambda>t. []), local_iso = [], number_text = int_str\<rparr>"

theorem alerts_roundtrip_witness:
  "read_form (page (alerts_loaded sample_time (Some sample_alert_config, None) sample_alerts)) = ac_alerts sample_alert_config
    \<and> save_settings_rq (sample_alert_config\<lparr>ac_alerts := read_form (page (alerts_loaded sample_time (Some sample_alert_config, None) sample_alerts))\<rparr>)
        = save_settings_rq sample_alert_config
    \<and> form_ready (page (alerts_loaded sample_time (Some sample_alert_config, None) sample_alerts))"
proof -
  have "form_ready (page sample_alerts)" "plain_settings (ac_alerts sample_alert_config)" "al_telegram (ac_alerts sample_alert_config) = Some (''tok'', ''42'')"
    by (simp_all add: form_ready_def sample_alerts_def leaf_def mk_node_def nodes_of_list_def plain_settings_def sample_alert_config_def)
  with alerts_roundtrip [of sample_alerts sample_alert_config sample_time None] show ?thesis unfolding Let_def by auto
qed

text \<open>
  although every number input allows 0, a typed 0 is saved as the default of its input: a cooldown of no minutes becomes
  15 minutes, a threshold of 0 becomes 80, 80, 30 or 24.
\<close>

theorem zero_unsavable:
  assumes "list_all (\<lambda>i. value_of i b = ''0'') [''alert-cooldown'', ''alert-disk'', ''alert-conn'', ''alert-repl'', ''alert-bkp'']"
  shows "al_cooldown (read_form b) = 15
    \<and> al_thresholds (read_form b) = Some \<lparr>th_disk = 80, th_conn = 80, th_repl = 30, th_backup = 24\<rparr>"
proof -
  have "str_of_int 0 = ''0''" by code_simp
  then have "parse_int_or ''0'' d = d" for d
    using parse_int_or_str_of_int [of 0 d] by (simp add: or_int_def)
  then show ?thesis using assms by (simp add: read_form_def)
qed

theorem zero_unsavable_witness:
  "al_cooldown (read_form (sample_browser\<lparr>dom := (\<lambda>i. Some (mk_node ''input'' [At ''value'' ''0''] []))\<rparr>)) = 15
    \<and> al_thresholds (read_form (sample_browser\<lparr>dom := (\<lambda>i. Some (mk_node ''input'' [At ''value'' ''0''] []))\<rparr>))
        = Some \<lparr>th_disk = 80, th_conn = 80, th_repl = 30, th_backup = 24\<rparr>"
  by (rule zero_unsavable) (simp add: value_of_def mk_node_def one_line_def)

end
