(* ===== verification/Drift.thy ===== *)
theory Drift
  imports Site
begin

text \<open>
  The schema drift page, drift.js: the choice of two databases, which it keeps in session storage,
  the comparison request, and the summary and lists of its reply. The summary is an object whose keys
  are put together from the kind of object; a missing list counts as empty.
\<close>

section \<open>State and server\<close>

record drift_item =
  di_name :: string
  di_detail :: string

record drift_change =
  dc_name :: string
  dc_source :: string
  dc_target :: string

record drift_summary =
  dm_only :: "(string \<times> drift_item list) list"
  dm_changed :: "(string \<times> drift_change list) list"

record drift_server =
  dv_settings :: settings_net
  dv_dbs :: "string list option net"
  dv_drift :: "drift_summary net"

abbreviation source_key :: string where "source_key \<equiv> ''pgaio_drift_source''"
abbreviation target_key :: string where "target_key \<equiv> ''pgaio_drift_target''"

definition empty_summary :: drift_summary where
  "empty_summary = \<lparr>dm_only = [], dm_changed = []\<rparr>"

definition only_in_source :: "drift_summary \<Rightarrow> string \<Rightarrow> drift_item list" where
  "only_in_source m k = or_none (map_of (dm_only m) (k @ ''OnlyInSource'')) []"

definition only_in_target :: "drift_summary \<Rightarrow> string \<Rightarrow> drift_item list" where
  "only_in_target m k = or_none (map_of (dm_only m) (k @ ''OnlyInTarget'')) []"

definition changed_in :: "drift_summary \<Rightarrow> string \<Rightarrow> drift_change list" where
  "changed_in m k = or_none (map_of (dm_changed m) (k @ ''Changed'')) []"

section \<open>Markup\<close>

definition drift_row :: "drift_item \<Rightarrow> html list" where
  "drift_row i = [El ''tr'' []
      [El ''td'' [At ''class'' ''mono-xs''] [Txt (escHtml (di_name i))],
      El ''td'' [At ''class'' ''mono-xs dim''] [Txt (escHtml (di_detail i))]]]"

definition drift_table :: "drift_item list \<Rightarrow> html list" where
  "drift_table is =
     (if is \<noteq> [] then [El ''div'' [At ''class'' ''overflow-auto'', At ''style'' ''max-height:180px'']
      [El ''table'' [At ''class'' ''data-table'']
       [El ''thead'' []
        [El ''tr'' []
         [El ''th'' [] [Txt ''name''],
         El ''th'' [] [Txt ''detail'']]],
       El ''tbody'' [] (concat (map drift_row is))]]] else [El ''div'' [At ''class'' ''mono-xs green''] [Txt ''no differences'']])"

definition renderList :: "string \<Rightarrow> drift_item list \<Rightarrow> html list" where
  "renderList ttl is = [El ''div'' [At ''style'' ''margin-top:10px'']
      ([El ''div'' [At ''class'' ''mono-xs dim'', At ''style'' ''margin-bottom:4px''] [Txt (ttl @ '' ('' @ (str_of_nat (length is)) @ '')'')]] @ (drift_table is))]"

definition change_row :: "drift_change \<Rightarrow> html list" where
  "change_row i = [El ''tr'' []
      [El ''td'' [At ''class'' ''mono-xs''] [Txt (escHtml (dc_name i))],
      El ''td'' [At ''class'' ''mono-xs dim''] [Txt (escHtml (dc_source i))],
      El ''td'' [At ''class'' ''mono-xs dim''] [Txt (escHtml (dc_target i))]]]"

definition change_table :: "drift_change list \<Rightarrow> html list" where
  "change_table is =
     (if is \<noteq> [] then [El ''div'' [At ''class'' ''overflow-auto'', At ''style'' ''max-height:220px'']
      [El ''table'' [At ''class'' ''data-table'']
       [El ''thead'' []
        [El ''tr'' []
         [El ''th'' [] [Txt ''name''],
         El ''th'' [] [Txt ''source''],
         El ''th'' [] [Txt ''target'']]],
       El ''tbody'' [] (concat (map change_row is))]]] else [El ''div'' [At ''class'' ''mono-xs green''] [Txt ''no changed objects'']])"

definition renderChanged :: "string \<Rightarrow> drift_change list \<Rightarrow> html list" where
  "renderChanged ttl is = [El ''div'' [At ''style'' ''margin-top:10px'']
      ([El ''div'' [At ''class'' ''mono-xs dim'', At ''style'' ''margin-bottom:4px''] [Txt (ttl @ '' ('' @ (str_of_nat (length is)) @ '')'')]] @ (change_table is))]"

definition renderSection :: "string \<Rightarrow> drift_summary \<Rightarrow> html list" where
  "renderSection k m = [El ''div'' [At ''class'' ''card mb-8'']
      ([El ''div'' [At ''class'' ''card-title''] [Txt (k @ '' drift'')]] @ (renderList (k @ '' only in source'') (only_in_source m k)) @ (renderList (k @ '' only in target'') (only_in_target m k)) @ (renderChanged (k @ '' changed'') (changed_in m k)))]"

record drift_counts =
  ct_source :: nat
  ct_target :: nat
  ct_changed :: nat

definition countSummary :: "drift_summary \<Rightarrow> string \<Rightarrow> drift_counts" where
  "countSummary m k =
     \<lparr>ct_source = length (only_in_source m k), ct_target = length (only_in_target m k), ct_changed = length (changed_in m k)\<rparr>"

definition count_card :: "string \<Rightarrow> drift_counts \<Rightarrow> html list" where
  "count_card label c = [El ''div'' [At ''class'' ''card'']
      [El ''div'' [At ''class'' ''card-title''] [Txt label],
      El ''div'' [At ''class'' ''mono-xs dim''] [Txt (''source only: '' @ (str_of_nat (ct_source c)))],
      El ''div'' [At ''class'' ''mono-xs dim''] [Txt (''target only: '' @ (str_of_nat (ct_target c)))],
      El ''div'' [At ''class'' ''mono-xs dim''] [Txt (''changed: '' @ (str_of_nat (ct_changed c)))]]]"

definition drift_kinds :: "(string \<times> string) list" where
  "drift_kinds = [(''tables'', ''table''), (''columns'', ''column''), (''indexes'', ''index''), (''extensions'', ''extension'')]"

definition summary_markup :: "drift_summary \<Rightarrow> html list" where
  "summary_markup m = [El ''div'' [At ''class'' ''grid-4'', At ''style'' ''gap:8px'']
      (concat (map (\<lambda>(l, k). count_card l (countSummary m k)) drift_kinds))]"

definition sections_markup :: "drift_summary \<Rightarrow> html list" where
  "sections_markup m = concat (map (\<lambda>(l, k). renderSection k m) drift_kinds)"

definition drift_note :: "string \<Rightarrow> string \<Rightarrow> html list" where
  "drift_note color t = [El ''div'' [At ''class'' ''card'']
      [El ''span'' [At ''class'' (''mono-xs '' @ color)] [Txt t]]]"

section \<open>Operations\<close>

definition drift_rq :: "string \<Rightarrow> string \<Rightarrow> string \<Rightarrow> request" where
  "drift_rq source target prof =
     get_rq (''/schema/drift?source='' @ encode_uri source @ ''&target='' @ encode_uri target @ ''&profile='' @ encode_uri prof)"

definition show_drift :: "html list \<Rightarrow> html list \<Rightarrow> site \<Rightarrow> site" where
  "show_drift summary sections s = put_markup ''drift-sections'' sections (put_markup ''drift-summary'' summary s)"

definition drift_present :: "site \<Rightarrow> bool" where
  "drift_present s = (element ''drift-summary'' (page s) \<and> element ''drift-sections'' (page s))"

definition Drift_load :: "drift_server \<Rightarrow> site \<Rightarrow> unit outcome \<times> site" where
  "Drift_load sv s =
     (let source = value_of ''drift-source'' (page s); target = value_of ''drift-target'' (page s) in
      await (ensure (dv_settings sv) ''drift'' s) (\<lambda>prof s1.
        if \<not> drift_present s1 then (Rejected ''TypeError'', s1)
        else if source = [] \<or> target = [] then (Resolved (), show_drift (drift_note ''dim'' ''select both databases'') [] s1)
        else if source = target then (Resolved (), show_drift (drift_note ''yellow'' ''choose two different databases'') [] s1)
        else catch
          (await (on_page (api (dv_drift sv) (drift_rq source target prof)) (show_drift (drift_note ''dim'' ''comparing schemas...'') [] s1)) (\<lambda>m s2.
             (Resolved (), show_drift (summary_markup m) (sections_markup m) s2)))
          (\<lambda>e s2. (Resolved (), show_drift (drift_note ''red'' (escHtml e)) [] s2))))"

text \<open>The source and the target that the selects are set to.\<close>

definition drift_choice :: "string \<Rightarrow> string \<Rightarrow> string \<Rightarrow> string list \<Rightarrow> string \<times> string" where
  "drift_choice stored_source stored_target selected dbs =
     (let source = or_str stored_source (or_str selected (case dbs of [] \<Rightarrow> [] | d # _ \<Rightarrow> d))
      in (source,
          if stored_target = [] \<or> stored_target = source
          then (case find (\<lambda>db. db \<noteq> source) dbs of Some db \<Rightarrow> or_str db source | None \<Rightarrow> source)
          else stored_target))"

definition drift_option :: "string \<Rightarrow> html" where
  "drift_option db = El ''option'' [At ''value'' (escHtml db)] [Txt (escHtml db)]"

definition drift_selects :: "string list \<Rightarrow> browser \<Rightarrow> browser" where
  "drift_selects dbs b =
     (let os = map drift_option dbs;
          (source, target) = drift_choice (get_item source_key b) (get_item target_key b) (db_getSelected b) dbs
      in pick ''drift-target'' target (pick ''drift-source'' source
           (set_options ''drift-target'' os (set_options ''drift-source'' os b))))"

definition renderSelectors :: "drift_server \<Rightarrow> site \<Rightarrow> unit outcome \<times> site" where
  "renderSelectors sv s =
     await (databases (dv_dbs sv) s) (\<lambda>dbs s1.
       if \<not> element ''drift-source'' (page s1) \<or> \<not> element ''drift-target'' (page s1) then (Resolved (), s1)
       else (let (source, target) = drift_choice (get_item source_key (page s1)) (get_item target_key (page s1)) (db_getSelected (page s1)) dbs;
                 s2 = upd_page (drift_selects dbs) s1
             in if source \<noteq> [] \<and> target \<noteq> [] then Drift_load sv s2 else (Resolved (), s2)))"

definition source_changed :: "string \<Rightarrow> site \<Rightarrow> site" where
  "source_changed v s = upd_page (\<lambda>b. set_item source_key v (pick ''drift-source'' v b)) s"

definition target_changed :: "string \<Rightarrow> site \<Rightarrow> site" where
  "target_changed v s = upd_page (\<lambda>b. set_item target_key v (pick ''drift-target'' v b)) s"

definition drift_frame :: "html list" where
  "drift_frame = [El ''div'' [At ''class'' ''card mb-8'']
      [El ''div'' [At ''class'' ''flex-between'', At ''style'' ''gap:12px;flex-wrap:wrap'']
       [El ''div'' [At ''style'' ''display:flex;gap:8px;align-items:center;flex-wrap:wrap'']
        [El ''span'' [At ''class'' ''mono-xs dim''] [Txt ''profile''],
        El ''div'' [At ''id'' ''drift-profile-sel''] [],
        El ''span'' [At ''class'' ''mono-xs dim''] [Txt ''source''],
        El ''select'' [At ''id'' ''drift-source'', At ''class'' ''db-select''] [],
        El ''span'' [At ''class'' ''mono-xs dim''] [Txt ''target''],
        El ''select'' [At ''id'' ''drift-target'', At ''class'' ''db-select''] []],
       El ''button'' [At ''class'' ''btn btn-sm btn-primary'', At ''id'' ''btn-run-drift'']
        [El ''i'' [At ''data-lucide'' ''git-compare'', At ''class'' ''icon-sm''] [],
        Txt '' compare'']],
      El ''div'' [At ''class'' ''mono-xs dim'', At ''style'' ''margin-top:8px'']
       [Txt ''Compare tables, columns, indexes, and installed extensions across two databases.'']],
     El ''div'' [At ''id'' ''drift-summary''] [],
     El ''div'' [At ''id'' ''drift-sections''] []]"

definition Drift_render :: "drift_server \<Rightarrow> site \<Rightarrow> unit outcome \<times> site" where
  "Drift_render sv s =
     await (profiles_into (dv_settings sv) ''drift-profile-sel'' ''drift'' (put_markup ''page-content'' drift_frame s)) (\<lambda>_ s1.
       renderSelectors sv s1)"

section \<open>The choice\<close>

lemma drift_options: "options_of (drift_option d) = [(d, False)]"
  by (simp add: drift_option_def eh.decode_esc)

lemma select_both:
  assumes "element ''drift-source'' b" "element ''drift-target'' b" "drift_choice (get_item source_key b) (get_item target_key b) (db_getSelected b) dbs = (x, y)"
  shows "value_of ''drift-source'' (drift_selects dbs b) = (if x \<in> set dbs then x else [])"
    and "value_of ''drift-target'' (drift_selects dbs b) = (if y \<in> set dbs then y else [])"
    and "i \<noteq> ''drift-source'' \<Longrightarrow> i \<noteq> ''drift-target'' \<Longrightarrow> Browser.dom (drift_selects dbs b) i = Browser.dom b i"
proof -
  have member: "v \<in> fst ` set (concat (map options_of (map drift_option dbs))) \<longleftrightarrow> v \<in> set dbs" for v
    by (auto simp: drift_options image_iff)
  obtain n m where n: "Browser.dom b ''drift-source'' = Some n" "Browser.dom b ''drift-target'' = Some m"
    using assms(1,2) by (auto simp: element_def)
  have eq: "drift_selects dbs b = pick ''drift-target'' y (pick ''drift-source'' x
      (set_options ''drift-target'' (map drift_option dbs) (set_options ''drift-source'' (map drift_option dbs) b)))"
    by (simp add: drift_selects_def Let_def assms(3))
  show "value_of ''drift-source'' (drift_selects dbs b) = (if x \<in> set dbs then x else [])"
    and "value_of ''drift-target'' (drift_selects dbs b) = (if y \<in> set dbs then y else [])"
    and "i \<noteq> ''drift-source'' \<Longrightarrow> i \<noteq> ''drift-target'' \<Longrightarrow> Browser.dom (drift_selects dbs b) i = Browser.dom b i"
    unfolding eq by (simp_all add: pick_def set_options_def upd_node_def value_of_def n member del: map_map set_concat set_map)
qed

lemma drift_choice_differs:
  assumes "drift_choice ss st sel dbs = (x, y)" "d \<in> set dbs" "d \<noteq> x" "[] \<notin> set dbs"
  shows "y \<noteq> x"
proof -
  obtain e where e: "find (\<lambda>db. db \<noteq> x) dbs = Some e"
    using assms(2,3) by (cases "find (\<lambda>db. db \<noteq> x) dbs") (auto simp: find_None_iff)
  then have "e \<noteq> x" "e \<in> set dbs" by (auto simp: find_Some_iff)
  with assms(1,4) e show ?thesis by (auto simp: drift_choice_def Let_def or_str_def split: if_splits)
qed

section \<open>Properties\<close>

text \<open>
  when the stored source is still a database of the server and there is another one, the two selects show different
  databases, unless the stored target is gone, and then the target select is empty.
\<close>

theorem drift_distinct:
  assumes "element ''drift-source'' b" "element ''drift-target'' b" "[] \<notin> set dbs"
    and "drift_choice (get_item source_key b) (get_item target_key b) (db_getSelected b) dbs = (x, y)" "x \<in> set dbs" "d \<in> set dbs" "d \<noteq> x"
  shows "value_of ''drift-source'' (drift_selects dbs b) = x \<and> value_of ''drift-target'' (drift_selects dbs b) \<noteq> x
    \<and> value_of ''drift-target'' (drift_selects dbs b) = (if y \<in> set dbs then y else [])"
proof -
  have "y \<noteq> x" by (rule drift_choice_differs [OF assms(4,6,7,3)])
  moreover have "x \<noteq> []" using assms(3,5) by blast
  ultimately show ?thesis
    unfolding select_both(1,2) [OF assms(1,2,4)] using assms(5) by (simp split: if_splits)
qed

definition drift_page :: browser where
  "drift_page = sample_browser\<lparr>dom := [''drift-source'' \<mapsto> mk_node ''select'' [] [], ''drift-target'' \<mapsto> mk_node ''select'' [] [],
     ''drift-summary'' \<mapsto> mk_node ''div'' [] [], ''drift-sections'' \<mapsto> mk_node ''div'' [] []]\<rparr>"

theorem drift_distinct_witness:
  "value_of ''drift-source'' (drift_selects [''a'', ''b''] drift_page) = ''a'' \<and> value_of ''drift-target'' (drift_selects [''a'', ''b''] drift_page) \<noteq> ''a''
    \<and> value_of ''drift-target'' (drift_selects [''a'', ''b''] drift_page) = (if ''b'' \<in> set [''a'', ''b''] then ''b'' else [])"
  by (rule drift_distinct [where d = "''b''"])
    (simp_all add: drift_page_def element_def drift_choice_def Let_def get_item_def sample_browser_def db_getSelected_def)

text \<open>
  a comparison is requested only for two different databases: with an empty select or twice the same database the
  only requests are those for the profile, and the page says what is missing.
\<close>

theorem drift_guarded:
  assumes "value_of ''drift-source'' (page s) = [] \<or> value_of ''drift-target'' (page s) = []
      \<or> value_of ''drift-source'' (page s) = value_of ''drift-target'' (page s)"
  shows "requests (snd (Drift_load sv s)) = requests (snd (ensure (dv_settings sv) ''drift'' s))"
proof -
  obtain r s1 where e: "ensure (dv_settings sv) ''drift'' s = (r, s1)" by fastforce
  show ?thesis using assms
    by (cases r) (auto simp: Drift_load_def Let_def e show_drift_def)
qed

definition sample_drift_server :: drift_server where
  "sample_drift_server = \<lparr>dv_settings = (\<lambda>h q. Ok None), dv_dbs = (\<lambda>h q. Ok None), dv_drift = (\<lambda>h q. Ok (Some empty_summary))\<rparr>"

theorem drift_guarded_witness:
  "requests (snd (Drift_load sample_drift_server \<lparr>cfg_cache = None, dbs_cache = None, page = drift_page\<rparr>))
    = requests (snd (ensure (dv_settings sample_drift_server) ''drift'' \<lparr>cfg_cache = None, dbs_cache = None, page = drift_page\<rparr>))"
  by (rule drift_guarded) (simp add: drift_page_def value_of_def mk_node_def select_value_def)

text \<open>
  The counts of the cards are the lengths of the lists that the sections show for the same kind, and no name in a reply becomes markup.
\<close>

lemma drift_row_safe: "safe_list (drift_row i)" "safe_list (change_row c)"
  by (simp_all add: drift_row_def change_row_def markup_safe name_ok_eval eh.no_lt)

lemma section_safe: "CHR ''<'' \<notin> set k \<Longrightarrow> safe_list (renderSection k m)"
  by (simp add: renderSection_def renderList_def renderChanged_def drift_table_def change_table_def markup_safe name_ok_eval drift_row_safe)

theorem sections_markup_safe: "lex_html (ser_list (sections_markup m)) = (Data, toks_list (sections_markup m))"
  by (rule lex_ser_list) (simp add: sections_markup_def drift_kinds_def section_safe)

end
