(* ===== verification/S3.thy ===== *)
theory S3
  imports Site
begin

text \<open>
  The S3 browser, s3.js: the listing of a prefix, the breadcrumb, download and deletion. The page does
  not await its loads: each is queued with the prefix it asked for, and its reply is shown
  under the prefix of that moment. Keys travel as string literals in \<^verbatim>\<open>onclick\<close> attributes.
\<close>

section \<open>State and server\<close>

text \<open>\<^verbatim>\<open>ob_modified\<close>: \<^verbatim>\<open>None\<close> is a missing time or the zero time of the server.\<close>

record s3_object =
  ob_key :: string
  ob_dir :: bool
  ob_size :: int
  ob_modified :: "int option"

record s3_page = site +
  s3_prefix :: string
  s3_loads :: "string list"
  s3_opened :: "string list"

record s3_server =
  ov_list :: "s3_object list net"
  ov_url :: "string net"
  ov_delete :: "unit net"

section \<open>Names\<close>

text \<open>\<^verbatim>\<open>s.replace(p, '')\<close> for a string \<^verbatim>\<open>p\<close>: its first occurrence.\<close>

fun cut_first :: "string \<Rightarrow> string \<Rightarrow> string" where
  "cut_first p [] = []"
| "cut_first p (c # cs) = (if starts_with p (c # cs) then drop (length p) (c # cs) else c # cut_first p cs)"

definition object_name :: "string \<Rightarrow> s3_object \<Rightarrow> string" where
  "object_name prefix o' = cut_first prefix (ob_key o')"

definition listed :: "string \<Rightarrow> s3_object list \<Rightarrow> s3_object list" where
  "listed prefix os =
     (let shown = filter (\<lambda>x. object_name prefix x \<noteq> [] \<and> object_name prefix x \<noteq> ''/'') os
      in filter ob_dir shown @ filter (\<lambda>x. \<not> ob_dir x) shown)"

section \<open>Markup\<close>

definition dir_row :: "string \<Rightarrow> s3_object \<Rightarrow> html list" where
  "dir_row prefix x = [El ''tr'' []
      [El ''td'' []
       [El ''a'' [At ''href'' ''#'', At ''onclick'' (''S3Browser.navigate('' @ sq @ (escHtml (ob_key x)) @ sq @ '');return false''), At ''class'' ''accent'']
        [El ''i'' [At ''data-lucide'' ''folder'', At ''style'' ''width:12px;height:12px;display:inline-block;vertical-align:middle;margin-right:4px''] [],
        Txt (escHtml (object_name prefix x))]],
      El ''td'' [At ''class'' ''dim''] [Txt ''-''],
      El ''td'' [At ''class'' ''dim''] [Txt ''-''],
      El ''td'' [] []]]"

definition modified_text :: "clock \<Rightarrow> int option \<Rightarrow> string" where
  "modified_text c t = (case t of None \<Rightarrow> ''-'' | Some x \<Rightarrow> timeAgo (now c) x)"

definition file_row :: "clock \<Rightarrow> string \<Rightarrow> s3_object \<Rightarrow> html list" where
  "file_row c prefix x = [El ''tr'' []
      [El ''td'' []
       [El ''i'' [At ''data-lucide'' ''file'', At ''style'' ''width:12px;height:12px;display:inline-block;vertical-align:middle;margin-right:4px;color:var(--text-2)''] [],
       Txt (escHtml (object_name prefix x))],
      El ''td'' [] [Txt (formatBytes (of_int (ob_size x)))],
      El ''td'' [] [Txt (modified_text c (ob_modified x))],
      El ''td'' []
       [El ''button'' [At ''onclick'' (''S3Browser.download('' @ sq @ (escHtml (ob_key x)) @ sq @ '')''), At ''class'' ''btn btn-sm btn-ghost'', At ''title'' ''download'']
        [El ''i'' [At ''data-lucide'' ''download'', At ''class'' ''icon-sm''] []],
       El ''button'' [At ''onclick'' (''S3Browser.deleteObj('' @ sq @ (escHtml (ob_key x)) @ sq @ '')''), At ''class'' ''btn btn-sm btn-ghost btn-danger'', At ''title'' ''delete'']
        [El ''i'' [At ''data-lucide'' ''trash-2'', At ''class'' ''icon-sm''] []]]]]"

definition object_row :: "clock \<Rightarrow> string \<Rightarrow> s3_object \<Rightarrow> html list" where
  "object_row c prefix x = (if ob_dir x then dir_row prefix x else file_row c prefix x)"

definition objects_markup :: "clock \<Rightarrow> string \<Rightarrow> s3_object list \<Rightarrow> html list" where
  "objects_markup c prefix os =
     (if listed prefix os = [] then [El ''tr'' []
      [El ''td'' [At ''colspan'' ''4'', At ''class'' ''text-center dim py-16''] [Txt ''empty'']]] else concat (map (object_row c prefix) (listed prefix os)))"

definition s3_error :: "string \<Rightarrow> html list" where
  "s3_error e = [El ''tr'' []
      [El ''td'' [At ''colspan'' ''4'', At ''class'' ''dim text-center py-16''] [Txt (''error: '' @ (escHtml e))]]]"

definition crumb_root :: "html list" where
  "crumb_root = [El ''a'' [At ''href'' ''#'', At ''onclick'' (''S3Browser.navigate('' @ sq @ sq @ '');return false'')] [Txt ''root'']]"

definition crumb :: "string \<Rightarrow> string \<Rightarrow> html list" where
  "crumb path p = [Txt '' '',
     El ''span'' [At ''class'' ''dim''] [Txt ''/''],
     Txt '' '',
     El ''a'' [At ''href'' ''#'', At ''onclick'' (''S3Browser.navigate('' @ sq @ (escHtml path) @ sq @ '');return false'')] [Txt (escHtml p)]]"

fun crumbs_from :: "string \<Rightarrow> string list \<Rightarrow> html list" where
  "crumbs_from path [] = []"
| "crumbs_from path (p # ps) = crumb (path @ p @ ''/'') p @ crumbs_from (path @ p @ ''/'') ps"

definition prefix_parts :: "string \<Rightarrow> string list" where
  "prefix_parts prefix = filter (\<lambda>p. p \<noteq> []) (split_on CHR ''/'' prefix)"

definition breadcrumb :: "string \<Rightarrow> html list" where
  "breadcrumb prefix = crumb_root @ crumbs_from [] (prefix_parts prefix)"

definition renderBreadcrumb :: "s3_page \<Rightarrow> s3_page" where
  "renderBreadcrumb s = put_markup ''s3-breadcrumb'' (breadcrumb (s3_prefix s)) s"

section \<open>Operations\<close>

definition loadObjects :: "s3_page \<Rightarrow> s3_page" where
  "loadObjects s = s\<lparr>s3_loads := s3_loads s @ [s3_prefix s]\<rparr>"

definition list_rq :: "string \<Rightarrow> request" where
  "list_rq prefix = get_rq (''/s3/objects?prefix='' @ encode_uri prefix)"

definition objects_shown :: "clock \<Rightarrow> s3_object list \<Rightarrow> s3_page \<Rightarrow> s3_page" where
  "objects_shown c os s = put_markup ''s3-list'' (objects_markup c (s3_prefix s) os) (renderBreadcrumb s)"

text \<open>The \<^verbatim>\<open>n\<close>-th queued load ends.\<close>

definition objects_loaded :: "s3_server \<Rightarrow> clock \<Rightarrow> nat \<Rightarrow> s3_page \<Rightarrow> unit outcome \<times> s3_page" where
  "objects_loaded sv c n s =
     (if length (s3_loads s) \<le> n then (Resolved (), s)
      else catch
        (await (on_page (api (ov_list sv) (list_rq (s3_loads s ! n))) (s\<lparr>s3_loads := take n (s3_loads s) @ drop (Suc n) (s3_loads s)\<rparr>)) (\<lambda>os s1.
           (Resolved (), objects_shown c os s1)))
        (\<lambda>e s1. (Resolved (), put_markup ''s3-list'' (s3_error e) s1)))"

definition s3_navigate :: "string \<Rightarrow> s3_page \<Rightarrow> s3_page" where
  "s3_navigate prefix s = loadObjects (s\<lparr>s3_prefix := prefix\<rparr>)"

definition s3_download :: "s3_server \<Rightarrow> string \<Rightarrow> s3_page \<Rightarrow> unit outcome \<times> s3_page" where
  "s3_download sv key s =
     catch (await (on_page (api (ov_url sv) (get_rq (''/s3/download?key='' @ encode_uri key))) s) (\<lambda>u s1.
              (Resolved (), if u \<noteq> [] then s1\<lparr>s3_opened := s3_opened s1 @ [u]\<rparr> else s1)))
       ignore"

definition delete_prompt :: "string \<Rightarrow> string" where
  "delete_prompt key = ''Delete '' @ dq @ key @ dq @ ''?''"

definition delete_object_rq :: "string \<Rightarrow> request" where
  "delete_object_rq key = delete_rq (''/s3/objects?key='' @ encode_uri key)"

definition deleteObj :: "s3_server \<Rightarrow> string \<Rightarrow> s3_page \<Rightarrow> unit outcome \<times> s3_page" where
  "deleteObj sv key s =
     confirmed ''delete object'' (delete_prompt key) (danger_options ''delete'')
       (\<lambda>s0. catch (await (on_page (apiProtected (ov_delete sv) (delete_object_rq key)) s0) (\<lambda>_ s1.
               (Resolved (), loadObjects (toast ''deleted'' ''success'' s1))))
            ignore) s"

definition s3_frame :: "html list" where
  "s3_frame = [El ''div'' [At ''class'' ''flex-between mb-12'']
      [El ''div'' [At ''class'' ''breadcrumb'', At ''id'' ''s3-breadcrumb'']
       [El ''a'' [At ''href'' ''#'', At ''onclick'' (''S3Browser.navigate('' @ sq @ sq @ '');return false'')] [Txt ''root'']]],
     El ''div'' [At ''class'' ''card'']
      [El ''div'' [At ''class'' ''overflow-auto'', At ''style'' ''height:calc(100vh - 134px); max-height: none;'']
       [El ''table'' []
        [El ''thead'' []
         [El ''tr'' []
          [El ''th'' [] [Txt ''name''],
          El ''th'' [At ''style'' ''width:80px''] [Txt ''size''],
          El ''th'' [At ''style'' ''width:100px''] [Txt ''modified''],
          El ''th'' [At ''style'' ''width:60px''] []]],
        El ''tbody'' [At ''id'' ''s3-list'']
         [El ''tr'' []
          [El ''td'' [At ''colspan'' ''4'', At ''class'' ''text-center dim py-16''] [Txt ''loading...'']]]]]]]"

definition S3_render :: "s3_page \<Rightarrow> s3_page" where
  "S3_render s = loadObjects ((put_markup ''page-content'' s3_frame s)\<lparr>s3_prefix := []\<rparr>)"

section \<open>Names and crumbs\<close>

lemma cut_first_prefix: "cut_first p (p @ s) = s"
proof -
  have "starts_with p (p @ s)" by (simp add: starts_with_append)
  then show ?thesis by (cases "p @ s") (simp_all, metis append_eq_conv_conj)
qed

lemma split_on_parts:
  "list_all (\<lambda>p. CHR ''/'' \<notin> set p) ps \<Longrightarrow> split_on CHR ''/'' (concat (map (\<lambda>p. p @ ''/'') ps)) = ps @ [[]]"
proof (induction ps)
  case (Cons p ps)
  have "CHR ''/'' \<notin> set q \<Longrightarrow> split_on CHR ''/'' (q @ CHR ''/'' # t) = q # split_on CHR ''/'' t" for q t
    by (induction q) auto
  with Cons show ?case by simp
qed simp

definition good_part :: "string \<Rightarrow> bool" where
  "good_part p = (p \<noteq> [] \<and> CHR ''/'' \<notin> set p \<and> js_plain p)"

lemma prefix_parts_concat: "list_all good_part ps \<Longrightarrow> prefix_parts (concat (map (\<lambda>p. p @ ''/'') ps)) = ps"
proof -
  assume g: "list_all good_part ps"
  then have "list_all (\<lambda>p. CHR ''/'' \<notin> set p) ps" by (auto simp: list_all_iff good_part_def)
  moreover have "filter (\<lambda>p. p \<noteq> []) ps = ps" using g by (auto simp: filter_id_conv list_all_iff good_part_def)
  ultimately show ?thesis by (simp add: prefix_parts_def split_on_parts)
qed

text \<open>The handlers of the elements of a kind in a tree, as written in their attributes.\<close>

definition raw_handler :: "attr list \<Rightarrow> string" where
  "raw_handler as = concat (map (\<lambda>a. case a of At n v \<Rightarrow> if n = ''onclick'' then v else [] | Flag n \<Rightarrow> []) as)"

fun handlers_of :: "string \<Rightarrow> html \<Rightarrow> string list" where
  "handlers_of g (Txt t) = []"
| "handlers_of g (El t as hs) = (if t = g then [raw_handler as] else []) @ concat (map (handlers_of g) hs)"

abbreviation links_in :: "html list \<Rightarrow> string list" where
  "links_in hs \<equiv> concat (map (handlers_of ''a'') hs)"

definition key_call :: "string \<Rightarrow> string \<Rightarrow> string" where
  "key_call f key = f @ ''('' @ sq @ escHtml key @ sq @ '')''"

lemma key_call_args:
  assumes "CHR ''&'' \<notin> set f"
  shows "handler_args f (key_call f key @ rest) = js_args (sq @ key @ sq @ '')'' @ html_decode rest)"
  using lith.handler_one [OF assms, of key rest] by (simp add: key_call_def)

lemma crumb_links: "links_in (crumb path p) = [key_call ''S3Browser.navigate'' path @ '';return false'']"
  by (simp add: crumb_def raw_handler_def key_call_def)

lemma crumbs_links:
  "links_in (crumbs_from path ps) =
     map (\<lambda>n. key_call ''S3Browser.navigate'' (path @ concat (map (\<lambda>p. p @ ''/'') (take n ps))) @ '';return false'') [1..<Suc (length ps)]"
proof (induction ps arbitrary: path)
  case (Cons p ps)
  have "[1..<Suc (length (p # ps))] = 1 # map Suc [1..<Suc (length ps)]"
    by (simp add: upt_conv_Cons map_Suc_upt del: upt_Suc)
  then show ?case
    by (simp add: crumb_links Cons comp_def del: upt_Suc)
qed simp

lemma row_buttons:
  "concat (map (handlers_of ''button'') (file_row c prefix x))
    = [key_call ''S3Browser.download'' (ob_key x), key_call ''S3Browser.deleteObj'' (ob_key x)]"
  by (simp add: file_row_def raw_handler_def key_call_def)

section \<open>Properties\<close>

text \<open>
  below the root, the links of the breadcrumb lead to the ancestors of the current prefix in order, the last one to
  the prefix itself, for folder names without quotes, backslashes and line breaks.
\<close>

theorem breadcrumb_paths:
  assumes "list_all good_part ps" "i < length ps"
  shows "length (links_in (breadcrumb (concat (map (\<lambda>p. p @ ''/'') ps)))) = Suc (length ps)
    \<and> handler_args ''S3Browser.navigate'' (links_in (breadcrumb (concat (map (\<lambda>p. p @ ''/'') ps))) ! Suc i)
        = Some ([concat (map (\<lambda>p. p @ ''/'') (take (Suc i) ps))], '';return false'')"
proof -
  let ?path = "concat (map (\<lambda>p. p @ ''/'') (take (Suc i) ps))"
  have root: "length (links_in crumb_root) = 1" by (simp add: crumb_root_def)
  have links: "links_in (breadcrumb (concat (map (\<lambda>p. p @ ''/'') ps))) = links_in crumb_root @
      map (\<lambda>n. key_call ''S3Browser.navigate'' (concat (map (\<lambda>p. p @ ''/'') (take n ps))) @ '';return false'') [1..<Suc (length ps)]"
    using crumbs_links [of "[]" ps] by (simp add: breadcrumb_def prefix_parts_concat [OF assms(1)] del: upt_Suc)
  have "links_in (breadcrumb (concat (map (\<lambda>p. p @ ''/'') ps))) ! Suc i = key_call ''S3Browser.navigate'' ?path @ '';return false''"
    unfolding links nth_append root using assms(2) by (simp add: nth_upt del: upt_Suc)
  moreover have "list_all good_part (take (Suc i) ps)" using assms(1) by (auto simp: list_all_iff dest: in_set_takeD)
  then have "js_plain ?path" by (induction "take (Suc i) ps") (auto simp: good_part_def js_plain_def list_all_iff)
  then have "js_args (sq @ ?path @ sq @ '')'' @ html_decode '';return false'') = Some ([?path], '';return false'')"
    using js_args_last [of ?path "'';return false''"] by (simp add: html_decode_plain)
  moreover have "length (links_in (breadcrumb (concat (map (\<lambda>p. p @ ''/'') ps)))) = Suc (length ps)"
    unfolding links using root by (simp del: upt_Suc)
  ultimately show ?thesis by (simp add: key_call_args)
qed

theorem breadcrumb_paths_witness:
  "length (links_in (breadcrumb (concat (map (\<lambda>p. p @ ''/'') [''a'', ''b c''])))) = Suc (length [''a'', ''b c''])
    \<and> handler_args ''S3Browser.navigate'' (links_in (breadcrumb (concat (map (\<lambda>p. p @ ''/'') [''a'', ''b c'']))) ! Suc 1)
        = Some ([concat (map (\<lambda>p. p @ ''/'') (take (Suc 1) [''a'', ''b c'']))], '';return false'')"
  by (rule breadcrumb_paths) (simp_all add: good_part_def)

text \<open>
  a key is put into the script of its buttons with the escaping of markup only: a key that closes the literal and the
  call goes on as script, so an object in the bucket can run code in the page of whoever deletes it.
\<close>

theorem key_executes:
  assumes "js_plain a" "ob_key x = a @ sq @ '');'' @ code"
  shows "concat (map (handlers_of ''button'') (file_row c prefix x))
        = [key_call ''S3Browser.download'' (ob_key x), key_call ''S3Browser.deleteObj'' (ob_key x)]
    \<and> handler_args ''S3Browser.deleteObj'' (key_call ''S3Browser.deleteObj'' (ob_key x)) = Some ([a], CHR '';'' # code @ sq @ '')'')"
  using row_buttons [of c prefix x] lith.call_closed [of "''S3Browser.deleteObj''" "ob_key x" a "CHR '';'' # code" "[]"] assms
  by (simp add: key_call_def)

definition hostile_object :: s3_object where
  "hostile_object = \<lparr>ob_key = ''a'' @ sq @ '');'' @ ''steal('' @ sq, ob_dir = False, ob_size = 0, ob_modified = None\<rparr>"

theorem key_executes_witness:
  "\<exists>c. concat (map (handlers_of ''button'') (file_row c [] hostile_object))
        = [key_call ''S3Browser.download'' (ob_key hostile_object), key_call ''S3Browser.deleteObj'' (ob_key hostile_object)]
    \<and> handler_args ''S3Browser.deleteObj'' (key_call ''S3Browser.deleteObj'' (ob_key hostile_object)) = Some ([''a''], CHR '';'' # (''steal('' @ sq) @ sq @ '')'')"
  by (rule exI, rule key_executes) (simp_all add: hostile_object_def)

text \<open>
  What the row of a directory and of a file should be: the texts of its cells, the name being the key without the prefix; a link that
  navigates to the own key, or the two buttons that download and delete the own key. The literals of the calls hold the key
  itself when it has no quote, backslash or line break.
\<close>

abbreviation handlers_in :: "string \<Rightarrow> html list \<Rightarrow> string list" where
  "handlers_in g hs \<equiv> concat (map (handlers_of g) hs)"

definition calls_with :: "string \<Rightarrow> string \<Rightarrow> string \<Rightarrow> string \<Rightarrow> bool" where
  "calls_with f key rest h = (if js_plain key then handler_args f h = Some ([key], rest) else True)"

definition dir_shown :: "string \<Rightarrow> s3_object \<Rightarrow> html list \<Rightarrow> bool" where
  "dir_shown prefix x r =
     (\<exists>name l. map text_of r = [name, ''-'', ''-'', []] \<and> ob_key x = prefix @ name
        \<and> handlers_in ''a'' r = [l] \<and> calls_with ''S3Browser.navigate'' (ob_key x) '';return false'' l \<and> handlers_in ''button'' r = [])"

definition file_shown :: "clock \<Rightarrow> string \<Rightarrow> s3_object \<Rightarrow> html list \<Rightarrow> bool" where
  "file_shown c prefix x r =
     (\<exists>name down del. map text_of r = [name, formatBytes (of_int (ob_size x)), modified_text c (ob_modified x), []] \<and> ob_key x = prefix @ name
        \<and> handlers_in ''a'' r = [] \<and> handlers_in ''button'' r = [down, del]
        \<and> calls_with ''S3Browser.download'' (ob_key x) [] down \<and> calls_with ''S3Browser.deleteObj'' (ob_key x) [] del)"

lemma key_call_with: "CHR ''&'' \<notin> set f \<Longrightarrow> CHR ''&'' \<notin> set rest \<Longrightarrow> calls_with f key rest (key_call f key @ rest)"
  using js_args_last [of key rest] by (simp add: calls_with_def key_call_args html_decode_plain)

lemma dir_row_cells:
  assumes "starts_with prefix (ob_key x)"
  shows "\<exists>r. table_rows (dir_row prefix x) = [r] \<and> dir_shown prefix x r"
proof -
  obtain n where n: "ob_key x = prefix @ n" using assms by (auto simp: starts_with_append)
  have "calls_with ''S3Browser.navigate'' (ob_key x) '';return false'' (key_call ''S3Browser.navigate'' (ob_key x) @ '';return false'')"
    by (rule key_call_with) simp_all
  then show ?thesis
    by (simp add: dir_row_def table_rows_def dir_shown_def raw_handler_def key_call_def object_name_def n cut_first_prefix html_decode_plain)
qed

lemma modified_text_plain: "html_decode (modified_text c t) = modified_text c t"
  by (cases t) (simp_all add: modified_text_def html_decode_plain plain_timeAgo decode_plain)

lemma file_row_cells:
  assumes "starts_with prefix (ob_key x)"
  shows "\<exists>r. table_rows (file_row c prefix x) = [r] \<and> file_shown c prefix x r"
proof -
  obtain n where n: "ob_key x = prefix @ n" using assms by (auto simp: starts_with_append)
  have "calls_with ''S3Browser.download'' (ob_key x) [] (key_call ''S3Browser.download'' (ob_key x))"
    "calls_with ''S3Browser.deleteObj'' (ob_key x) [] (key_call ''S3Browser.deleteObj'' (ob_key x))"
    using key_call_with [of "''S3Browser.download''" "[]" "ob_key x"] key_call_with [of "''S3Browser.deleteObj''" "[]" "ob_key x"] by simp_all
  then show ?thesis
    by (simp add: file_row_def table_rows_def file_shown_def raw_handler_def key_call_def object_name_def n cut_first_prefix decode_plain modified_text_plain)
qed

lemma rows_matched:
  assumes "\<And>x. x \<in> set xs \<Longrightarrow> \<exists>r. table_rows (row x) = [r] \<and> P x r"
  shows "list_all2 P xs (table_rows (concat (map row xs)))"
  using assms by (induction xs) (fastforce simp: table_rows_append table_rows_def)+

lemma listed_split:
  assumes "list_all (\<lambda>x. starts_with prefix (ob_key x)) os"
  shows "listed prefix os = filter (\<lambda>x. ob_dir x \<and> ob_key x \<noteq> prefix \<and> ob_key x \<noteq> prefix @ ''/'') os
    @ filter (\<lambda>x. \<not> ob_dir x \<and> ob_key x \<noteq> prefix \<and> ob_key x \<noteq> prefix @ ''/'') os"
proof -
  have name: "prefix @ object_name prefix x = ob_key x" if "x \<in> set os" for x
    using assms that by (auto simp: list_all_iff starts_with_append object_name_def cut_first_prefix)
  then have shown: "object_name prefix x \<noteq> [] \<and> object_name prefix x \<noteq> ''/'' \<longleftrightarrow> ob_key x \<noteq> prefix \<and> ob_key x \<noteq> prefix @ ''/''" if "x \<in> set os" for x
    using that by (metis append_Nil2 append_eq_append_conv)
  have "filter (\<lambda>x. object_name prefix x \<noteq> [] \<and> object_name prefix x \<noteq> ''/'') os = filter (\<lambda>x. ob_key x \<noteq> prefix \<and> ob_key x \<noteq> prefix @ ''/'') os"
    using shown by (intro filter_cong) auto
  then show ?thesis by (simp add: listed_def Let_def conj_commute conj_left_commute)
qed

text \<open>
  C26: for objects under the prefix, the rows that the page shows are, in the order of the reply, one for each directory and then one for
  each file, the objects whose key is the prefix or the prefix with a slash behind it left out. A row has the cells of its object, named by the key without
  the prefix; a directory has one link, to its own key, and no button, a file the buttons that download and delete its own key and no link, for keys
  without quotes, backslashes and line breaks. Without rows the table says that it is empty.
\<close>

theorem s3_listing:
  assumes "list_all (\<lambda>x. starts_with prefix (ob_key x)) os"
  shows "let rows = table_rows (objects_markup c prefix os);
             ds = filter (\<lambda>x. ob_dir x \<and> ob_key x \<noteq> prefix \<and> ob_key x \<noteq> prefix @ ''/'') os;
             fs = filter (\<lambda>x. \<not> ob_dir x \<and> ob_key x \<noteq> prefix \<and> ob_key x \<noteq> prefix @ ''/'') os
         in if ds = [] \<and> fs = [] then map (map text_of) rows = [[''empty'']]
            else list_all2 (dir_shown prefix) ds (take (length ds) rows) \<and> list_all2 (file_shown c prefix) fs (drop (length ds) rows)"
proof -
  let ?ds = "filter (\<lambda>x. ob_dir x \<and> ob_key x \<noteq> prefix \<and> ob_key x \<noteq> prefix @ ''/'') os"
  let ?fs = "filter (\<lambda>x. \<not> ob_dir x \<and> ob_key x \<noteq> prefix \<and> ob_key x \<noteq> prefix @ ''/'') os"
  have pre: "starts_with prefix (ob_key x)" if "x \<in> set os" for x using assms that by (simp add: list_all_iff)
  have ds: "list_all2 (dir_shown prefix) ?ds (table_rows (concat (map (object_row c prefix) ?ds)))"
    by (rule rows_matched) (use dir_row_cells pre in \<open>auto simp: object_row_def\<close>)
  have fs: "list_all2 (file_shown c prefix) ?fs (table_rows (concat (map (object_row c prefix) ?fs)))"
    by (rule rows_matched) (use file_row_cells pre in \<open>auto simp: object_row_def\<close>)
  show ?thesis
  proof (cases "?ds = [] \<and> ?fs = []")
    case True
    then have "listed prefix os = []" using listed_split [OF assms] by simp
    then have "map (map text_of) (table_rows (objects_markup c prefix os)) = [[''empty'']]"
      by (simp add: objects_markup_def table_rows_def html_decode_plain)
    with True show ?thesis by (simp add: Let_def)
  next
    case False
    then have rows: "table_rows (objects_markup c prefix os) =
        table_rows (concat (map (object_row c prefix) ?ds)) @ table_rows (concat (map (object_row c prefix) ?fs))"
      using listed_split [OF assms] by (auto simp: objects_markup_def table_rows_append)
    have both: "list_all2 P xs (take (length xs) (r @ r')) \<and> list_all2 Q ys (drop (length xs) (r @ r'))"
      if "list_all2 P xs r" "list_all2 Q ys r'" for P Q and xs ys :: "s3_object list" and r r' :: "html list list"
      using that list_all2_lengthD [OF that(1)] by simp
    show ?thesis unfolding Let_def rows if_not_P [OF False] by (rule both [OF ds fs])
  qed
qed

definition sample_object :: "string \<Rightarrow> bool \<Rightarrow> s3_object" where
  "sample_object k d = \<lparr>ob_key = k, ob_dir = d, ob_size = 1, ob_modified = None\<rparr>"

theorem s3_listing_witness:
  "let rows = table_rows (objects_markup \<lparr>now = 0, locale_text = (\<lambda>t. []), time_text = (\<lambda>t. []), local_iso = [], number_text = int_str\<rparr> ''b/''
                 [sample_object ''b/x'' False, sample_object ''b/'' True, sample_object ''b/d/'' True])
   in list_all2 (dir_shown ''b/'') [sample_object ''b/d/'' True] (take 1 rows)
    \<and> list_all2 (file_shown \<lparr>now = 0, locale_text = (\<lambda>t. []), time_text = (\<lambda>t. []), local_iso = [], number_text = int_str\<rparr> ''b/'') [sample_object ''b/x'' False] (drop 1 rows)"
  using s3_listing [of "''b/''" "[sample_object ''b/x'' False, sample_object ''b/'' True, sample_object ''b/d/'' True]"
      "\<lparr>now = 0, locale_text = (\<lambda>t. []), time_text = (\<lambda>t. []), local_iso = [], number_text = int_str\<rparr>"]
  by (simp add: Let_def sample_object_def)

text \<open>
  A reply does not say for which prefix it was asked: after navigating on, the objects of the old folder are listed under the
  new breadcrumb.
\<close>

theorem s3_stale_listing:
  assumes "on_page (api (ov_list sv) (list_rq (s3_prefix s))) (s\<lparr>s3_prefix := p, s3_loads := [p]\<rparr>) = (Resolved os, s1)" "s3_loads s = []"
  shows "objects_loaded sv c 0 (s3_navigate p (loadObjects s)) = (Resolved (), objects_shown c os s1)"
  using assms by (simp add: objects_loaded_def s3_navigate_def loadObjects_def)

end
