(* ===== verification/Roles.thy ===== *)
theory Roles
  imports Site
begin

text \<open>
  Roles and privileges, roles.js: one overview, shown in four tabs under a search text. Tab, search
  text and data are fields of the page that outlive its markup.
\<close>

section \<open>State and server\<close>

record pg_role =
  r_name :: string
  r_login :: bool
  r_super :: bool
  r_createDb :: bool
  r_createRole :: bool
  r_replication :: bool
  r_bypass :: bool
  r_limit :: int
  r_memberOf :: "string list"

record membership =
  m_member :: string
  m_role :: string
  m_admin :: bool

record grant_row =
  gr_grantee :: string
  gr_type :: string
  gr_database :: string
  gr_schema :: string
  gr_object :: string
  gr_privilege :: string
  gr_grantable :: bool

record roles_overview =
  ov_roles :: "pg_role list"
  ov_memberships :: "membership list"
  ov_grants :: "grant_row list"
  ov_defaults :: "grant_row list"

record roles_page = site +
  ro_data :: "roles_overview option"
  ro_tab :: string
  ro_search :: string

section \<open>Filters\<close>

definition search_hit :: "string \<Rightarrow> string list \<Rightarrow> bool" where
  "search_hit search ws = str_includes search (to_lower (join_with '' '' ws))"

definition search_filter :: "string \<Rightarrow> ('a \<Rightarrow> string list) \<Rightarrow> 'a list \<Rightarrow> 'a list" where
  "search_filter search ws xs = (if search \<noteq> [] then filter (\<lambda>x. search_hit search (ws x)) xs else xs)"

definition role_words :: "pg_role \<Rightarrow> string list" where
  "role_words r = r_name r # r_memberOf r"

definition membership_words :: "membership \<Rightarrow> string list" where
  "membership_words m = [m_member m, m_role m]"

definition grant_words :: "grant_row \<Rightarrow> string list" where
  "grant_words g = [gr_grantee g, gr_type g, gr_database g, gr_schema g, gr_object g, gr_privilege g]"

section \<open>Markup\<close>

definition yes_no :: "bool \<Rightarrow> string" where
  "yes_no b = (if b then ''yes'' else ''no'')"

definition flag_class :: "string \<Rightarrow> bool \<Rightarrow> string" where
  "flag_class c b = (if b then c else ''dim'')"

definition member_cell :: "pg_role \<Rightarrow> html list" where
  "member_cell r =
     (if r_memberOf r \<noteq> [] then [Txt (join_with '', '' (map escHtml (r_memberOf r)))]
      else [El ''span'' [At ''class'' ''dim mono-xs''] [Txt ''-'']])"

definition role_row :: "pg_role \<Rightarrow> html list" where
  "role_row r = [El ''tr'' []
      [El ''td'' [] [Txt (escHtml (r_name r))],
      El ''td'' [At ''class'' (flag_class ''green'' (r_login r))] [Txt (yes_no (r_login r))],
      El ''td'' [At ''class'' (flag_class ''red'' (r_super r))] [Txt (yes_no (r_super r))],
      El ''td'' [At ''class'' (flag_class ''yellow'' (r_createDb r))] [Txt (yes_no (r_createDb r))],
      El ''td'' [At ''class'' (flag_class ''yellow'' (r_createRole r))] [Txt (yes_no (r_createRole r))],
      El ''td'' [At ''class'' (flag_class ''accent'' (r_replication r))] [Txt (yes_no (r_replication r))],
      El ''td'' [At ''class'' (flag_class ''red'' (r_bypass r))] [Txt (yes_no (r_bypass r))],
      El ''td'' [] [Txt (str_of_int (r_limit r))],
      El ''td'' [] (member_cell r)]]"

definition roles_note :: "string \<Rightarrow> html list" where
  "roles_note t = [El ''div'' [At ''class'' ''card'']
      [El ''span'' [At ''class'' ''dim mono-xs''] [Txt t]]]"

definition roles_table :: "pg_role list \<Rightarrow> html list" where
  "roles_table rs =
     (if rs = [] then roles_note ''no roles match the current filters''
      else [El ''div'' [At ''class'' ''mono-xs dim mb-8''] [Txt ((str_of_nat (length rs)) @ '' roles'')],
     El ''div'' [At ''class'' ''card'', At ''style'' ''padding:0;overflow-x:auto;height:calc(100vh - 138px);overflow-y:auto'']
      [El ''table'' [At ''class'' ''data-table'', At ''style'' ''table-layout:fixed;width:100%'']
       [El ''thead'' []
        [El ''tr'' []
         [El ''th'' [At ''style'' ''width:160px''] [Txt ''role''],
         El ''th'' [At ''style'' ''width:60px''] [Txt ''login''],
         El ''th'' [At ''style'' ''width:60px''] [Txt ''super''],
         El ''th'' [At ''style'' ''width:60px''] [Txt ''db''],
         El ''th'' [At ''style'' ''width:60px''] [Txt ''role''],
         El ''th'' [At ''style'' ''width:60px''] [Txt ''repl''],
         El ''th'' [At ''style'' ''width:60px''] [Txt ''bypass''],
         El ''th'' [At ''style'' ''width:80px''] [Txt ''conn limit''],
         El ''th'' [] [Txt ''member of'']]],
       El ''tbody'' [] (concat (map role_row rs))]]])"

definition membership_row :: "membership \<Rightarrow> html list" where
  "membership_row m = [El ''tr'' []
      [El ''td'' [] [Txt (escHtml (m_member m))],
      El ''td'' [] [Txt (escHtml (m_role m))],
      El ''td'' [At ''class'' (flag_class ''yellow'' (m_admin m))] [Txt (yes_no (m_admin m))]]]"

definition memberships_table :: "membership list \<Rightarrow> html list" where
  "memberships_table ms =
     (if ms = [] then roles_note ''no memberships match the current filters''
      else [El ''div'' [At ''class'' ''mono-xs dim mb-8'']
      [Txt ((str_of_nat (length ms)) @ '' membership link'' @ (if length ms \<noteq> 1 then ''s'' else []))],
     El ''div'' [At ''class'' ''card'', At ''style'' ''padding:0;overflow-x:auto;height:calc(100vh - 138px);overflow-y:auto'']
      [El ''table'' [At ''class'' ''data-table'', At ''style'' ''table-layout:fixed;width:100%'']
       [El ''thead'' []
        [El ''tr'' []
         [El ''th'' [] [Txt ''member''],
         El ''th'' [] [Txt ''parent role''],
         El ''th'' [At ''style'' ''width:100px''] [Txt ''admin option'']]],
       El ''tbody'' [] (concat (map membership_row ms))]]])"

definition grant_markup :: "grant_row \<Rightarrow> html list" where
  "grant_markup g = [El ''tr'' []
      [El ''td'' [] [Txt (escHtml (or_str (gr_grantee g) ''-''))],
      El ''td'' [] [Txt (escHtml (or_str (gr_type g) ''-''))],
      El ''td'' [] [Txt (escHtml (or_str (gr_database g) ''-''))],
      El ''td'' [] [Txt (escHtml (or_str (gr_schema g) ''-''))],
      El ''td'' [] [Txt (escHtml (or_str (gr_object g) ''-''))],
      El ''td'' [] [Txt (escHtml (or_str (gr_privilege g) ''-''))],
      El ''td'' [At ''class'' (flag_class ''green'' (gr_grantable g))] [Txt (yes_no (gr_grantable g))]]]"

definition grants_table :: "grant_row list \<Rightarrow> html list" where
  "grants_table gs =
     (if gs = [] then roles_note ''no grants match the current filters''
      else [El ''div'' [At ''class'' ''mono-xs dim mb-8'']
      [Txt ((str_of_nat (length gs)) @ '' grant row'' @ (if length gs \<noteq> 1 then ''s'' else []))],
     El ''div'' [At ''class'' ''card'', At ''style'' ''padding:0;overflow-x:auto;height:calc(100vh - 138px);overflow-y:auto'']
      [El ''table'' [At ''class'' ''data-table'', At ''style'' ''table-layout:fixed;width:100%'']
       [El ''thead'' []
        [El ''tr'' []
         [El ''th'' [At ''style'' ''width:140px''] [Txt ''grantee''],
         El ''th'' [At ''style'' ''width:130px''] [Txt ''object type''],
         El ''th'' [At ''style'' ''width:120px''] [Txt ''database''],
         El ''th'' [At ''style'' ''width:120px''] [Txt ''schema''],
         El ''th'' [] [Txt ''object''],
         El ''th'' [At ''style'' ''width:120px''] [Txt ''privilege''],
         El ''th'' [At ''style'' ''width:100px''] [Txt ''grantable'']]],
       El ''tbody'' [] (concat (map grant_markup gs))]]])"

definition roles_error :: "string \<Rightarrow> html list" where
  "roles_error e = [El ''div'' [At ''class'' ''card'']
      [El ''span'' [At ''class'' ''red mono-xs''] [Txt (escHtml e)]]]"

section \<open>Operations\<close>

definition tab_view :: "string \<Rightarrow> string \<Rightarrow> roles_overview \<Rightarrow> html list" where
  "tab_view t search d =
     (if t = ''memberships'' then memberships_table (search_filter search membership_words (ov_memberships d))
      else if t = ''grants'' then grants_table (search_filter search grant_words (ov_grants d))
      else if t = ''defaults'' then grants_table (search_filter search grant_words (ov_defaults d))
      else roles_table (search_filter search role_words (ov_roles d)))"

definition renderCurrentTab :: "roles_page \<Rightarrow> roles_page" where
  "renderCurrentTab s =
     (case ro_data s of None \<Rightarrow> s | Some d \<Rightarrow> put_markup ''roles-content'' (tab_view (ro_tab s) (ro_search s) d) s)"

definition role_tabs :: "string list" where
  "role_tabs = [''roles'', ''memberships'', ''grants'', ''defaults'']"

definition mark_tabs :: "string \<Rightarrow> browser \<Rightarrow> browser" where
  "mark_tabs t b = fold (\<lambda>n. set_style (''roles-tab-'' @ n) ''opacity'' (if n = t then ''1'' else ''0.5'')) role_tabs b"

definition Roles_switchTab :: "string \<Rightarrow> roles_page \<Rightarrow> roles_page" where
  "Roles_switchTab t s = renderCurrentTab (upd_page (mark_tabs t) (s\<lparr>ro_tab := t\<rparr>))"

definition roles_loaded :: "roles_overview \<Rightarrow> roles_page \<Rightarrow> roles_page" where
  "roles_loaded d s = Roles_switchTab (ro_tab s) (s\<lparr>ro_data := Some d\<rparr>)"

definition Roles_load :: "roles_overview net \<Rightarrow> roles_page \<Rightarrow> unit outcome \<times> roles_page" where
  "Roles_load net s =
     (if \<not> element ''roles-content'' (page s) then (Resolved (), s)
      else catch (await (on_page (api net (get_rq ''/roles/overview'')) s) (\<lambda>d s1. (Resolved (), roles_loaded d s1)))
        (\<lambda>e s1. (Resolved (), put_markup ''roles-content'' (roles_error e) s1)))"

definition search_typed :: "string \<Rightarrow> roles_page \<Rightarrow> roles_page" where
  "search_typed v s = renderCurrentTab (upd_page (set_val ''roles-search'' v) (s\<lparr>ro_search := to_lower v\<rparr>))"

definition roles_frame :: "html list" where
  "roles_frame = [El ''div'' [At ''class'' ''flex-between mb-8'']
      [El ''div'' [At ''style'' ''display:flex;gap:8px;align-items:center;flex-wrap:wrap'']
       [El ''span'' [At ''class'' ''card-title'', At ''style'' ''margin:0''] [Txt ''roles & privileges''],
       El ''div'' [At ''style'' ''display:flex;gap:2px'']
        [El ''button'' [At ''class'' ''btn btn-sm'', At ''id'' ''roles-tab-roles'', At ''onclick'' (''RolesPage.switchTab('' @ sq @ ''roles'' @ sq @ '')''), At ''style'' ''font-size:9px''] [Txt ''roles''],
        El ''button'' [At ''class'' ''btn btn-sm'', At ''id'' ''roles-tab-memberships'', At ''onclick'' (''RolesPage.switchTab('' @ sq @ ''memberships'' @ sq @ '')''), At ''style'' ''font-size:9px''] [Txt ''memberships''],
        El ''button'' [At ''class'' ''btn btn-sm'', At ''id'' ''roles-tab-grants'', At ''onclick'' (''RolesPage.switchTab('' @ sq @ ''grants'' @ sq @ '')''), At ''style'' ''font-size:9px''] [Txt ''grants''],
        El ''button'' [At ''class'' ''btn btn-sm'', At ''id'' ''roles-tab-defaults'', At ''onclick'' (''RolesPage.switchTab('' @ sq @ ''defaults'' @ sq @ '')''), At ''style'' ''font-size:9px''] [Txt ''default privs'']],
       El ''input'' [At ''id'' ''roles-search'', At ''type'' ''text'', At ''placeholder'' ''search role / object / privilege'', At ''style'' ''background:var(--bg-2);border:1px solid var(--border);color:var(--text-1);padding:4px 8px;font-size:11px;font-family:var(--font);width:240px''] []],
      El ''button'' [At ''onclick'' ''RolesPage.load()'', At ''class'' ''btn btn-sm'']
       [El ''i'' [At ''data-lucide'' ''refresh-cw'', At ''class'' ''icon-sm''] [],
       Txt '' refresh'']],
     El ''div'' [At ''id'' ''roles-content'']
      [El ''div'' [At ''class'' ''card'']
       [El ''span'' [At ''class'' ''dim mono-xs''] [Txt ''loading...'']]]]"

definition Roles_render :: "roles_overview net \<Rightarrow> roles_page \<Rightarrow> unit outcome \<times> roles_page" where
  "Roles_render net s = Roles_load net (put_markup ''page-content'' roles_frame s)"

section \<open>The view is a function of the state\<close>

datatype roles_event = Typed string | Tab string | Overview roles_overview | Failed string

fun roles_step :: "roles_event \<Rightarrow> roles_page \<Rightarrow> roles_page" where
  "roles_step (Typed v) s = search_typed v s"
| "roles_step (Tab t) s = Roles_switchTab t s"
| "roles_step (Overview d) s = roles_loaded d s"
| "roles_step (Failed e) s = put_markup ''roles-content'' (roles_error e) s"

fun load_fails :: "roles_event \<Rightarrow> bool" where
  "load_fails (Failed e) = True"
| "load_fails (Typed v) = False"
| "load_fails (Tab t) = False"
| "load_fails (Overview d) = False"

lemma roles_no_nodes: "nodes_of_list (tab_view t search d) = []" "nodes_of_list (roles_error e) = []"
proof -
  have empty: "concat (map nodes_of (roles_note x)) = []" for x by (simp add: roles_note_def)
  have cell: "concat (map nodes_of (member_cell r)) = []" for r by (simp add: member_cell_def)
  have row: "concat (map nodes_of (role_row r)) = []" for r by (simp add: role_row_def cell)
  have roles: "nodes_of_list (roles_table rs) = []" for rs
    using no_nodes_concat [of role_row rs] row empty by (cases "rs = []") (simp_all add: roles_table_def nodes_of_list_def)
  have "concat (map nodes_of (membership_row m)) = []" for m by (simp add: membership_row_def)
  then have members: "nodes_of_list (memberships_table ms) = []" for ms
    using no_nodes_concat [of membership_row ms] empty by (cases "ms = []") (simp_all add: memberships_table_def nodes_of_list_def)
  have "concat (map nodes_of (grant_markup g)) = []" for g by (simp add: grant_markup_def)
  then have grants: "nodes_of_list (grants_table gs) = []" for gs
    using no_nodes_concat [of grant_markup gs] empty by (cases "gs = []") (simp_all add: grants_table_def nodes_of_list_def)
  show "nodes_of_list (tab_view t search d) = []" by (simp add: tab_view_def roles members grants)
  show "nodes_of_list (roles_error e) = []" by (simp add: roles_error_def nodes_of_list_def)
qed

lemma mark_tabs_content: "inner i (mark_tabs t b) = inner i b" "leaf i b \<Longrightarrow> leaf i (mark_tabs t b)"
proof -
  have "inner i (set_style j p v b) = inner i b" for j p v b
    by (auto simp: inner_def node_setters upd_node_def split: option.splits)
  then show "inner i (mark_tabs t b) = inner i b" by (simp add: mark_tabs_def role_tabs_def)
  show "leaf i b \<Longrightarrow> leaf i (mark_tabs t b)" by (simp add: mark_tabs_def role_tabs_def leaf_style)
qed

lemma render_current:
  assumes "leaf ''roles-content'' (page s)"
  shows "leaf ''roles-content'' (page (renderCurrentTab s))"
    and "ro_data s = Some d \<Longrightarrow> inner ''roles-content'' (page (renderCurrentTab s)) = tab_view (ro_tab s) (ro_search s) d"
    and "ro_data (renderCurrentTab s) = ro_data s \<and> ro_tab (renderCurrentTab s) = ro_tab s \<and> ro_search (renderCurrentTab s) = ro_search s"
  using assms leaf_inner(1) [OF assms roles_no_nodes(1)]
  by (simp_all add: renderCurrentTab_def put_markup_def upd_page_def leaf_write roles_no_nodes split: option.splits)

lemma leaf_set_val: "leaf i b \<Longrightarrow> leaf i (set_val j v b)"
  by (simp add: node_setters leaf_upd_node)

lemma roles_step_view:
  assumes "leaf ''roles-content'' (page s)"
  shows "leaf ''roles-content'' (page (roles_step e s))"
    and "\<not> load_fails e \<Longrightarrow> ro_data (roles_step e s) = Some d \<Longrightarrow>
      inner ''roles-content'' (page (roles_step e s)) = tab_view (ro_tab (roles_step e s)) (ro_search (roles_step e s)) d"
proof -
  have t: "leaf ''roles-content'' (page (search_typed v s))"
      "ro_data (search_typed v s) = Some d \<Longrightarrow> inner ''roles-content'' (page (search_typed v s)) = tab_view (ro_tab (search_typed v s)) (ro_search (search_typed v s)) d" for v
    using render_current [of "upd_page (set_val ''roles-search'' v) (s\<lparr>ro_search := to_lower v\<rparr>)"] assms
    by (simp_all add: search_typed_def leaf_set_val)
  have w: "leaf ''roles-content'' (page (Roles_switchTab x z))"
      "ro_data (Roles_switchTab x z) = Some d \<Longrightarrow> inner ''roles-content'' (page (Roles_switchTab x z)) = tab_view (ro_tab (Roles_switchTab x z)) (ro_search (Roles_switchTab x z)) d"
    if "leaf ''roles-content'' (page z)" for x z
    using render_current [of "upd_page (mark_tabs x) (z\<lparr>ro_tab := x\<rparr>)"] that
    by (simp_all add: Roles_switchTab_def mark_tabs_content)
  have f: "leaf ''roles-content'' (page (put_markup ''roles-content'' (roles_error m) s))" for m
    using assms by (simp add: put_markup_def leaf_write roles_no_nodes)
  show "leaf ''roles-content'' (page (roles_step e s))"
    by (cases e) (simp_all add: t w assms f roles_loaded_def)
  show "\<not> load_fails e \<Longrightarrow> ro_data (roles_step e s) = Some d \<Longrightarrow>
      inner ''roles-content'' (page (roles_step e s)) = tab_view (ro_tab (roles_step e s)) (ro_search (roles_step e s)) d"
    by (cases e) (simp_all add: t w assms roles_loaded_def)
qed

lemma roles_run_leaf: "leaf ''roles-content'' (page s) \<Longrightarrow> leaf ''roles-content'' (page (fold roles_step es s))"
  by (induction es arbitrary: s) (simp_all add: roles_step_view)

section \<open>What the user should read\<close>

text \<open>
  An independent account of the page: the tab chosen last, the text typed last in lower case, the overview received last; and
  the cells of the rows of each tab, those whose words, joined by blanks, contain the text.
\<close>

definition latest :: "('e \<Rightarrow> 'a option) \<Rightarrow> 'e list \<Rightarrow> 'a \<Rightarrow> 'a" where
  "latest f es x = last (x # List.map_filter f es)"

lemma latest_snoc: "latest f (es @ [e]) x = (case f e of None \<Rightarrow> latest f es x | Some y \<Rightarrow> y)"
  by (simp add: latest_def map_filter_def split: option.split)

definition tab_after :: "roles_event list \<Rightarrow> string \<Rightarrow> string" where
  "tab_after = latest (\<lambda>e. case e of Tab t \<Rightarrow> Some t | Typed v \<Rightarrow> None | Overview d \<Rightarrow> None | Failed m \<Rightarrow> None)"

definition search_after :: "roles_event list \<Rightarrow> string \<Rightarrow> string" where
  "search_after = latest (\<lambda>e. case e of Typed v \<Rightarrow> Some (to_lower v) | Tab t \<Rightarrow> None | Overview d \<Rightarrow> None | Failed m \<Rightarrow> None)"

definition data_after :: "roles_event list \<Rightarrow> roles_overview option \<Rightarrow> roles_overview option" where
  "data_after = latest (\<lambda>e. case e of Overview d \<Rightarrow> Some (Some d) | Typed v \<Rightarrow> None | Tab t \<Rightarrow> None | Failed m \<Rightarrow> None)"

definition holds_text :: "string \<Rightarrow> string \<Rightarrow> bool" where
  "holds_text search words = (\<exists>p q. to_lower words = p @ search @ q)"

definition blank_dash :: "string \<Rightarrow> string" where
  "blank_dash s = (if s = [] then ''-'' else s)"

definition yes :: "bool \<Rightarrow> string" where
  "yes b = (if b then ''yes'' else ''no'')"

definition grant_lines :: "string \<Rightarrow> grant_row list \<Rightarrow> string list list" where
  "grant_lines search gs =
     map (\<lambda>g. map blank_dash [gr_grantee g, gr_type g, gr_database g, gr_schema g, gr_object g, gr_privilege g] @ [yes (gr_grantable g)])
       (filter (\<lambda>g. holds_text search (gr_grantee g @ '' '' @ gr_type g @ '' '' @ gr_database g @ '' '' @ gr_schema g @ '' '' @ gr_object g @ '' '' @ gr_privilege g)) gs)"

definition membership_lines :: "string \<Rightarrow> membership list \<Rightarrow> string list list" where
  "membership_lines search ms =
     map (\<lambda>m. [m_member m, m_role m, yes (m_admin m)]) (filter (\<lambda>m. holds_text search (m_member m @ '' '' @ m_role m)) ms)"

definition role_lines :: "string \<Rightarrow> pg_role list \<Rightarrow> string list list" where
  "role_lines search rs =
     map (\<lambda>r. [r_name r, yes (r_login r), yes (r_super r), yes (r_createDb r), yes (r_createRole r), yes (r_replication r),
            yes (r_bypass r), str_of_int (r_limit r), if r_memberOf r = [] then ''-'' else join_with '', '' (r_memberOf r)])
       (filter (\<lambda>r. holds_text search (r_name r @ concat (map (\<lambda>m. '' '' @ m) (r_memberOf r)))) rs)"

lemma search_filter_text: "(\<And>x. join_with '' '' (ws x) = words x) \<Longrightarrow> search_filter search ws xs = filter (\<lambda>x. holds_text search (words x)) xs"
proof -
  assume w: "\<And>x. join_with '' '' (ws x) = words x"
  have "holds_text [] y" for y unfolding holds_text_def by (rule exI [of _ "[]"]) simp
  then show ?thesis by (simp add: search_filter_def search_hit_def includes_iff holds_text_def w)
qed

lemma role_words_join: "join_with '' '' (role_words r) = r_name r @ concat (map (\<lambda>m. '' '' @ m) (r_memberOf r))"
proof -
  have "join_with '' '' (x # xs) = x @ concat (map (\<lambda>m. '' '' @ m) xs)" for x xs
    by (induction xs arbitrary: x) simp_all
  then show ?thesis by (simp add: role_words_def)
qed

lemma cells_Txt [simp]: "table_rows [] = []" "table_rows (Txt s # hs) = table_rows hs"
  "table_rows (El t as gs # hs) = filter (\<lambda>r. r \<noteq> []) (if t = ''tr'' then [filter is_td gs] else concat (map rows_in gs)) @ table_rows hs"
  by (simp_all add: table_rows_def)

lemma int_text [simp]: "html_decode (str_of_int n) = str_of_int n"
  by (rule decode_plain) simp

lemma role_row_texts: "map (map text_of) (table_rows (role_row r)) = [[r_name r, yes (r_login r), yes (r_super r), yes (r_createDb r), yes (r_createRole r), yes (r_replication r),
    yes (r_bypass r), str_of_int (r_limit r), if r_memberOf r = [] then ''-'' else join_with '', '' (r_memberOf r)]]"
  by (simp add: role_row_def member_cell_def yes_no_def yes_def decode_join_escHtml html_decode_plain)

lemma membership_row_texts: "map (map text_of) (table_rows (membership_row m)) = [[m_member m, m_role m, yes (m_admin m)]]"
  by (simp add: membership_row_def yes_no_def yes_def html_decode_plain)

lemma grant_row_texts: "map (map text_of) (table_rows (grant_markup g)) =
    [map blank_dash [gr_grantee g, gr_type g, gr_database g, gr_schema g, gr_object g, gr_privilege g] @ [yes (gr_grantable g)]]"
  by (simp add: grant_markup_def yes_no_def yes_def html_decode_plain or_str_def blank_dash_def)

lemma texts_concat:
  "(\<And>x. map (map text_of) (table_rows (row x)) = [f x]) \<Longrightarrow> map (map text_of) (filter (\<lambda>r. r \<noteq> []) (concat (map rows_in (concat (map row xs))))) = map f xs"
  by (induction xs) (simp_all add: table_rows_def)

lemma tables_texts:
  "table_texts (roles_note t) = []"
  "table_texts (roles_table rs) = map (\<lambda>r. [r_name r, yes (r_login r), yes (r_super r), yes (r_createDb r), yes (r_createRole r), yes (r_replication r),
     yes (r_bypass r), str_of_int (r_limit r), if r_memberOf r = [] then ''-'' else join_with '', '' (r_memberOf r)]) rs"
  "table_texts (memberships_table ms) = map (\<lambda>m. [m_member m, m_role m, yes (m_admin m)]) ms"
  "table_texts (grants_table gs) = map (\<lambda>g. map blank_dash [gr_grantee g, gr_type g, gr_database g, gr_schema g, gr_object g, gr_privilege g] @ [yes (gr_grantable g)]) gs"
proof -
  show n: "table_texts (roles_note t) = []" for t by (simp add: table_texts_def roles_note_def)
  show "table_texts (roles_table rs) = map (\<lambda>r. [r_name r, yes (r_login r), yes (r_super r), yes (r_createDb r), yes (r_createRole r), yes (r_replication r),
     yes (r_bypass r), str_of_int (r_limit r), if r_memberOf r = [] then ''-'' else join_with '', '' (r_memberOf r)]) rs"
    using texts_concat [OF role_row_texts, where xs = rs] n by (simp add: table_texts_def roles_table_def)
  show "table_texts (memberships_table ms) = map (\<lambda>m. [m_member m, m_role m, yes (m_admin m)]) ms"
    using texts_concat [OF membership_row_texts, where xs = ms] n by (simp add: table_texts_def memberships_table_def)
  show "table_texts (grants_table gs) = map (\<lambda>g. map blank_dash [gr_grantee g, gr_type g, gr_database g, gr_schema g, gr_object g, gr_privilege g] @ [yes (gr_grantable g)]) gs"
    using texts_concat [OF grant_row_texts, where xs = gs] n by (simp add: table_texts_def grants_table_def)
qed

lemma notes_text:
  "full_text (roles_table []) = ''no roles match the current filters''"
  "full_text (memberships_table []) = ''no memberships match the current filters''"
  "full_text (grants_table []) = ''no grants match the current filters''"
  by (simp_all add: full_text_def roles_table_def memberships_table_def grants_table_def roles_note_def html_decode_plain)

definition tab_lines :: "string \<Rightarrow> string \<Rightarrow> roles_overview \<Rightarrow> string list list" where
  "tab_lines t search d =
     (if t = ''memberships'' then membership_lines search (ov_memberships d)
      else if t = ''grants'' then grant_lines search (ov_grants d)
      else if t = ''defaults'' then grant_lines search (ov_defaults d)
      else role_lines search (ov_roles d))"

definition tab_noun :: "string \<Rightarrow> string" where
  "tab_noun t = (if t = ''memberships'' then ''memberships'' else if t = ''grants'' \<or> t = ''defaults'' then ''grants'' else ''roles'')"

lemma tab_view_texts:
  "table_texts (tab_view t search d) = tab_lines t search d"
  "tab_lines t search d = [] \<Longrightarrow> full_text (tab_view t search d) = ''no '' @ tab_noun t @ '' match the current filters''"
proof -
  have g: "search_filter search grant_words gs = filter (\<lambda>g. holds_text search (gr_grantee g @ '' '' @ gr_type g @ '' '' @ gr_database g @ '' '' @ gr_schema g @ '' '' @ gr_object g @ '' '' @ gr_privilege g)) gs" for gs
    by (rule search_filter_text) (simp add: grant_words_def)
  have m: "search_filter search membership_words ms = filter (\<lambda>m. holds_text search (m_member m @ '' '' @ m_role m)) ms" for ms
    by (rule search_filter_text) (simp add: membership_words_def)
  have r: "search_filter search role_words rs = filter (\<lambda>r. holds_text search (r_name r @ concat (map (\<lambda>m. '' '' @ m) (r_memberOf r)))) rs" for rs
    by (rule search_filter_text) (rule role_words_join)
  note f = tab_view_def tab_lines_def grant_lines_def membership_lines_def role_lines_def g m r
  show "table_texts (tab_view t search d) = tab_lines t search d" unfolding f by (simp add: tables_texts)
  show "tab_lines t search d = [] \<Longrightarrow> full_text (tab_view t search d) = ''no '' @ tab_noun t @ '' match the current filters''"
    unfolding f by (auto simp: notes_text tab_noun_def split: if_splits)
qed

lemma roles_run_state:
  "ro_tab (fold roles_step es s) = tab_after es (ro_tab s) \<and> ro_search (fold roles_step es s) = search_after es (ro_search s)
    \<and> ro_data (fold roles_step es s) = data_after es (ro_data s)"
proof (induction es rule: rev_induct)
  case Nil
  then show ?case by (simp add: tab_after_def search_after_def data_after_def latest_def map_filter_def)
next
  case (snoc e es)
  have keep: "ro_tab (renderCurrentTab z) = ro_tab z \<and> ro_search (renderCurrentTab z) = ro_search z \<and> ro_data (renderCurrentTab z) = ro_data z" for z
    by (simp add: renderCurrentTab_def put_markup_def upd_page_def split: option.split)
  show ?case
    using snoc by (cases e)
      (simp_all add: tab_after_def search_after_def data_after_def latest_snoc keep search_typed_def Roles_switchTab_def roles_loaded_def put_markup_def upd_page_def)
qed

section \<open>Properties\<close>

text \<open>
  C27: after any run of searches, tab changes, loads and failed loads, once an overview came: the rows the page shows are exactly
  those of the tab chosen last, of the overview received last, that contain the text typed last without regard to case, in the order of
  the overview, each with the texts of its cells; without such rows it says so in the words of the tab. After a failed load it shows
  the error alone.
\<close>

theorem roles_view:
  assumes "leaf ''roles-content'' (page s)" "data_after (es @ [e]) (ro_data s) = Some d"
  shows "let content = inner ''roles-content'' (page (fold roles_step (es @ [e]) s));
             t = tab_after (es @ [e]) (ro_tab s);
             rows = tab_lines t (search_after (es @ [e]) (ro_search s)) d
         in case e of
              Failed m \<Rightarrow> full_text content = m \<and> table_rows content = []
            | _ \<Rightarrow> table_texts content = rows
                \<and> (if rows = [] then full_text content = ''no '' @ tab_noun t @ '' match the current filters'' else True)"
proof -
  note l = roles_run_leaf [OF assms(1), of es]
  let ?s = "fold roles_step (es @ [e]) s"
  have data: "ro_data ?s = Some d" and st: "ro_tab ?s = tab_after (es @ [e]) (ro_tab s)" "ro_search ?s = search_after (es @ [e]) (ro_search s)"
    using roles_run_state [of "es @ [e]" s] assms(2) by simp_all
  show ?thesis
  proof (cases "load_fails e")
    case True
    then obtain m where e: "e = Failed m" by (cases e) simp_all
    then have "inner ''roles-content'' (page ?s) = roles_error m"
      using leaf_inner(1) [OF l roles_no_nodes(2)] by (simp add: put_markup_def)
    then show ?thesis by (simp add: e roles_error_def full_text_def)
  next
    case False
    then have "inner ''roles-content'' (page ?s) = tab_view (tab_after (es @ [e]) (ro_tab s)) (search_after (es @ [e]) (ro_search s)) d"
      using roles_step_view(2) [OF l False, of d] data st by simp
    then show ?thesis using False tab_view_texts unfolding Let_def by (cases e) simp_all
  qed
qed

definition sample_roles :: roles_page where
  "sample_roles = \<lparr>cfg_cache = None, dbs_cache = None,
     page = sample_browser\<lparr>dom := [''roles-content'' \<mapsto> mk_node ''div'' [] []]\<rparr>, ro_data = None, ro_tab = ''roles'', ro_search = []\<rparr>"

definition sample_overview :: roles_overview where
  "sample_overview = \<lparr>ov_roles = [], ov_memberships = [\<lparr>m_member = ''joe'', m_role = ''staff'', m_admin = False\<rparr>], ov_grants = [], ov_defaults = []\<rparr>"

theorem roles_view_witness:
  "table_texts (inner ''roles-content'' (page (fold roles_step ([Overview sample_overview, Tab ''memberships''] @ [Typed ''JO'']) sample_roles)))
    = [[''joe'', ''staff'', ''no'']]"
proof -
  have "leaf ''roles-content'' (page sample_roles)" by (simp add: sample_roles_def leaf_def mk_node_def nodes_of_list_def)
  moreover have "data_after ([Overview sample_overview, Tab ''memberships''] @ [Typed ''JO'']) (ro_data sample_roles) = Some sample_overview"
    by (simp add: data_after_def latest_def map_filter_def)
  ultimately have "table_texts (inner ''roles-content'' (page (fold roles_step ([Overview sample_overview, Tab ''memberships''] @ [Typed ''JO'']) sample_roles)))
    = tab_lines (tab_after ([Overview sample_overview, Tab ''memberships''] @ [Typed ''JO'']) (ro_tab sample_roles))
        (search_after ([Overview sample_overview, Tab ''memberships''] @ [Typed ''JO'']) (ro_search sample_roles)) sample_overview"
    using roles_view [of sample_roles "[Overview sample_overview, Tab ''memberships'']" "Typed ''JO''" sample_overview] by (simp add: Let_def)
  moreover have "tab_after ([Overview sample_overview, Tab ''memberships''] @ [Typed ''JO'']) (ro_tab sample_roles) = ''memberships''"
    by (simp add: tab_after_def latest_def map_filter_def)
  moreover have "search_after ([Overview sample_overview, Tab ''memberships''] @ [Typed ''JO'']) (ro_search sample_roles) = ''jo''"
    unfolding search_after_def latest_def map_filter_def by code_simp
  moreover have "holds_text ''jo'' (''joe'' @ '' '' @ ''staff'')"
    unfolding holds_text_def includes_iff [symmetric] by code_simp
  ultimately show ?thesis by (simp add: tab_lines_def membership_lines_def sample_overview_def yes_def)
qed

text \<open>
  The search text outlives the page: rendering the page again shows an empty search field, while the lists are
  still filtered by the old text.
\<close>

theorem roles_search_stale:
  assumes "element ''page-content'' (page s)" "on_page (api net (get_rq ''/roles/overview'')) (put_markup ''page-content'' roles_frame s) = (Resolved d, s1)"
  shows "value_of ''roles-search'' (page (put_markup ''page-content'' roles_frame s)) = [] \<and> ro_search s1 = ro_search s"
proof -
  have "map_of (nodes_of_list roles_frame) ''roles-search'' \<noteq> None \<and> val (the (map_of (nodes_of_list roles_frame) ''roles-search'')) = []"
    by (simp add: roles_frame_def nodes_of_list_def mk_node_def)
  then have "value_of ''roles-search'' (page (put_markup ''page-content'' roles_frame s)) = []"
    using assms(1) by (auto simp: put_markup_def value_of_def set_inner_def element_def map_add_def split: option.splits)
  moreover have "ro_search s1 = ro_search s" using assms(2) by (auto simp: on_page_eq put_markup_def upd_page_def)
  ultimately show ?thesis ..
qed

end
