(* ===== verification/Jobs.thy ===== *)
theory Jobs
  imports Site
begin

text \<open>
  The job center, jobs.js: a filtered table of jobs. The type is filtered by the server, status and
  search text in the page when a reply comes. A change of a filter starts a load that nobody awaits:
  loads are queued with the type they asked for.
\<close>

section \<open>State\<close>

record jobs_page = site +
  jb_type :: string
  jb_status :: string
  jb_search :: string
  jb_loads :: "string list"

section \<open>Markup\<close>

definition artifact_button :: "job \<Rightarrow> html list" where
  "artifact_button j =
     (if job_artifact j \<noteq> [] then [El ''button'' [At ''class'' ''btn btn-sm'', At ''style'' ''font-size:9px'', At ''onclick'' (''JobUI.download('' @ sq @ (job_id j) @ sq @ '')'')] [Txt ''download'']] else [El ''span'' [At ''class'' ''dim mono-xs''] [Txt ''-'']])"

definition time_cell :: "clock \<Rightarrow> int option \<Rightarrow> string" where
  "time_cell c t = (case t of None \<Rightarrow> ''-'' | Some x \<Rightarrow> timeAgo (now c) x)"

definition job_row :: "clock \<Rightarrow> job \<Rightarrow> html list" where
  "job_row c j = [El ''tr'' []
      [El ''td'' [] [Txt (escHtml (job_type j))],
      El ''td'' []
       [El ''span'' [At ''class'' (''mono-xs '' @ (jobStatusClass (job_status j)))] [Txt (escHtml (job_status j))]],
      El ''td'' [At ''title'' (escHtml (job_target j))] [Txt (escHtml (or_str (job_target j) ''-''))],
      El ''td'' [] [Txt (escHtml (or_str (job_database j) ''-''))],
      El ''td'' [At ''class'' ''dim''] [Txt (time_cell c (job_started j))],
      El ''td'' [At ''class'' ''dim''] [Txt (time_cell c (job_finished j))],
      El ''td'' [] (artifact_button j),
      El ''td'' [At ''title'' (escHtml (or_str (job_details j) (job_message j))), At ''style'' ''white-space:pre-wrap'']
       [Txt (escHtml (or_str (job_details j) (or_str (job_message j) ''-'')))]]]"

definition jobs_markup :: "clock \<Rightarrow> job list \<Rightarrow> html list" where
  "jobs_markup c js =
     (if js = [] then [El ''div'' [At ''class'' ''card'']
      [El ''span'' [At ''class'' ''dim mono-xs''] [Txt ''no jobs match the current filters'']]]
      else [El ''div'' [At ''class'' ''mono-xs dim mb-8'']
      [Txt ((str_of_nat (length js)) @ '' job'' @ (if length js \<noteq> 1 then ''s'' else []))],
     El ''div'' [At ''class'' ''card'', At ''style'' ''padding:0;overflow-x:auto;height:calc(100vh - 138px);overflow-y:auto'']
      [El ''table'' [At ''class'' ''data-table'', At ''style'' ''table-layout:fixed;width:100%'']
       [El ''thead'' []
        [El ''tr'' []
         [El ''th'' [At ''style'' ''width:90px''] [Txt ''type''],
         El ''th'' [At ''style'' ''width:90px''] [Txt ''status''],
         El ''th'' [] [Txt ''target''],
         El ''th'' [At ''style'' ''width:100px''] [Txt ''database''],
         El ''th'' [At ''style'' ''width:120px''] [Txt ''started''],
         El ''th'' [At ''style'' ''width:120px''] [Txt ''finished''],
         El ''th'' [At ''style'' ''width:110px''] [Txt ''artifact''],
         El ''th'' [] [Txt ''details'']]],
       El ''tbody'' [] (concat (map (job_row c) js))]]])"

definition jobs_error :: "string \<Rightarrow> html list" where
  "jobs_error e = [El ''div'' [At ''class'' ''card'']
      [El ''span'' [At ''class'' ''red mono-xs''] [Txt (escHtml e)]]]"

section \<open>Operations\<close>

definition job_hit :: "string \<Rightarrow> job \<Rightarrow> bool" where
  "job_hit search j =
     str_includes search (to_lower (join_with '' '' [job_target j, job_database j, job_message j, job_details j]))"

definition shown_jobs :: "string \<Rightarrow> string \<Rightarrow> job list \<Rightarrow> job list" where
  "shown_jobs status search js =
     (let js1 = (if status \<noteq> [] then filter (\<lambda>j. job_status j = status) js else js)
      in if search \<noteq> [] then filter (job_hit search) js1 else js1)"

definition jobs_rq :: "string \<Rightarrow> request" where
  "jobs_rq t = get_rq (''/jobs'' @ (if t \<noteq> [] then ''?type='' @ encode_uri t else []))"

definition jobs_call :: "job list net \<Rightarrow> clock \<Rightarrow> string \<Rightarrow> jobs_page \<Rightarrow> unit outcome \<times> jobs_page" where
  "jobs_call net c t s =
     (if \<not> element ''jobs-content'' (page s) then (Resolved (), s)
      else catch
        (await (on_page (api net (jobs_rq t)) s) (\<lambda>js s1.
           (Resolved (), put_markup ''jobs-content'' (jobs_markup c (shown_jobs (jb_status s1) (jb_search s1) js)) s1)))
        (\<lambda>e s1. (Resolved (), put_markup ''jobs-content'' (jobs_error e) s1)))"

definition Jobs_load :: "job list net \<Rightarrow> clock \<Rightarrow> jobs_page \<Rightarrow> unit outcome \<times> jobs_page" where
  "Jobs_load net c s = jobs_call net c (jb_type s) s"

definition start_jobs :: "jobs_page \<Rightarrow> jobs_page" where
  "start_jobs s = s\<lparr>jb_loads := jb_loads s @ [jb_type s]\<rparr>"

definition type_chosen :: "string \<Rightarrow> jobs_page \<Rightarrow> jobs_page" where
  "type_chosen v s = start_jobs (s\<lparr>jb_type := v\<rparr>)"

definition status_chosen :: "string \<Rightarrow> jobs_page \<Rightarrow> jobs_page" where
  "status_chosen v s = start_jobs (s\<lparr>jb_status := v\<rparr>)"

definition search_changed :: "string \<Rightarrow> jobs_page \<Rightarrow> jobs_page" where
  "search_changed v s = start_jobs (s\<lparr>jb_search := to_lower v\<rparr>)"

text \<open>The \<^verbatim>\<open>n\<close>-th queued load ends.\<close>

definition jobs_ended :: "job list net \<Rightarrow> clock \<Rightarrow> nat \<Rightarrow> jobs_page \<Rightarrow> unit outcome \<times> jobs_page" where
  "jobs_ended net c n s =
     (if length (jb_loads s) \<le> n then (Resolved (), s)
      else jobs_call net c (jb_loads s ! n) (s\<lparr>jb_loads := take n (jb_loads s) @ drop (Suc n) (jb_loads s)\<rparr>))"

definition jobs_frame :: "html list" where
  "jobs_frame = [El ''div'' [At ''class'' ''flex-between mb-8'']
      [El ''div'' [At ''style'' ''display:flex;gap:8px;align-items:center;flex-wrap:wrap'']
       [El ''span'' [At ''class'' ''card-title'', At ''style'' ''margin:0''] [Txt ''job center''],
       El ''select'' [At ''id'' ''jobs-type'', At ''class'' ''db-select'']
        [El ''option'' [At ''value'' ''''] [Txt ''all types''],
        El ''option'' [At ''value'' ''backup''] [Txt ''backup''],
        El ''option'' [At ''value'' ''restore''] [Txt ''restore''],
        El ''option'' [At ''value'' ''export''] [Txt ''export''],
        El ''option'' [At ''value'' ''import''] [Txt ''import''],
        El ''option'' [At ''value'' ''vacuum''] [Txt ''vacuum''],
        El ''option'' [At ''value'' ''repack''] [Txt ''repack'']],
       El ''select'' [At ''id'' ''jobs-status'', At ''class'' ''db-select'']
        [El ''option'' [At ''value'' ''''] [Txt ''all status''],
        El ''option'' [At ''value'' ''running''] [Txt ''running''],
        El ''option'' [At ''value'' ''succeeded''] [Txt ''succeeded''],
        El ''option'' [At ''value'' ''failed''] [Txt ''failed''],
        El ''option'' [At ''value'' ''canceled''] [Txt ''canceled'']],
       El ''input'' [At ''id'' ''jobs-search'', At ''type'' ''text'', At ''placeholder'' ''search target / db / detail'', At ''style'' ''background:var(--bg-2);border:1px solid var(--border);color:var(--text-1);padding:4px 8px;font-size:11px;font-family:var(--font);width:220px''] []],
      El ''button'' [At ''onclick'' ''JobsPage.load()'', At ''class'' ''btn btn-sm'']
       [El ''i'' [At ''data-lucide'' ''refresh-cw'', At ''class'' ''icon-sm''] [],
       Txt '' refresh'']],
     El ''div'' [At ''id'' ''jobs-content'']
      [El ''div'' [At ''class'' ''card'']
       [El ''span'' [At ''class'' ''dim mono-xs''] [Txt ''loading...'']]]]"

definition Jobs_render :: "job list net \<Rightarrow> clock \<Rightarrow> jobs_page \<Rightarrow> unit outcome \<times> jobs_page" where
  "Jobs_render net c s = Jobs_load net c (put_markup ''page-content'' jobs_frame s)"

section \<open>Properties\<close>

lemma jobs_no_nodes: "nodes_of_list (jobs_markup c js) = []"
proof -
  have "concat (map nodes_of (artifact_button j)) = []" for j by (simp add: artifact_button_def)
  then have "concat (map nodes_of (job_row c j)) = []" for j by (simp add: job_row_def)
  then show ?thesis using no_nodes_concat [of "job_row c" js] by (simp add: jobs_markup_def nodes_of_list_def)
qed

lemma plain_no_lt: "plain_str s \<Longrightarrow> CHR ''<'' \<notin> set s"
  by (auto simp: plain_str_def plain_char_def list_all_iff)

lemma time_cell_no_lt: "CHR ''<'' \<notin> set (time_cell c t)"
proof -
  have "plain_str (timeAgo (now c) x)" for x by (simp add: timeAgo_def Let_def plain_char_def)
  then show ?thesis by (cases t) (simp_all add: time_cell_def plain_no_lt)
qed

text \<open>Whatever a job says, its row is tokenized into its cells, provided its id has no double quote.\<close>

theorem job_row_markup: "CHR 0x22 \<notin> set (job_id j) \<Longrightarrow> lex_html (ser_list (job_row c j)) = (Data, toks_list (job_row c j))"
proof (rule lex_ser_list)
  assume q: "CHR 0x22 \<notin> set (job_id j)"
  then have "safe_list (artifact_button j)" by (simp add: artifact_button_def markup_safe name_ok_eval)
  then show "safe_list (job_row c j)"
    by (simp add: job_row_def markup_safe name_ok_eval jobStatusClass_def time_cell_no_lt eh.no_lt eh.no_dquote)
qed

theorem job_row_markup_witness:
  "lex_html (ser_list (job_row \<lparr>now = 0, locale_text = (\<lambda>t. []), time_text = (\<lambda>t. []), local_iso = [], number_text = int_str\<rparr> hostile_job))
    = (Data, toks_list (job_row \<lparr>now = 0, locale_text = (\<lambda>t. []), time_text = (\<lambda>t. []), local_iso = [], number_text = int_str\<rparr> hostile_job))"
  by (rule job_row_markup) (simp add: hostile_job_def)

text \<open>
  A load shows what it got for its own type under the filters of the moment its reply comes.
\<close>

theorem jobs_shown:
  assumes "on_page (api net (jobs_rq t)) s = (Resolved js, s1)" "leaf ''jobs-content'' (page s)"
  shows "\<exists>s2. jobs_call net c t s = (Resolved (), s2) \<and> inner ''jobs-content'' (page s2) = jobs_markup c (shown_jobs (jb_status s1) (jb_search s1) js)
    \<and> jb_status s1 = jb_status s \<and> jb_search s1 = jb_search s"
proof -
  have "leaf ''jobs-content'' (page s1)" using leaf_dom [OF call_dom(1) [OF assms(1)]] assms(2) by simp
  moreover have "element ''jobs-content'' (page s)" using leaf_element [OF assms(2)] by simp
  moreover have "jb_status s1 = jb_status s \<and> jb_search s1 = jb_search s" using assms(1) by (auto simp: on_page_eq)
  ultimately show ?thesis
    using assms(1) leaf_inner(1) [OF _ jobs_no_nodes] by (simp add: jobs_call_def put_markup_def)
qed

end
