(* ===== verification/Extensions.thy ===== *)
theory Extensions
  imports Site
begin

text \<open>
  The extension manager, extensions.js: the list with its search and filter, installation, and
  removal after a confirmation.
\<close>

section \<open>State and server\<close>

record extension =
  ex_name :: string
  ex_installed :: bool
  ex_installedVersion :: string
  ex_defaultVersion :: string
  ex_comment :: string

record extensions_page = site +
  ex_data :: "extension list"

record extensions_server =
  ev_dbs :: "string list option net"
  ev_list :: "extension list net"
  ev_change :: "unit net"

section \<open>Markup\<close>

definition ext_mark :: "extension \<Rightarrow> html list" where
  "ext_mark e =
     (if ex_installed e then [El ''span'' [At ''class'' ''green''] [Txt u_dot]] else [El ''span'' [At ''class'' ''dim''] [Txt u_circ]])"

definition ext_button :: "extension \<Rightarrow> html list" where
  "ext_button e =
     (if ex_installed e then [El ''button'' [At ''onclick'' (''ExtensionManager.uninstall('' @ sq @ (ex_name e) @ sq @ '')''), At ''class'' ''btn btn-sm'', At ''style'' ''font-size:9px''] [Txt ''uninstall'']] else [El ''button'' [At ''onclick'' (''ExtensionManager.install('' @ sq @ (ex_name e) @ sq @ '')''), At ''class'' ''btn btn-sm'', At ''style'' ''font-size:9px''] [Txt ''install'']])"

definition ext_row :: "extension \<Rightarrow> html list" where
  "ext_row e = [El ''tr'' []
      [El ''td'' [] (ext_mark e),
      El ''td'' [At ''class'' (if ex_installed e then ''accent'' else [])] [Txt (escHtml (ex_name e))],
      El ''td'' [At ''class'' ''dim'']
       [Txt (if ex_installed e then ex_installedVersion e else ex_defaultVersion e)],
      El ''td'' [At ''class'' ''dim'', At ''style'' ''overflow:hidden;text-overflow:ellipsis;white-space:nowrap'', At ''title'' (escHtml (ex_comment e))] [Txt (escHtml (ex_comment e))],
      El ''td'' [] (ext_button e)]]"

definition ext_markup :: "extension list \<Rightarrow> html list" where
  "ext_markup es = [El ''div'' [At ''class'' ''mono-xs dim mb-8''] [Txt ((str_of_nat (length es)) @ '' extensions'')],
     El ''div'' [At ''class'' ''card'', At ''style'' ''padding:0;overflow-x:auto;height:calc(100vh - 141px);overflow-y:auto'']
      [El ''table'' [At ''class'' ''data-table'', At ''style'' ''table-layout:fixed;width:100%'']
       [El ''thead'' []
        [El ''tr'' []
         [El ''th'' [At ''style'' ''width:50px''] [Txt ''status''],
         El ''th'' [At ''style'' ''width:180px''] [Txt ''name''],
         El ''th'' [At ''style'' ''width:80px''] [Txt ''version''],
         El ''th'' [] [Txt ''description''],
         El ''th'' [At ''style'' ''width:80px''] [Txt ''action'']]],
       El ''tbody'' [] (concat (map ext_row es))]]]"

section \<open>Operations\<close>

text \<open>The name is searched as it is, the comment in lower case.\<close>

definition ext_hit :: "string \<Rightarrow> extension \<Rightarrow> bool" where
  "ext_hit search e = (str_includes search (ex_name e) \<or> str_includes search (to_lower (ex_comment e)))"

definition ext_filter :: "string \<Rightarrow> string \<Rightarrow> extension list \<Rightarrow> extension list" where
  "ext_filter search flt es =
     (let found = (if search \<noteq> [] then filter (ext_hit search) es else es);
          inst = (if flt = ''installed'' then filter ex_installed found else found)
      in if flt = ''available'' then filter (\<lambda>e. \<not> ex_installed e) inst else inst)"

definition ext_renderList :: "extensions_page \<Rightarrow> extensions_page" where
  "ext_renderList s =
     put_markup ''ext-content''
       (ext_markup (ext_filter (to_lower (value_of ''ext-search'' (page s))) (or_str (value_of ''ext-filter'' (page s)) ''all'') (ex_data s))) s"

definition Extensions_load :: "extensions_server \<Rightarrow> extensions_page \<Rightarrow> unit outcome \<times> extensions_page" where
  "Extensions_load sv s =
     catch (await (on_page (api (ev_list sv) (get_rq (''/extensions'' @ db_getParam (page s)))) s) (\<lambda>es s1.
              (Resolved (), ext_renderList (s1\<lparr>ex_data := es\<rparr>))))
       ignore"

definition ext_body :: "string \<Rightarrow> browser \<Rightarrow> json" where
  "ext_body name b = JObj [(''name'', JStr name), (''database'', JStr (db_getSelected b))]"

definition install :: "extensions_server \<Rightarrow> string \<Rightarrow> extensions_page \<Rightarrow> unit outcome \<times> extensions_page" where
  "install sv name s =
     catch (await (on_page (apiProtected (ev_change sv) (post_rq ''/extensions/install'' (Some (ext_body name (page s))))) s) (\<lambda>_ s1.
              Extensions_load sv (toast (name @ '' installed'') ''success'' s1)))
       ignore"

definition uninstall_rq :: "string \<Rightarrow> browser \<Rightarrow> request" where
  "uninstall_rq name b = post_rq ''/extensions/uninstall'' (Some (ext_body name b))"

definition uninstall_prompt :: "string \<Rightarrow> string" where
  "uninstall_prompt name = ''Uninstall '' @ name @ ''?''"

definition uninstall :: "extensions_server \<Rightarrow> string \<Rightarrow> extensions_page \<Rightarrow> unit outcome \<times> extensions_page" where
  "uninstall sv name s =
     confirmed ''uninstall extension'' (uninstall_prompt name) (danger_options ''uninstall'')
       (\<lambda>s0. catch (await (on_page (apiProtected (ev_change sv) (uninstall_rq name (page s0))) s0) (\<lambda>_ s1.
               Extensions_load sv (toast (name @ '' removed'') ''success'' s1)))
            ignore) s"

definition ext_frame :: "html list" where
  "ext_frame = [El ''div'' [At ''class'' ''flex-between mb-8'']
      [El ''div'' [At ''style'' ''display:flex;gap:8px;align-items:center'']
       [El ''span'' [At ''class'' ''card-title'', At ''style'' ''margin:0''] [Txt ''extensions''],
       El ''div'' [At ''id'' ''ext-db-sel'', At ''class'' ''db-bar'', At ''style'' ''display:inline-flex;margin:0''] []],
      El ''div'' [At ''class'' ''flex gap-4'']
       [El ''input'' [At ''type'' ''text'', At ''id'' ''ext-search'', At ''placeholder'' ''search...'', At ''style'' ''background:var(--bg-2);border:1px solid var(--border);color:var(--text-1); padding:4px 8px;font-size:11px;font-family:var(--font);width:200px''] [],
       El ''select'' [At ''id'' ''ext-filter'', At ''style'' ''background:var(--bg-2);border:1px solid var(--border);color:var(--text-1); padding:4px 8px;font-size:11px;font-family:var(--font)'']
        [El ''option'' [At ''value'' ''all''] [Txt ''all''],
        El ''option'' [At ''value'' ''installed''] [Txt ''installed''],
        El ''option'' [At ''value'' ''available''] [Txt ''available'']]]],
     El ''div'' [At ''id'' ''ext-content'']
      [El ''div'' [At ''class'' ''card'']
       [El ''span'' [At ''class'' ''dim mono-xs''] [Txt ''loading...'']]]]"

definition Extensions_render :: "extensions_server \<Rightarrow> extensions_page \<Rightarrow> unit outcome \<times> extensions_page" where
  "Extensions_render sv s =
     await (databases_into (ev_dbs sv) ''ext-db-sel'' (put_markup ''page-content'' ext_frame s)) (\<lambda>_ s1. Extensions_load sv s1)"

section \<open>Properties\<close>

text \<open>
  The search text is put into lower case and compared with the name as it is: an extension with an upper-case letter in the searched part of
  its name is found by no search text.
\<close>

theorem upper_name_unfindable:
  "ext_filter (to_lower ''PostGIS'') ''all'' [\<lparr>ex_name = ''PostGIS'', ex_installed = True, ex_installedVersion = [], ex_defaultVersion = [], ex_comment = []\<rparr>] = []"
  by code_simp

end
