(* ===== verification/Indexes.thy ===== *)
theory Indexes
  imports Site
begin

text \<open>
  The index advisor, indexes.js: one reply shown in three tabs. The tab buttons are marked by a class,
  which is taken from every element whose id begins with \<^verbatim>\<open>tab-\<close>: on this page the three buttons.
\<close>

section \<open>State and server\<close>

record missing_index =
  mi_schema :: string
  mi_table :: string
  mi_seq :: int
  mi_idx :: int
  mi_diff :: int
  mi_size :: string

record unused_index =
  ui_schema :: string
  ui_table :: string
  ui_index :: string
  ui_size :: string

record duplicate_index =
  du_table :: string
  du_indexes :: string
  du_def :: string

record index_advice =
  ia_missing :: "missing_index list"
  ia_unused :: "unused_index list"
  ia_duplicates :: "duplicate_index list"

record indexes_page = site +
  ix_tab :: string
  ix_data :: "index_advice option"

record indexes_server =
  xv_dbs :: "string list option net"
  xv_advice :: "index_advice net"

section \<open>Markup\<close>

definition missing_row :: "missing_index \<Rightarrow> html list" where
  "missing_row i = [El ''tr'' []
      [El ''td'' [] [Txt ((mi_schema i) @ ''.'' @ (mi_table i))],
      El ''td'' [At ''class'' ''red''] [Txt (fmt_count (mi_seq i))],
      El ''td'' [At ''class'' ''green''] [Txt (fmt_count (mi_idx i))],
      El ''td'' [At ''class'' ''yellow''] [Txt (fmt_count (mi_diff i))],
      El ''td'' [] [Txt (mi_size i)]]]"

definition index_note :: "string \<Rightarrow> html list" where
  "index_note t = [El ''div'' [At ''class'' ''card'']
      [El ''span'' [At ''class'' ''green mono-xs''] [Txt (u_check @ '' '' @ t)]]]"

definition missing_markup :: "missing_index list \<Rightarrow> html list" where
  "missing_markup is =
     (if is = [] then index_note ''no missing indexes detected''
      else [El ''div'' [At ''class'' ''mono-xs dim mb-8'']
      [Txt ((str_of_nat (length is)) @ '' tables with excessive sequential scans'')],
     El ''div'' [At ''class'' ''card'', At ''style'' ''padding:0;overflow-x:auto;height:calc(100vh - 130px);overflow-y:auto'']
      [El ''table'' [At ''class'' ''data-table'', At ''style'' ''table-layout:fixed;width:100%'']
       [El ''thead'' []
        [El ''tr'' []
         [El ''th'' [] [Txt ''table''],
         El ''th'' [At ''style'' ''width:90px''] [Txt ''seq scans''],
         El ''th'' [At ''style'' ''width:90px''] [Txt ''idx scans''],
         El ''th'' [At ''style'' ''width:90px''] [Txt ''difference''],
         El ''th'' [At ''style'' ''width:80px''] [Txt ''size'']]],
       El ''tbody'' [] (concat (map missing_row is))]]])"

definition unused_row :: "unused_index \<Rightarrow> html list" where
  "unused_row i = [El ''tr'' []
      [El ''td'' [] [Txt ((ui_schema i) @ ''.'' @ (ui_table i))],
      El ''td'' [At ''class'' ''yellow''] [Txt (ui_index i)],
      El ''td'' [At ''class'' ''red''] [Txt ''0''],
      El ''td'' [] [Txt (ui_size i)]]]"

definition unused_markup :: "unused_index list \<Rightarrow> html list" where
  "unused_markup is =
     (if is = [] then index_note ''no unused indexes''
      else [El ''div'' [At ''class'' ''mono-xs dim mb-8'']
      [Txt ((str_of_nat (length is)) @ '' unused indexes (0 scans)'')],
     El ''div'' [At ''class'' ''card'', At ''style'' ''padding:0;overflow-x:auto;height:calc(100vh - 130px);overflow-y:auto'']
      [El ''table'' [At ''class'' ''data-table'', At ''style'' ''table-layout:fixed;width:100%'']
       [El ''thead'' []
        [El ''tr'' []
         [El ''th'' [At ''style'' ''width:200px''] [Txt ''table''],
         El ''th'' [] [Txt ''index''],
         El ''th'' [At ''style'' ''width:80px''] [Txt ''scans''],
         El ''th'' [At ''style'' ''width:80px''] [Txt ''size'']]],
       El ''tbody'' [] (concat (map unused_row is))]]])"

definition duplicate_row :: "duplicate_index \<Rightarrow> html list" where
  "duplicate_row i = [El ''tr'' []
      [El ''td'' [] [Txt (du_table i)],
      El ''td'' [At ''class'' ''red''] [Txt (escHtml (du_indexes i))],
      El ''td'' [At ''style'' ''overflow:hidden;text-overflow:ellipsis;white-space:nowrap'', At ''title'' (escHtml (du_def i))] [Txt (escHtml (du_def i))]]]"

definition duplicates_markup :: "duplicate_index list \<Rightarrow> html list" where
  "duplicates_markup is =
     (if is = [] then index_note ''no duplicate indexes''
      else [El ''div'' [At ''class'' ''mono-xs dim mb-8'']
      [Txt ((str_of_nat (length is)) @ '' duplicate index group(s)'')],
     El ''div'' [At ''class'' ''card'', At ''style'' ''padding:0;overflow-x:auto;height:calc(100vh - 130px);overflow-y:auto'']
      [El ''table'' [At ''class'' ''data-table'', At ''style'' ''table-layout:fixed;width:100%'']
       [El ''thead'' []
        [El ''tr'' []
         [El ''th'' [At ''style'' ''width:200px''] [Txt ''table''],
         El ''th'' [At ''style'' ''width:250px''] [Txt ''indexes''],
         El ''th'' [] [Txt ''definition'']]],
       El ''tbody'' [] (concat (map duplicate_row is))]]])"

definition advice_view :: "string \<Rightarrow> index_advice \<Rightarrow> html list" where
  "advice_view t d =
     (if t = ''missing'' then missing_markup (ia_missing d)
      else if t = ''unused'' then unused_markup (ia_unused d)
      else duplicates_markup (ia_duplicates d))"

section \<open>Operations\<close>

definition renderTab :: "indexes_page \<Rightarrow> indexes_page" where
  "renderTab s =
     (case ix_data s of None \<Rightarrow> s | Some d \<Rightarrow> put_markup ''indexes-content'' (advice_view (ix_tab s) d) s)"

text \<open>\<^verbatim>\<open>classList.remove\<close> and \<^verbatim>\<open>classList.add\<close>\<close>

definition class_tokens :: "string \<Rightarrow> string list" where
  "class_tokens c = filter (\<lambda>w. w \<noteq> []) (split_on CHR '' '' c)"

definition remove_token :: "string \<Rightarrow> string \<Rightarrow> string" where
  "remove_token w c = join_with '' '' (filter (\<lambda>v. v \<noteq> w) (remdups (class_tokens c)))"

definition add_token :: "string \<Rightarrow> string \<Rightarrow> string" where
  "add_token w c = (if w \<in> set (class_tokens c) then c else join_with '' '' (remdups (class_tokens c) @ [w]))"

definition upd_class :: "(string \<Rightarrow> string) \<Rightarrow> string \<Rightarrow> browser \<Rightarrow> browser" where
  "upd_class f i = upd_node i (\<lambda>n. n\<lparr>cls := f (cls n)\<rparr>)"

definition advice_tabs :: "string list" where
  "advice_tabs = [''tab-missing'', ''tab-unused'', ''tab-duplicates'']"

definition Indexes_switchTab :: "string \<Rightarrow> indexes_page \<Rightarrow> indexes_page" where
  "Indexes_switchTab t s =
     renderTab (upd_page (\<lambda>b. upd_class (add_token ''btn-primary'') (''tab-'' @ t)
       (fold (upd_class (remove_token ''btn-primary'')) advice_tabs b)) (s\<lparr>ix_tab := t\<rparr>))"

definition Indexes_load :: "indexes_server \<Rightarrow> indexes_page \<Rightarrow> unit outcome \<times> indexes_page" where
  "Indexes_load sv s =
     catch (await (on_page (api (xv_advice sv) (get_rq (''/indexes/advice'' @ db_getParam (page s)))) s) (\<lambda>d s1.
              (Resolved (), Indexes_switchTab (ix_tab s1) (s1\<lparr>ix_data := Some d\<rparr>))))
       ignore"

definition indexes_frame :: "html list" where
  "indexes_frame = [El ''div'' [At ''class'' ''flex-between mb-8'']
      [El ''div'' [At ''style'' ''display:flex;gap:8px;align-items:center'']
       [El ''span'' [At ''class'' ''card-title'', At ''style'' ''margin:0''] [Txt ''index advisor''],
       El ''div'' [At ''id'' ''indexes-db-sel'', At ''class'' ''db-bar'', At ''style'' ''display:inline-flex;margin:0''] []],
      El ''div'' [At ''class'' ''flex gap-4'']
       [El ''button'' [At ''onclick'' (''IndexAdvisor.switchTab('' @ sq @ ''missing'' @ sq @ '')''), At ''class'' ''btn btn-sm'', At ''id'' ''tab-missing''] [Txt ''missing''],
       El ''button'' [At ''onclick'' (''IndexAdvisor.switchTab('' @ sq @ ''unused'' @ sq @ '')''), At ''class'' ''btn btn-sm'', At ''id'' ''tab-unused''] [Txt ''unused''],
       El ''button'' [At ''onclick'' (''IndexAdvisor.switchTab('' @ sq @ ''duplicates'' @ sq @ '')''), At ''class'' ''btn btn-sm'', At ''id'' ''tab-duplicates''] [Txt ''duplicates'']]],
     El ''div'' [At ''id'' ''indexes-content'']
      [El ''div'' [At ''class'' ''card'']
       [El ''span'' [At ''class'' ''dim mono-xs''] [Txt ''loading...'']]]]"

definition Indexes_render :: "indexes_server \<Rightarrow> indexes_page \<Rightarrow> unit outcome \<times> indexes_page" where
  "Indexes_render sv s =
     await (databases_into (xv_dbs sv) ''indexes-db-sel'' (put_markup ''page-content'' indexes_frame s)) (\<lambda>_ s1. Indexes_load sv s1)"

section \<open>Properties\<close>

definition primary :: "string \<Rightarrow> browser \<Rightarrow> bool" where
  "primary i b = (case Browser.dom b i of None \<Rightarrow> False | Some n \<Rightarrow> ''btn-primary'' \<in> set (class_tokens (cls n)))"

text \<open>
  A table name is written into its row unescaped: the browser reads a tag in it as an element.
\<close>

theorem missing_row_injects:
  "Open ''b'' [] \<in> set (snd (lex_html (ser_list (missing_row \<lparr>mi_schema = ''public'', mi_table = ''<b>'', mi_seq = 1, mi_idx = 0, mi_diff = 1, mi_size = ''8 kB''\<rparr>))))"
  by code_simp

lemma split_space: "CHR '' '' \<notin> set w \<Longrightarrow> split_on CHR '' '' (w @ CHR '' '' # t) = w # split_on CHR '' '' t"
  "CHR '' '' \<notin> set w \<Longrightarrow> split_on CHR '' '' w = [w]"
  by (induction w) auto

definition token :: "string \<Rightarrow> bool" where
  "token w = (w \<noteq> [] \<and> CHR '' '' \<notin> set w)"

lemma class_tokens_join: "list_all token ws \<Longrightarrow> class_tokens (join_with '' '' ws) = ws"
  by (induction "'' ''" ws rule: join_with.induct) (auto simp: class_tokens_def token_def split_space)

lemma split_no_sep: "w \<in> set (split_on c s) \<Longrightarrow> c \<notin> set w"
  by (induction c s arbitrary: w rule: split_on.induct) (auto split: if_splits list.splits)

lemma class_tokens_token: "list_all token (class_tokens c)"
  by (auto simp: class_tokens_def token_def list_all_iff dest: split_no_sep)

lemma remove_token_tokens: "class_tokens (remove_token w c) = filter (\<lambda>v. v \<noteq> w) (remdups (class_tokens c))"
  unfolding remove_token_def using class_tokens_token [of c] by (intro class_tokens_join) (auto simp: list_all_iff)

lemma add_token_tokens: "token w \<Longrightarrow> w \<in> set (class_tokens (add_token w c))"
proof -
  assume "token w"
  then have "class_tokens (join_with '' '' (remdups (class_tokens c) @ [w])) = remdups (class_tokens c) @ [w]"
    using class_tokens_token [of c] by (intro class_tokens_join) (auto simp: list_all_iff)
  then show ?thesis by (simp add: add_token_def)
qed

lemma primary_upd:
  "primary j (upd_class f i b) = (if j = i then (case Browser.dom b i of None \<Rightarrow> False | Some n \<Rightarrow> ''btn-primary'' \<in> set (class_tokens (f (cls n)))) else primary j b)"
  by (simp add: primary_def upd_class_def upd_node_def split: option.splits)

lemma primary_marked:
  assumes "list_all (\<lambda>i. element i b) advice_tabs" "''tab-'' @ t \<in> set advice_tabs" "i \<in> set advice_tabs"
  shows "primary i (upd_class (add_token ''btn-primary'') (''tab-'' @ t) (fold (upd_class (remove_token ''btn-primary'')) advice_tabs b)) \<longleftrightarrow> i = ''tab-'' @ t"
proof -
  let ?c = "fold (upd_class (remove_token ''btn-primary'')) advice_tabs b"
  have removed: "\<not> primary i ?c"
    using assms(3) by (auto simp: advice_tabs_def primary_upd remove_token_tokens split: option.splits)
  have "element (''tab-'' @ t) ?c"
    using assms(1,2) by (auto simp: advice_tabs_def element_def upd_class_def upd_node_def)
  then obtain n where "Browser.dom ?c (''tab-'' @ t) = Some n" by (auto simp: element_def)
  then show ?thesis
    using removed add_token_tokens [of "''btn-primary''" "cls n"] by (simp add: primary_upd token_def)
qed

lemma advice_no_nodes: "nodes_of_list (advice_view t d) = []"
proof -
  have empty: "concat (map nodes_of (index_note x)) = []" for x by (simp add: index_note_def)
  have m: "concat (map nodes_of (missing_row i)) = []" for i by (simp add: missing_row_def)
  have u: "concat (map nodes_of (unused_row i)) = []" for i by (simp add: unused_row_def)
  have r: "concat (map nodes_of (duplicate_row i)) = []" for i by (simp add: duplicate_row_def)
  have "nodes_of_list (missing_markup is) = []" for "is"
    using no_nodes_concat [of missing_row "is", OF m] empty by (cases "is = []") (simp_all add: missing_markup_def nodes_of_list_def)
  moreover have "nodes_of_list (unused_markup is) = []" for "is"
    using no_nodes_concat [of unused_row "is", OF u] empty by (cases "is = []") (simp_all add: unused_markup_def nodes_of_list_def)
  moreover have "nodes_of_list (duplicates_markup is) = []" for "is"
    using no_nodes_concat [of duplicate_row "is", OF r] empty by (cases "is = []") (simp_all add: duplicates_markup_def nodes_of_list_def)
  ultimately show ?thesis by (simp add: advice_view_def)
qed

text \<open>
  after a change to one of the three tabs its button is marked, the other two are not, and the content is this tab's view of
  the data.
\<close>

theorem one_primary_tab:
  assumes "list_all (\<lambda>i. element i (page s)) advice_tabs" "''tab-'' @ t \<in> set advice_tabs" "leaf ''indexes-content'' (page s)" "ix_data s = Some d"
  shows "map (\<lambda>i. primary i (page (Indexes_switchTab t s))) advice_tabs = map (\<lambda>i. i = ''tab-'' @ t) advice_tabs
    \<and> inner ''indexes-content'' (page (Indexes_switchTab t s)) = advice_view t d"
proof -
  let ?b = "upd_class (add_token ''btn-primary'') (''tab-'' @ t) (fold (upd_class (remove_token ''btn-primary'')) advice_tabs (page s))"
  have "leaf ''indexes-content'' ?b"
    using assms(3) by (simp add: advice_tabs_def upd_class_def leaf_upd_node)
  moreover have "nodes_of_list (advice_view t d) = []" by (rule advice_no_nodes)
  moreover have "page (Indexes_switchTab t s) = set_inner ''indexes-content'' (advice_view t d) ?b"
    by (simp add: Indexes_switchTab_def renderTab_def assms(4) put_markup_def upd_page_def)
  moreover have "primary i (set_inner ''indexes-content'' (advice_view t d) ?b) = primary i ?b" if "i \<in> set advice_tabs" for i
  proof -
    have "i \<noteq> ''indexes-content''" using that by (auto simp: advice_tabs_def)
    then show ?thesis using leaf_other [OF calculation(1,2)] by (simp add: primary_def)
  qed
  ultimately show ?thesis
    using primary_marked [OF assms(1,2)] leaf_inner(1) by (auto intro!: map_cong)
qed

definition sample_indexes :: indexes_page where
  "sample_indexes = \<lparr>cfg_cache = None, dbs_cache = None,
     page = sample_browser\<lparr>dom := [''indexes-content'' \<mapsto> mk_node ''div'' [] [], ''tab-missing'' \<mapsto> mk_node ''button'' [At ''class'' ''btn btn-sm btn-primary''] [],
       ''tab-unused'' \<mapsto> mk_node ''button'' [At ''class'' ''btn btn-sm''] [], ''tab-duplicates'' \<mapsto> mk_node ''button'' [At ''class'' ''btn btn-sm''] []]\<rparr>,
     ix_tab = ''missing'', ix_data = Some \<lparr>ia_missing = [], ia_unused = [], ia_duplicates = []\<rparr>\<rparr>"

theorem one_primary_tab_witness:
  "map (\<lambda>i. primary i (page (Indexes_switchTab ''unused'' sample_indexes))) advice_tabs = map (\<lambda>i. i = ''tab-'' @ ''unused'') advice_tabs
    \<and> inner ''indexes-content'' (page (Indexes_switchTab ''unused'' sample_indexes)) = advice_view ''unused'' \<lparr>ia_missing = [], ia_unused = [], ia_duplicates = []\<rparr>"
  by (rule one_primary_tab) (simp_all add: sample_indexes_def advice_tabs_def element_def leaf_def mk_node_def nodes_of_list_def)

end
