(* ===== verification/Pgbouncer.thy ===== *)
theory Pgbouncer
  imports Site
begin

text \<open>
  The PgBouncer page, pgbouncer.js: statistics of pools and servers, and four control actions, of
  which killing the connections asks first.
\<close>

section \<open>State and server\<close>

record pool_stat =
  po_database :: string
  po_user :: string
  po_clActive :: int
  po_clWaiting :: int
  po_svActive :: int
  po_svIdle :: int
  po_mode :: string

text \<open>\<^verbatim>\<open>bs_avg\<close> is the printed average, empty when the reply has none.\<close>

record bouncer_stat =
  bs_database :: string
  bs_xacts :: int
  bs_queries :: int
  bs_received :: int
  bs_sent :: int
  bs_avg :: string

record bouncer_server =
  pv_stats :: "(pool_stat list \<times> bouncer_stat list) net"
  pv_action :: "unit net"

section \<open>Markup\<close>

definition pool_row :: "pool_stat \<Rightarrow> html list" where
  "pool_row p = [El ''tr'' []
      [El ''td'' [] [Txt (po_database p)],
      El ''td'' [] [Txt (po_user p)],
      El ''td'' [At ''class'' ''accent''] [Txt (str_of_int (po_clActive p))],
      El ''td'' [At ''class'' (if 0 < po_clWaiting p then ''yellow'' else [])] [Txt (str_of_int (po_clWaiting p))],
      El ''td'' [At ''class'' ''green''] [Txt (str_of_int (po_svActive p))],
      El ''td'' [] [Txt (str_of_int (po_svIdle p))],
      El ''td'' []
       [El ''span'' [At ''class'' ''badge badge-gray''] [Txt (po_mode p)]]]]"

definition pools_markup :: "pool_stat list \<Rightarrow> html list" where
  "pools_markup ps =
     (if ps = [] then [El ''div'' [At ''class'' ''dim text-center py-16''] [Txt ''no pools'']]
      else [El ''div'' [At ''style'' ''overflow-x:auto'']
      [El ''table'' []
       [El ''colgroup'' []
        [El ''col'' [At ''style'' ''width:22%''] [],
        El ''col'' [At ''style'' ''width:18%''] [],
        El ''col'' [At ''style'' ''width:12%''] [],
        El ''col'' [At ''style'' ''width:12%''] [],
        El ''col'' [At ''style'' ''width:12%''] [],
        El ''col'' [At ''style'' ''width:12%''] [],
        El ''col'' [At ''style'' ''width:12%''] []],
       El ''thead'' []
        [El ''tr'' []
         [El ''th'' [] [Txt ''db''],
         El ''th'' [] [Txt ''user''],
         El ''th'' [] [Txt ''cl_active''],
         El ''th'' [] [Txt ''cl_waiting''],
         El ''th'' [] [Txt ''sv_active''],
         El ''th'' [] [Txt ''sv_idle''],
         El ''th'' [] [Txt ''mode'']]],
       El ''tbody'' [] (concat (map pool_row ps))]]])"

definition bouncer_row :: "bouncer_stat \<Rightarrow> html list" where
  "bouncer_row s = [El ''tr'' []
      [El ''td'' [] [Txt (bs_database s)],
      El ''td'' [] [Txt (fmt_count (bs_xacts s))],
      El ''td'' [] [Txt (fmt_count (bs_queries s))],
      El ''td'' [] [Txt (formatBytes (of_int (bs_received s)))],
      El ''td'' [] [Txt (formatBytes (of_int (bs_sent s)))],
      El ''td'' [] [Txt ((or_str (bs_avg s) ''0'') @ u_micro @ ''s'')]]]"

definition bouncer_markup :: "bouncer_stat list \<Rightarrow> html list" where
  "bouncer_markup ss =
     (if ss = [] then [El ''div'' [At ''class'' ''dim text-center py-16''] [Txt ''no stats'']]
      else [El ''div'' [At ''style'' ''overflow-x:auto'']
      [El ''table'' []
       [El ''colgroup'' []
        [El ''col'' [At ''style'' ''width:20%''] [],
        El ''col'' [At ''style'' ''width:14%''] [],
        El ''col'' [At ''style'' ''width:14%''] [],
        El ''col'' [At ''style'' ''width:18%''] [],
        El ''col'' [At ''style'' ''width:18%''] [],
        El ''col'' [At ''style'' ''width:16%''] []],
       El ''thead'' []
        [El ''tr'' []
         [El ''th'' [] [Txt ''db''],
         El ''th'' [] [Txt ''xacts''],
         El ''th'' [] [Txt ''queries''],
         El ''th'' [] [Txt ''bytes_recv''],
         El ''th'' [] [Txt ''bytes_sent''],
         El ''th'' [] [Txt ''query_time'']]],
       El ''tbody'' [] (concat (map bouncer_row ss))]]])"

definition bouncer_error :: "string \<Rightarrow> html list" where
  "bouncer_error e = [El ''div'' [At ''class'' ''dim text-center py-16''] [Txt (''error: '' @ (escHtml e))]]"

section \<open>Operations\<close>

definition renderPoolStats :: "pool_stat list \<Rightarrow> site \<Rightarrow> site" where
  "renderPoolStats ps = put_markup ''pgb-stats'' (pools_markup ps)"

definition renderServerStats :: "bouncer_stat list \<Rightarrow> site \<Rightarrow> site" where
  "renderServerStats ss = put_markup ''pgb-servers'' (bouncer_markup ss)"

definition loadStats :: "bouncer_server \<Rightarrow> site \<Rightarrow> unit outcome \<times> site" where
  "loadStats sv s =
     catch
       (await (on_page (api (pv_stats sv) (get_rq ''/pgbouncer/stats'')) s) (\<lambda>d s1.
          (Resolved (), renderServerStats (snd d) (renderPoolStats (fst d) s1))))
       (\<lambda>e s1. if element ''pgb-stats'' (page s1) then (Resolved (), put_markup ''pgb-stats'' (bouncer_error e) s1)
              else (Rejected ''TypeError'', s1))"

definition bouncer_rq :: "string \<Rightarrow> request" where
  "bouncer_rq act = post_rq (''/pgbouncer/'' @ act) None"

definition bouncer_act :: "bouncer_server \<Rightarrow> string \<Rightarrow> site \<Rightarrow> unit outcome \<times> site" where
  "bouncer_act sv act s =
     catch
       (await (on_page (apiProtected (pv_action sv) (bouncer_rq act)) s) (\<lambda>_ s1.
          (Resolved (), after 1000 PgbReload (toast (''pgbouncer '' @ act @ '' ok'') ''success'' s1))))
       ignore"

definition bouncer_action :: "bouncer_server \<Rightarrow> string \<Rightarrow> site \<Rightarrow> unit outcome \<times> site" where
  "bouncer_action sv act s =
     (if act = ''kill''
      then confirmed ''kill connections'' ''Kill all PgBouncer connections?'' (danger_options ''kill all'') (bouncer_act sv act) s
      else bouncer_act sv act s)"

definition bouncer_frame :: "html list" where
  "bouncer_frame = [El ''div'' [At ''class'' ''flex-between mb-12'']
      [El ''span'' [At ''class'' ''card-title'', At ''style'' ''margin:0''] [Txt ''pgbouncer control''],
      El ''div'' [At ''class'' ''flex gap-4'']
       [El ''button'' [At ''onclick'' (''PgBouncerUI.action('' @ sq @ ''reload'' @ sq @ '')''), At ''class'' ''btn btn-sm'']
        [El ''i'' [At ''data-lucide'' ''refresh-cw'', At ''class'' ''icon-sm''] [],
        Txt '' reload''],
       El ''button'' [At ''onclick'' (''PgBouncerUI.action('' @ sq @ ''pause'' @ sq @ '')''), At ''class'' ''btn btn-sm'']
        [El ''i'' [At ''data-lucide'' ''pause'', At ''class'' ''icon-sm''] [],
        Txt '' pause''],
       El ''button'' [At ''onclick'' (''PgBouncerUI.action('' @ sq @ ''resume'' @ sq @ '')''), At ''class'' ''btn btn-sm'']
        [El ''i'' [At ''data-lucide'' ''play'', At ''class'' ''icon-sm''] [],
        Txt '' resume''],
       El ''button'' [At ''onclick'' (''PgBouncerUI.action('' @ sq @ ''kill'' @ sq @ '')''), At ''class'' ''btn btn-sm btn-danger'']
        [El ''i'' [At ''data-lucide'' ''x'', At ''class'' ''icon-sm''] [],
        Txt '' kill'']]],
     El ''div'' [At ''class'' ''card mb-12'', At ''style'' ''padding:8px 12px;background:var(--bg-2)'']
      [El ''div'' [At ''class'' ''mono-xs dim'', At ''style'' ''line-height:1.6'']
       [Txt ''transaction pooling note: if clients send unsupported startup parameters such as '',
       El ''span'' [At ''class'' ''accent''] [Txt ''statement_timeout''],
       Txt '', keep the real timeout on PostgreSQL with '',
       El ''span'' [At ''class'' ''accent''] [Txt ''ALTER ROLE''],
       Txt '' / '',
       El ''span'' [At ''class'' ''accent''] [Txt ''ALTER DATABASE''],
       Txt '', and use '',
       El ''span'' [At ''class'' ''accent''] [Txt ''ignore_startup_parameters''],
       Txt '' in PgBouncer only for compatibility.'']],
     El ''div'' [At ''class'' ''grid grid-2 mb-12'']
      [El ''div'' [At ''class'' ''card'']
       [El ''div'' [At ''class'' ''card-title''] [Txt ''pool stats''],
       El ''div'' [At ''id'' ''pgb-stats'', At ''class'' ''dim text-center py-16''] [Txt ''loading...'']],
      El ''div'' [At ''class'' ''card'']
       [El ''div'' [At ''class'' ''card-title''] [Txt ''server stats''],
       El ''div'' [At ''id'' ''pgb-servers'', At ''class'' ''dim text-center py-16''] [Txt ''loading...'']]]]"

definition Pgbouncer_render :: "bouncer_server \<Rightarrow> site \<Rightarrow> unit outcome \<times> site" where
  "Pgbouncer_render sv s = loadStats sv (put_markup ''page-content'' bouncer_frame s)"

end
