(* ===== verification/Server.thy ===== *)
theory Server
  imports Site
begin

text \<open>
  The server overview, server.js: one request, shown as databases with their schemas and tables, and
  for every table a bar whose width compares it with the largest table of its schema, divided after
  the sizes of heap, indexes and TOAST. A missing size counts as 0.
\<close>

section \<open>Data\<close>

record table_stat =
  ts_name :: string
  ts_total :: int
  ts_size :: int
  ts_table :: int
  ts_index :: int
  ts_toast :: int
  ts_rows :: "int option"

record schema_stat =
  sm_name :: string
  sm_size :: string
  sm_tables :: int
  sm_list :: "table_stat list"

record database_stat =
  dbs_name :: string
  dbs_size :: string
  dbs_owner :: string
  dbs_encoding :: string
  dbs_tables :: int
  dbs_schemas :: "schema_stat list"

record overview =
  vw_version :: string
  vw_start :: string
  vw_totalDbs :: int
  vw_totalTables :: int
  vw_databases :: "database_stat list"

section \<open>Bars\<close>

definition total_bytes :: "table_stat \<Rightarrow> int" where
  "total_bytes t = or_int (ts_total t) (ts_size t)"

definition max_total :: "table_stat list \<Rightarrow> int" where
  "max_total ts = Max (set (map total_bytes ts @ [1]))"

definition part_pct :: "int \<Rightarrow> int \<Rightarrow> string" where
  "part_pct part whole = (if 0 < whole then to_fixed 0 (of_int part / of_int whole * 100) else ''0'')"

definition width_pct :: "table_stat \<Rightarrow> int \<Rightarrow> string" where
  "width_pct t mx = to_fixed 0 (of_int (total_bytes t) / of_int mx * 100)"

section \<open>Markup\<close>

definition table_row :: "int \<Rightarrow> table_stat \<Rightarrow> html list" where
  "table_row mx t = [El ''tr'' []
      [El ''td'' [At ''style'' ''padding-left:38px'']
       [El ''i'' [At ''data-lucide'' ''table'', At ''style'' ''width:10px;height:10px;color:var(--text-2);margin-right:4px;vertical-align:middle''] [],
       Txt (escape3 (ts_name t))],
      El ''td'' [At ''class'' ''dim''] [Txt (formatBytes (of_int (total_bytes t)))],
      El ''td'' [At ''class'' ''dim''] [Txt (formatBytes (of_int (ts_table t)))],
      El ''td'' [At ''class'' ''dim''] [Txt (formatBytes (of_int (ts_index t)))],
      El ''td'' [At ''class'' ''dim''] [Txt (formatBytes (of_int (ts_toast t)))],
      El ''td'' [At ''class'' ''dim''] [Txt (fmtNum int_str (map_option of_int (ts_rows t)))],
      El ''td'' []
       [El ''div'' [At ''style'' (''display:flex;height:12px;width:'' @ (width_pct t mx) @ ''%;min-width:4px'')]
        [El ''div'' [At ''style'' (''background:var(--accent);width:'' @ (part_pct (ts_table t) (total_bytes t)) @ ''%''), At ''title'' (''table '' @ (part_pct (ts_table t) (total_bytes t)) @ ''%'')] [],
        El ''div'' [At ''style'' (''background:var(--green);width:'' @ (part_pct (ts_index t) (total_bytes t)) @ ''%''), At ''title'' (''index '' @ (part_pct (ts_index t) (total_bytes t)) @ ''%'')] [],
        El ''div'' [At ''style'' (''background:var(--yellow);width:'' @ (part_pct (ts_toast t) (total_bytes t)) @ ''%''), At ''title'' (''toast '' @ (part_pct (ts_toast t) (total_bytes t)) @ ''%'')] []]]]]"

definition tables_markup :: "table_stat list \<Rightarrow> html list" where
  "tables_markup ts =
     (if ts = [] then []
      else [El ''table'' [At ''class'' ''data-table'', At ''style'' ''table-layout:fixed;width:100%'']
      [El ''thead'' []
       [El ''tr'' []
        [El ''th'' [At ''style'' ''padding-left:38px''] [Txt ''table''],
        El ''th'' [At ''style'' ''width:90px''] [Txt ''total''],
        El ''th'' [At ''style'' ''width:80px''] [Txt ''table''],
        El ''th'' [At ''style'' ''width:80px''] [Txt ''index''],
        El ''th'' [At ''style'' ''width:70px''] [Txt ''toast''],
        El ''th'' [At ''style'' ''width:80px''] [Txt ''rows''],
        El ''th'' [At ''style'' ''width:180px''] [Txt ''distribution'']]],
      El ''tbody'' [] (concat (map (table_row (max_total ts)) ts))]])"

definition schema_block :: "schema_stat \<Rightarrow> html list" where
  "schema_block m = [El ''div'' [At ''style'' ''padding:0'']
      ([El ''div'' [At ''style'' ''padding:4px 10px 4px 24px;display:flex;align-items:center;gap:6px;background:var(--bg-1)'']
        [El ''i'' [At ''data-lucide'' ''folder'', At ''style'' ''width:11px;height:11px;color:var(--text-2)''] [],
        El ''span'' [At ''class'' ''mono-xs''] [Txt (escape3 (sm_name m))],
        El ''span'' [At ''class'' ''dim mono-xs''] [Txt (sm_size m)],
        El ''span'' [At ''class'' ''dim mono-xs'']
         [Txt (u_middot @ '' '' @ (str_of_int (sm_tables m)) @ '' tables'')]]] @ (tables_markup (sm_list m)))]"

definition schemas_markup :: "schema_stat list \<Rightarrow> html list" where
  "schemas_markup ms =
     (if ms \<noteq> [] then concat (map schema_block ms)
      else [El ''div'' [At ''style'' ''padding:8px 10px 8px 24px'', At ''class'' ''dim mono-xs'']
      [Txt ''no schema info (cross-database queries not supported)'']])"

definition database_card :: "database_stat \<Rightarrow> html list" where
  "database_card d = [El ''div'' [At ''class'' ''card mb-8'', At ''style'' ''padding:0'']
      ([El ''div'' [At ''style'' ''padding:8px 10px;background:var(--bg-2);display:flex;align-items:center;gap:8px'']
        [El ''i'' [At ''data-lucide'' ''database'', At ''style'' ''width:14px;height:14px;color:var(--accent)''] [],
        El ''span'' [At ''style'' ''font-weight:600;font-size:12px''] [Txt (escape3 (dbs_name d))],
        El ''span'' [At ''class'' ''dim mono-xs''] [Txt (escape3 (dbs_size d))],
        El ''span'' [At ''class'' ''dim mono-xs''] [Txt (u_middot @ '' '' @ (escape3 (dbs_owner d)))],
        El ''span'' [At ''class'' ''dim mono-xs''] [Txt (u_middot @ '' '' @ (escape3 (dbs_encoding d)))],
        El ''span'' [At ''class'' ''dim mono-xs'', At ''style'' ''margin-left:auto''] [Txt ((str_of_int (dbs_tables d)) @ '' tables'')]]] @ (schemas_markup (dbs_schemas d)))]"

definition overview_head :: "overview \<Rightarrow> html list" where
  "overview_head v = [El ''div'' [At ''class'' ''flex gap-8 mb-8'']
      [El ''div'' [At ''class'' ''card'', At ''style'' ''flex:1'']
       [El ''div'' [At ''class'' ''mono-xs dim''] [Txt ''version''],
       El ''div'' [At ''class'' ''mono-xs'', At ''style'' ''margin-top:4px''] [Txt (escape3 (hd (split_on CHR '','' (vw_version v))))]],
      El ''div'' [At ''class'' ''card'', At ''style'' ''flex:0 0 180px'']
       [El ''div'' [At ''class'' ''mono-xs dim''] [Txt ''start time''],
       El ''div'' [At ''class'' ''mono-xs'', At ''style'' ''margin-top:4px''] [Txt (escape3 (take 19 (vw_start v)))]],
      El ''div'' [At ''class'' ''card'', At ''style'' ''flex:0 0 100px'']
       [El ''div'' [At ''class'' ''mono-xs dim''] [Txt ''databases''],
       El ''div'' [At ''style'' ''font-size:20px;font-weight:700;margin-top:2px''] [Txt (str_of_int (vw_totalDbs v))]],
      El ''div'' [At ''class'' ''card'', At ''style'' ''flex:0 0 100px'']
       [El ''div'' [At ''class'' ''mono-xs dim''] [Txt ''tables''],
       El ''div'' [At ''style'' ''font-size:20px;font-weight:700;margin-top:2px''] [Txt (str_of_int (vw_totalTables v))]]]]"

definition overview_markup :: "overview \<Rightarrow> html list" where
  "overview_markup v = overview_head v @ concat (map database_card (vw_databases v))"

definition overview_error :: "string \<Rightarrow> html list" where
  "overview_error e = [El ''div'' [At ''class'' ''card'']
      [El ''span'' [At ''class'' ''red mono-xs''] [Txt (''error: '' @ e)]]]"

section \<open>Operations\<close>

definition loadOverview :: "overview option net \<Rightarrow> site \<Rightarrow> unit outcome \<times> site" where
  "loadOverview net s =
     (if \<not> element ''server-content'' (page s) then (Resolved (), s)
      else catch
        (await (on_page (api net (get_rq ''/server/overview'')) s) (\<lambda>d s1.
           (Resolved (), put_markup ''server-content''
              (case d of None \<Rightarrow> [El ''div'' [At ''class'' ''card'']
      [El ''span'' [At ''class'' ''red''] [Txt ''no data'']]] | Some v \<Rightarrow> overview_markup v) s1)))
        (\<lambda>e s1. (Resolved (), put_markup ''server-content'' (overview_error e) s1)))"

definition server_frame :: "html list" where
  "server_frame = [El ''div'' [At ''class'' ''card-title mb-8''] [Txt ''server overview''],
     El ''div'' [At ''id'' ''server-content'']
      [El ''div'' [At ''class'' ''card'']
       [El ''span'' [At ''class'' ''dim mono-xs''] [Txt ''loading...'']]]]"

definition Server_render :: "overview option net \<Rightarrow> site \<Rightarrow> unit outcome \<times> site" where
  "Server_render net s = loadOverview net (put_markup ''page-content'' server_frame s)"

section \<open>Percentages\<close>

lemma to_fixed_0: "0 \<le> x \<Longrightarrow> to_fixed 0 x = str_of_nat (nat (round_half_up x))"
  by (simp add: to_fixed_def fixed_nat_def)

lemma round_le_100: "x \<le> 100 \<Longrightarrow> round_half_up x \<le> 100"
  using round_half_up_mono [of x 100] round_half_up_of_int [of 100] by simp

lemma part_pct_num:
  assumes "0 \<le> p" "p \<le> w"
  shows "\<exists>n. part_pct p w = str_of_nat n \<and> n \<le> 100 \<and> of_nat n \<le> (if 0 < w then of_int p / of_int w * 100 else 0) + (1 / 2 :: rat)"
proof (cases "0 < w")
  case True
  let ?x = "of_int p / of_int w * 100 :: rat"
  have x: "0 \<le> ?x" "?x \<le> 100" using assms True by (simp_all add: divide_le_eq)
  have "of_int (round_half_up ?x) \<le> ?x + 1 / 2"
    using round_half_up_error [of ?x] unfolding abs_le_iff by linarith
  moreover have "0 \<le> round_half_up ?x" "round_half_up ?x \<le> 100"
    using x round_half_up_nonneg round_le_100 by blast+
  ultimately show ?thesis
    using True x by (intro exI [of _ "nat (round_half_up ?x)"]) (simp add: part_pct_def to_fixed_0)
next
  case False
  have "str_of_nat 0 = ''0''" by code_simp
  with False show ?thesis by (intro exI [of _ 0]) (simp add: part_pct_def)
qed

lemma max_total_ge: "t \<in> set ts \<Longrightarrow> total_bytes t \<le> max_total ts" "1 \<le> max_total ts"
  by (auto simp: max_total_def intro: Max_ge)

section \<open>Properties\<close>

text \<open>
  the bar of every table is at most as wide as its cell, and the largest table of a schema with data fills it; the parts of
  a bar are whole percentages of at most 100 that add up to at most 101, when the parts are not larger than the table.
\<close>

theorem bars_bounded:
  assumes "t \<in> set ts" "0 \<le> ts_table t" "0 \<le> ts_index t" "0 \<le> ts_toast t" "ts_table t + ts_index t + ts_toast t \<le> total_bytes t"
  shows "\<exists>w a b c. width_pct t (max_total ts) = str_of_nat w \<and> w \<le> 100 \<and> (if total_bytes t = max_total ts then w = 100 else True)
    \<and> part_pct (ts_table t) (total_bytes t) = str_of_nat a \<and> part_pct (ts_index t) (total_bytes t) = str_of_nat b
    \<and> part_pct (ts_toast t) (total_bytes t) = str_of_nat c \<and> a \<le> 100 \<and> b \<le> 100 \<and> c \<le> 100 \<and> a + b + c \<le> 101"
proof -
  let ?T = "total_bytes t" and ?M = "max_total ts"
  have M: "?T \<le> ?M" "1 \<le> ?M" using max_total_ge assms(1) by auto
  have T: "0 \<le> ?T" using assms(2-5) by linarith
  let ?x = "of_int ?T / of_int ?M * 100 :: rat"
  have x: "0 \<le> ?x" "?x \<le> 100" using M T by (simp_all add: divide_le_eq)
  have w: "width_pct t ?M = str_of_nat (nat (round_half_up ?x))" "nat (round_half_up ?x) \<le> 100"
    using x round_le_100 [OF x(2)] by (simp_all add: width_pct_def to_fixed_0)
  have full: "nat (round_half_up ?x) = 100" if "?T = ?M"
  proof -
    have "?x = of_int 100" using that M(2) by simp
    then show ?thesis by (simp only: round_half_up_of_int)
  qed
  obtain a where a: "part_pct (ts_table t) ?T = str_of_nat a" "a \<le> 100" "of_nat a \<le> (if 0 < ?T then of_int (ts_table t) / of_int ?T * 100 else 0) + (1 / 2 :: rat)"
    using part_pct_num [of "ts_table t" ?T] assms(2-5) by auto
  obtain b where b: "part_pct (ts_index t) ?T = str_of_nat b" "b \<le> 100" "of_nat b \<le> (if 0 < ?T then of_int (ts_index t) / of_int ?T * 100 else 0) + (1 / 2 :: rat)"
    using part_pct_num [of "ts_index t" ?T] assms(2-5) by auto
  obtain c where c: "part_pct (ts_toast t) ?T = str_of_nat c" "c \<le> 100" "of_nat c \<le> (if 0 < ?T then of_int (ts_toast t) / of_int ?T * 100 else 0) + (1 / 2 :: rat)"
    using part_pct_num [of "ts_toast t" ?T] assms(2-5) by auto
  have "of_nat (a + b + c) \<le> (203 / 2 :: rat)"
  proof (cases "0 < ?T")
    case True
    have "of_int (ts_table t) / of_int ?T * 100 + of_int (ts_index t) / of_int ?T * 100 + of_int (ts_toast t) / of_int ?T * 100
        = (of_int (ts_table t + ts_index t + ts_toast t) / of_int ?T * 100 :: rat)"
      by (simp add: add_divide_distrib distrib_right)
    also have "\<dots> \<le> 100"
    proof -
      have "(of_int (ts_table t + ts_index t + ts_toast t) :: rat) \<le> of_int ?T" using assms(5) by (simp only: of_int_le_iff)
      then show ?thesis using True by (simp add: divide_le_eq)
    qed
    finally show ?thesis using a(3) b(3) c(3) True by simp
  next
    case False
    then show ?thesis using a(3) b(3) c(3) by simp
  qed
  then have "a + b + c \<le> 101" by (simp add: field_simps)
  with w full a b c show ?thesis
    by (intro exI [of _ "nat (round_half_up ?x)"] exI [of _ a] exI [of _ b] exI [of _ c]) simp
qed

theorem bars_bounded_witness:
  "let t = \<lparr>ts_name = ''t'', ts_total = 6, ts_size = 0, ts_table = 1, ts_index = 1, ts_toast = 4, ts_rows = None\<rparr> in
   \<exists>w a b c. width_pct t (max_total [t]) = str_of_nat w \<and> w = 100 \<and> part_pct (ts_table t) (total_bytes t) = str_of_nat a
     \<and> part_pct (ts_index t) (total_bytes t) = str_of_nat b \<and> part_pct (ts_toast t) (total_bytes t) = str_of_nat c \<and> a + b + c \<le> 101"
proof -
  let ?t = "\<lparr>ts_name = ''t'', ts_total = 6, ts_size = 0, ts_table = 1, ts_index = 1, ts_toast = 4, ts_rows = None\<rparr> :: table_stat"
  have "total_bytes ?t = 6" "max_total [?t] = 6" by (simp_all add: total_bytes_def max_total_def or_int_def)
  then show ?thesis using bars_bounded [of ?t "[?t]"] by (auto simp: Let_def)
qed


end
