(* ===== verification/Profiles.thy ===== *)
theory Profiles
  imports Backup Site
begin

text \<open>
  The connection profiles page, profiles.js: the settings document shown as one select per routed
  feature and six inputs per profile, and written back from what the elements say. An empty element
  keeps the stored value. A text missing in the document is the empty string here.
\<close>

section \<open>State and server\<close>

record profiles_page = site +
  pf_config :: "settings option"

record profiles_server =
  pv_settings :: settings_net
  pv_save :: "unit net"

definition features :: "string list" where
  "features = [''sql'', ''queries'', ''maintenance'']"

section \<open>Markup\<close>

definition route_option :: "settings \<Rightarrow> string \<Rightarrow> profile \<Rightarrow> html list" where
  "route_option cfg f p = [El ''option'' ([At ''value'' (escHtml (p_name p))] @ (flag_if (map_of (s_routes cfg) f = Some (p_name p)) ''selected'')) [Txt (escHtml (or_str (p_label p) (p_name p)))]]"

definition route_box :: "settings \<Rightarrow> string \<Rightarrow> html list" where
  "route_box cfg f = [El ''div'' []
      [El ''label'' [At ''class'' ''mono-xs dim'', At ''style'' ''display:block;margin-bottom:4px''] [Txt f],
      El ''select'' [At ''id'' (''route-'' @ f), At ''class'' ''db-select'', At ''style'' ''width:100%''] (concat (map (route_option cfg f) (s_profiles cfg)))]]"

definition profile_input :: "string \<Rightarrow> string \<Rightarrow> string \<Rightarrow> string \<Rightarrow> html list" where
  "profile_input i label v ty = [El ''div'' []
      [El ''label'' [At ''class'' ''mono-xs dim'', At ''style'' ''display:block;margin-bottom:4px''] [Txt label],
      El ''input'' [At ''id'' i, At ''type'' ty, At ''value'' (escHtml v), At ''style'' ''width:100%;background:var(--bg-0);border:1px solid var(--border);color:var(--text-1);padding:6px 8px;font-size:11px;font-family:var(--font)''] []]]"

definition profile_card :: "nat \<times> profile \<Rightarrow> html list" where
  "profile_card x = (case x of (i, p) \<Rightarrow> [El ''div'' [At ''class'' ''card'']
      [El ''div'' [At ''class'' ''flex-between'', At ''style'' ''margin-bottom:8px'']
       [El ''span'' [At ''class'' ''card-title'', At ''style'' ''margin:0''] [Txt (escHtml (or_str (p_label p) (p_name p)))],
       El ''span'' [At ''class'' (''mono-xs '' @ (if p_type p = ''pgbouncer'' then ''yellow'' else ''green''))] [Txt (escHtml (p_type p))]],
      El ''div'' [At ''class'' ''grid grid-2'', At ''style'' ''gap:10px'']
       ((profile_input (''profile-label-'' @ str_of_nat i) ''label'' (or_str (p_label p) (p_name p)) ''text'') @ (profile_input (''profile-host-'' @ str_of_nat i) ''host'' (p_host p) ''text'') @ (profile_input (''profile-port-'' @ str_of_nat i) ''port'' (str_of_int (p_port p)) ''number'') @ (profile_input (''profile-db-'' @ str_of_nat i) ''database'' (p_database p) ''text'') @ (profile_input (''profile-ssl-'' @ str_of_nat i) ''ssl mode'' (or_str (p_ssl p) ''disable'') ''text'') @ (profile_input (''profile-desc-'' @ str_of_nat i) ''description'' (p_desc p) ''text'')),
      El ''div'' [At ''class'' ''mono-xs dim'', At ''style'' ''margin-top:8px''] [Txt (''name: '' @ (escHtml (p_name p)))]]])"

definition profiles_markup :: "settings \<Rightarrow> html list" where
  "profiles_markup cfg = [El ''div'' [At ''class'' ''card mb-8'']
      [El ''div'' [At ''class'' ''card-title''] [Txt ''feature routing''],
      El ''div'' [At ''class'' ''grid grid-3'', At ''style'' ''gap:12px''] (concat (map (route_box cfg) features))],
     El ''div'' [At ''class'' ''grid'', At ''style'' ''gap:12px''] (concat (map profile_card (enumerate 0 (s_profiles cfg))))]"

definition profiles_error :: "string \<Rightarrow> html list" where
  "profiles_error e = [El ''div'' [At ''class'' ''card'']
      [El ''span'' [At ''class'' ''red mono-xs''] [Txt (escHtml e)]]]"

definition profiles_frame :: "html list" where
  "profiles_frame = [El ''div'' [At ''class'' ''flex-between mb-8'']
      [El ''span'' [At ''class'' ''card-title'', At ''style'' ''margin:0''] [Txt ''connection profiles''],
      El ''div'' [At ''style'' ''display:flex;gap:6px'']
       [El ''button'' [At ''onclick'' ''ProfilesPage.load()'', At ''class'' ''btn btn-sm'']
        [El ''i'' [At ''data-lucide'' ''refresh-cw'', At ''class'' ''icon-sm''] [],
        Txt '' refresh''],
       El ''button'' [At ''onclick'' ''ProfilesPage.save()'', At ''class'' ''btn btn-sm btn-primary'']
        [El ''i'' [At ''data-lucide'' ''save'', At ''class'' ''icon-sm''] [],
        Txt '' save'']]],
     El ''div'' [At ''id'' ''profiles-content'']
      [El ''div'' [At ''class'' ''card'']
       [El ''span'' [At ''class'' ''dim mono-xs''] [Txt ''loading...'']]]]"

section \<open>Operations\<close>

definition Profiles_load :: "profiles_server \<Rightarrow> profiles_page \<Rightarrow> unit outcome \<times> profiles_page" where
  "Profiles_load sv s =
     (if \<not> element ''profiles-content'' (page s) then (Resolved (), s)
      else catch
        (await (on_page (api (pv_settings sv) (get_rq ''/settings'')) s) (\<lambda>r s1.
           (let cfg = or_none r empty_settings
            in (Resolved (), put_markup ''profiles-content'' (profiles_markup cfg) (s1\<lparr>pf_config := Some cfg\<rparr>)))))
        (\<lambda>e s1. (Resolved (), put_markup ''profiles-content'' (profiles_error e) s1)))"

definition Profiles_render :: "profiles_server \<Rightarrow> profiles_page \<Rightarrow> unit outcome \<times> profiles_page" where
  "Profiles_render sv s = Profiles_load sv (put_markup ''page-content'' profiles_frame s)"

text \<open>An assignment to a property of an object: in its place, or behind the others.\<close>

fun set_route :: "string \<Rightarrow> string \<Rightarrow> (string \<times> string) list \<Rightarrow> (string \<times> string) list" where
  "set_route f v [] = [(f, v)]"
| "set_route f v ((g, w) # rs) = (if g = f then (f, v) # rs else (g, w) # set_route f v rs)"

definition read_route :: "browser \<Rightarrow> string \<Rightarrow> (string \<times> string) list \<Rightarrow> (string \<times> string) list" where
  "read_route b f rs = (let v = value_of (''route-'' @ f) b in if v = [] then rs else set_route f v rs)"

definition read_profile :: "browser \<Rightarrow> nat \<times> profile \<Rightarrow> profile" where
  "read_profile b x = (case x of (i, p) \<Rightarrow>
     p\<lparr>p_label := or_str (value_of (''profile-label-'' @ str_of_nat i) b) (p_label p),
       p_host := or_str (value_of (''profile-host-'' @ str_of_nat i) b) (p_host p),
       p_port := parse_int_or (value_of (''profile-port-'' @ str_of_nat i) b) (p_port p),
       p_database := or_str (value_of (''profile-db-'' @ str_of_nat i) b) (p_database p),
       p_ssl := or_str (value_of (''profile-ssl-'' @ str_of_nat i) b) (p_ssl p),
       p_desc := or_str (value_of (''profile-desc-'' @ str_of_nat i) b) (p_desc p)\<rparr>)"

definition read_profiles :: "browser \<Rightarrow> settings \<Rightarrow> settings" where
  "read_profiles b cfg =
     cfg\<lparr>s_routes := fold (read_route b) features (s_routes cfg),
         s_profiles := map (read_profile b) (enumerate 0 (s_profiles cfg))\<rparr>"

definition Profiles_save :: "profiles_server \<Rightarrow> profiles_page \<Rightarrow> unit outcome \<times> profiles_page" where
  "Profiles_save sv s =
     (case pf_config s of
        None \<Rightarrow> (Resolved (), s)
      | Some cfg \<Rightarrow> catch
          (await (on_page (apiProtected (pv_save sv) (save_rq (read_profiles (page s) cfg))) s) (\<lambda>_ s1.
             Profiles_load sv (toast ''connection profiles updated'' ''success'' (s1\<lparr>cfg_cache := resetCache (cfg_cache s1)\<rparr>))))
          (\<lambda>e s1. (Resolved (), toast (''save failed: '' @ e) ''error'' s1)))"

section \<open>What the elements say after a load\<close>

lemma indexed_before:
  assumes "\<And>j x. j \<noteq> i \<Longrightarrow> map_of (f (j, x)) k = None"
  shows "i < n \<Longrightarrow> map_of (concat (map f (enumerate n xs))) k = None"
  by (induction xs arbitrary: n) (simp_all add: assms map_add_def)

lemma indexed_lookup:
  assumes "\<And>j x. j \<noteq> n + i \<Longrightarrow> map_of (f (j, x)) k = None"
  shows "i < length xs \<Longrightarrow> map_of (concat (map f (enumerate n xs))) k = map_of (f (n + i, xs ! i)) k"
  using assms
proof (induction xs arbitrary: i n)
  case (Cons x xs)
  show ?case
  proof (cases i)
    case 0
    have "map_of (concat (map f (enumerate (Suc n) xs))) k = None"
      by (rule indexed_before [of n]) (use Cons.prems(2) 0 in simp_all)
    with 0 show ?thesis by (simp add: map_add_def split: option.split)
  next
    case (Suc m)
    then show ?thesis using Cons.IH [of m "Suc n"] Cons.prems by (simp add: map_add_def split: option.splits)
  qed
qed simp

definition input_of :: "string \<Rightarrow> string \<Rightarrow> string \<Rightarrow> string \<Rightarrow> node" where
  "input_of i l v ty = snd (hd (nodes_of_list (profile_input i l v ty)))"

lemma input_nodes: "CHR ''&'' \<notin> set i \<Longrightarrow> concat (map nodes_of (profile_input i l v ty)) = [(i, input_of i l v ty)]"
  by (simp add: input_of_def nodes_of_list_def profile_input_def html_decode_plain)

lemma input_value: "val (input_of i l v ''text'') = one_line v" "val (input_of i l v ''number'') = v"
  by (simp_all add: input_of_def nodes_of_list_def profile_input_def mk_node_def eh.decode_esc html_decode_plain)

definition card_nodes :: "nat \<times> profile \<Rightarrow> (string \<times> node) list" where
  "card_nodes x = nodes_of_list (profile_card x)"

lemma str_of_nat_no_amp: "CHR ''&'' \<notin> set (str_of_nat n)"
  using str_of_nat_digits [of "CHR ''&''" n] by (auto simp: is_digit_def)

lemma card_nodes_eq:
  "card_nodes (i, p) =
     [(''profile-label-'' @ str_of_nat i, input_of (''profile-label-'' @ str_of_nat i) ''label'' (or_str (p_label p) (p_name p)) ''text''),
      (''profile-host-'' @ str_of_nat i, input_of (''profile-host-'' @ str_of_nat i) ''host'' (p_host p) ''text''),
      (''profile-port-'' @ str_of_nat i, input_of (''profile-port-'' @ str_of_nat i) ''port'' (str_of_int (p_port p)) ''number''),
      (''profile-db-'' @ str_of_nat i, input_of (''profile-db-'' @ str_of_nat i) ''database'' (p_database p) ''text''),
      (''profile-ssl-'' @ str_of_nat i, input_of (''profile-ssl-'' @ str_of_nat i) ''ssl mode'' (or_str (p_ssl p) ''disable'') ''text''),
      (''profile-desc-'' @ str_of_nat i, input_of (''profile-desc-'' @ str_of_nat i) ''description'' (p_desc p) ''text'')]"
  by (simp add: card_nodes_def nodes_of_list_def profile_card_def input_nodes str_of_nat_no_amp)

lemma cards_nodes: "concat (map nodes_of (concat (map profile_card xs))) = concat (map card_nodes xs)"
  by (induction xs) (simp_all add: card_nodes_def nodes_of_list_def)

definition route_node :: "settings \<Rightarrow> string \<Rightarrow> node" where
  "route_node cfg f = snd (hd (nodes_of_list (route_box cfg f)))"

lemma option_no_nodes: "concat (map nodes_of (concat (map (route_option cfg f) ps))) = []"
  by (rule no_nodes_concat) (simp add: route_option_def flag_if_def)

lemma option_values:
  "concat (map options_of (concat (map (route_option cfg f) ps))) = map (\<lambda>p. (p_name p, map_of (s_routes cfg) f = Some (p_name p))) ps"
  by (induction ps) (simp_all add: route_option_def flag_if_def eh.decode_esc)

lemma route_nodes:
  assumes "CHR ''&'' \<notin> set f"
  shows "concat (map nodes_of (route_box cfg f)) = [(''route-'' @ f, route_node cfg f)]"
    and "val (route_node cfg f) = select_value (map (\<lambda>p. (p_name p, map_of (s_routes cfg) f = Some (p_name p))) (s_profiles cfg))"
  using assms by (simp_all add: route_node_def nodes_of_list_def route_box_def mk_node_def html_decode_plain option_no_nodes option_values)

lemma markup_nodes:
  "nodes_of_list (profiles_markup cfg) =
     map (\<lambda>f. (''route-'' @ f, route_node cfg f)) features @ concat (map card_nodes (enumerate 0 (s_profiles cfg)))"
  by (simp add: nodes_of_list_def profiles_markup_def features_def route_nodes(1) cards_nodes)

lemma route_value:
  assumes "map_of (s_routes cfg) f = Some r" "r \<in> p_name ` set (s_profiles cfg)"
  shows "select_value (map (\<lambda>p. (p_name p, map_of (s_routes cfg) f = Some (p_name p))) (s_profiles cfg)) = r"
  by (rule select_value_marked) (use assms in \<open>auto simp: image_iff\<close>)

lemma set_route_same: "map_of rs f = Some v \<Longrightarrow> set_route f v rs = rs"
  by (induction rs) (auto split: if_splits)

abbreviation input_keys :: "string list" where
  "input_keys \<equiv> [''profile-label-'', ''profile-host-'', ''profile-port-'', ''profile-db-'', ''profile-ssl-'', ''profile-desc-'']"

lemma card_other:
  "i \<noteq> j \<Longrightarrow> k \<in> set input_keys \<Longrightarrow> map_of (card_nodes (j, p)) (k @ str_of_nat i) = None"
  by (auto simp: card_nodes_eq str_of_nat_inject)

lemma card_lookup:
  assumes "k \<in> set input_keys" "i < length ps"
  shows "map_of (concat (map card_nodes (enumerate 0 ps))) (k @ str_of_nat i) = map_of (card_nodes (i, ps ! i)) (k @ str_of_nat i)"
  using indexed_lookup [of 0 i card_nodes "k @ str_of_nat i" ps] card_other [OF _ assms(1)] assms(2) by auto

lemma value_after_load:
  assumes "element ''profiles-content'' b" "map_of (nodes_of_list (profiles_markup cfg)) j = Some n"
  shows "value_of j (set_inner ''profiles-content'' (profiles_markup cfg) b) = val n"
  using assms by (simp add: value_of_def inner_lookup)

lemma route_shown:
  assumes "element ''profiles-content'' b" "f \<in> set features" "map_of (s_routes cfg) f = Some r" "r \<in> p_name ` set (s_profiles cfg)"
  shows "value_of (''route-'' @ f) (set_inner ''profiles-content'' (profiles_markup cfg) b) = r"
proof -
  have "map_of (nodes_of_list (profiles_markup cfg)) (''route-'' @ f) = Some (route_node cfg f)" "CHR ''&'' \<notin> set f"
    using assms(2) by (auto simp: markup_nodes features_def)
  then show ?thesis using value_after_load [OF assms(1)] route_nodes(2) [of f cfg] route_value [OF assms(3,4)] by simp
qed

lemma input_shown:
  assumes "element ''profiles-content'' b" "k \<in> set input_keys" "i < length (s_profiles cfg)"
    "map_of (card_nodes (i, s_profiles cfg ! i)) (k @ str_of_nat i) = Some n"
  shows "value_of (k @ str_of_nat i) (set_inner ''profiles-content'' (profiles_markup cfg) b) = val n"
proof -
  have "map_of (map (\<lambda>f. (''route-'' @ f, route_node cfg f)) features) (k @ str_of_nat i) = None"
    using assms(2) by (auto simp: features_def)
  then have "map_of (nodes_of_list (profiles_markup cfg)) (k @ str_of_nat i) = Some n"
    using card_lookup [OF assms(2,3)] assms(4) by (simp add: markup_nodes map_add_def)
  then show ?thesis by (rule value_after_load [OF assms(1)])
qed

text \<open>
  What the page makes of a profile that nobody edits: it fills in the label and the SSL mode it shows, and its text inputs drop line
  breaks; a text of line breaks only stays.
\<close>

definition filled :: "profile \<Rightarrow> profile" where
  "filled p =
     p\<lparr>p_label := or_str (one_line (or_str (p_label p) (p_name p))) (p_label p), p_host := or_str (one_line (p_host p)) (p_host p),
       p_database := or_str (one_line (p_database p)) (p_database p), p_ssl := or_str (one_line (or_str (p_ssl p) ''disable'')) (p_ssl p),
       p_desc := or_str (one_line (p_desc p)) (p_desc p)\<rparr>"

definition single_line :: "profile \<Rightarrow> bool" where
  "single_line p = list_all (\<lambda>s. CHR 0x0A \<notin> set s \<and> CHR 0x0D \<notin> set s) [p_name p, p_label p, p_host p, p_database p, p_ssl p, p_desc p]"

lemma filled_single_line: "single_line p \<Longrightarrow> filled p = p\<lparr>p_label := or_str (p_label p) (p_name p), p_ssl := or_str (p_ssl p) ''disable''\<rparr>"
proof -
  assume l: "single_line p"
  have "one_line (or_str (p_label p) (p_name p)) = or_str (p_label p) (p_name p)" "one_line (or_str (p_ssl p) ''disable'') = or_str (p_ssl p) ''disable''"
    "one_line (p_host p) = p_host p" "one_line (p_database p) = p_database p" "one_line (p_desc p) = p_desc p"
    using l by (simp_all add: one_line_id single_line_def or_str_def)
  then show ?thesis by (cases p) (simp add: filled_def or_str_def)
qed

lemma profile_shown:
  assumes "element ''profiles-content'' b" "i < length (s_profiles cfg)"
  shows "read_profile (set_inner ''profiles-content'' (profiles_markup cfg) b) (i, s_profiles cfg ! i) = filled (s_profiles cfg ! i)"
proof -
  let ?p = "s_profiles cfg ! i"
  let ?v = "\<lambda>k. value_of (k @ str_of_nat i) (set_inner ''profiles-content'' (profiles_markup cfg) b)"
  have v: "?v k = val n" if "k \<in> set input_keys" "map_of (card_nodes (i, ?p)) (k @ str_of_nat i) = Some n" for k n
    using input_shown [OF assms(1) that(1) assms(2) that(2)] .
  have "?v ''profile-label-'' = one_line (or_str (p_label ?p) (p_name ?p))"
    using v [of "''profile-label-''"] by (simp add: card_nodes_eq input_value)
  moreover have "?v ''profile-host-'' = one_line (p_host ?p)"
    using v [of "''profile-host-''"] by (simp add: card_nodes_eq input_value)
  moreover have "?v ''profile-port-'' = str_of_int (p_port ?p)"
    using v [of "''profile-port-''"] by (simp add: card_nodes_eq input_value)
  moreover have "?v ''profile-db-'' = one_line (p_database ?p)"
    using v [of "''profile-db-''"] by (simp add: card_nodes_eq input_value)
  moreover have "?v ''profile-ssl-'' = one_line (or_str (p_ssl ?p) ''disable'')"
    using v [of "''profile-ssl-''"] by (simp add: card_nodes_eq input_value)
  moreover have "?v ''profile-desc-'' = one_line (p_desc ?p)"
    using v [of "''profile-desc-''"] by (simp add: card_nodes_eq input_value)
  ultimately show ?thesis by (simp add: read_profile_def filled_def) (simp add: or_int_def)
qed

lemma routes_shown:
  assumes "element ''profiles-content'' b" "list_all (\<lambda>f. map_of (s_routes cfg) f \<in> Some ` p_name ` set (s_profiles cfg)) fs" "set fs \<subseteq> set features"
  shows "fold (read_route (set_inner ''profiles-content'' (profiles_markup cfg) b)) fs (s_routes cfg) = s_routes cfg"
  using assms(2,3)
proof (induction fs)
  case (Cons f fs)
  then obtain r where r: "map_of (s_routes cfg) f = Some r" "r \<in> p_name ` set (s_profiles cfg)" "f \<in> set features" by auto
  then have "read_route (set_inner ''profiles-content'' (profiles_markup cfg) b) f (s_routes cfg) = s_routes cfg"
    using route_shown [OF assms(1) r(3,1,2)] set_route_same [OF r(1)] by (simp add: read_route_def Let_def)
  with Cons show ?case by simp
qed simp

definition routed :: "settings \<Rightarrow> bool" where
  "routed cfg = list_all (\<lambda>f. map_of (s_routes cfg) f \<in> Some ` p_name ` set (s_profiles cfg)) features"

lemma read_after_load:
  assumes "element ''profiles-content'' b" "routed cfg"
  shows "read_profiles (set_inner ''profiles-content'' (profiles_markup cfg) b) cfg = cfg\<lparr>s_profiles := map filled (s_profiles cfg)\<rparr>"
proof -
  let ?b = "set_inner ''profiles-content'' (profiles_markup cfg) b"
  have "map (read_profile ?b) (enumerate 0 (s_profiles cfg)) = map filled (s_profiles cfg)"
    by (rule nth_equalityI) (simp_all add: nth_enumerate_eq profile_shown [OF assms(1)])
  moreover have "fold (read_route ?b) features (s_routes cfg) = s_routes cfg"
    using routes_shown [OF assms(1), of cfg features] assms(2) by (simp add: routed_def)
  ultimately show ?thesis by (simp add: read_profiles_def)
qed

section \<open>Properties\<close>

text \<open>
  C18: when every feature is routed to an existing profile, a save right after a load hands the loaded settings document back, with the
  label and the SSL mode filled in that the page shows in place of empty ones, and without the line breaks that text inputs drop; a
  document without line breaks comes back with nothing but these two filled in, and one without empty labels and modes either comes back unchanged.
\<close>

theorem profiles_roundtrip:
  assumes "on_page (api (pv_settings sv) (get_rq ''/settings'')) s = (Resolved (Some cfg), s0)" "element ''profiles-content'' (page s)" "routed cfg"
  shows "\<exists>s1. Profiles_load sv s = (Resolved (), s1) \<and> pf_config s1 = Some cfg
    \<and> save_rq (read_profiles (page s1) cfg) = save_rq (cfg\<lparr>s_profiles := map filled (s_profiles cfg)\<rparr>)
    \<and> (read_profiles (page s1) cfg = cfg) = list_all (\<lambda>p. filled p = p) (s_profiles cfg)
    \<and> (if list_all single_line (s_profiles cfg)
       then save_rq (read_profiles (page s1) cfg) =
           save_rq (cfg\<lparr>s_profiles := map (\<lambda>p. p\<lparr>p_label := or_str (p_label p) (p_name p), p_ssl := or_str (p_ssl p) ''disable''\<rparr>) (s_profiles cfg)\<rparr>)
         \<and> (if list_all (\<lambda>p. p_label p \<noteq> [] \<and> p_ssl p \<noteq> []) (s_profiles cfg) then read_profiles (page s1) cfg = cfg else True)
       else True)"
proof -
  have "element ''profiles-content'' (page s0)" using call_dom(1) [OF assms(1)] assms(2) by (simp add: element_def)
  note r = read_after_load [OF this assms(3)]
  let ?fill = "\<lambda>p. p\<lparr>p_label := or_str (p_label p) (p_name p), p_ssl := or_str (p_ssl p) ''disable''\<rparr>"
  have all: "map filled ps = ps \<longleftrightarrow> list_all (\<lambda>p. filled p = p) ps" for ps by (induction ps) simp_all
  have upd: "cfg\<lparr>s_profiles := ps\<rparr> = cfg \<longleftrightarrow> ps = s_profiles cfg" for ps by (cases cfg) auto
  have fill: "list_all single_line ps \<Longrightarrow> map filled ps = map ?fill ps" for ps by (induction ps) (simp_all add: filled_single_line del: map_eq_conv)
  have same: "list_all (\<lambda>p. p_label p \<noteq> [] \<and> p_ssl p \<noteq> []) ps \<Longrightarrow> map ?fill ps = ps" for ps by (induction ps) (simp_all add: or_str_def)
  have load: "\<exists>s1. Profiles_load sv s = (Resolved (), s1) \<and> pf_config s1 = Some cfg
      \<and> read_profiles (page s1) cfg = cfg\<lparr>s_profiles := map filled (s_profiles cfg)\<rparr>"
    using assms(1,2) r by (simp add: Profiles_load_def or_none_def put_markup_def upd_page_def Let_def)
  then obtain s1 where s1: "Profiles_load sv s = (Resolved (), s1)" "pf_config s1 = Some cfg"
    "read_profiles (page s1) cfg = cfg\<lparr>s_profiles := map filled (s_profiles cfg)\<rparr>" by blast
  have "(read_profiles (page s1) cfg = cfg) = list_all (\<lambda>p. filled p = p) (s_profiles cfg)"
    unfolding s1(3) upd all ..
  moreover have "save_rq (read_profiles (page s1) cfg) = save_rq (cfg\<lparr>s_profiles := map ?fill (s_profiles cfg)\<rparr>)"
    if "list_all single_line (s_profiles cfg)" unfolding s1(3) fill [OF that] ..
  moreover have "read_profiles (page s1) cfg = cfg"
    if "list_all single_line (s_profiles cfg)" "list_all (\<lambda>p. p_label p \<noteq> [] \<and> p_ssl p \<noteq> []) (s_profiles cfg)"
    unfolding s1(3) fill [OF that(1)] same [OF that(2)] by simp
  ultimately show ?thesis using s1 by (intro exI [of _ s1]) simp
qed

definition sample_profiles_page :: profiles_page where
  "sample_profiles_page = \<lparr>cfg_cache = None, dbs_cache = None,
     page = sample_browser\<lparr>dom := [''profiles-content'' \<mapsto> mk_node ''div'' [] []], session := [session_key \<mapsto> ''s'']\<rparr>, pf_config = None\<rparr>"

definition sample_routes :: settings where
  "sample_routes = \<lparr>s_profiles = [sample_profile ''pgbouncer'' True], s_routes = map (\<lambda>f. (f, ''pgbouncer'')) features, s_backup = None\<rparr>"

theorem profiles_roundtrip_witness:
  "\<exists>s1. Profiles_load \<lparr>pv_settings = (\<lambda>_ _. Ok (Some (Some sample_routes))), pv_save = (\<lambda>_ _. Ok (Some ()))\<rparr> sample_profiles_page = (Resolved (), s1)
    \<and> pf_config s1 = Some sample_routes
    \<and> save_rq (read_profiles (page s1) sample_routes) = save_rq (sample_routes\<lparr>s_profiles := map filled (s_profiles sample_routes)\<rparr>)
    \<and> (read_profiles (page s1) sample_routes = sample_routes) = list_all (\<lambda>p. filled p = p) (s_profiles sample_routes)
    \<and> (if list_all single_line (s_profiles sample_routes)
       then save_rq (read_profiles (page s1) sample_routes) =
           save_rq (sample_routes\<lparr>s_profiles := map (\<lambda>p. p\<lparr>p_label := or_str (p_label p) (p_name p), p_ssl := or_str (p_ssl p) ''disable''\<rparr>) (s_profiles sample_routes)\<rparr>)
         \<and> (if list_all (\<lambda>p. p_label p \<noteq> [] \<and> p_ssl p \<noteq> []) (s_profiles sample_routes) then read_profiles (page s1) sample_routes = sample_routes else True)
       else True)"
  by (rule profiles_roundtrip [where ?s0.0 = "sample_profiles_page\<lparr>page := snd (api (\<lambda>_ _. Ok (Some (Some sample_routes))) (get_rq ''/settings'') (page sample_profiles_page))\<rparr>"])
    (simp_all add: on_page_def sample_profiles_page_def sample_routes_def routed_def features_def sample_profile_def element_def
      api_def apiProtected_def tryRequest.simps Let_def get_item_def)

text \<open>
  A cleared field cannot be saved: whatever profile is stored, empty inputs keep all of its texts and its port, and an empty select keeps
  the route.
\<close>

theorem cleared_fields_kept:
  assumes "\<And>i. value_of i b = []"
  shows "read_profiles b cfg = cfg"
proof -
  have "read_profile b x = snd x" for x
    using assms by (cases x) (simp add: read_profile_def or_str_def parse_int_or_def parse_int_def parse_unsigned_def)
  then have "map (read_profile b) (enumerate 0 (s_profiles cfg)) = s_profiles cfg" by (simp add: map_snd_enumerate cong: map_cong)
  moreover have "read_route b = (\<lambda>f rs. rs)" using assms by (simp add: read_route_def fun_eq_iff)
  moreover have "fold (\<lambda>f rs. rs) fs (s_routes cfg) = s_routes cfg" for fs :: "string list" by (induction fs) simp_all
  ultimately show ?thesis by (simp add: read_profiles_def)
qed

text \<open>A route that names no profile of the document is replaced by the first profile when the page is saved.\<close>

theorem unknown_route_replaced:
  assumes "element ''profiles-content'' b" "f \<in> set features" "map_of (s_routes cfg) f = Some r" "r \<notin> p_name ` set (s_profiles cfg)"
    "s_profiles cfg = p # ps"
  shows "value_of (''route-'' @ f) (set_inner ''profiles-content'' (profiles_markup cfg) b) = p_name p"
proof -
  have "map_of (nodes_of_list (profiles_markup cfg)) (''route-'' @ f) = Some (route_node cfg f)" "CHR ''&'' \<notin> set f"
    using assms(2) by (auto simp: markup_nodes features_def)
  then show ?thesis
    using value_after_load [OF assms(1)] route_nodes(2) [of f cfg] assms(3-5)
    by (subst value_after_load [OF assms(1)]) (auto simp: select_value_unmarked image_iff)
qed

end
