(* ===== verification/Guards.thy ===== *)
theory Guards
  imports Site "HOL-Library.Sublist"
begin

text \<open>
  What a guarded operation of a page sends: nothing without a yes at its dialog, and its own request first
  after one. Calls only ever add to the requests of the page.
\<close>

text \<open>The user's next answer to a confirmation is not yes.\<close>

definition unconfirmed :: "browser \<Rightarrow> bool" where
  "unconfirmed b = (case confirm_inputs b of [] \<Rightarrow> True | a # as \<Rightarrow> \<not> a)"

text \<open>
  The requests after a guarded operation: those before it, when the user did not say yes, and otherwise
  first of all the request of the operation, in the session of the page.
\<close>

definition guarded :: "browser \<Rightarrow> request \<Rightarrow> request list \<Rightarrow> bool" where
  "guarded b rq qs =
     (if unconfirmed b then qs = sent b
      else take (Suc (length (sent b))) qs = sent b @ [rq\<lparr>rq_session := get_item session_key b\<rparr>])"

lemma guardedI:
  assumes "\<And>s0. session (page s0) = session (page s) \<Longrightarrow> requests s0 = requests s \<Longrightarrow>
    prefix (requests s0 @ [rq\<lparr>rq_session := get_item session_key (page s0)\<rparr>]) (requests (snd (act s0)))"
  shows "guarded (page s) rq (requests (snd (confirmed t m opts act s)))"
proof (cases "unconfirmed (page s)")
  case True
  then have "fst (showConfirm t m opts (page s)) \<noteq> Resolved True"
    by (auto simp: unconfirmed_def showConfirm_def Let_def split: list.splits)
  from confirmed_refused [OF this] True show ?thesis by (simp add: guarded_def)
next
  case False
  then obtain b where b: "showConfirm t m opts (page s) = (Resolved True, b)"
    by (auto simp: unconfirmed_def showConfirm_def Let_def split: list.splits)
  note f = showConfirm_frame [OF b]
  from b have "confirmed t m opts act s = act (s\<lparr>page := b\<rparr>)" by (simp add: confirmed_def on_page_def)
  with assms [of "s\<lparr>page := b\<rparr>"] f
  have "prefix (sent (page s) @ [rq\<lparr>rq_session := get_item session_key (page s)\<rparr>]) (requests (snd (confirmed t m opts act s)))"
    by simp
  then show ?thesis using False by (auto simp: guarded_def prefix_def)
qed

text \<open>Calls only add requests, and in an established session first of all their own.\<close>

lemma snd_catch_ignore [simp]: "snd (catch r ignore) = snd r"
  by (cases r; cases "fst r") simp_all

lemma apiProtected_grows: "prefix (sent b) (sent (snd (apiProtected net rq b)))"
  using apiProtected_sent [of net rq b "fst (apiProtected net rq b)" "snd (apiProtected net rq b)"] by (auto simp: prefix_def)

lemma api_grows: "prefix (sent b) (sent (snd (api net rq b)))"
  by (simp add: api_def apiProtected_grows)

lemma both_grows:
  assumes "\<And>b. prefix (sent b) (sent (snd (f b)))" "\<And>b. prefix (sent b) (sent (snd (g b)))"
  shows "prefix (sent b) (sent (snd (both f g b)))"
  using assms(1) [of b] assms(2) [of "snd (f b)"] by (auto simp: both_def split: prod.splits)

lemma on_page_grows: "(\<And>b. prefix (sent b) (sent (snd (f b)))) \<Longrightarrow> prefix (requests s) (requests (snd (on_page f s)))"
  by (simp add: on_page_def split: prod.splits) (metis snd_conv)

lemma await_prefix:
  assumes "prefix qs (requests (snd r))" "\<And>x s1. prefix (requests s1) (requests (snd (k x s1)))"
  shows "prefix qs (requests (snd (await r k)))"
proof (cases r)
  case (Pair x s1)
  with assms(1) assms(2) [of s1] show ?thesis by (cases x) (auto intro: prefix_order.trans)
qed

lemma tryRequest_first: "prefix (sent b @ [rq\<lparr>rq_session := sid\<rparr>]) (sent (snd (tryRequest net rq sid b)))"
proof (cases "net (sent b) (rq\<lparr>rq_session := sid\<rparr>)")
  case Unauthorized
  let ?b1 = "remove_item session_key (b\<lparr>sent := sent b @ [rq\<lparr>rq_session := sid\<rparr>]\<rparr>)"
  obtain res b2 where lg: "showLoginModal ?b1 = (res, b2)" by fastforce
  from login_requests [OF lg, of rq] have p: "prefix (sent b @ [rq\<lparr>rq_session := sid\<rparr>]) (sent b2)"
    by (auto simp: prefix_def)
  show ?thesis
  proof (cases res)
    case (LoggedIn n)
    obtain qs where "sent (snd (tryRequest net rq n b2)) = sent b2 @ qs"
      using tryRequest_sent [of net rq n b2 "fst (tryRequest net rq n b2)" "snd (tryRequest net rq n b2)"] by auto
    with p LoggedIn Unauthorized lg show ?thesis by (auto simp: tryRequest.simps [of net rq sid] prefix_def)
  qed (use p Unauthorized lg in \<open>simp_all add: tryRequest.simps [of net rq sid]\<close>)
qed (simp_all add: tryRequest.simps [of net rq sid] Let_def split: option.splits)

lemma call_first:
  assumes "get_item session_key (page s) \<noteq> []" "\<And>x s1. prefix (requests s1) (requests (snd (k x s1)))"
  shows "prefix (requests s @ [rq\<lparr>rq_session := get_item session_key (page s)\<rparr>])
    (requests (snd (await (on_page (apiProtected net rq) s) k)))"
proof (rule await_prefix [OF _ assms(2)])
  have "snd (on_page (apiProtected net rq) s) = s\<lparr>page := snd (apiProtected net rq (page s))\<rparr>"
    by (simp add: on_page_def split: prod.splits)
  then show "prefix (requests s @ [rq\<lparr>rq_session := get_item session_key (page s)\<rparr>]) (requests (snd (on_page (apiProtected net rq) s)))"
    using assms(1) tryRequest_first [where b = "page s" and rq = rq and sid = "get_item session_key (page s)" and net = net] by (simp add: apiProtected_def)
qed

lemma selection_stored:
  "getSelected f (page s) \<noteq> [] \<Longrightarrow> selection net f s = (Resolved (selection_params (db_getSelected (page s)) (getSelected f (page s))), s)"
  by (simp add: selection_def ensure_def ensureSelected_def Let_def)

lemma selection_grows: "prefix (requests s) (requests (snd (selection net f s)))"
proof -
  have "prefix (sent b) (sent (snd (snd (ensureSelected net f c b))))" for c b
    using api_grows [of b net "get_rq ''/settings''"]
    by (auto simp: ensureSelected_def getDefault_def loadSettings_def setSelected_def Let_def split: option.splits prod.splits outcome.splits)
  then have "prefix (requests s) (requests (snd (ensure net f s)))" by (simp add: ensure_def split: prod.splits) (metis snd_conv)
  then show ?thesis by (simp add: selection_def Let_def await_prefix)
qed

end
