(* ===== verification/Spec2Isabelle.thy ===== *)
theory Spec2Isabelle
  imports Router Tuner Backup Vacuum Database Dashboard Sql Planner Queries Config Logs Locks Alerts Drift S3 Roles Jobs
    Extensions Indexes Pgbouncer Server Profiles Guards
begin

text \<open>
  A verification development for the browser side of PGAIO, the PostgreSQL dashboard whose scripts
  are in src/backend/web/static/js/.

  The program. app.js is the core: a session layer over \<^verbatim>\<open>fetch\<close> (\<^verbatim>\<open>apiProtected\<close>, the login dialog, the idle
  tracker), toasts and confirmation dialogs, formatting helpers, the selectors for connection
  profiles and databases, the dashboard socket with its reconnect timer, and the router. Each page
  is an object of its own file with a \<^verbatim>\<open>render\<close> method that the router calls; it fetches through
  \<^verbatim>\<open>api\<close>, writes markup into the content element, and keeps a few fields (jobs, timers, tabs).

  Theories, in the order of their imports.
  \<^verbatim>\<open>Prelude\<close>: falsy-or, outcomes of awaited promises, insertion-ordered groups.
  \<^verbatim>\<open>JsText\<close>: the string and number functions of JavaScript that the pages use.
  \<^verbatim>\<open>Html\<close>: markup trees, their serialization as the templates write it, a tokenizer after the
    HTML standard's data, tag and attribute states, and the theorem that a safe tree is tokenized
    into exactly its own tags and texts; escapers as locales.
  \<^verbatim>\<open>Browser\<close>: elements by id, session storage, timers, toasts, requests sent; the storage and the
    timer service as locales with the laws the clients use.
  \<^verbatim>\<open>Format\<close> (app.js 209-281), \<^verbatim>\<open>Session\<close> (app.js 8-153 and 283-321), \<^verbatim>\<open>Dialogs\<close> (app.js 171-207),
  \<^verbatim>\<open>Selectors\<close> (app.js 323-425), \<^verbatim>\<open>Router\<close> (app.js 427-620).
  \<^verbatim>\<open>Levels\<close>: the three-colour scale, linearly ordered. \<^verbatim>\<open>Polling\<close>: Promise.all, overlays, selects,
    and the poller of a page with background jobs as a locale.
  \<^verbatim>\<open>Tuner\<close> (tuner.js), \<^verbatim>\<open>Backup\<close> (backup.js), \<^verbatim>\<open>Vacuum\<close> (vacuum.js), \<^verbatim>\<open>Database\<close> (database.js).
  \<^verbatim>\<open>Charts\<close> and \<^verbatim>\<open>Dashboard\<close> (dashboard.js): the two line charts, drawn in the view box of their first drawing, and the page that folds the frames of
    the socket into gauges, rates, alarms and series.
  \<^verbatim>\<open>Site\<close>: what the pages below share, namely the selectors' caches next to the browser, composition of
    awaited calls with \<^verbatim>\<open>catch\<close>, guarded actions, form encoding, the rows of a table as the user reads them, and how a browser reads the string literals of a
    call in an \<^verbatim>\<open>onclick\<close> attribute, as the locale of the encoders that the pages put around such literals.
  \<^verbatim>\<open>Sql\<close> (sql.js), \<^verbatim>\<open>Planner\<close> (planner.js), \<^verbatim>\<open>Queries\<close> (queries.js), \<^verbatim>\<open>Config\<close> (config.js), \<^verbatim>\<open>Logs\<close> (logs.js),
  \<^verbatim>\<open>Locks\<close> (locks.js), \<^verbatim>\<open>Alerts\<close> (alerts.js), \<^verbatim>\<open>Drift\<close> (drift.js), \<^verbatim>\<open>S3\<close> (s3.js), \<^verbatim>\<open>Roles\<close> (roles.js),
  \<^verbatim>\<open>Jobs\<close> (jobs.js), \<^verbatim>\<open>Extensions\<close> (extensions.js), \<^verbatim>\<open>Indexes\<close> (indexes.js), \<^verbatim>\<open>Pgbouncer\<close> (pgbouncer.js),
  \<^verbatim>\<open>Server\<close> (server.js), \<^verbatim>\<open>Profiles\<close> (profiles.js).
  \<^verbatim>\<open>Guards\<close>: what operations behind a confirmation send; the property over all of them stands below.

  How code and model correspond. A handler is a function from the state of its page and the browser
  to the same; a template literal is a tree of elements (white space next to a tag is left out);
  the server is a function from the requests sent so far and the request at hand to a reply, so a
  theorem holds for every server; what the user does at a dialog is a list of inputs in the
  browser record. An awaited call runs to its end before the rest of the handler: the answer is a
  value, an error, or nothing ever (\<^verbatim>\<open>Pending\<close>), and then the rest does not run. A call that the code does
  not await is queued, and its continuation is an event of its own, so that replies may come in any
  order. Where two runs of the same code can overlap, their steps are events too: the calls that share the login
  dialog, each with its requests and logins in flight (\<^verbatim>\<open>sess_step\<close>), and the two renders of the SQL page that the planner
  starts (\<^verbatim>\<open>renders\<close>). For a single call (\<^verbatim>\<open>apiProtected\<close>) a submitted password and its answer are one input. Elements without an id that a handler reads are fields of the page's state. Numbers
  are exact (\<^verbatim>\<open>int\<close> and \<^verbatim>\<open>rat\<close>); floating-point rounding is not modelled. An element that a
  handler looked up before an await is looked up again after it, but in \<^verbatim>\<open>render_step\<close>. A text or password input has the value of its
  attribute without line breaks, as the HTML standard has it. The \<^verbatim>\<open>TypeError\<close> of a handler
  that finds no element or a null reply is a rejection or an early end, with a shortened message.

  What the lemmas show. Per renderer: the tree is safe, hence no text of the server becomes markup
  (and where the code forgets to escape, that it does). Per timer: the field of the script and the
  live timers agree in every run. Per guarded operation: requests are sent exactly under the guard.
  Per machine: what a settled state keeps, and what strands. Per form: what was loaded is read back,
  and which values are not. Per series or log: the visible part is the last window of all that came in, after a failed load too.
  Per list that is shown in groups or as a tree: every entry appears once, in order, with its own button.
  Tables are specified by the texts and buttons of their rows (\<^verbatim>\<open>table_rows\<close>), apart from the functions that render them.
  Per request: the fields arrive as they were typed, and which texts break out of the script of a button.
  Nothing here needs fuel: the loops of the program recurse over lists, the trim loop of the log over the
  lines of the element, and the login retries over the inputs of the user.

  Parameters. The server's replies; the clock, time zone and number formats; the plotting library of the
  charts, with its documented behaviour as a hypothesis; the code editor bundle, of which only the
  document text and the completion schema are used.

  Not modelled: the colour theme of the code editor, which is a table of constants; the Go server, styles
  and icons, focus, and the vendored highlighter.
\<close>

section \<open>Destructive operations\<close>

lemma loads_grow:
  "prefix (requests s) (requests (snd (Extensions_load v s)))"
  "prefix (requests s') (requests (snd (Queries_load v' c s')))"
  by (auto simp: Extensions_load_def Queries_load_def ext_renderList_def slow_loaded_def show_slow_def renderSavedPlans_def Let_def
      intro!: await_prefix on_page_grows both_grows selection_grows api_grows split: option.splits)

lemma selected_session: "session b = session b' \<Longrightarrow> get_item k b = get_item k b' \<and> db_getSelected b = db_getSelected b' \<and> getSelected f b = getSelected f b'"
  by (simp add: get_item_def db_getSelected_def getSelected_def)

definition established :: "browser \<Rightarrow> bool" where
  "established b = (get_item session_key b \<noteq> [])"

text \<open>
  C7: on every page a destructive operation sends no request at all unless the user says yes at its dialog, and on a yes
  the next request is the one of the operation, with the session of the page: restarting PostgreSQL, terminating the backend with this
  number, deleting the object with this key, uninstalling this extension from the selected database, resetting the query
  statistics of the selected database and profile, and killing the pooled connections.
\<close>

theorem destructive_guarded:
  assumes "list_all established [page s1, page s2, page s3, page s4, page s5, page s6]" "getSelected ''queries'' (page s5) \<noteq> []"
  shows "guarded (page s1) (post_rq ''/config/restart'' None) (requests (snd (restartPg v1 s1)))
    \<and> guarded (page s2) (kill_rq pid) (requests (snd (killBlocker v2 pid s2)))
    \<and> guarded (page s3) (delete_object_rq key) (requests (snd (deleteObj v3 key s3)))
    \<and> guarded (page s4) (uninstall_rq name (page s4)) (requests (snd (uninstall v4 name s4)))
    \<and> guarded (page s5) (post_rq (''/queries/reset?'' @ selection_params (db_getSelected (page s5)) (getSelected ''queries'' (page s5))) None)
        (requests (snd (resetStats v5 c s5)))
    \<and> guarded (page s6) (bouncer_rq ''kill'') (requests (snd (bouncer_action v6 ''kill'' s6)))"
proof (intro conjI)
  show "guarded (page s1) (post_rq ''/config/restart'' None) (requests (snd (restartPg v1 s1)))"
    unfolding restartPg_def by (rule guardedI, unfold snd_catch_ignore, rule call_first) (use assms(1) in \<open>simp_all add: established_def get_item_def\<close>)
  show "guarded (page s2) (kill_rq pid) (requests (snd (killBlocker v2 pid s2)))"
    unfolding killBlocker_def by (rule guardedI, unfold snd_catch_ignore, rule call_first) (use assms(1) in \<open>simp_all add: established_def get_item_def\<close>)
  show "guarded (page s3) (delete_object_rq key) (requests (snd (deleteObj v3 key s3)))"
    unfolding deleteObj_def by (rule guardedI, unfold snd_catch_ignore, rule call_first) (use assms(1) in \<open>simp_all add: established_def get_item_def loadObjects_def\<close>)
  show "guarded (page s6) (bouncer_rq ''kill'') (requests (snd (bouncer_action v6 ''kill'' s6)))"
    unfolding bouncer_action_def bouncer_act_def simp_thms if_True
    by (rule guardedI, unfold snd_catch_ignore, rule call_first) (use assms(1) in \<open>simp_all add: established_def get_item_def\<close>)
  show "guarded (page s4) (uninstall_rq name (page s4)) (requests (snd (uninstall v4 name s4)))"
    unfolding uninstall_def
  proof (rule guardedI, unfold snd_catch_ignore, goal_cases)
    case (1 s0)
    then have "uninstall_rq name (page s0) = uninstall_rq name (page s4)"
      using selected_session [of "page s0" "page s4"] by (simp add: uninstall_rq_def ext_body_def)
    moreover have "get_item session_key (page s0) \<noteq> []" using 1 assms(1) by (simp add: established_def get_item_def)
    moreover have "prefix (requests s) (requests (snd (Extensions_load v4 (toast m k s))))" for m k s
      using loads_grow(1) [of "toast m k s" v4] by simp
    ultimately show ?case using call_first [of s0 _ "uninstall_rq name (page s4)"] 1 by metis
  qed
  show "guarded (page s5) (post_rq (''/queries/reset?'' @ selection_params (db_getSelected (page s5)) (getSelected ''queries'' (page s5))) None)
        (requests (snd (resetStats v5 c s5)))"
    unfolding resetStats_def
  proof (rule guardedI, unfold snd_catch_ignore, goal_cases)
    case (1 s0)
    then have e: "get_item session_key (page s0) \<noteq> []" "getSelected ''queries'' (page s0) \<noteq> []"
        "getSelected ''queries'' (page s0) = getSelected ''queries'' (page s5)" "db_getSelected (page s0) = db_getSelected (page s5)"
      using assms selected_session [of "page s0" "page s5"] by (auto simp: established_def)
    have g: "prefix (requests s) (requests (snd (Queries_load v5 c (toast m k s))))" for m k s
      using loads_grow(2) [of "toast m k s" v5 c] by simp
    show ?case unfolding selection_stored [OF e(2)] await_simps e(3,4) by (rule call_first [OF e(1) g])
  qed
qed

definition confirming :: "bool list \<Rightarrow> browser" where
  "confirming as = sample_browser\<lparr>confirm_inputs := as, session := [session_key \<mapsto> ''s'', profile_key ''queries'' \<mapsto> ''pgbouncer'']\<rparr>"

text \<open>On the same page once with a yes and once with a no.\<close>

theorem destructive_guarded_witness:
  "let n = (\<lambda>_ _. Ok (Some ())); v = \<lparr>pv_stats = (\<lambda>_ _. Unauthorized), pv_action = n\<rparr>; s = \<lparr>cfg_cache = None, dbs_cache = None, page = confirming [True]\<rparr> in
   guarded (confirming [True]) (bouncer_rq ''kill'') (requests (snd (bouncer_action v ''kill'' s)))
    \<and> guarded (confirming [False]) (post_rq ''/config/restart'' None)
        (requests (snd (restartPg refusing_server (sample_config\<lparr>page := confirming [False]\<rparr>))))"
  using destructive_guarded [of "sample_config\<lparr>page := confirming [False]\<rparr>"
      "\<lparr>cfg_cache = None, dbs_cache = None, page = confirming [], lm_tab = ''tree'', lm_loads = []\<rparr>"
      "\<lparr>cfg_cache = None, dbs_cache = None, page = confirming [], s3_prefix = [], s3_loads = [], s3_opened = []\<rparr>"
      "\<lparr>cfg_cache = None, dbs_cache = None, page = confirming [], ex_data = []\<rparr>"
      "sample_queries\<lparr>page := confirming []\<rparr>" "\<lparr>cfg_cache = None, dbs_cache = None, page = confirming [True]\<rparr>"]
  by (simp add: confirming_def established_def Let_def get_item_def getSelected_def profile_key_def)

end
